(* ===== verification/Prelude.thy ===== *)
theory Prelude
  imports Main
begin

text \<open>
  Shared vocabulary of the development: the types that stand for Go's basic types, the
  wrap-around of 64-bit integers, decimal printing, and the generic facts on keyed lists
  (tables) that the store and the service share.

  A Go string is a sequence of bytes, so it is a \<^typ>\<open>string\<close> (a list of 8-bit characters),
  as is a \<^verbatim>\<open>[]byte\<close>; a \<^verbatim>\<open>time.Time\<close> and a \<^verbatim>\<open>time.Duration\<close> are integers (nanoseconds). A Go
  function that returns \<^verbatim>\<open>(T, error)\<close> returns a sum, \<open>Inl\<close> the error; one that returns only an
  \<^verbatim>\<open>error\<close> returns an option, \<open>None\<close> for \<^verbatim>\<open>nil\<close>.
\<close>

type_synonym bytes = string
type_synonym time = int
type_synonym duration = int

text \<open>The zero \<^verbatim>\<open>time.Time\<close>: the first instant of the year 1, in nanoseconds of the Unix clock.\<close>

definition zero_time :: time where
  "zero_time = - 62135596800 * 1000000000"

named_theorems store_defs \<open>definitions of the SQL statements\<close>
named_theorems service_defs \<open>definitions of the service's operations\<close>
named_theorems access_defs \<open>definitions of the access checks\<close>

section \<open>64-bit integers\<close>

text \<open>Signed 64-bit arithmetic wraps around: the result of an operation on \<^verbatim>\<open>int\<close> or \<^verbatim>\<open>int64\<close>.\<close>

definition max_int64 :: int where
  "max_int64 = 2 ^ 63 - 1"

definition wrap64 :: "int \<Rightarrow> int" where
  "wrap64 x = (x + 2 ^ 63) mod 2 ^ 64 - 2 ^ 63"

lemma wrap64_id: "- (2 ^ 63) \<le> x \<Longrightarrow> x \<le> max_int64 \<Longrightarrow> wrap64 x = x"
  by (simp add: wrap64_def max_int64_def)

lemma wrap64_range: "- (2 ^ 63) \<le> wrap64 x \<and> wrap64 x \<le> max_int64"
proof -
  have "0 \<le> (x + 2 ^ 63) mod 2 ^ 64 \<and> (x + 2 ^ 63) mod 2 ^ 64 < (2 ^ 64 :: int)"
    by simp
  then show ?thesis
    by (simp add: wrap64_def max_int64_def)
qed

lemma wrap64_incr: "0 \<le> x \<Longrightarrow> x < max_int64 \<Longrightarrow> wrap64 (x + 1) = x + 1"
  by (simp add: wrap64_def max_int64_def)

section \<open>Decimal printing\<close>

text \<open>\<^verbatim>\<open>fmt.Sprint\<close>, \<^verbatim>\<open>%d\<close> and \<^verbatim>\<open>strconv.Itoa\<close> of an integer.\<close>

definition digit_char :: "nat \<Rightarrow> char" where
  "digit_char n = char_of (48 + int n)"

fun decimal :: "nat \<Rightarrow> string" where
  "decimal n = (if n < 10 then [digit_char n] else decimal (n div 10) @ [digit_char (n mod 10)])"

declare decimal.simps [simp del]

definition itoa :: "int \<Rightarrow> string" where
  "itoa i = (if i < 0 then CHR ''-'' # decimal (nat (- i)) else decimal (nat i))"

definition undecimal :: "string \<Rightarrow> nat" where
  "undecimal s = foldl (\<lambda>a c. 10 * a + nat (of_char c - 48)) 0 s"

lemma of_char_digit: "n < 10 \<Longrightarrow> of_char (digit_char n) = 48 + int n"
  by (simp add: digit_char_def)

lemma undecimal_decimal: "undecimal (decimal n) = n"
proof (induction n rule: decimal.induct)
  case (1 n)
  show ?case
  proof (cases "n < 10")
    case True
    then show ?thesis
      by (simp add: undecimal_def decimal.simps [of n] of_char_digit)
  next
    case False
    with "1.IH" have "foldl (\<lambda>a c. 10 * a + nat (of_char c - 48)) 0 (decimal (n div 10)) = n div 10"
      by (simp add: undecimal_def)
    with False show ?thesis
      by (simp add: undecimal_def decimal.simps [of n] of_char_digit)
  qed
qed

lemma decimal_inject [simp]: "decimal m = decimal n \<longleftrightarrow> m = n"
  by (metis undecimal_decimal)

lemma decimal_nonempty [simp]: "decimal n \<noteq> []"
  by (subst decimal.simps) simp

lemma decimal_digits: "c \<in> set (decimal n) \<Longrightarrow> 48 \<le> (of_char c :: int) \<and> (of_char c :: int) \<le> 57"
proof (induction n rule: decimal.induct)
  case (1 n)
  show ?case
  proof (cases "n < 10")
    case True
    with "1.prems" show ?thesis
      by (simp add: decimal.simps [of n] of_char_digit)
  next
    case False
    with "1.prems" consider "c \<in> set (decimal (n div 10))" | "c = digit_char (n mod 10)"
      by (auto simp: decimal.simps [of n])
    then show ?thesis
      by cases (use False "1.IH" in \<open>simp_all add: of_char_digit\<close>)
  qed
qed

lemma decimal_no_dash: "CHR ''-'' \<notin> set (decimal n)"
  using decimal_digits [of "CHR ''-''" n] by auto

lemma itoa_inject: "0 \<le> i \<Longrightarrow> 0 \<le> j \<Longrightarrow> itoa i = itoa j \<longleftrightarrow> i = j"
  by (auto simp: itoa_def)

lemma itoa_no_dash: "0 \<le> i \<Longrightarrow> CHR ''-'' \<notin> set (itoa i)"
  by (simp add: itoa_def decimal_no_dash)

lemma append_sep_inject:
  assumes "x @ c # u = y @ c # v" and "c \<notin> set u" and "c \<notin> set v"
  shows "x = y \<and> u = v"
proof -
  have *: "takeWhile ((\<noteq>) c) (rev (x @ c # u)) = rev u" if "c \<notin> set u" for x u
    using that by (subst rev_append, subst rev.simps, subst append_assoc, subst takeWhile_append2) auto
  from *[OF assms(2)] *[OF assms(3)] assms(1) have "u = v"
    by (metis rev_rev_ident)
  with assms(1) show ?thesis by simp
qed

section \<open>Tables: lists of rows with a key\<close>

text \<open>\<^verbatim>\<open>UPDATE ... WHERE\<close>: every row that satisfies the condition is changed, in place.\<close>

definition update_where :: "('a \<Rightarrow> bool) \<Rightarrow> ('a \<Rightarrow> 'a) \<Rightarrow> 'a list \<Rightarrow> 'a list" where
  "update_where p g xs = map (\<lambda>x. if p x then g x else x) xs"

lemma set_update_where: "set (update_where p g xs) = {x \<in> set xs. \<not> p x} \<union> g ` {x \<in> set xs. p x}"
  by (auto simp: update_where_def)

lemma map_update_where:
  "(\<And>x. p x \<Longrightarrow> f (g x) = f x) \<Longrightarrow> map f (update_where p g xs) = map f xs"
  by (simp add: update_where_def)

lemma update_where_none: "filter p xs = [] \<Longrightarrow> update_where p g xs = xs"
  by (simp add: update_where_def filter_empty_conv map_idI)

lemma find_Some_unique:
  assumes "distinct (map f xs)"
  shows "find (\<lambda>x. f x = k) xs = Some x \<longleftrightarrow> x \<in> set xs \<and> f x = k"
  using assms by (induction xs) auto

lemma find_SomeD: "find p xs = Some x \<Longrightarrow> x \<in> set xs \<and> p x"
  by (auto simp: find_Some_iff)

lemma find_NoneD: "find p xs = None \<Longrightarrow> x \<in> set xs \<Longrightarrow> \<not> p x"
  by (auto simp: find_None_iff)

lemma distinct_map_eqD:
  "distinct (map f xs) \<Longrightarrow> x \<in> set xs \<Longrightarrow> y \<in> set xs \<Longrightarrow> f x = f y \<Longrightarrow> x = y"
  by (auto simp: distinct_map dest: inj_onD)

section \<open>Sorting by a given order\<close>

text \<open>\<^verbatim>\<open>ORDER BY\<close> with the order of the database's collation, as a stable insertion sort.\<close>

fun insort_by :: "('a \<Rightarrow> 'a \<Rightarrow> bool) \<Rightarrow> 'a \<Rightarrow> 'a list \<Rightarrow> 'a list" where
  "insort_by le x [] = [x]"
| "insort_by le x (y # ys) = (if le x y then x # y # ys else y # insort_by le x ys)"

fun sort_by :: "('a \<Rightarrow> 'a \<Rightarrow> bool) \<Rightarrow> 'a list \<Rightarrow> 'a list" where
  "sort_by le [] = []"
| "sort_by le (x # xs) = insort_by le x (sort_by le xs)"

lemma set_insort_by [simp]: "set (insort_by le x xs) = insert x (set xs)"
  by (induction xs) auto

lemma set_sort_by [simp]: "set (sort_by le xs) = set xs"
  by (induction xs) auto

lemma length_insort_by [simp]: "length (insort_by le x xs) = Suc (length xs)"
  by (induction xs) auto

lemma length_sort_by [simp]: "length (sort_by le xs) = length xs"
  by (induction xs) auto

lemma distinct_insort_by [simp]: "distinct (insort_by le x xs) \<longleftrightarrow> x \<notin> set xs \<and> distinct xs"
  by (induction xs) auto

lemma distinct_sort_by [simp]: "distinct (sort_by le xs) \<longleftrightarrow> distinct xs"
  by (induction xs) auto

lemma sorted_wrt_insort_by:
  assumes "\<And>x y. le x y \<or> le y x" and "\<And>x y z. le x y \<Longrightarrow> le y z \<Longrightarrow> le x z"
  shows "sorted_wrt le xs \<Longrightarrow> sorted_wrt le (insort_by le x xs)"
  by (induction xs) (use assms in \<open>auto\<close>)

lemma sorted_wrt_sort_by:
  assumes "\<And>x y. le x y \<or> le y x" and "\<And>x y z. le x y \<Longrightarrow> le y z \<Longrightarrow> le x z"
  shows "sorted_wrt le (sort_by le xs)"
  by (induction xs) (simp_all add: sorted_wrt_insort_by assms)

end
