(* ===== verification/App_Error.thy ===== *)
theory App_Error
  imports Prelude
begin

text \<open>
  Package \<^verbatim>\<open>apperror\<close> and Go's error values. Every value of type \<^verbatim>\<open>error\<close> that the service meets is
  a \<open>gerror\<close>: the sentinels it compares with, an \<^verbatim>\<open>*apperror.Error\<close>, an error of the database, a
  plain \<^verbatim>\<open>errors.New\<close>, or one wrapped by \<^verbatim>\<open>fmt.Errorf\<close> with \<^verbatim>\<open>%w\<close>. The numbers behind the codes are
  constants of the platform module, a parameter (\<open>errcode \<Rightarrow> int\<close>) of the functions that read them.
\<close>

datatype errcode =
    CodeOK | CodeInvalidArgument | CodeNotFound | CodeRequestTimeout | CodeTooManyRequests
  | CodeUnauthorized | CodeForbidden | CodeConflict | CodeRequestInProgress | CodeStaleVersion
  | CodeInternal | CodeDependencyUnavailable

text \<open>What PostgreSQL reports for a statement, and any other failure of the driver.\<close>

datatype sqlstate =
    UniqueViolation | CheckViolation | ForeignKeyViolation | NumericOutOfRange | InvalidText
  | InvalidRowCount | DriverFault string

datatype gerror =
    ErrNotFound
  | ErrStaleVersion
  | ErrNotGranted
  | ErrDecisionUnavailable
  | SQLError sqlstate
  | Plain string
  | Wrap string gerror
  | AppError (Code: errcode) (Message: string) (HTTPStatus: int) (Err: "gerror option")

type_synonym 'a result = "gerror + 'a"

named_theorems err_defs \<open>constructors of application errors\<close>

definition New :: "errcode \<Rightarrow> string \<Rightarrow> int \<Rightarrow> gerror option \<Rightarrow> gerror" where
  [err_defs]: "New code message status err = AppError code message status err"

definition Invalid :: "string \<Rightarrow> gerror option \<Rightarrow> gerror" where
  [err_defs]: "Invalid message err = New CodeInvalidArgument message 400 err"

definition NotFound :: "string \<Rightarrow> gerror" where
  [err_defs]: "NotFound message = New CodeNotFound message 404 None"

definition Conflict :: "string \<Rightarrow> gerror option \<Rightarrow> gerror" where
  [err_defs]: "Conflict message err = New CodeConflict message 409 err"

definition StaleVersion :: "gerror \<Rightarrow> gerror" where
  [err_defs]: "StaleVersion err = New CodeStaleVersion ''resource version is stale'' 409 (Some err)"

definition RequestInProgress :: gerror where
  [err_defs]: "RequestInProgress = New CodeRequestInProgress ''request is already processing'' 409 None"

definition Unauthorized :: "string \<Rightarrow> gerror" where
  [err_defs]: "Unauthorized message = New CodeUnauthorized message 401 None"

definition Forbidden :: "string \<Rightarrow> gerror" where
  [err_defs]: "Forbidden message = New CodeForbidden message 403 None"

definition TooManyRequests :: gerror where
  [err_defs]: "TooManyRequests = New CodeTooManyRequests ''too many requests'' 429 None"

definition RequestTimeout :: gerror where
  [err_defs]: "RequestTimeout = New CodeRequestTimeout ''request timeout'' 504 None"

definition Unavailable :: "string \<Rightarrow> gerror option \<Rightarrow> gerror" where
  [err_defs]: "Unavailable message err = New CodeDependencyUnavailable message 503 err"

definition Internal :: "gerror \<Rightarrow> gerror" where
  [err_defs]: "Internal err = New CodeInternal ''internal server error'' 500 (Some err)"

text \<open>\<^verbatim>\<open>errors.Unwrap\<close>, and \<^verbatim>\<open>errors.Is\<close> and \<^verbatim>\<open>errors.As\<close> along the chain it gives.\<close>

fun Unwrap :: "gerror \<Rightarrow> gerror option" where
  "Unwrap (Wrap _ e) = Some e"
| "Unwrap (AppError _ _ _ err) = err"
| "Unwrap _ = None"

fun errors_Is :: "gerror \<Rightarrow> gerror \<Rightarrow> bool" where
  "errors_Is (Wrap s e) target = (Wrap s e = target \<or> errors_Is e target)"
| "errors_Is (AppError c m h (Some e)) target = (AppError c m h (Some e) = target \<or> errors_Is e target)"
| "errors_Is e target = (e = target)"

text \<open>\<^verbatim>\<open>errors.As(err, &appErr)\<close>: the first \<^verbatim>\<open>*apperror.Error\<close> of the chain.\<close>

fun errors_As_app :: "gerror \<Rightarrow> gerror option" where
  "errors_As_app (AppError c m h e) = Some (AppError c m h e)"
| "errors_As_app (Wrap _ e) = errors_As_app e"
| "errors_As_app _ = None"

lemma errors_Is_refl [simp]: "errors_Is e e"
proof (cases e)
  case (AppError c m h i)
  then show ?thesis by (cases i) simp_all
qed simp_all

lemma errors_Is_SQLError [simp]: "errors_Is (SQLError q) e \<longleftrightarrow> e = SQLError q"
  by auto

lemma errors_As_app_is_app: "errors_As_app e = Some a \<Longrightarrow> \<exists>c m h i. a = AppError c m h i"
  by (induction e rule: errors_As_app.induct) auto

end
