(* ===== verification/Entry_Store.thy ===== *)
theory Entry_Store
  imports App_Error
begin

text \<open>
  The data model (\<^verbatim>\<open>dynamicconfig/model.go\<close>) and the SQL repository
  (\<^verbatim>\<open>dynamicconfig/repository.go\<close>) over the three tables that the PostgreSQL migrations create
  (\<^verbatim>\<open>migrations/postgres\<close>). A table is a list of rows. Each repository method is one statement:
  it fails when the driver fails, when a value does not convert to its column's type, or when
  the row would violate a constraint of the schema; otherwise it returns the rows it reads or the
  changed tables.

  What PostgreSQL does with values is a parameter, the record \<open>postgres\<close>: the canonical
  form of a \<^verbatim>\<open>UUID\<close> and of a \<^verbatim>\<open>JSONB\<close> text (\<open>None\<close> when the text is not one), the precision of a
  \<^verbatim>\<open>TIMESTAMPTZ\<close>, the collation of \<^verbatim>\<open>ORDER BY\<close>, and a failure of the driver for each statement.
  A \<^verbatim>\<open>NULL\<close> or empty \<^verbatim>\<open>config_value\<close> is the empty byte string.
\<close>

section \<open>Data model\<close>

record entry =
  e_ID :: string
  e_Environment :: string
  e_TenantID :: string
  e_ApplicationID :: string
  e_Service :: string
  e_Key :: string
  e_Value :: bytes
  e_SecretRef :: string
  e_Status :: string
  e_Revision :: int
  e_RolloutPercentage :: int
  e_PublishedRevision :: int
  e_ReviewComment :: string
  e_ReviewedBy :: string
  e_ReviewedAt :: "time option"
  e_Version :: int
  e_CreatedAt :: time
  e_UpdatedAt :: time
  e_CreatedBy :: string
  e_UpdatedBy :: string

record page =
  p_Entries :: "entry list"
  p_Total :: int
  p_Page :: int
  p_PageSize :: int

record outbox_event =
  ev_ID :: string
  ev_Subject :: string
  ev_Envelope :: bytes
  ev_AvailableAt :: time
  ev_CreatedAt :: time
  ev_UpdatedAt :: time
  ev_CreatedBy :: string
  ev_UpdatedBy :: string

text \<open>Rows of \<^verbatim>\<open>config_revisions\<close> and \<^verbatim>\<open>config_outbox_events\<close>; those of \<^verbatim>\<open>config_entries\<close> are entries.\<close>

record revision =
  r_ID :: string
  r_EntryID :: string
  r_Revision :: int
  r_Value :: bytes
  r_SecretRef :: string
  r_Status :: string
  r_RolloutPercentage :: int
  r_ReviewComment :: string
  r_ReviewedBy :: string
  r_ReviewedAt :: "time option"
  r_Version :: int
  r_CreatedAt :: time
  r_UpdatedAt :: time
  r_CreatedBy :: string
  r_UpdatedBy :: string

record outbox_row =
  o_Event :: outbox_event
  o_Attempts :: int
  o_PublishedAt :: "time option"
  o_LastError :: string
  o_Version :: int

record db =
  entries :: "entry list"
  revisions :: "revision list"
  outbox :: "outbox_row list"

definition empty_db :: db where
  "empty_db = \<lparr>entries = [], revisions = [], outbox = []\<rparr>"

section \<open>The database server\<close>

datatype stmt =
    StmtGet | StmtGetByScope | StmtInsert | StmtUpdate | StmtSnapshot | StmtUpdateRevisionReview
  | StmtGetRevision | StmtResolve | StmtCount | StmtList | StmtAddOutbox

record postgres =
  pg_uuid :: "string \<Rightarrow> string option"
  pg_json :: "bytes \<Rightarrow> bytes option"
  pg_time :: "time \<Rightarrow> time"
  pg_collate :: "string \<Rightarrow> string \<Rightarrow> bool"
  pg_fault :: "stmt \<Rightarrow> string option"

text \<open>
  What the documentation of PostgreSQL says of these conversions: the text a \<^verbatim>\<open>uuid\<close> or \<^verbatim>\<open>jsonb\<close>
  value prints as reads back as the same value, a \<^verbatim>\<open>jsonb\<close> value never prints as the empty
  text, and a rounded time is not rounded again.
\<close>

definition pg_canonical :: "postgres \<Rightarrow> bool" where
  "pg_canonical pg \<longleftrightarrow>
     (\<forall>x u. pg_uuid pg x = Some u \<longrightarrow> pg_uuid pg u = Some u) \<and>
     (\<forall>x w. pg_json pg x = Some w \<longrightarrow> pg_json pg w = Some w \<and> w \<noteq> []) \<and>
     (\<forall>t. pg_time pg (pg_time pg t) = pg_time pg t)"

definition faulty :: "postgres \<Rightarrow> stmt \<Rightarrow> 'a result \<Rightarrow> 'a result" where
  [store_defs]: "faulty pg s r = (case pg_fault pg s of Some m \<Rightarrow> Inl (SQLError (DriverFault m)) | None \<Rightarrow> r)"

text \<open>The value written to a \<^verbatim>\<open>JSONB\<close> column: empty is \<^verbatim>\<open>NULL\<close>.\<close>

definition json_column :: "postgres \<Rightarrow> bytes \<Rightarrow> bytes option" where
  "json_column pg v = (if v = [] then Some [] else pg_json pg v)"

text \<open>
  The \<^verbatim>\<open>CHECK\<close> constraints of \<^verbatim>\<open>config_entries\<close>: exactly one of value and secret reference, no
  application without a tenant, the rollout percentage in range.
\<close>

definition entry_check :: "entry \<Rightarrow> bool" where
  "entry_check v \<longleftrightarrow>
     (e_Value v = []) \<noteq> (e_SecretRef v = []) \<and>
     (e_TenantID v \<noteq> [] \<or> e_ApplicationID v = []) \<and>
     0 \<le> e_RolloutPercentage v \<and> e_RolloutPercentage v \<le> 100"

type_synonym scope = "string \<times> string \<times> string \<times> string \<times> string"

definition scope_of :: "entry \<Rightarrow> scope" where
  "scope_of v = (e_Environment v, e_TenantID v, e_ApplicationID v, e_Service v, e_Key v)"

section \<open>The statements\<close>

definition repo_AddOutbox :: "postgres \<Rightarrow> outbox_event \<Rightarrow> db \<Rightarrow> db result" where
  [store_defs]: "repo_AddOutbox pg ev d = faulty pg StmtAddOutbox
     (if ev_ID ev \<in> (\<lambda>row. ev_ID (o_Event row)) ` set (outbox d) then Inl (SQLError UniqueViolation)
      else Inr (d\<lparr>outbox := outbox d @
        [\<lparr>o_Event = ev\<lparr>ev_AvailableAt := pg_time pg (ev_AvailableAt ev),
                       ev_CreatedAt := pg_time pg (ev_CreatedAt ev),
                       ev_UpdatedAt := pg_time pg (ev_UpdatedAt ev)\<rparr>,
          o_Attempts = 0, o_PublishedAt = None, o_LastError = [], o_Version = 1\<rparr>]\<rparr>))"

definition repo_Get :: "postgres \<Rightarrow> string \<Rightarrow> db \<Rightarrow> entry result" where
  [store_defs]: "repo_Get pg eid d = faulty pg StmtGet
     (case pg_uuid pg eid of
        None \<Rightarrow> Inl (SQLError InvalidText)
      | Some u \<Rightarrow>
        (case find (\<lambda>v. e_ID v = u) (entries d) of None \<Rightarrow> Inl ErrNotFound | Some v \<Rightarrow> Inr v))"

definition repo_GetByScope ::
    "postgres \<Rightarrow> string \<Rightarrow> string \<Rightarrow> string \<Rightarrow> string \<Rightarrow> string \<Rightarrow> db \<Rightarrow> entry result" where
  [store_defs]: "repo_GetByScope pg environment tenantID applicationID service key d = faulty pg StmtGetByScope
     (case find (\<lambda>v. scope_of v = (environment, tenantID, applicationID, service, key)) (entries d) of
        None \<Rightarrow> Inl ErrNotFound | Some v \<Rightarrow> Inr v)"

definition repo_Insert :: "postgres \<Rightarrow> entry \<Rightarrow> db \<Rightarrow> db result" where
  [store_defs]: "repo_Insert pg v d = faulty pg StmtInsert
     (case (pg_uuid pg (e_ID v), json_column pg (e_Value v)) of
        (Some u, Some w) \<Rightarrow>
          (let row = v\<lparr>e_ID := u, e_Value := w, e_ReviewedAt := map_option (pg_time pg) (e_ReviewedAt v),
                       e_CreatedAt := pg_time pg (e_CreatedAt v), e_UpdatedAt := pg_time pg (e_UpdatedAt v)\<rparr> in
           if \<not> entry_check row then Inl (SQLError CheckViolation)
           else if u \<in> e_ID ` set (entries d) \<or> scope_of row \<in> scope_of ` set (entries d)
           then Inl (SQLError UniqueViolation)
           else Inr (d\<lparr>entries := entries d @ [row]\<rparr>))
      | _ \<Rightarrow> Inl (SQLError InvalidText))"

text \<open>\<^verbatim>\<open>UPDATE config_entries SET ... version=version+1 ... WHERE id=? AND version=?\<close>.\<close>

definition set_columns :: "postgres \<Rightarrow> entry \<Rightarrow> bytes \<Rightarrow> entry \<Rightarrow> entry" where
  "set_columns pg v w x =
     x\<lparr>e_Value := w, e_SecretRef := e_SecretRef v, e_Status := e_Status v, e_Revision := e_Revision v,
       e_RolloutPercentage := e_RolloutPercentage v, e_PublishedRevision := e_PublishedRevision v,
       e_ReviewComment := e_ReviewComment v, e_ReviewedBy := e_ReviewedBy v,
       e_ReviewedAt := map_option (pg_time pg) (e_ReviewedAt v), e_Version := e_Version x + 1,
       e_UpdatedAt := pg_time pg (e_UpdatedAt v), e_UpdatedBy := e_UpdatedBy v\<rparr>"

definition repo_Update :: "postgres \<Rightarrow> entry \<Rightarrow> int \<Rightarrow> db \<Rightarrow> db result" where
  [store_defs]: "repo_Update pg v expected d = faulty pg StmtUpdate
     (case (pg_uuid pg (e_ID v), json_column pg (e_Value v)) of
        (Some u, Some w) \<Rightarrow>
          (let hit = (\<lambda>x. e_ID x = u \<and> e_Version x = expected); hits = filter hit (entries d) in
           if \<exists>x \<in> set hits. max_int64 \<le> e_Version x then Inl (SQLError NumericOutOfRange)
           else if \<exists>x \<in> set hits. \<not> entry_check (set_columns pg v w x) then Inl (SQLError CheckViolation)
           else if hits = [] then Inl ErrStaleVersion
           else Inr (d\<lparr>entries := update_where hit (set_columns pg v w) (entries d)\<rparr>))
      | _ \<Rightarrow> Inl (SQLError InvalidText))"

definition snapshot_row :: "postgres \<Rightarrow> string \<Rightarrow> bytes \<Rightarrow> entry \<Rightarrow> revision" where
  "snapshot_row pg u w v =
     \<lparr>r_ID = e_ID v @ ''-'' @ itoa (e_Revision v), r_EntryID = u, r_Revision = e_Revision v, r_Value = w,
      r_SecretRef = e_SecretRef v, r_Status = e_Status v, r_RolloutPercentage = e_RolloutPercentage v,
      r_ReviewComment = e_ReviewComment v, r_ReviewedBy = e_ReviewedBy v,
      r_ReviewedAt = map_option (pg_time pg) (e_ReviewedAt v), r_Version = 1,
      r_CreatedAt = pg_time pg (e_UpdatedAt v), r_UpdatedAt = pg_time pg (e_UpdatedAt v),
      r_CreatedBy = e_UpdatedBy v, r_UpdatedBy = e_UpdatedBy v\<rparr>"

definition repo_Snapshot :: "postgres \<Rightarrow> entry \<Rightarrow> db \<Rightarrow> db result" where
  [store_defs]: "repo_Snapshot pg v d = faulty pg StmtSnapshot
     (case (pg_uuid pg (e_ID v), json_column pg (e_Value v)) of
        (Some u, Some w) \<Rightarrow>
          (let row = snapshot_row pg u w v in
           if r_ID row \<in> r_ID ` set (revisions d) \<or>
              (u, e_Revision v) \<in> (\<lambda>r. (r_EntryID r, r_Revision r)) ` set (revisions d)
           then Inl (SQLError UniqueViolation)
           else if u \<notin> e_ID ` set (entries d) then Inl (SQLError ForeignKeyViolation)
           else Inr (d\<lparr>revisions := revisions d @ [row]\<rparr>))
      | _ \<Rightarrow> Inl (SQLError InvalidText))"

definition set_review :: "postgres \<Rightarrow> entry \<Rightarrow> revision \<Rightarrow> revision" where
  "set_review pg v r =
     r\<lparr>r_Status := e_Status v, r_ReviewComment := e_ReviewComment v, r_ReviewedBy := e_ReviewedBy v,
       r_ReviewedAt := map_option (pg_time pg) (e_ReviewedAt v), r_Version := r_Version r + 1,
       r_UpdatedAt := pg_time pg (e_UpdatedAt v), r_UpdatedBy := e_UpdatedBy v\<rparr>"

definition repo_UpdateRevisionReview :: "postgres \<Rightarrow> entry \<Rightarrow> string \<Rightarrow> db \<Rightarrow> db result" where
  [store_defs]: "repo_UpdateRevisionReview pg v expectedStatus d = faulty pg StmtUpdateRevisionReview
     (case pg_uuid pg (e_ID v) of
        None \<Rightarrow> Inl (SQLError InvalidText)
      | Some u \<Rightarrow>
        (let hit = (\<lambda>r. r_EntryID r = u \<and> r_Revision r = e_Revision v \<and> r_Status r = expectedStatus);
             hits = filter hit (revisions d) in
         if \<exists>r \<in> set hits. max_int64 \<le> r_Version r then Inl (SQLError NumericOutOfRange)
         else if hits = [] then Inl ErrStaleVersion
         else Inr (d\<lparr>revisions := update_where hit (set_review pg v) (revisions d)\<rparr>)))"

text \<open>The columns \<^verbatim>\<open>GetRevision\<close> selects from the join of a revision with its entry.\<close>

definition revision_view :: "entry \<Rightarrow> revision \<Rightarrow> entry" where
  "revision_view e r =
     e\<lparr>e_Value := r_Value r, e_SecretRef := r_SecretRef r, e_Status := r_Status r,
       e_Revision := r_Revision r, e_RolloutPercentage := r_RolloutPercentage r,
       e_ReviewComment := r_ReviewComment r, e_ReviewedBy := r_ReviewedBy r, e_ReviewedAt := r_ReviewedAt r,
       e_Version := r_Version r, e_CreatedAt := r_CreatedAt r, e_UpdatedAt := r_UpdatedAt r,
       e_CreatedBy := r_CreatedBy r, e_UpdatedBy := r_UpdatedBy r\<rparr>"

definition joined :: "db \<Rightarrow> (entry \<times> revision) list" where
  "joined d = [(e, r). e \<leftarrow> entries d, r \<leftarrow> revisions d, r_EntryID r = e_ID e]"

definition repo_GetRevision :: "postgres \<Rightarrow> string \<Rightarrow> int \<Rightarrow> db \<Rightarrow> entry result" where
  [store_defs]: "repo_GetRevision pg eid revision d = faulty pg StmtGetRevision
     (case pg_uuid pg eid of
        None \<Rightarrow> Inl (SQLError InvalidText)
      | Some u \<Rightarrow>
        (case find (\<lambda>(e, r). r_EntryID r = u \<and> r_Revision r = revision) (joined d) of
           None \<Rightarrow> Inl ErrNotFound | Some (e, r) \<Rightarrow> Inr (revision_view e r)))"

text \<open>\<^verbatim>\<open>Resolve\<close>: the published revision of every entry of the scope or of a broader one.\<close>

definition resolve_view :: "entry \<Rightarrow> revision \<Rightarrow> entry" where
  "resolve_view e r =
     e\<lparr>e_Value := r_Value r, e_SecretRef := r_SecretRef r, e_Status := ''published'',
       e_Revision := r_Revision r, e_RolloutPercentage := r_RolloutPercentage r,
       e_ReviewComment := r_ReviewComment r, e_ReviewedBy := r_ReviewedBy r, e_ReviewedAt := r_ReviewedAt r\<rparr>"

definition scope_rank :: "string \<Rightarrow> string \<Rightarrow> entry \<Rightarrow> nat" where
  "scope_rank tenantID applicationID e =
     (if e_TenantID e = tenantID \<and> e_ApplicationID e = applicationID then 0
      else if e_TenantID e = tenantID \<and> e_ApplicationID e = [] then 1 else 2)"

definition resolve_where ::
    "string \<Rightarrow> string \<Rightarrow> string \<Rightarrow> string \<Rightarrow> string list \<Rightarrow> entry \<times> revision \<Rightarrow> bool" where
  "resolve_where environment tenantID applicationID service keys = (\<lambda>(e, r).
     r_Revision r = e_PublishedRevision e \<and> e_Environment e = environment \<and>
     (e_TenantID e = tenantID \<and> e_ApplicationID e = applicationID \<or>
      e_TenantID e = tenantID \<and> e_ApplicationID e = [] \<or>
      e_TenantID e = [] \<and> e_ApplicationID e = []) \<and>
     e_Service e = service \<and> 0 < e_PublishedRevision e \<and> e_Key e \<in> set keys)"

definition repo_Resolve ::
    "postgres \<Rightarrow> string \<Rightarrow> string \<Rightarrow> string \<Rightarrow> string \<Rightarrow> string list \<Rightarrow> db \<Rightarrow> entry list result" where
  [store_defs]: "repo_Resolve pg environment tenantID applicationID service keys d =
     (if keys = [] then Inr []
      else faulty pg StmtResolve
        (Inr (sort_by (\<lambda>x y. scope_rank tenantID applicationID x \<le> scope_rank tenantID applicationID y)
           (map (\<lambda>(e, r). resolve_view e r)
              (filter (resolve_where environment tenantID applicationID service keys) (joined d))))))"

definition in_scope :: "string \<Rightarrow> string \<Rightarrow> string \<Rightarrow> string \<Rightarrow> entry \<Rightarrow> bool" where
  "in_scope environment tenantID applicationID service v \<longleftrightarrow>
     e_Environment v = environment \<and> e_TenantID v = tenantID \<and>
     e_ApplicationID v = applicationID \<and> e_Service v = service"

definition repo_List ::
    "postgres \<Rightarrow> string \<Rightarrow> string \<Rightarrow> string \<Rightarrow> string \<Rightarrow> int \<Rightarrow> int \<Rightarrow> db \<Rightarrow> (entry list \<times> int) result" where
  [store_defs]: "repo_List pg environment tenantID applicationID service limit offset d =
     (let rows = filter (in_scope environment tenantID applicationID service) (entries d) in
      case faulty pg StmtCount (Inr (int (length rows))) of
        Inl e \<Rightarrow> Inl e
      | Inr count \<Rightarrow>
        faulty pg StmtList
          (if limit < 0 \<or> offset < 0 then Inl (SQLError InvalidRowCount)
           else Inr (take (nat limit) (drop (nat offset)
                  (sort_by (\<lambda>x y. pg_collate pg (e_Key x) (e_Key y)) rows)), count)))"

section \<open>The schema, as an invariant\<close>

text \<open>The primary keys, unique constraints, foreign key and checks of the three tables.\<close>

definition rev_key :: "revision \<Rightarrow> string \<times> int" where
  "rev_key r = (r_EntryID r, r_Revision r)"

definition schema_ok :: "db \<Rightarrow> bool" where
  "schema_ok d \<longleftrightarrow>
     distinct (map e_ID (entries d)) \<and> distinct (map scope_of (entries d)) \<and>
     distinct (map r_ID (revisions d)) \<and> distinct (map rev_key (revisions d)) \<and>
     distinct (map (\<lambda>row. ev_ID (o_Event row)) (outbox d)) \<and>
     (\<forall>r \<in> set (revisions d). r_EntryID r \<in> e_ID ` set (entries d)) \<and>
     (\<forall>e \<in> set (entries d). entry_check e)"

lemma schema_ok_empty: "schema_ok empty_db"
  by (simp add: schema_ok_def empty_db_def)

lemma schema_okD:
  assumes "schema_ok d"
  shows "distinct (map e_ID (entries d))" and "distinct (map scope_of (entries d))"
    and "distinct (map r_ID (revisions d))" and "distinct (map rev_key (revisions d))"
    and "r \<in> set (revisions d) \<Longrightarrow> r_EntryID r \<in> e_ID ` set (entries d)"
    and "e \<in> set (entries d) \<Longrightarrow> entry_check e"
  using assms by (auto simp: schema_ok_def)

lemma entry_unique:
  "schema_ok d \<Longrightarrow> x \<in> set (entries d) \<Longrightarrow> y \<in> set (entries d) \<Longrightarrow> e_ID x = e_ID y \<Longrightarrow> x = y"
  by (rule distinct_map_eqD [OF schema_okD(1)])

lemma revision_unique:
  "schema_ok d \<Longrightarrow> x \<in> set (revisions d) \<Longrightarrow> y \<in> set (revisions d) \<Longrightarrow>
   r_EntryID x = r_EntryID y \<Longrightarrow> r_Revision x = r_Revision y \<Longrightarrow> x = y"
  by (rule distinct_map_eqD [OF schema_okD(4)]) (simp_all add: rev_key_def)

lemma faulty_Inr [simp]: "faulty pg s r = Inr x \<longleftrightarrow> pg_fault pg s = None \<and> r = Inr x"
  by (auto simp: faulty_def split: option.splits)

lemma faulty_none [simp]: "pg_fault pg s = None \<Longrightarrow> faulty pg s r = r"
  by (simp add: faulty_def)

lemma set_columns_same [simp]:
  "e_ID (set_columns pg v w x) = e_ID x" "scope_of (set_columns pg v w x) = scope_of x"
  "e_Version (set_columns pg v w x) = e_Version x + 1" "e_Value (set_columns pg v w x) = w"
  "e_SecretRef (set_columns pg v w x) = e_SecretRef v" "e_Status (set_columns pg v w x) = e_Status v"
  "e_Revision (set_columns pg v w x) = e_Revision v"
  "e_RolloutPercentage (set_columns pg v w x) = e_RolloutPercentage v"
  "e_PublishedRevision (set_columns pg v w x) = e_PublishedRevision v"
  "e_UpdatedBy (set_columns pg v w x) = e_UpdatedBy v" "e_TenantID (set_columns pg v w x) = e_TenantID x"
  "e_ApplicationID (set_columns pg v w x) = e_ApplicationID x" "e_Key (set_columns pg v w x) = e_Key x"
  "e_Environment (set_columns pg v w x) = e_Environment x" "e_Service (set_columns pg v w x) = e_Service x"
  "e_CreatedBy (set_columns pg v w x) = e_CreatedBy x" "e_CreatedAt (set_columns pg v w x) = e_CreatedAt x"
  by (simp_all add: set_columns_def scope_of_def)

lemma set_review_same [simp]:
  "r_ID (set_review pg v r) = r_ID r" "r_EntryID (set_review pg v r) = r_EntryID r"
  "r_Revision (set_review pg v r) = r_Revision r" "rev_key (set_review pg v r) = rev_key r"
  "r_Value (set_review pg v r) = r_Value r" "r_SecretRef (set_review pg v r) = r_SecretRef r"
  "r_RolloutPercentage (set_review pg v r) = r_RolloutPercentage r"
  "r_CreatedBy (set_review pg v r) = r_CreatedBy r" "r_Status (set_review pg v r) = e_Status v"
  "r_ReviewedBy (set_review pg v r) = e_ReviewedBy v" "r_Version (set_review pg v r) = r_Version r + 1"
  by (simp_all add: set_review_def rev_key_def)

section \<open>What a successful statement did\<close>

text \<open>A row replaced by its successor, the only row with that identifier.\<close>

definition replace_entry :: "entry \<Rightarrow> entry list \<Rightarrow> entry list" where
  "replace_entry x' xs = update_where (\<lambda>y. e_ID y = e_ID x') (\<lambda>_. x') xs"

lemma set_replace_entry:
  "e_ID x' \<in> e_ID ` set xs \<Longrightarrow> set (replace_entry x' xs) = insert x' {y \<in> set xs. e_ID y \<noteq> e_ID x'}"
  by (auto simp: replace_entry_def set_update_where)

lemma map_replace_entry:
  "(\<And>y. y \<in> set xs \<Longrightarrow> e_ID y = e_ID x' \<Longrightarrow> f y = f x') \<Longrightarrow> map f (replace_entry x' xs) = map f xs"
  by (auto simp: replace_entry_def update_where_def)

lemma repo_Get_Inr:
  "repo_Get pg eid d = Inr v \<Longrightarrow> v \<in> set (entries d) \<and> pg_uuid pg eid = Some (e_ID v)"
  by (auto simp: repo_Get_def split: option.splits dest: find_SomeD)

lemma repo_GetByScope_Inr:
  "repo_GetByScope pg env t a s k d = Inr v \<Longrightarrow> v \<in> set (entries d) \<and> scope_of v = (env, t, a, s, k)"
  by (auto simp: repo_GetByScope_def split: option.splits dest: find_SomeD)

lemma set_joined:
  "set (joined d) = {(e, r). e \<in> set (entries d) \<and> r \<in> set (revisions d) \<and> r_EntryID r = e_ID e}"
  by (auto simp: joined_def)

lemma repo_GetRevision_Inr:
  "repo_GetRevision pg eid n d = Inr v \<Longrightarrow>
   \<exists>e r. v = revision_view e r \<and> e \<in> set (entries d) \<and> r \<in> set (revisions d) \<and>
     r_EntryID r = e_ID e \<and> pg_uuid pg eid = Some (e_ID e) \<and> r_Revision r = n"
  by (fastforce simp: repo_GetRevision_def set_joined split: option.splits prod.splits dest!: find_SomeD)

lemma repo_Insert_Inr:
  assumes "repo_Insert pg v d = Inr d'"
  obtains u w where "pg_uuid pg (e_ID v) = Some u" and "json_column pg (e_Value v) = Some w"
    and "u \<notin> e_ID ` set (entries d)"
    and "scope_of v \<notin> scope_of ` set (entries d)"
    and "entry_check (v\<lparr>e_Value := w\<rparr>)"
    and "d' = d\<lparr>entries := entries d @
      [v\<lparr>e_ID := u, e_Value := w, e_ReviewedAt := map_option (pg_time pg) (e_ReviewedAt v),
         e_CreatedAt := pg_time pg (e_CreatedAt v), e_UpdatedAt := pg_time pg (e_UpdatedAt v)\<rparr>]\<rparr>"
  using assms
  by (auto simp: repo_Insert_def Let_def scope_of_def entry_check_def split: option.splits if_splits)

lemma repo_Update_Inr:
  assumes "repo_Update pg v expected d = Inr d'" and "schema_ok d"
  obtains w x where "pg_uuid pg (e_ID v) = Some (e_ID x)" and "json_column pg (e_Value v) = Some w"
    and "x \<in> set (entries d)" and "e_Version x = expected" and "expected < max_int64"
    and "entry_check (set_columns pg v w x)"
    and "d' = d\<lparr>entries := replace_entry (set_columns pg v w x) (entries d)\<rparr>"
proof -
  have "\<exists>u w. pg_uuid pg (e_ID v) = Some u \<and> json_column pg (e_Value v) = Some w \<and>
      (\<forall>x \<in> set (entries d). e_ID x = u \<and> e_Version x = expected \<longrightarrow>
         e_Version x < max_int64 \<and> entry_check (set_columns pg v w x)) \<and>
      (\<exists>x \<in> set (entries d). e_ID x = u \<and> e_Version x = expected) \<and>
      d' = d\<lparr>entries := update_where (\<lambda>x. e_ID x = u \<and> e_Version x = expected)
                      (set_columns pg v w) (entries d)\<rparr>"
    using assms(1)
    by (auto simp: repo_Update_def Let_def filter_empty_conv not_le split: option.splits if_splits)
  then obtain u w x where u: "pg_uuid pg (e_ID v) = Some u" and w: "json_column pg (e_Value v) = Some w"
    and ok: "\<forall>x \<in> set (entries d). e_ID x = u \<and> e_Version x = expected \<longrightarrow>
               e_Version x < max_int64 \<and> entry_check (set_columns pg v w x)"
    and x: "x \<in> set (entries d)" "e_ID x = u" "e_Version x = expected"
    and d': "d' = d\<lparr>entries := update_where (\<lambda>x. e_ID x = u \<and> e_Version x = expected)
                      (set_columns pg v w) (entries d)\<rparr>"
    by blast
  have "update_where (\<lambda>x. e_ID x = u \<and> e_Version x = expected) (set_columns pg v w) (entries d)
          = replace_entry (set_columns pg v w x) (entries d)"
    unfolding update_where_def replace_entry_def
    by (intro map_cong refl) (metis entry_unique [OF assms(2) _ x(1)] x(2,3) set_columns_same(1))
  with that u w ok x d' show thesis by auto
qed

lemma repo_Snapshot_Inr:
  assumes "repo_Snapshot pg v d = Inr d'"
  obtains u w where "pg_uuid pg (e_ID v) = Some u" and "json_column pg (e_Value v) = Some w"
    and "(u, e_Revision v) \<notin> rev_key ` set (revisions d)" and "u \<in> e_ID ` set (entries d)"
    and "r_ID (snapshot_row pg u w v) \<notin> r_ID ` set (revisions d)"
    and "d' = d\<lparr>revisions := revisions d @ [snapshot_row pg u w v]\<rparr>"
  using assms by (auto simp: repo_Snapshot_def Let_def rev_key_def image_iff split: option.splits if_splits)

definition replace_revision :: "revision \<Rightarrow> revision list \<Rightarrow> revision list" where
  "replace_revision x' xs = update_where (\<lambda>y. rev_key y = rev_key x') (\<lambda>_. x') xs"

lemma set_replace_revision:
  "rev_key x' \<in> rev_key ` set xs \<Longrightarrow>
   set (replace_revision x' xs) = insert x' {y \<in> set xs. rev_key y \<noteq> rev_key x'}"
  by (auto simp: replace_revision_def set_update_where)

lemma map_replace_revision:
  "(\<And>y. y \<in> set xs \<Longrightarrow> rev_key y = rev_key x' \<Longrightarrow> f y = f x') \<Longrightarrow>
   map f (replace_revision x' xs) = map f xs"
  by (auto simp: replace_revision_def update_where_def)

lemma repo_UpdateRevisionReview_Inr:
  assumes "repo_UpdateRevisionReview pg v st d = Inr d'" and "schema_ok d"
  obtains r where "pg_uuid pg (e_ID v) = Some (r_EntryID r)" and "r \<in> set (revisions d)"
    and "r_Revision r = e_Revision v" and "r_Status r = st"
    and "d' = d\<lparr>revisions := replace_revision (set_review pg v r) (revisions d)\<rparr>"
proof -
  have "\<exists>u. pg_uuid pg (e_ID v) = Some u \<and>
      (\<exists>r \<in> set (revisions d). r_EntryID r = u \<and> r_Revision r = e_Revision v \<and> r_Status r = st) \<and>
      d' = d\<lparr>revisions :=
        update_where (\<lambda>r. r_EntryID r = u \<and> r_Revision r = e_Revision v \<and> r_Status r = st)
          (set_review pg v) (revisions d)\<rparr>"
    using assms(1)
    by (auto simp: repo_UpdateRevisionReview_def Let_def filter_empty_conv split: option.splits if_splits)
  then obtain u r where u: "pg_uuid pg (e_ID v) = Some u"
    and r: "r \<in> set (revisions d)" "r_EntryID r = u" "r_Revision r = e_Revision v" "r_Status r = st"
    and d': "d' = d\<lparr>revisions :=
        update_where (\<lambda>r. r_EntryID r = u \<and> r_Revision r = e_Revision v \<and> r_Status r = st)
          (set_review pg v) (revisions d)\<rparr>"
    by blast
  have "update_where (\<lambda>r. r_EntryID r = u \<and> r_Revision r = e_Revision v \<and> r_Status r = st)
          (set_review pg v) (revisions d) = replace_revision (set_review pg v r) (revisions d)"
    unfolding update_where_def replace_revision_def
    by (intro map_cong refl)
      (metis revision_unique [OF assms(2) _ r(1)] r(2,3,4) set_review_same(4) rev_key_def prod.inject)
  with that u r d' show thesis by auto
qed

lemma repo_AddOutbox_Inr:
  assumes "repo_AddOutbox pg ev d = Inr d'"
  obtains row where "d' = d\<lparr>outbox := outbox d @ [row]\<rparr>" and "ev_ID (o_Event row) = ev_ID ev"
    and "ev_ID ev \<notin> (\<lambda>row. ev_ID (o_Event row)) ` set (outbox d)"
    and "o_PublishedAt row = None" and "ev_Envelope (o_Event row) = ev_Envelope ev"
    and "ev_Subject (o_Event row) = ev_Subject ev" and "ev_CreatedBy (o_Event row) = ev_CreatedBy ev"
proof -
  let ?row = "\<lparr>o_Event = ev\<lparr>ev_AvailableAt := pg_time pg (ev_AvailableAt ev),
      ev_CreatedAt := pg_time pg (ev_CreatedAt ev), ev_UpdatedAt := pg_time pg (ev_UpdatedAt ev)\<rparr>,
    o_Attempts = 0, o_PublishedAt = None, o_LastError = [], o_Version = 1\<rparr>"
  from assms have "ev_ID ev \<notin> (\<lambda>row. ev_ID (o_Event row)) ` set (outbox d)"
    and "d' = d\<lparr>outbox := outbox d @ [?row]\<rparr>"
    by (simp_all add: repo_AddOutbox_def split: if_splits)
  then show thesis by (intro that [of ?row]) simp_all
qed

section \<open>Every statement keeps the schema\<close>

lemma repo_Insert_schema: "repo_Insert pg v d = Inr d' \<Longrightarrow> schema_ok d \<Longrightarrow> schema_ok d'"
  by (erule repo_Insert_Inr) (auto simp: schema_ok_def scope_of_def entry_check_def)

lemma replace_entry_schema:
  assumes "schema_ok d" and "x \<in> set (entries d)" and "e_ID x' = e_ID x" and "scope_of x' = scope_of x"
    and "entry_check x'"
  shows "schema_ok (d\<lparr>entries := replace_entry x' (entries d)\<rparr>)"
proof -
  have eq: "y = x" if "y \<in> set (entries d)" "e_ID y = e_ID x'" for y
    using entry_unique [OF assms(1) that(1) assms(2)] that(2) assms(3) by simp
  have m: "map e_ID (replace_entry x' (entries d)) = map e_ID (entries d)"
    by (rule map_replace_entry)
  have m2: "map scope_of (replace_entry x' (entries d)) = map scope_of (entries d)"
    by (rule map_replace_entry) (use eq assms(4) in metis)
  from arg_cong [OF m, of set] have ids: "e_ID ` set (replace_entry x' (entries d)) = e_ID ` set (entries d)"
    by simp
  have "set (replace_entry x' (entries d)) \<subseteq> insert x' (set (entries d))"
    by (auto simp: replace_entry_def set_update_where)
  with assms(1,5) m m2 ids show ?thesis by (auto simp: schema_ok_def)
qed

lemma repo_Update_schema: "repo_Update pg v n d = Inr d' \<Longrightarrow> schema_ok d \<Longrightarrow> schema_ok d'"
  by (rule repo_Update_Inr, assumption, assumption) (auto intro: replace_entry_schema)

lemma repo_Snapshot_schema: "repo_Snapshot pg v d = Inr d' \<Longrightarrow> schema_ok d \<Longrightarrow> schema_ok d'"
  by (erule repo_Snapshot_Inr) (auto simp: schema_ok_def rev_key_def snapshot_row_def image_iff)

lemma replace_revision_schema:
  assumes "schema_ok d" and "r \<in> set (revisions d)" and "rev_key r' = rev_key r" and "r_ID r' = r_ID r"
  shows "schema_ok (d\<lparr>revisions := replace_revision r' (revisions d)\<rparr>)"
proof -
  have eq: "y = r" if "y \<in> set (revisions d)" "rev_key y = rev_key r'" for y
    using distinct_map_eqD [OF schema_okD(4) [OF assms(1)] that(1) assms(2)] that(2) assms(3) by simp
  have m: "map rev_key (replace_revision r' (revisions d)) = map rev_key (revisions d)"
    by (rule map_replace_revision)
  have m2: "map r_ID (replace_revision r' (revisions d)) = map r_ID (revisions d)"
    by (rule map_replace_revision) (use eq assms(4) in metis)
  have "\<forall>y \<in> set (replace_revision r' (revisions d)). r_EntryID y \<in> e_ID ` set (entries d)"
    using assms(1-3) schema_okD(5) [OF assms(1)]
    by (auto simp: replace_revision_def set_update_where rev_key_def)
  with assms(1) m m2 show ?thesis by (auto simp: schema_ok_def)
qed

lemma repo_UpdateRevisionReview_schema:
  "repo_UpdateRevisionReview pg v st d = Inr d' \<Longrightarrow> schema_ok d \<Longrightarrow> schema_ok d'"
  by (rule repo_UpdateRevisionReview_Inr, assumption, assumption) (auto intro: replace_revision_schema)

lemma repo_AddOutbox_schema: "repo_AddOutbox pg ev d = Inr d' \<Longrightarrow> schema_ok d \<Longrightarrow> schema_ok d'"
  by (erule repo_AddOutbox_Inr) (auto simp: schema_ok_def)

lemmas repo_schema = repo_Insert_schema repo_Update_schema repo_Snapshot_schema
  repo_UpdateRevisionReview_schema repo_AddOutbox_schema

section \<open>Optimistic locking\<close>

text \<open>
  The interface of a store of versioned rows: an update names the version it expects, succeeds
  only on the row that still has it, and raises the version by one. Two writers that read the
  same version cannot both succeed.
\<close>

locale versioned_store =
  fixes lookup :: "'s \<Rightarrow> 'k \<Rightarrow> 'v option"
    and version :: "'v \<Rightarrow> int"
    and target :: "'v \<Rightarrow> 'k option"
    and update :: "'v \<Rightarrow> int \<Rightarrow> 's \<Rightarrow> 'e + 's"
    and wf :: "'s \<Rightarrow> bool"
  assumes update_hit: "wf s \<Longrightarrow> update v n s = Inr s' \<Longrightarrow>
      \<exists>k old new. target v = Some k \<and> lookup s k = Some old \<and> version old = n \<and>
        version new = n + 1 \<and> lookup s' = (lookup s)(k \<mapsto> new)"
    and update_wf: "wf s \<Longrightarrow> update v n s = Inr s' \<Longrightarrow> wf s'"
begin

lemma second_writer_fails:
  assumes "wf s" and "update v n s = Inr s'" and "target v' = target v"
  shows "update v' n s' \<noteq> Inr s''"
proof
  assume second: "update v' n s' = Inr s''"
  from update_hit [OF assms(1,2)] obtain k new where k: "target v = Some k"
    and new: "lookup s' k = Some new" "version new = n + 1" by auto
  from update_hit [OF update_wf [OF assms(1,2)] second] obtain k' old
    where "target v' = Some k'" "lookup s' k' = Some old" "version old = n" by blast
  with k new assms(3) show False by simp
qed

lemma update_other_rows:
  "wf s \<Longrightarrow> update v n s = Inr s' \<Longrightarrow> target v \<noteq> Some k \<Longrightarrow> lookup s' k = lookup s k"
  using update_hit by fastforce

end

definition lookup_entry :: "db \<Rightarrow> string \<Rightarrow> entry option" where
  "lookup_entry d u = find (\<lambda>v. e_ID v = u) (entries d)"

lemma lookup_entry_Some:
  "schema_ok d \<Longrightarrow> lookup_entry d u = Some v \<longleftrightarrow> v \<in> set (entries d) \<and> e_ID v = u"
  unfolding lookup_entry_def by (rule find_Some_unique) (rule schema_okD)

lemma lookup_replace_entry:
  assumes "schema_ok d" and "x \<in> set (entries d)" and "e_ID x' = e_ID x"
  shows "lookup_entry (d\<lparr>entries := replace_entry x' (entries d)\<rparr>) = (lookup_entry d)(e_ID x \<mapsto> x')"
proof
  fix u
  have "find (\<lambda>v. e_ID v = u) (replace_entry x' xs) =
      (if u = e_ID x' \<and> u \<in> e_ID ` set xs then Some x' else find (\<lambda>v. e_ID v = u) xs)" for xs
    by (induction xs) (auto simp: replace_entry_def update_where_def)
  then show "lookup_entry (d\<lparr>entries := replace_entry x' (entries d)\<rparr>) u = ((lookup_entry d)(e_ID x \<mapsto> x')) u"
    using assms(2,3) by (auto simp: lookup_entry_def)
qed

interpretation entry_table: versioned_store lookup_entry e_Version "\<lambda>v. pg_uuid pg (e_ID v)"
  "repo_Update pg" schema_ok for pg
proof
  fix s v n s'
  assume ok: "schema_ok s" and upd: "repo_Update pg v n s = Inr s'"
  obtain w x where x: "pg_uuid pg (e_ID v) = Some (e_ID x)" "x \<in> set (entries s)" "e_Version x = n"
    and s': "s' = s\<lparr>entries := replace_entry (set_columns pg v w x) (entries s)\<rparr>"
    by (rule repo_Update_Inr [OF upd ok]) blast
  have "lookup_entry s (e_ID x) = Some x" using ok x(2) by (simp add: lookup_entry_Some)
  moreover have "lookup_entry s' = (lookup_entry s)(e_ID x \<mapsto> set_columns pg v w x)"
    using lookup_replace_entry [OF ok x(2)] s' by simp
  ultimately show "\<exists>k old new. pg_uuid pg (e_ID v) = Some k \<and> lookup_entry s k = Some old \<and>
      e_Version old = n \<and> e_Version new = n + 1 \<and> lookup_entry s' = (lookup_entry s)(k \<mapsto> new)"
    using x by (metis set_columns_same(3))
qed (rule repo_Update_schema)

end
