(* ===== verification/Transactor.thy ===== *)
theory Transactor
  imports App_Error
begin

text \<open>
  \<^verbatim>\<open>database.Transactor\<close>: a function run inside a database transaction. The store is any type
  of states; the function gets the state the transaction sees and returns an error, or a value
  and the new state. What the driver answers to \<^verbatim>\<open>BeginTxx\<close>, \<^verbatim>\<open>Rollback\<close> and \<^verbatim>\<open>Commit\<close> is a
  parameter. A \<^verbatim>\<open>Commit\<close> that reports an error may or may not have taken effect (the connection
  can break after the server has committed), so the parameter says which.
\<close>

datatype commit_outcome = CommitOk | CommitErr string (commit_applied: bool)

record transactor =
  tx_available :: bool
  tx_begin :: "string option"
  tx_rollback :: "string option"
  tx_commit :: commit_outcome

definition Available :: "transactor \<Rightarrow> bool" where
  "Available t = tx_available t"

abbreviation driver_error :: "string \<Rightarrow> gerror" where
  "driver_error m \<equiv> SQLError (DriverFault m)"

definition Within :: "transactor \<Rightarrow> ('s \<Rightarrow> ('a \<times> 's) result) \<Rightarrow> 's \<Rightarrow> 'a result \<times> 's" where
  "Within t fn d =
     (if \<not> tx_available t then (Inl (Plain ''begin transaction: database is disabled''), d)
      else (case tx_begin t of
              Some m \<Rightarrow> (Inl (Wrap ''begin transaction'' (driver_error m)), d)
            | None \<Rightarrow>
              (case fn d of
                 Inl e \<Rightarrow>
                   (case tx_rollback t of
                      Some m \<Rightarrow> (Inl (Wrap ''rollback transaction after'' (driver_error m)), d)
                    | None \<Rightarrow> (Inl e, d))
               | Inr (a, d') \<Rightarrow>
                   (case tx_commit t of
                      CommitOk \<Rightarrow> (Inr a, d')
                    | CommitErr m applied \<Rightarrow>
                        (Inl (Wrap ''commit transaction'' (driver_error m)), if applied then d' else d)))))"

section \<open>The contract of a transaction runner\<close>

text \<open>
  What a client of a transaction runner relies on: a value is returned only for a function that
  succeeded and whose state is then the committed one, and whatever happens the committed state
  is the old one or the one the whole function produced.
\<close>

locale transaction_runner =
  fixes within :: "('s \<Rightarrow> ('a \<times> 's) result) \<Rightarrow> 's \<Rightarrow> 'a result \<times> 's"
  assumes committed: "within fn d = (Inr a, d') \<Longrightarrow> fn d = Inr (a, d')"
    and all_or_nothing: "within fn d = (r, d') \<Longrightarrow> d' = d \<or> (\<exists>a. fn d = Inr (a, d'))"
begin

text \<open>A failing function leaves no trace.\<close>

lemma failed_unchanged: "fn d = Inl e \<Longrightarrow> within fn d = (r, d') \<Longrightarrow> d' = d"
  using all_or_nothing by fastforce

lemma failed_error: "fn d = Inl e \<Longrightarrow> \<exists>e'. within fn d = (Inl e', d)"
proof -
  assume f: "fn d = Inl e"
  obtain r d' where w: "within fn d = (r, d')" by fastforce
  then have "d' = d" using f by (rule failed_unchanged [rotated])
  with w f committed show ?thesis by (cases r) fastforce+
qed

text \<open>An invariant that the function keeps when it succeeds is kept by the transaction.\<close>

lemma preserves:
  assumes "\<And>a d'. fn d = Inr (a, d') \<Longrightarrow> P d'" and "P d" and "within fn d = (r, d')"
  shows "P d'"
  using all_or_nothing [OF assms(3)] assms(1,2) by blast

end

interpretation transactor_within: transaction_runner "Within t" for t
  by unfold_locales
    (auto simp: Within_def split: if_splits option.splits sum.splits commit_outcome.splits)

text \<open>A healthy database: a transaction commits exactly when its function succeeds.\<close>

definition tx_healthy :: "transactor \<Rightarrow> bool" where
  "tx_healthy t \<longleftrightarrow>
     tx_available t \<and> tx_begin t = None \<and> tx_rollback t = None \<and> tx_commit t = CommitOk"

lemma Within_healthy:
  "tx_healthy t \<Longrightarrow> Within t fn d = (case fn d of Inl e \<Rightarrow> (Inl e, d) | Inr (a, d') \<Rightarrow> (Inr a, d'))"
  by (simp add: Within_def tx_healthy_def split: sum.splits)

end
