(* ===== verification/Go_Strings.thy ===== *)
theory Go_Strings
  imports Prelude
begin

text \<open>
  The part of Go's standard library that the service's string handling rests on: UTF-8 decoding
  (\<^verbatim>\<open>unicode/utf8\<close>), the functions of package \<^verbatim>\<open>strings\<close> it calls, and the pattern matcher
  \<^verbatim>\<open>path.Match\<close>. All are executable and work on bytes, as Go's do. The only data left open is
  the Unicode case table beyond ASCII, an argument of \<open>ToLower\<close>.
\<close>

text \<open>The code of a byte; codes and runes are integers (Go's \<^verbatim>\<open>rune\<close> is an \<^verbatim>\<open>int32\<close>).\<close>

abbreviation byte :: "char \<Rightarrow> int" where
  "byte c \<equiv> of_char c"

section \<open>UTF-8\<close>

definition RuneError :: int where
  "RuneError = 65533"

definition is_cont :: "char \<Rightarrow> bool" where
  "is_cont c \<longleftrightarrow> 128 \<le> byte c \<and> byte c \<le> 191"

text \<open>The range of the second byte is narrower after some first bytes.\<close>

definition second_ok :: "int \<Rightarrow> char \<Rightarrow> bool" where
  "second_ok b0 c =
     (if b0 = 224 then 160 \<le> byte c \<and> byte c \<le> 191
      else if b0 = 237 then 128 \<le> byte c \<and> byte c \<le> 159
      else if b0 = 240 then 144 \<le> byte c \<and> byte c \<le> 191
      else if b0 = 244 then 128 \<le> byte c \<and> byte c \<le> 143
      else is_cont c)"

text \<open>
  \<^verbatim>\<open>utf8.DecodeRuneInString\<close>: the first rune and its width in bytes. The continuation bytes of
  sequences of two, three and four bytes are read by \<open>decode2\<close>, \<open>decode3\<close> and \<open>decode4\<close>.
\<close>

fun decode2 :: "int \<Rightarrow> string \<Rightarrow> int \<times> nat" where
  "decode2 b0 (c1 # _) =
     (if is_cont c1 then ((b0 - 192) * 64 + (byte c1 - 128), 2) else (RuneError, 1))"
| "decode2 b0 _ = (RuneError, 1)"

fun decode3 :: "int \<Rightarrow> string \<Rightarrow> int \<times> nat" where
  "decode3 b0 (c1 # c2 # _) =
     (if second_ok b0 c1 \<and> is_cont c2
      then ((b0 - 224) * 4096 + (byte c1 - 128) * 64 + (byte c2 - 128), 3) else (RuneError, 1))"
| "decode3 b0 _ = (RuneError, 1)"

fun decode4 :: "int \<Rightarrow> string \<Rightarrow> int \<times> nat" where
  "decode4 b0 (c1 # c2 # c3 # _) =
     (if second_ok b0 c1 \<and> is_cont c2 \<and> is_cont c3
      then ((b0 - 240) * 262144 + (byte c1 - 128) * 4096 + (byte c2 - 128) * 64 + (byte c3 - 128), 4)
      else (RuneError, 1))"
| "decode4 b0 _ = (RuneError, 1)"

definition decode_rune :: "string \<Rightarrow> int \<times> nat" where
  "decode_rune s =
     (case s of
        [] \<Rightarrow> (RuneError, 0)
      | c0 # s1 \<Rightarrow>
        (if byte c0 < 128 then (byte c0, 1)
         else if 194 \<le> byte c0 \<and> byte c0 \<le> 223 then decode2 (byte c0) s1
         else if 224 \<le> byte c0 \<and> byte c0 \<le> 239 then decode3 (byte c0) s1
         else if 240 \<le> byte c0 \<and> byte c0 \<le> 244 then decode4 (byte c0) s1
         else (RuneError, 1)))"

lemma decode_tail_width:
  "0 < snd (decode2 b s) \<and> snd (decode2 b s) \<le> Suc (length s)"
  "0 < snd (decode3 b s) \<and> snd (decode3 b s) \<le> Suc (length s)"
  "0 < snd (decode4 b s) \<and> snd (decode4 b s) \<le> Suc (length s)"
  by (cases "(b, s)" rule: decode2.cases, simp_all)
     (cases "(b, s)" rule: decode3.cases, simp_all,
      cases "(b, s)" rule: decode4.cases, simp_all)

lemma decode_tail_append:
  "fst (decode2 b s) \<noteq> RuneError \<Longrightarrow> decode2 b (s @ u) = decode2 b s"
  "fst (decode3 b s) \<noteq> RuneError \<Longrightarrow> decode3 b (s @ u) = decode3 b s"
  "fst (decode4 b s) \<noteq> RuneError \<Longrightarrow> decode4 b (s @ u) = decode4 b s"
  by (cases "(b, s)" rule: decode2.cases, simp_all)
     (cases "(b, s)" rule: decode3.cases, simp_all,
      cases "(b, s)" rule: decode4.cases, simp_all)

lemma decode_rune_width: "s \<noteq> [] \<Longrightarrow> 0 < snd (decode_rune s)"
  by (cases s) (simp_all add: decode_rune_def decode_tail_width)

lemma decode_rune_Nil [simp]: "decode_rune [] = (RuneError, 0)"
  by (simp add: decode_rune_def)

lemma decode_rune_ascii: "byte c < 128 \<Longrightarrow> decode_rune (c # s) = (byte c, 1)"
  by (simp add: decode_rune_def)

lemma decode_rune_append:
  "fst (decode_rune t) \<noteq> RuneError \<Longrightarrow> decode_rune (t @ u) = decode_rune t"
  by (cases t) (auto simp: decode_rune_def decode_tail_append split: if_splits)

text \<open>Ranging over a string yields its runes, an invalid byte yielding \<^const>\<open>RuneError\<close>.\<close>

function runes :: "string \<Rightarrow> int list" where
  "runes s = (if s = [] then [] else fst (decode_rune s) # runes (drop (snd (decode_rune s)) s))"
  by pat_completeness auto
termination
  by (relation "measure length") (use decode_rune_width in \<open>fastforce\<close>)+

declare runes.simps [simp del]

lemma runes_Nil [simp]: "runes [] = []"
  by (simp add: runes.simps)

lemma runes_ascii [simp]: "byte c < 128 \<Longrightarrow> runes (c # s) = byte c # runes s"
  by (simp add: runes.simps [of "c # s"] decode_rune_ascii)

lemma runes_eq_Nil [simp]: "runes s = [] \<longleftrightarrow> s = []"
  by (cases s) (simp_all add: runes.simps [of "_ # _"])

text \<open>\<^verbatim>\<open>utf8.EncodeRune\<close>, for the runes that decoding produces.\<close>

definition encode_rune :: "int \<Rightarrow> string" where
  "encode_rune r =
     (if r < 128 then [char_of r]
      else if r < 2048 then [char_of (192 + r div 64), char_of (128 + r mod 64)]
      else if r < 65536 then
        [char_of (224 + r div 4096), char_of (128 + r div 64 mod 64), char_of (128 + r mod 64)]
      else
        [char_of (240 + r div 262144), char_of (128 + r div 4096 mod 64),
         char_of (128 + r div 64 mod 64), char_of (128 + r mod 64)])"

section \<open>Package strings\<close>

text \<open>\<^verbatim>\<open>unicode.IsSpace\<close>.\<close>

definition is_space :: "int \<Rightarrow> bool" where
  "is_space r \<longleftrightarrow>
     r \<in> {9, 10, 11, 12, 13, 32, 133, 160, 5760, 8232, 8233, 8239, 8287, 12288} \<or>
     (8192 \<le> r \<and> r \<le> 8202)"

function trim_left :: "string \<Rightarrow> string" where
  "trim_left s =
     (if s \<noteq> [] \<and> is_space (fst (decode_rune s)) then trim_left (drop (snd (decode_rune s)) s) else s)"
  by pat_completeness auto
termination
  by (relation "measure length") (use decode_rune_width in \<open>fastforce\<close>)+

declare trim_left.simps [simp del]

text \<open>
  The width of the white space rune that ends the string, 0 when it ends with another rune
  (\<^verbatim>\<open>utf8.DecodeLastRuneInString\<close> followed by \<^verbatim>\<open>unicode.IsSpace\<close>).
\<close>

definition suffix_is_space :: "nat \<Rightarrow> string \<Rightarrow> bool" where
  "suffix_is_space k s \<longleftrightarrow>
     k \<le> length s \<and>
     (case decode_rune (drop (length s - k) s) of (r, n) \<Rightarrow> n = k \<and> is_space r)"

definition last_space_width :: "string \<Rightarrow> nat" where
  "last_space_width s =
     (if s = [] then 0
      else if suffix_is_space 1 s then 1
      else if suffix_is_space 2 s then 2
      else if suffix_is_space 3 s then 3
      else 0)"

function trim_right :: "string \<Rightarrow> string" where
  "trim_right s =
     (if 0 < last_space_width s then trim_right (take (length s - last_space_width s) s) else s)"
  by pat_completeness auto
termination
  by (relation "measure length") (auto simp: last_space_width_def split: if_splits)

declare trim_right.simps [simp del]

definition TrimSpace :: "string \<Rightarrow> string" where
  "TrimSpace s = trim_right (trim_left s)"

lemma trim_left_Nil [simp]: "trim_left [] = []"
  by (simp add: trim_left.simps)

lemma trim_right_Nil [simp]: "trim_right [] = []"
  by (simp add: trim_right.simps last_space_width_def)

lemma TrimSpace_Nil [simp]: "TrimSpace [] = []"
  by (simp add: TrimSpace_def)

lemma RuneError_not_space [simp]: "\<not> is_space RuneError"
  by (simp add: is_space_def RuneError_def)

lemma trim_left_stop: "trim_left s = [] \<or> \<not> is_space (fst (decode_rune (trim_left s)))"
proof (induction s rule: trim_left.induct)
  case (1 s)
  then show ?case
    by (auto simp: trim_left.simps [of s])
qed

lemma trim_left_fix: "s = [] \<or> \<not> is_space (fst (decode_rune s)) \<Longrightarrow> trim_left s = s"
  by (auto simp: trim_left.simps [of s])

lemma trim_right_prefix: "\<exists>u. s = trim_right s @ u"
proof (induction s rule: trim_right.induct)
  case (1 s)
  show ?case
  proof (cases "0 < last_space_width s")
    case True
    let ?t = "take (length s - last_space_width s) s"
    from 1 [OF True] obtain u where u: "?t = trim_right ?t @ u" ..
    have "s = ?t @ drop (length s - last_space_width s) s" by simp
    then have "s = trim_right s @ (u @ drop (length s - last_space_width s) s)"
      using u True by (metis append_assoc trim_right.simps)
    then show ?thesis ..
  next
    case False
    then show ?thesis by (simp add: trim_right.simps [of s])
  qed
qed

lemma trim_right_stop: "last_space_width (trim_right s) = 0"
proof (induction s rule: trim_right.induct)
  case (1 s)
  then show ?case
    by (cases "0 < last_space_width s") (simp_all add: trim_right.simps [of s])
qed

text \<open>Trimming is a projection: the trimmed string has no white space left to trim.\<close>

lemma TrimSpace_idem [simp]: "TrimSpace (TrimSpace s) = TrimSpace s"
proof -
  let ?l = "trim_left s" and ?t = "trim_right (trim_left s)"
  obtain u where u: "?l = ?t @ u"
    using trim_right_prefix by blast
  have "?t = [] \<or> \<not> is_space (fst (decode_rune ?t))"
  proof (rule ccontr)
    assume "\<not> ?thesis"
    then have ne: "?t \<noteq> []" and sp: "is_space (fst (decode_rune ?t))" by auto
    from sp have "fst (decode_rune ?t) \<noteq> RuneError" by auto
    then have "decode_rune (?t @ u) = decode_rune ?t"
      by (rule decode_rune_append)
    with u sp have "is_space (fst (decode_rune ?l))" by simp
    with trim_left_stop [of s] u ne show False by auto
  qed
  then have "trim_left ?t = ?t"
    by (rule trim_left_fix)
  moreover have "trim_right ?t = ?t"
    by (simp add: trim_right.simps [of ?t] trim_right_stop)
  ultimately show ?thesis
    by (simp add: TrimSpace_def)
qed

text \<open>
  \<^verbatim>\<open>strings.ToLower\<close>: ASCII letters by their codes, other runes through \<open>lower\<close>, the table of
  \<^verbatim>\<open>unicode.ToLower\<close>.
\<close>

definition lower_rune :: "(int \<Rightarrow> int) \<Rightarrow> int \<Rightarrow> int" where
  "lower_rune lower r =
     (if r < 128 then (if 65 \<le> r \<and> r \<le> 90 then r + 32 else r) else lower r)"

definition ToLower :: "(int \<Rightarrow> int) \<Rightarrow> string \<Rightarrow> string" where
  "ToLower lower s = concat (map (\<lambda>r. encode_rune (lower_rune lower r)) (runes s))"

definition HasPrefix :: "string \<Rightarrow> string \<Rightarrow> bool" where
  "HasPrefix s p \<longleftrightarrow> take (length p) s = p"

definition HasSuffix :: "string \<Rightarrow> string \<Rightarrow> bool" where
  "HasSuffix s p \<longleftrightarrow> length p \<le> length s \<and> drop (length s - length p) s = p"

fun Contains :: "string \<Rightarrow> string \<Rightarrow> bool" where
  "Contains [] p = (p = [])"
| "Contains (c # s) p = (HasPrefix (c # s) p \<or> Contains s p)"

text \<open>\<^verbatim>\<open>strings.Cut(s, sep)\<close> for a separator of one byte: before, after, found.\<close>

definition Cut :: "string \<Rightarrow> char \<Rightarrow> string \<times> string \<times> bool" where
  "Cut s c =
     (if c \<in> set s then (takeWhile (\<lambda>x. x \<noteq> c) s, tl (dropWhile (\<lambda>x. x \<noteq> c) s), True)
      else (s, [], False))"

definition Count :: "string \<Rightarrow> char \<Rightarrow> nat" where
  "Count s c = length (filter (\<lambda>x. x = c) s)"

text \<open>\<^verbatim>\<open>strings.Split(s, sep)\<close> for a separator of one byte.\<close>

fun Split :: "string \<Rightarrow> char \<Rightarrow> string list" where
  "Split [] c = [[]]"
| "Split (x # s) c =
     (if x = c then [] # Split s c
      else (case Split s c of [] \<Rightarrow> [[x]] | w # ws \<Rightarrow> (x # w) # ws))"

text \<open>\<^verbatim>\<open>strings.Join\<close>.\<close>

fun Join :: "string list \<Rightarrow> string \<Rightarrow> string" where
  "Join [] sep = []"
| "Join [v] sep = v"
| "Join (v # w # vs) sep = v @ sep @ Join (w # vs) sep"

text \<open>
  \<^verbatim>\<open>strings.EqualFold(s, t)\<close> for an ASCII \<open>t\<close>: Unicode folding relates an ASCII letter to its other
  case, and besides only \<open>k\<close> to the Kelvin sign (U+212A) and \<open>s\<close> to the long s (U+017F).
\<close>

definition fold_rune :: "int \<Rightarrow> int" where
  "fold_rune r =
     (if 65 \<le> r \<and> r \<le> 90 then r + 32 else if r = 8490 then 107 else if r = 383 then 115 else r)"

definition EqualFold :: "string \<Rightarrow> string \<Rightarrow> bool" where
  "EqualFold s t \<longleftrightarrow> map fold_rune (runes s) = map fold_rune (runes t)"

lemma HasPrefix_append [simp]: "HasPrefix (p @ s) p"
  by (simp add: HasPrefix_def)

lemma HasPrefix_iff: "HasPrefix s p \<longleftrightarrow> (\<exists>t. s = p @ t)"
  by (metis HasPrefix_def append_eq_conv_conj append_take_drop_id)

lemma Contains_iff: "Contains s p \<longleftrightarrow> (\<exists>u v. s = u @ p @ v)"
proof (induction s)
  case Nil
  then show ?case by simp
next
  case (Cons c s)
  have "(\<exists>u v. c # s = u @ p @ v) \<longleftrightarrow> (\<exists>v. c # s = p @ v) \<or> (\<exists>u v. s = u @ p @ v)"
    (is "?l \<longleftrightarrow> ?r")
  proof
    assume ?l
    then obtain u v where "c # s = u @ p @ v" by blast
    then show ?r by (cases u) auto
  next
    assume ?r
    then show ?l by (metis append.left_neutral append_Cons)
  qed
  with Cons show ?case by (simp add: HasPrefix_iff)
qed

lemma EqualFold_refl [simp]: "EqualFold s s"
  by (simp add: EqualFold_def)

lemma Cut_found: "c \<notin> set u \<Longrightarrow> Cut (u @ c # v) c = (u, v, True)"
proof -
  assume "c \<notin> set u"
  then have "takeWhile (\<lambda>x. x \<noteq> c) (u @ c # v) = u" "dropWhile (\<lambda>x. x \<noteq> c) (u @ c # v) = c # v"
    by (induction u) auto
  then show ?thesis by (simp add: Cut_def)
qed

lemma Cut_TrueD: "Cut s c = (u, v, True) \<Longrightarrow> s = u @ c # v \<and> c \<notin> set u"
proof -
  assume cut: "Cut s c = (u, v, True)"
  then have "c \<in> set s" by (auto simp: Cut_def split: if_splits)
  then obtain x y where "s = x @ c # y" "c \<notin> set x" by (metis split_list_first)
  with cut Cut_found [of c x y] show ?thesis by simp
qed

section \<open>Printable ASCII\<close>

definition graphic :: "char \<Rightarrow> bool" where
  "graphic c \<longleftrightarrow> 33 \<le> byte c \<and> byte c < 127"

lemma graphic_no_space: "graphic c \<Longrightarrow> decode_rune (c # s) = (byte c, 1) \<and> \<not> is_space (byte c)"
  by (auto simp: graphic_def is_space_def decode_rune_ascii)

lemma graphic_suffix:
  assumes "\<forall>c \<in> set s. graphic c" and "0 < k"
  shows "\<not> suffix_is_space k s"
proof (cases "drop (length s - k) s")
  case Nil
  with assms(2) have "s = []" by (cases s) auto
  with assms(2) show ?thesis by (simp add: suffix_is_space_def)
next
  case (Cons c t)
  then have "c \<in> set s" by (metis in_set_dropD list.set_intros(1))
  with assms(1) Cons graphic_no_space show ?thesis by (auto simp: suffix_is_space_def)
qed

lemma TrimSpace_graphic: "\<forall>c \<in> set s. graphic c \<Longrightarrow> TrimSpace s = s"
proof -
  assume g: "\<forall>c \<in> set s. graphic c"
  have "s = [] \<or> \<not> is_space (fst (decode_rune s))"
  proof (cases s)
    case (Cons c t)
    with g graphic_no_space [of c t] show ?thesis by simp
  qed simp
  then have "trim_left s = s" by (rule trim_left_fix)
  moreover have "last_space_width s = 0" by (simp add: last_space_width_def graphic_suffix [OF g])
  then have "trim_right s = s" by (simp add: trim_right.simps [of s])
  ultimately show ?thesis by (simp add: TrimSpace_def)
qed

lemma Split_plain: "c \<notin> set v \<Longrightarrow> Split v c = [v]"
  by (induction v) auto

lemma Split_append: "c \<notin> set v \<Longrightarrow> Split (v @ c # s) c = v # Split s c"
  by (induction v) auto

lemma Split_Join: "vs \<noteq> [] \<Longrightarrow> (\<forall>v \<in> set vs. c \<notin> set v) \<Longrightarrow> Split (Join vs [c]) c = vs"
  by (induction vs "[c]" rule: Join.induct) (auto simp: Split_plain Split_append)

lemma set_Join: "set (Join vs sep) \<subseteq> (\<Union>v \<in> set vs. set v) \<union> set sep"
  by (induction vs sep rule: Join.induct) auto

lemma Join_Nil_iff: "(\<forall>v \<in> set vs. v \<noteq> []) \<Longrightarrow> Join vs sep = [] \<longleftrightarrow> vs = []"
  by (induction vs sep rule: Join.induct) auto

end
