(* ===== verification/Request_Context.thy ===== *)
theory Request_Context
  imports Go_Strings Sha256
begin

text \<open>
  The values a request carries in its \<^verbatim>\<open>context.Context\<close>: the authenticated principal (package
  \<^verbatim>\<open>principal\<close> of the platform module), the request identifier (package \<^verbatim>\<open>requestid\<close>), the active
  profile (package \<^verbatim>\<open>environment\<close>), the idempotency key and the caller's credential. Each
  \<^verbatim>\<open>WithContext\<close> sets the field its \<^verbatim>\<open>FromContext\<close> reads.
\<close>

datatype principal_type = TypeUser | TypeServiceAccount | TypeOther string

record principal =
  pr_ID :: string
  pr_Type :: principal_type
  pr_TenantID :: string

record ctx =
  ctx_principal :: "principal option"
  ctx_request_id :: "string option"
  ctx_environment :: "string option"
  ctx_idempotency_key :: "string option"
  ctx_credential :: "string option"

definition background :: ctx where
  "background = \<lparr>ctx_principal = None, ctx_request_id = None, ctx_environment = None,
     ctx_idempotency_key = None, ctx_credential = None\<rparr>"

section \<open>Request identifiers\<close>

definition requestid_WithContext :: "string \<Rightarrow> ctx \<Rightarrow> ctx" where
  "requestid_WithContext rid c = c\<lparr>ctx_request_id := Some rid\<rparr>"

definition requestid_FromContext :: "ctx \<Rightarrow> string \<times> bool" where
  "requestid_FromContext c =
     (case ctx_request_id c of None \<Rightarrow> ([], False) | Some rid \<Rightarrow> (rid, rid \<noteq> []))"

definition allowedCharacter :: "int \<Rightarrow> bool" where
  "allowedCharacter r \<longleftrightarrow>
     97 \<le> r \<and> r \<le> 122 \<or> 65 \<le> r \<and> r \<le> 90 \<or> 48 \<le> r \<and> r \<le> 57 \<or> r \<in> set (runes ''-_.'')"

definition Valid :: "string \<Rightarrow> bool" where
  "Valid value = (if value = [] \<or> 128 < length value then False else list_all allowedCharacter (runes value))"

text \<open>\<^verbatim>\<open>Generate\<close>: 16 random bytes (\<open>None\<close> when \<^verbatim>\<open>rand.Read\<close> fails) in hexadecimal, or the clock.\<close>

definition Generate :: "bytes option \<Rightarrow> time \<Rightarrow> string" where
  "Generate random unixNano =
     (case random of None \<Rightarrow> ''fallback-'' @ itoa unixNano | Some value \<Rightarrow> hex_encode value)"

section \<open>Environment profile\<close>

definition environment_WithContext :: "string \<Rightarrow> ctx \<Rightarrow> ctx" where
  "environment_WithContext profile c = c\<lparr>ctx_environment := Some profile\<rparr>"

definition environment_FromContext :: "ctx \<Rightarrow> string \<times> bool" where
  "environment_FromContext c =
     (case ctx_environment c of None \<Rightarrow> ([], False) | Some profile \<Rightarrow> (profile, True))"

section \<open>Validity of what is generated\<close>

lemma allowed_dash: "allowedCharacter 45"
  by (simp add: allowedCharacter_def)

lemma allowed_ascii:
  assumes "\<And>c. c \<in> set s \<Longrightarrow> byte c < 128 \<and> allowedCharacter (byte c)"
  shows "list_all allowedCharacter (runes s)"
  using assms by (induction s) auto

lemma hex_digit_allowed:
  "0 \<le> n \<Longrightarrow> n < 16 \<Longrightarrow> byte (hex_digit n) < 128 \<and> allowedCharacter (byte (hex_digit n))"
  by (auto simp: hex_digit_def allowedCharacter_def)

lemma hex_encode_allowed: "c \<in> set (hex_encode s) \<Longrightarrow> byte c < 128 \<and> allowedCharacter (byte c)"
proof -
  assume "c \<in> set (hex_encode s)"
  then obtain x where "x \<in> set s" "c = hex_digit (byte x div 16) \<or> c = hex_digit (byte x mod 16)"
    by (auto simp: hex_encode_def)
  moreover have "0 \<le> byte x div 16" "byte x div 16 < 16" "0 \<le> byte x mod 16" "byte x mod 16 < 16"
    using byte_range [of x] by auto
  ultimately show ?thesis using hex_digit_allowed by metis
qed

lemma decimal_allowed: "c \<in> set (decimal n) \<Longrightarrow> byte c < 128 \<and> allowedCharacter (byte c)"
  using decimal_digits [of c n] by (auto simp: allowedCharacter_def)

lemma itoa_allowed: "c \<in> set (itoa i) \<Longrightarrow> byte c < 128 \<and> allowedCharacter (byte c)"
  by (auto simp: itoa_def allowed_dash dest: decimal_allowed split: if_splits)

lemma length_decimal: "n < 10 ^ k \<Longrightarrow> 0 < k \<Longrightarrow> length (decimal n) \<le> k"
proof (induction k arbitrary: n)
  case 0
  then show ?case by simp
next
  case (Suc k)
  show ?case
  proof (cases "n < 10")
    case True
    then show ?thesis by (simp add: decimal.simps [of n])
  next
    case False
    with Suc.prems have "n div 10 < 10 ^ k" "0 < k" by (auto simp: less_mult_imp_div_less mult.commute intro: ccontr)
    then have "length (decimal (n div 10)) \<le> k" by (rule Suc.IH)
    with False show ?thesis by (simp add: decimal.simps [of n])
  qed
qed

lemma length_itoa: "\<bar>i\<bar> < 10 ^ 19 \<Longrightarrow> length (itoa i) \<le> 20"
  using length_decimal [of "nat i" 19] length_decimal [of "nat (- i)" 19]
  by (auto simp: itoa_def nat_less_iff)

end
