(* ===== verification/Dynamic_Config.thy ===== *)
theory Dynamic_Config
  imports Entry_Store Transactor Request_Context
begin

text \<open>
  The dynamic configuration service (\<^verbatim>\<open>dynamicconfig/service.go\<close>), one definition per method. A
  method takes the service, the request's context, its arguments and the database, and returns
  its result with the database it leaves; the methods that only read return only a result. The
  methods that read an entry and then write it in a transaction are split at the read: the part
  after the read takes the entry as an argument (\<open>publish_current\<close>, \<open>review_current\<close> and so on), so
  that the write can also be run on a database that has changed since.

  The record \<open>service\<close> holds what the Go struct holds, and what the methods call outside the
  repository: the clock, the UUID generator (each method draws at most one), the application
  verifier, the Unicode case table, and the event library of the platform (\<open>s_newEnvelope\<close>,
  \<open>s_marshal\<close>, \<open>s_timestamp\<close>), which may fail.
\<close>

section \<open>Events\<close>

type_synonym timestamp = "int \<times> int"

record proto_entry =
  px_Id :: string
  px_Environment :: string
  px_TenantId :: string
  px_ApplicationId :: string
  px_Service :: string
  px_Key :: string
  px_Value :: bytes
  px_SecretRef :: string
  px_Status :: string
  px_Revision :: int
  px_RolloutPercentage :: int
  px_PublishedRevision :: int
  px_ReviewComment :: string
  px_ReviewedBy :: string
  px_ReviewedAt :: "timestamp option"
  px_Version :: int
  px_CreatedAt :: "timestamp option"
  px_UpdatedAt :: "timestamp option"
  px_CreatedBy :: string
  px_UpdatedBy :: string

record changed_event =
  cc_Entry :: proto_entry
  cc_ChangeType :: string

record event_metadata =
  em_EventID :: string
  em_EventType :: string
  em_AggregateID :: string
  em_AggregateType :: string
  em_TenantID :: string
  em_ApplicationID :: string
  em_SchemaVersion :: int
  em_ActorID :: string
  em_OccurredAt :: time

text \<open>An event envelope of the platform: its identifier, and the rest of it, which is not read.\<close>

datatype envelope = Envelope (GetEventId: string) bytes

section \<open>The service\<close>

record service =
  s_repository :: postgres
  s_transactor :: transactor
  s_now :: time
  s_applications :: "string \<Rightarrow> string \<Rightarrow> gerror option"
  s_uuid :: string
  s_lower :: "int \<Rightarrow> int"
  s_newEnvelope :: "event_metadata \<Rightarrow> changed_event \<Rightarrow> envelope result"
  s_marshal :: "envelope \<Rightarrow> bytes result"
  s_timestamp :: "time \<Rightarrow> timestamp"

definition allowAllApplications :: "string \<Rightarrow> string \<Rightarrow> gerror option" where
  "allowAllApplications tenantID applicationID = None"

text \<open>The constructors: \<open>env\<close> carries the parts of the record that are not arguments in Go.\<close>

definition NewService :: "service \<Rightarrow> postgres \<Rightarrow> transactor \<Rightarrow> service" where
  "NewService env repository transactor =
     env\<lparr>s_repository := repository, s_transactor := transactor, s_applications := allowAllApplications\<rparr>"

definition NewRuntimeService ::
    "service \<Rightarrow> postgres \<Rightarrow> transactor \<Rightarrow> (string \<Rightarrow> string \<Rightarrow> gerror option) option \<Rightarrow> service result" where
  "NewRuntimeService env repository transactor applications =
     (case applications of
        None \<Rightarrow> Inl (Plain ''application verifier is required'')
      | Some verify \<Rightarrow>
          Inr (env\<lparr>s_repository := repository, s_transactor := transactor, s_applications := verify\<rparr>))"

section \<open>Helpers\<close>

definition translate :: "gerror \<Rightarrow> gerror" where
  "translate err =
     (if errors_Is err ErrNotFound then NotFound ''config entry not found''
      else if errors_Is err ErrStaleVersion then StaleVersion err
      else Internal err)"

definition enforceTenant :: "principal \<Rightarrow> string \<Rightarrow> gerror option" where
  [access_defs]: "enforceTenant caller requestedTenantID =
     (if pr_Type caller = TypeUser \<and>
         (TrimSpace (pr_TenantID caller) = [] \<or> pr_TenantID caller \<noteq> TrimSpace requestedTenantID)
      then Some (Forbidden ''tenant access denied'') else None)"

definition verifyApplication :: "service \<Rightarrow> string \<Rightarrow> string \<Rightarrow> gerror option" where
  [access_defs]: "verifyApplication s tenant application =
     (let tenantID = TrimSpace tenant; applicationID = TrimSpace application in
      if applicationID = [] then None
      else if tenantID = [] then Some (Invalid ''application_id requires tenant_id'' None)
      else (case s_applications s tenantID applicationID of
              None \<Rightarrow> None
            | Some err \<Rightarrow>
                if errors_Is err ErrNotGranted then Some (Forbidden ''application access denied'')
                else Some (Unavailable ''application access verification unavailable'' (Some err))))"

text \<open>The sequence every method runs before it acts on a scope: caller, tenant, application.\<close>

definition access :: "service \<Rightarrow> ctx \<Rightarrow> string \<Rightarrow> string \<Rightarrow> principal result" where
  [access_defs]: "access s c tenantID applicationID =
     (case ctx_principal c of
        None \<Rightarrow> Inl (Unauthorized ''authenticated actor is required'')
      | Some caller \<Rightarrow>
        (case enforceTenant caller tenantID of
           Some err \<Rightarrow> Inl err
         | None \<Rightarrow>
           (case verifyApplication s tenantID applicationID of Some err \<Rightarrow> Inl err | None \<Rightarrow> Inr caller)))"

definition sensitiveKey :: "string \<Rightarrow> bool" where
  "sensitiveKey key =
     list_ex (\<lambda>part. Contains key part) [''password'', ''secret'', ''token'', ''private_key'', ''api_key'']"

definition rolloutBucket :: "string \<Rightarrow> string \<Rightarrow> int \<Rightarrow> int" where
  "rolloutBucket subject key revision =
     (let sum = Sum256 (subject @ char_of (0::nat) # key @ itoa revision)
      in (of_char (sum ! 0) * 256 + of_char (sum ! 1)) mod 100)"

definition rolloutHit :: "string \<Rightarrow> string \<Rightarrow> int \<Rightarrow> int \<Rightarrow> bool" where
  "rolloutHit subject key revision percentage =
     (if 100 \<le> percentage then True
      else if percentage \<le> 0 \<or> subject = [] then False
      else rolloutBucket subject key revision < percentage)"

section \<open>Change events\<close>

definition changed_payload :: "service \<Rightarrow> entry \<Rightarrow> string \<Rightarrow> changed_event" where
  "changed_payload s v changeType =
     \<lparr>cc_Entry =
        \<lparr>px_Id = e_ID v, px_Environment = e_Environment v, px_TenantId = e_TenantID v,
         px_ApplicationId = e_ApplicationID v, px_Service = e_Service v, px_Key = e_Key v,
         px_Value = (if e_SecretRef v = [] then e_Value v else []),
         px_SecretRef = e_SecretRef v, px_Status = e_Status v, px_Revision = e_Revision v,
         px_RolloutPercentage = e_RolloutPercentage v, px_PublishedRevision = e_PublishedRevision v,
         px_ReviewComment = e_ReviewComment v, px_ReviewedBy = e_ReviewedBy v,
         px_ReviewedAt = map_option (s_timestamp s) (e_ReviewedAt v), px_Version = e_Version v,
         px_CreatedAt = Some (s_timestamp s (e_CreatedAt v)), px_UpdatedAt = Some (s_timestamp s (e_UpdatedAt v)),
         px_CreatedBy = e_CreatedBy v, px_UpdatedBy = e_UpdatedBy v\<rparr>,
      cc_ChangeType = changeType\<rparr>"

definition changed_metadata :: "service \<Rightarrow> entry \<Rightarrow> string \<Rightarrow> event_metadata" where
  "changed_metadata s v actor =
     \<lparr>em_EventID = s_uuid s, em_EventType = ''platform.config.v1.ConfigChanged'', em_AggregateID = e_ID v,
      em_AggregateType = ''config_entry'', em_TenantID = e_TenantID v, em_ApplicationID = e_ApplicationID v,
      em_SchemaVersion = 1, em_ActorID = actor, em_OccurredAt = e_UpdatedAt v\<rparr>"

definition addChangedEvent :: "service \<Rightarrow> entry \<Rightarrow> string \<Rightarrow> string \<Rightarrow> db \<Rightarrow> db result" where
  "addChangedEvent s v changeType actor d =
     (case s_newEnvelope s (changed_metadata s v actor) (changed_payload s v changeType) of
        Inl err \<Rightarrow> Inl (Wrap ''build config changed event'' err)
      | Inr env \<Rightarrow>
        (case s_marshal s env of
           Inl err \<Rightarrow> Inl (Wrap ''encode config changed event'' err)
         | Inr encoded \<Rightarrow>
             repo_AddOutbox (s_repository s)
               \<lparr>ev_ID = GetEventId env, ev_Subject = ''platform.config.entry.changed.v1'',
                ev_Envelope = encoded, ev_AvailableAt = e_UpdatedAt v, ev_CreatedAt = e_UpdatedAt v,
                ev_UpdatedAt = e_UpdatedAt v, ev_CreatedBy = actor, ev_UpdatedBy = actor\<rparr> d))"

section \<open>Reading one entry\<close>

definition Get :: "service \<Rightarrow> ctx \<Rightarrow> string \<Rightarrow> db \<Rightarrow> entry result" where
  [service_defs]: "Get s c eid d =
     (case repo_Get (s_repository s) (TrimSpace eid) d of
        Inl err \<Rightarrow> Inl (translate err)
      | Inr v \<Rightarrow>
        (case access s c (e_TenantID v) (e_ApplicationID v) of Inl err \<Rightarrow> Inl err | Inr caller \<Rightarrow> Inr v))"

section \<open>Drafts\<close>

text \<open>A transaction whose error is translated, as every write of the service ends.\<close>

definition run_tx :: "service \<Rightarrow> (db \<Rightarrow> ('a \<times> db) result) \<Rightarrow> db \<Rightarrow> 'a result \<times> db" where
  "run_tx s fn d = (case Within (s_transactor s) fn d of (r, d') \<Rightarrow> (map_sum translate (\<lambda>x. x) r, d'))"

definition normalize_draft :: "service \<Rightarrow> entry \<Rightarrow> entry" where
  "normalize_draft s v =
     v\<lparr>e_Environment := ToLower (s_lower s) (TrimSpace (e_Environment v)),
       e_TenantID := TrimSpace (e_TenantID v), e_ApplicationID := TrimSpace (e_ApplicationID v),
       e_Service := ToLower (s_lower s) (TrimSpace (e_Service v)),
       e_Key := ToLower (s_lower s) (TrimSpace (e_Key v)), e_SecretRef := TrimSpace (e_SecretRef v)\<rparr>"

definition draft_error :: "entry \<Rightarrow> gerror option" where
  "draft_error v =
     (if e_Environment v = [] \<or> e_Service v = [] \<or> e_Key v = [] \<or>
         (e_TenantID v = [] \<and> e_ApplicationID v \<noteq> []) \<or>
         e_RolloutPercentage v < 0 \<or> e_RolloutPercentage v > 100
      then Some (Invalid ''invalid config scope or rollout percentage'' None)
      else if (e_Value v = []) = (e_SecretRef v = [])
      then Some (Invalid ''exactly one of value or secret_ref is required'' None)
      else if sensitiveKey (e_Key v) \<and> e_SecretRef v = []
      then Some (Invalid ''sensitive configuration must use secret_ref'' None)
      else None)"

definition new_draft :: "service \<Rightarrow> principal \<Rightarrow> entry \<Rightarrow> entry" where
  "new_draft s caller v =
     v\<lparr>e_ID := s_uuid s, e_Status := ''draft'', e_Revision := 1, e_Version := 1, e_CreatedAt := s_now s,
       e_UpdatedAt := s_now s, e_CreatedBy := pr_ID caller, e_UpdatedBy := pr_ID caller\<rparr>"

definition next_draft :: "service \<Rightarrow> principal \<Rightarrow> entry \<Rightarrow> entry \<Rightarrow> entry" where
  "next_draft s caller v current =
     current\<lparr>e_Value := e_Value v, e_SecretRef := e_SecretRef v, e_Status := ''draft'',
       e_RolloutPercentage := e_RolloutPercentage v, e_Revision := wrap64 (e_Revision current + 1),
       e_UpdatedAt := s_now s, e_UpdatedBy := pr_ID caller,
       e_ReviewComment := [], e_ReviewedBy := [], e_ReviewedAt := None\<rparr>"

text \<open>The part of \<^verbatim>\<open>PutDraft\<close> after \<^verbatim>\<open>GetByScope\<close>, whose answer is \<open>found\<close>.\<close>

definition putDraft_found ::
    "service \<Rightarrow> principal \<Rightarrow> entry \<Rightarrow> int \<Rightarrow> entry result \<Rightarrow> db \<Rightarrow> entry result \<times> db" where
  [service_defs]: "putDraft_found s caller v expectedVersion found d =
     (case found of
        Inl err \<Rightarrow>
          if errors_Is err ErrNotFound then
            run_tx s (\<lambda>d. map_sum (\<lambda>x. x) (\<lambda>d'. (new_draft s caller v, d'))
                            (repo_Insert (s_repository s) (new_draft s caller v) d)) d
          else (Inl (translate err), d)
      | Inr current \<Rightarrow>
          if expectedVersion < 1
          then (Inl (Invalid ''expected_version is required for an existing entry'' None), d)
          else run_tx s (\<lambda>d. map_sum (\<lambda>x. x)
                 (\<lambda>d'. ((next_draft s caller v current)\<lparr>e_Version := wrap64 (expectedVersion + 1)\<rparr>, d'))
                 (repo_Update (s_repository s) (next_draft s caller v current) expectedVersion d)) d)"

definition PutDraft :: "service \<Rightarrow> ctx \<Rightarrow> entry \<Rightarrow> int \<Rightarrow> db \<Rightarrow> entry result \<times> db" where
  [service_defs]: "PutDraft s c value expectedVersion d =
     (let v = normalize_draft s value in
      case draft_error v of
        Some err \<Rightarrow> (Inl err, d)
      | None \<Rightarrow>
        (case access s c (e_TenantID v) (e_ApplicationID v) of
           Inl err \<Rightarrow> (Inl err, d)
         | Inr caller \<Rightarrow>
             putDraft_found s caller v expectedVersion
               (repo_GetByScope (s_repository s) (e_Environment v) (e_TenantID v) (e_ApplicationID v)
                  (e_Service v) (e_Key v) d) d))"

section \<open>Status changes\<close>

definition changeStatus_tx ::
    "service \<Rightarrow> principal \<Rightarrow> entry \<Rightarrow> int \<Rightarrow> string \<Rightarrow> bool \<Rightarrow> db \<Rightarrow> (entry \<times> db) result" where
  "changeStatus_tx s caller current expected statusValue snapshot d =
     (case repo_Update (s_repository s) current expected d of
        Inl err \<Rightarrow> Inl err
      | Inr d1 \<Rightarrow>
        (let current = current\<lparr>e_Version := wrap64 (expected + 1)\<rparr> in
         case (if snapshot then repo_Snapshot (s_repository s) current d1 else Inr d1) of
           Inl err \<Rightarrow> Inl err
         | Inr d2 \<Rightarrow>
             map_sum (\<lambda>x. x) (\<lambda>d3. (current, d3)) (addChangedEvent s current statusValue (pr_ID caller) d2)))"

definition changeStatus ::
    "service \<Rightarrow> ctx \<Rightarrow> entry \<Rightarrow> int \<Rightarrow> string \<Rightarrow> bool \<Rightarrow> db \<Rightarrow> entry result \<times> db" where
  "changeStatus s c current expected statusValue snapshot d =
     (case access s c (e_TenantID current) (e_ApplicationID current) of
        Inl err \<Rightarrow> (Inl err, d)
      | Inr caller \<Rightarrow>
          run_tx s (changeStatus_tx s caller
            (current\<lparr>e_Status := statusValue, e_UpdatedAt := s_now s, e_UpdatedBy := pr_ID caller\<rparr>)
            expected statusValue snapshot) d)"

definition publish_current :: "service \<Rightarrow> ctx \<Rightarrow> int \<Rightarrow> entry \<Rightarrow> db \<Rightarrow> entry result \<times> db" where
  [service_defs]: "publish_current s c expected current d =
     (if e_Status current \<noteq> ''approved''
      then (Inl (Conflict ''only an approved configuration can be published'' None), d)
      else changeStatus s c (current\<lparr>e_PublishedRevision := e_Revision current\<rparr>) expected ''published'' False d)"

definition Publish :: "service \<Rightarrow> ctx \<Rightarrow> string \<Rightarrow> int \<Rightarrow> db \<Rightarrow> entry result \<times> db" where
  [service_defs]: "Publish s c eid expected d =
     (case repo_Get (s_repository s) eid d of
        Inl err \<Rightarrow> (Inl (translate err), d)
      | Inr current \<Rightarrow> publish_current s c expected current d)"

definition submit_current :: "service \<Rightarrow> ctx \<Rightarrow> int \<Rightarrow> entry \<Rightarrow> db \<Rightarrow> entry result \<times> db" where
  [service_defs]: "submit_current s c expected current d =
     (if e_Status current \<noteq> ''draft'' \<and> e_Status current \<noteq> ''rejected''
      then (Inl (Conflict ''only a draft or rejected configuration can be submitted'' None), d)
      else changeStatus s c
             (current\<lparr>e_ReviewComment := [], e_ReviewedBy := [], e_ReviewedAt := None\<rparr>)
             expected ''pending_approval'' True d)"

definition SubmitForApproval :: "service \<Rightarrow> ctx \<Rightarrow> string \<Rightarrow> int \<Rightarrow> db \<Rightarrow> entry result \<times> db" where
  [service_defs]: "SubmitForApproval s c eid expected d =
     (case repo_Get (s_repository s) eid d of
        Inl err \<Rightarrow> (Inl (translate err), d)
      | Inr current \<Rightarrow> submit_current s c expected current d)"

section \<open>Review\<close>

definition review_tx ::
    "service \<Rightarrow> principal \<Rightarrow> entry \<Rightarrow> int \<Rightarrow> string \<Rightarrow> db \<Rightarrow> (entry \<times> db) result" where
  "review_tx s caller current expected statusValue d =
     (case repo_UpdateRevisionReview (s_repository s) current ''pending_approval'' d of
        Inl err \<Rightarrow> Inl err
      | Inr d1 \<Rightarrow>
        (case repo_Update (s_repository s) current expected d1 of
           Inl err \<Rightarrow> Inl err
         | Inr d2 \<Rightarrow>
           (let current = current\<lparr>e_Version := wrap64 (expected + 1)\<rparr> in
            map_sum (\<lambda>x. x) (\<lambda>d3. (current, d3))
              (addChangedEvent s current statusValue (pr_ID caller) d2))))"

definition review_current ::
    "service \<Rightarrow> ctx \<Rightarrow> int \<Rightarrow> string \<Rightarrow> string \<Rightarrow> entry \<Rightarrow> db \<Rightarrow> entry result \<times> db" where
  [service_defs]: "review_current s c expected statusValue comment current d =
     (if e_Status current \<noteq> ''pending_approval''
      then (Inl (Conflict ''configuration is not pending approval'' None), d)
      else case access s c (e_TenantID current) (e_ApplicationID current) of
        Inl err \<Rightarrow> (Inl err, d)
      | Inr caller \<Rightarrow>
          if pr_ID caller = e_UpdatedBy current
          then (Inl (Conflict ''submitter cannot review their own configuration'' None), d)
          else run_tx s (review_tx s caller
                 (current\<lparr>e_Status := statusValue, e_ReviewComment := TrimSpace comment,
                    e_ReviewedBy := pr_ID caller, e_ReviewedAt := Some (s_now s),
                    e_UpdatedAt := s_now s, e_UpdatedBy := pr_ID caller\<rparr>)
                 expected statusValue) d)"

definition review ::
    "service \<Rightarrow> ctx \<Rightarrow> string \<Rightarrow> int \<Rightarrow> string \<Rightarrow> string \<Rightarrow> db \<Rightarrow> entry result \<times> db" where
  [service_defs]: "review s c eid expected statusValue comment d =
     (case repo_Get (s_repository s) eid d of
        Inl err \<Rightarrow> (Inl (translate err), d)
      | Inr current \<Rightarrow> review_current s c expected statusValue comment current d)"

definition Approve :: "service \<Rightarrow> ctx \<Rightarrow> string \<Rightarrow> int \<Rightarrow> string \<Rightarrow> db \<Rightarrow> entry result \<times> db" where
  [service_defs]: "Approve s c eid expected comment d = review s c eid expected ''approved'' comment d"

definition Reject :: "service \<Rightarrow> ctx \<Rightarrow> string \<Rightarrow> int \<Rightarrow> string \<Rightarrow> db \<Rightarrow> entry result \<times> db" where
  [service_defs]: "Reject s c eid expected reason d =
     (if TrimSpace reason = [] then (Inl (Invalid ''rejection reason is required'' None), d)
      else review s c eid expected ''rejected'' reason d)"

section \<open>Rollback\<close>

definition rollback_tx ::
    "service \<Rightarrow> principal \<Rightarrow> entry \<Rightarrow> int \<Rightarrow> db \<Rightarrow> (entry \<times> db) result" where
  "rollback_tx s caller current expected d =
     (case repo_Update (s_repository s) current expected d of
        Inl err \<Rightarrow> Inl err
      | Inr d1 \<Rightarrow>
        (let current = current\<lparr>e_Version := wrap64 (expected + 1)\<rparr> in
         case repo_Snapshot (s_repository s) current d1 of
           Inl err \<Rightarrow> Inl err
         | Inr d2 \<Rightarrow>
             map_sum (\<lambda>x. x) (\<lambda>d3. (current, d3))
               (addChangedEvent s current ''rolled_back'' (pr_ID caller) d2)))"

definition rolled_back :: "entry \<Rightarrow> entry \<Rightarrow> entry" where
  "rolled_back target current =
     (let n = wrap64 (e_Revision current + 1) in
      current\<lparr>e_Value := e_Value target, e_SecretRef := e_SecretRef target,
        e_RolloutPercentage := e_RolloutPercentage target, e_Status := ''published'',
        e_Revision := n, e_PublishedRevision := n\<rparr>)"

definition rollback_current ::
    "service \<Rightarrow> ctx \<Rightarrow> int \<Rightarrow> entry \<Rightarrow> entry \<Rightarrow> db \<Rightarrow> entry result \<times> db" where
  [service_defs]: "rollback_current s c expected target current d =
     (if e_Status target \<noteq> ''approved'' \<and> e_Status target \<noteq> ''published''
      then (Inl (Conflict ''rollback target was not approved'' None), d)
      else case access s c (e_TenantID current) (e_ApplicationID current) of
        Inl err \<Rightarrow> (Inl err, d)
      | Inr caller \<Rightarrow>
          run_tx s (rollback_tx s caller
            ((rolled_back target current)\<lparr>e_UpdatedAt := s_now s, e_UpdatedBy := pr_ID caller\<rparr>) expected) d)"

definition Rollback :: "service \<Rightarrow> ctx \<Rightarrow> string \<Rightarrow> int \<Rightarrow> int \<Rightarrow> db \<Rightarrow> entry result \<times> db" where
  [service_defs]: "Rollback s c eid targetRevision expected d =
     (case repo_GetRevision (s_repository s) eid targetRevision d of
        Inl err \<Rightarrow> (Inl (translate err), d)
      | Inr target \<Rightarrow>
        (case repo_Get (s_repository s) eid d of
           Inl err \<Rightarrow> (Inl (translate err), d)
         | Inr current \<Rightarrow> rollback_current s c expected target current d))"

section \<open>Resolution and listing\<close>

text \<open>The loop that keeps, for each key, the first row that the subject is rolled out to.\<close>

fun select_rows :: "string \<Rightarrow> entry list \<Rightarrow> (string \<rightharpoonup> entry) \<Rightarrow> (string \<rightharpoonup> entry)" where
  "select_rows subject [] selected = selected"
| "select_rows subject (v # vs) selected =
     (if selected (e_Key v) \<noteq> None then select_rows subject vs selected
      else if rolloutHit subject (e_Key v) (e_Revision v) (e_RolloutPercentage v)
      then select_rows subject vs (selected(e_Key v \<mapsto> v))
      else select_rows subject vs selected)"

definition etag_text :: "entry list \<Rightarrow> string" where
  "etag_text vs = concat (map (\<lambda>v. e_ID v @ '':'' @ itoa (e_Revision v) @ '';'') vs)"

definition Resolve ::
    "service \<Rightarrow> ctx \<Rightarrow> string \<Rightarrow> string \<Rightarrow> string \<Rightarrow> string \<Rightarrow> string \<Rightarrow> string list \<Rightarrow> db
      \<Rightarrow> (entry list \<times> string) result" where
  [service_defs]: "Resolve s c environment tenantID applicationID service subject keys d =
     (case access s c tenantID applicationID of
        Inl err \<Rightarrow> Inl err
      | Inr caller \<Rightarrow>
        (case repo_Resolve (s_repository s) environment tenantID applicationID service keys d of
           Inl err \<Rightarrow> Inl (translate err)
         | Inr values \<Rightarrow>
           (let selected = select_rows subject values Map.empty;
                result = List.map_filter selected keys
            in Inr (result, hex_encode (Sum256 (etag_text result))))))"

definition List ::
    "service \<Rightarrow> ctx \<Rightarrow> string \<Rightarrow> string \<Rightarrow> string \<Rightarrow> string \<Rightarrow> int \<Rightarrow> int \<Rightarrow> db \<Rightarrow> page result" where
  [service_defs]: "List s c environment tenantID applicationID service page_arg page_size_arg d =
     (case access s c tenantID applicationID of
        Inl err \<Rightarrow> Inl err
      | Inr caller \<Rightarrow>
        (let page = (if page_arg \<le> 0 then 1 else page_arg);
             pageSize = (if page_size_arg \<le> 0 then 20 else page_size_arg) in
         if pageSize > 100 then Inl (Invalid ''page_size must not exceed 100'' None)
         else (case repo_List (s_repository s) environment tenantID applicationID service pageSize
                      (wrap64 ((page - 1) * pageSize)) d of
                 Inl err \<Rightarrow> Inl (translate err)
               | Inr (values, count) \<Rightarrow>
                   Inr \<lparr>p_Entries = values, p_Total = count, p_Page = page, p_PageSize = pageSize\<rparr>)))"

end
