(* ===== verification/Config_Lifecycle.thy ===== *)
theory Config_Lifecycle
  imports Dynamic_Config
begin

text \<open>
  The service as a state machine over the database. A request is a value of \<open>op\<close> run by \<open>exec\<close>;
  \<open>committed\<close> says, rule by rule, what each kind of request can have changed when it changed
  anything, and \<open>exec_committed\<close> is the refinement: every run of the service either leaves the
  database alone or is one of these steps, whatever the database driver, the event library and
  the application verifier answered. The invariants of the later theories are then proved once
  per rule.
\<close>

section \<open>Requests\<close>

datatype op =
    OpPutDraft entry int
  | OpSubmit string int
  | OpApprove string int string
  | OpReject string int string
  | OpPublish string int
  | OpRollback string int int

fun exec :: "service \<Rightarrow> ctx \<Rightarrow> op \<Rightarrow> db \<Rightarrow> entry result \<times> db" where
  "exec s c (OpPutDraft v n) d = PutDraft s c v n d"
| "exec s c (OpSubmit eid n) d = SubmitForApproval s c eid n d"
| "exec s c (OpApprove eid n comment) d = Approve s c eid n comment d"
| "exec s c (OpReject eid n reason) d = Reject s c eid n reason d"
| "exec s c (OpPublish eid n) d = Publish s c eid n d"
| "exec s c (OpRollback eid target n) d = Rollback s c eid target n d"

section \<open>What a committed request changed\<close>

abbreviation new_row :: "service \<Rightarrow> principal \<Rightarrow> string \<Rightarrow> bytes \<Rightarrow> entry \<Rightarrow> entry" where
  "new_row s caller u w v \<equiv>
     (new_draft s caller v)\<lparr>e_ID := u, e_Value := w,
        e_ReviewedAt := map_option (pg_time (s_repository s)) (e_ReviewedAt v),
        e_CreatedAt := pg_time (s_repository s) (s_now s), e_UpdatedAt := pg_time (s_repository s) (s_now s)\<rparr>"

abbreviation stamped :: "service \<Rightarrow> principal \<Rightarrow> entry \<Rightarrow> entry" where
  "stamped s caller v \<equiv> v\<lparr>e_UpdatedAt := s_now s, e_UpdatedBy := pr_ID caller\<rparr>"

abbreviation submitted_entry :: "service \<Rightarrow> principal \<Rightarrow> entry \<Rightarrow> entry" where
  "submitted_entry s caller x \<equiv>
     x\<lparr>e_ReviewComment := [], e_ReviewedBy := [], e_ReviewedAt := None, e_Status := ''pending_approval'',
       e_UpdatedAt := s_now s, e_UpdatedBy := pr_ID caller\<rparr>"

abbreviation published_entry :: "service \<Rightarrow> principal \<Rightarrow> entry \<Rightarrow> entry" where
  "published_entry s caller x \<equiv>
     x\<lparr>e_PublishedRevision := e_Revision x, e_Status := ''published'',
       e_UpdatedAt := s_now s, e_UpdatedBy := pr_ID caller\<rparr>"

abbreviation reviewed_entry :: "service \<Rightarrow> principal \<Rightarrow> string \<Rightarrow> string \<Rightarrow> entry \<Rightarrow> entry" where
  "reviewed_entry s caller st comment x \<equiv>
     x\<lparr>e_Status := st, e_ReviewComment := TrimSpace comment, e_ReviewedBy := pr_ID caller,
       e_ReviewedAt := Some (s_now s), e_UpdatedAt := s_now s, e_UpdatedBy := pr_ID caller\<rparr>"

text \<open>The outbox row of a change event: unpublished, about this entry, in the name of the caller.\<close>

definition event_row :: "service \<Rightarrow> principal \<Rightarrow> entry \<Rightarrow> string \<Rightarrow> outbox_row \<Rightarrow> bool" where
  "event_row s caller v changeType row \<longleftrightarrow>
     (\<exists>env. s_newEnvelope s (changed_metadata s v (pr_ID caller)) (changed_payload s v changeType) = Inr env \<and>
            s_marshal s env = Inr (ev_Envelope (o_Event row)) \<and> ev_ID (o_Event row) = GetEventId env) \<and>
     ev_Subject (o_Event row) = ''platform.config.entry.changed.v1'' \<and>
     ev_CreatedBy (o_Event row) = pr_ID caller \<and> o_PublishedAt row = None"

inductive committed :: "service \<Rightarrow> ctx \<Rightarrow> op \<Rightarrow> db \<Rightarrow> db \<Rightarrow> bool" for s c where
  create: "v = normalize_draft s v0 \<Longrightarrow> draft_error v = None \<Longrightarrow>
     access s c (e_TenantID v) (e_ApplicationID v) = Inr caller \<Longrightarrow>
     scope_of v \<notin> scope_of ` set (entries d) \<Longrightarrow> pg_uuid (s_repository s) (s_uuid s) = Some u \<Longrightarrow>
     u \<notin> e_ID ` set (entries d) \<Longrightarrow> json_column (s_repository s) (e_Value v) = Some w \<Longrightarrow>
     entry_check (new_row s caller u w v) \<Longrightarrow>
     committed s c (OpPutDraft v0 n) d (d\<lparr>entries := entries d @ [new_row s caller u w v]\<rparr>)"
| redraft: "v = normalize_draft s v0 \<Longrightarrow> draft_error v = None \<Longrightarrow> x \<in> set (entries d) \<Longrightarrow>
     scope_of x = scope_of v \<Longrightarrow> access s c (e_TenantID x) (e_ApplicationID x) = Inr caller \<Longrightarrow>
     e_Version x = n \<Longrightarrow> 1 \<le> n \<Longrightarrow> n < max_int64 \<Longrightarrow> json_column (s_repository s) (e_Value v) = Some w \<Longrightarrow>
     x' = set_columns (s_repository s) (next_draft s caller v x) w x \<Longrightarrow> entry_check x' \<Longrightarrow>
     committed s c (OpPutDraft v0 n) d (d\<lparr>entries := replace_entry x' (entries d)\<rparr>)"
| submit: "x \<in> set (entries d) \<Longrightarrow> pg_uuid (s_repository s) eid = Some (e_ID x) \<Longrightarrow>
     e_Status x = ''draft'' \<or> e_Status x = ''rejected'' \<Longrightarrow>
     access s c (e_TenantID x) (e_ApplicationID x) = Inr caller \<Longrightarrow>
     e_Version x = n \<Longrightarrow> n < max_int64 \<Longrightarrow> json_column (s_repository s) (e_Value x) = Some w \<Longrightarrow>
     x' = set_columns (s_repository s) (submitted_entry s caller x) w x \<Longrightarrow> entry_check x' \<Longrightarrow>
     (e_ID x, e_Revision x) \<notin> rev_key ` set (revisions d) \<Longrightarrow>
     event_row s caller ((submitted_entry s caller x)\<lparr>e_Version := wrap64 (n + 1)\<rparr>) ''pending_approval'' row \<Longrightarrow>
     committed s c (OpSubmit eid n) d
       (d\<lparr>entries := replace_entry x' (entries d),
          revisions := revisions d @ [snapshot_row (s_repository s) (e_ID x) w (submitted_entry s caller x)],
          outbox := outbox d @ [row]\<rparr>)"
| publish: "x \<in> set (entries d) \<Longrightarrow> pg_uuid (s_repository s) eid = Some (e_ID x) \<Longrightarrow>
     e_Status x = ''approved'' \<Longrightarrow> access s c (e_TenantID x) (e_ApplicationID x) = Inr caller \<Longrightarrow>
     e_Version x = n \<Longrightarrow> n < max_int64 \<Longrightarrow> json_column (s_repository s) (e_Value x) = Some w \<Longrightarrow>
     x' = set_columns (s_repository s) (published_entry s caller x) w x \<Longrightarrow> entry_check x' \<Longrightarrow>
     event_row s caller ((published_entry s caller x)\<lparr>e_Version := wrap64 (n + 1)\<rparr>) ''published'' row \<Longrightarrow>
     committed s c (OpPublish eid n) d
       (d\<lparr>entries := replace_entry x' (entries d), outbox := outbox d @ [row]\<rparr>)"
| review: "x \<in> set (entries d) \<Longrightarrow> pg_uuid (s_repository s) eid = Some (e_ID x) \<Longrightarrow>
     e_Status x = ''pending_approval'' \<Longrightarrow> access s c (e_TenantID x) (e_ApplicationID x) = Inr caller \<Longrightarrow>
     pr_ID caller \<noteq> e_UpdatedBy x \<Longrightarrow> e_Version x = n \<Longrightarrow> n < max_int64 \<Longrightarrow>
     json_column (s_repository s) (e_Value x) = Some w \<Longrightarrow>
     q = OpApprove eid n comment \<and> st = ''approved'' \<or>
       q = OpReject eid n comment \<and> st = ''rejected'' \<and> TrimSpace comment \<noteq> [] \<Longrightarrow>
     x' = set_columns (s_repository s) (reviewed_entry s caller st comment x) w x \<Longrightarrow> entry_check x' \<Longrightarrow>
     r \<in> set (revisions d) \<Longrightarrow> r_EntryID r = e_ID x \<Longrightarrow> r_Revision r = e_Revision x \<Longrightarrow>
     r_Status r = ''pending_approval'' \<Longrightarrow>
     event_row s caller ((reviewed_entry s caller st comment x)\<lparr>e_Version := wrap64 (n + 1)\<rparr>) st row \<Longrightarrow>
     committed s c q d
       (d\<lparr>entries := replace_entry x' (entries d),
          revisions := replace_revision (set_review (s_repository s) (reviewed_entry s caller st comment x) r)
                         (revisions d),
          outbox := outbox d @ [row]\<rparr>)"
| rollback: "x \<in> set (entries d) \<Longrightarrow> pg_uuid (s_repository s) eid = Some (e_ID x) \<Longrightarrow>
     r \<in> set (revisions d) \<Longrightarrow> r_EntryID r = e_ID x \<Longrightarrow> r_Revision r = targetRevision \<Longrightarrow>
     r_Status r = ''approved'' \<or> r_Status r = ''published'' \<Longrightarrow>
     access s c (e_TenantID x) (e_ApplicationID x) = Inr caller \<Longrightarrow>
     e_Version x = n \<Longrightarrow> n < max_int64 \<Longrightarrow> json_column (s_repository s) (r_Value r) = Some w \<Longrightarrow>
     cur = stamped s caller (rolled_back (revision_view x r) x) \<Longrightarrow>
     x' = set_columns (s_repository s) cur w x \<Longrightarrow> entry_check x' \<Longrightarrow>
     (e_ID x, e_Revision cur) \<notin> rev_key ` set (revisions d) \<Longrightarrow>
     event_row s caller (cur\<lparr>e_Version := wrap64 (n + 1)\<rparr>) ''rolled_back'' row \<Longrightarrow>
     committed s c (OpRollback eid targetRevision n) d
       (d\<lparr>entries := replace_entry x' (entries d),
          revisions := revisions d @ [snapshot_row (s_repository s) (e_ID x) w cur],
          outbox := outbox d @ [row]\<rparr>)"

section \<open>Every run is such a step or changes nothing\<close>

definition ids_canonical :: "postgres \<Rightarrow> db \<Rightarrow> bool" where
  "ids_canonical pg d \<longleftrightarrow> (\<forall>e \<in> set (entries d). pg_uuid pg (e_ID e) = Some (e_ID e))"

lemma run_tx_cases: "run_tx s fn d = (r, d') \<Longrightarrow> d' = d \<or> (\<exists>a. fn d = Inr (a, d'))"
  using transactor_within.all_or_nothing [of "s_transactor s" fn d]
  by (auto simp: run_tx_def split: prod.splits)

lemma update_own_row:
  assumes "repo_Update pg v n d = Inr d'" and "schema_ok d" and "x \<in> set (entries d)"
    and "ids_canonical pg d" and "e_ID v = e_ID x"
  shows "\<exists>w. json_column pg (e_Value v) = Some w \<and> e_Version x = n \<and> n < max_int64 \<and>
     entry_check (set_columns pg v w x) \<and>
     d' = d\<lparr>entries := replace_entry (set_columns pg v w x) (entries d)\<rparr>"
proof -
  obtain w y where y: "pg_uuid pg (e_ID v) = Some (e_ID y)" "json_column pg (e_Value v) = Some w"
    "y \<in> set (entries d)" "e_Version y = n" "n < max_int64" "entry_check (set_columns pg v w y)"
    "d' = d\<lparr>entries := replace_entry (set_columns pg v w y) (entries d)\<rparr>"
    by (rule repo_Update_Inr [OF assms(1,2)])
  from assms(3,4,5) y(1) have "e_ID y = e_ID x"
    by (simp add: ids_canonical_def)
  with entry_unique [OF assms(2) y(3) assms(3)] y show ?thesis by auto
qed

lemma addChangedEvent_Inr:
  assumes "addChangedEvent s v changeType (pr_ID caller) d = Inr d'"
  shows "\<exists>row. d' = d\<lparr>outbox := outbox d @ [row]\<rparr> \<and> event_row s caller v changeType row"
proof -
  from assms obtain env encoded where
    env: "s_newEnvelope s (changed_metadata s v (pr_ID caller)) (changed_payload s v changeType) = Inr env"
    "s_marshal s env = Inr encoded"
    and add: "repo_AddOutbox (s_repository s)
               \<lparr>ev_ID = GetEventId env, ev_Subject = ''platform.config.entry.changed.v1'',
                ev_Envelope = encoded, ev_AvailableAt = e_UpdatedAt v, ev_CreatedAt = e_UpdatedAt v,
                ev_UpdatedAt = e_UpdatedAt v, ev_CreatedBy = pr_ID caller, ev_UpdatedBy = pr_ID caller\<rparr> d = Inr d'"
    by (auto simp: addChangedEvent_def split: sum.splits)
  show ?thesis
    by (rule repo_AddOutbox_Inr [OF add]) (use env in \<open>auto simp: event_row_def\<close>)
qed

lemma snapshot_own_row:
  assumes "repo_Snapshot pg v d = Inr d'" and "pg_uuid pg (e_ID v) = Some (e_ID v)"
    and "json_column pg (e_Value v) = Some w"
  shows "(e_ID v, e_Revision v) \<notin> rev_key ` set (revisions d) \<and>
     d' = d\<lparr>revisions := revisions d @ [snapshot_row pg (e_ID v) w v]\<rparr>"
  by (rule repo_Snapshot_Inr [OF assms(1)]) (use assms(2,3) in auto)

lemma map_sum_Inr_iff [simp]: "map_sum f g r = Inr y \<longleftrightarrow> (\<exists>z. r = Inr z \<and> g z = y)"
  by (cases r) auto

lemma changeStatus_tx_Inr:
  assumes "changeStatus_tx s caller v n st snapshot d = Inr (a, d')"
    and "schema_ok d" and "x \<in> set (entries d)" and "ids_canonical (s_repository s) d" and "e_ID v = e_ID x"
  shows "\<exists>w row. json_column (s_repository s) (e_Value v) = Some w \<and> e_Version x = n \<and> n < max_int64 \<and>
     entry_check (set_columns (s_repository s) v w x) \<and> a = v\<lparr>e_Version := wrap64 (n + 1)\<rparr> \<and>
     event_row s caller (v\<lparr>e_Version := wrap64 (n + 1)\<rparr>) st row \<and>
     (snapshot \<longrightarrow> (e_ID x, e_Revision v) \<notin> rev_key ` set (revisions d)) \<and>
     d' = d\<lparr>entries := replace_entry (set_columns (s_repository s) v w x) (entries d),
            revisions := revisions d @ (if snapshot then [snapshot_row (s_repository s) (e_ID x) w v] else []),
            outbox := outbox d @ [row]\<rparr>"
proof -
  let ?pg = "s_repository s" and ?v = "v\<lparr>e_Version := wrap64 (n + 1)\<rparr>"
  from assms(1) obtain d1 where u: "repo_Update ?pg v n d = Inr d1"
    by (cases "repo_Update ?pg v n d") (simp_all add: changeStatus_tx_def)
  with assms(1) obtain d2 where sn: "(if snapshot then repo_Snapshot ?pg ?v d1 else Inr d1) = Inr d2"
    by (cases "if snapshot then repo_Snapshot ?pg ?v d1 else Inr d1") (simp_all add: changeStatus_tx_def Let_def)
  with assms(1) u have ev: "addChangedEvent s ?v st (pr_ID caller) d2 = Inr d'" and a: "a = ?v"
    by (auto simp: changeStatus_tx_def Let_def)
  from update_own_row [OF u assms(2-5)] obtain w where w: "json_column ?pg (e_Value v) = Some w"
    "e_Version x = n" "n < max_int64" "entry_check (set_columns ?pg v w x)"
    "d1 = d\<lparr>entries := replace_entry (set_columns ?pg v w x) (entries d)\<rparr>" by blast
  have can: "pg_uuid ?pg (e_ID ?v) = Some (e_ID ?v)"
    using assms(3,4,5) by (simp add: ids_canonical_def)
  have d2: "d2 = d1\<lparr>revisions := revisions d @ (if snapshot then [snapshot_row ?pg (e_ID x) w v] else [])\<rparr> \<and>
      (snapshot \<longrightarrow> (e_ID x, e_Revision v) \<notin> rev_key ` set (revisions d))"
    using sn snapshot_own_row [of ?pg ?v d1 d2 w, OF _ can] w(1,5) assms(5)
    by (auto simp: snapshot_row_def split: if_splits)
  from addChangedEvent_Inr [OF ev] obtain row where "d' = d2\<lparr>outbox := outbox d2 @ [row]\<rparr>"
    "event_row s caller ?v st row" by blast
  with w d2 a show ?thesis by auto
qed

lemma review_tx_Inr:
  assumes "review_tx s caller v n st d = Inr (a, d')"
    and "schema_ok d" and "x \<in> set (entries d)" and "ids_canonical (s_repository s) d" and "e_ID v = e_ID x"
  shows "\<exists>w row r. json_column (s_repository s) (e_Value v) = Some w \<and> e_Version x = n \<and> n < max_int64 \<and>
     entry_check (set_columns (s_repository s) v w x) \<and> a = v\<lparr>e_Version := wrap64 (n + 1)\<rparr> \<and>
     event_row s caller (v\<lparr>e_Version := wrap64 (n + 1)\<rparr>) st row \<and>
     r \<in> set (revisions d) \<and> r_EntryID r = e_ID x \<and> r_Revision r = e_Revision v \<and>
     r_Status r = ''pending_approval'' \<and>
     d' = d\<lparr>entries := replace_entry (set_columns (s_repository s) v w x) (entries d),
            revisions := replace_revision (set_review (s_repository s) v r) (revisions d),
            outbox := outbox d @ [row]\<rparr>"
proof -
  let ?pg = "s_repository s" and ?v = "v\<lparr>e_Version := wrap64 (n + 1)\<rparr>"
  from assms(1) obtain d1 where rv: "repo_UpdateRevisionReview ?pg v ''pending_approval'' d = Inr d1"
    by (cases "repo_UpdateRevisionReview ?pg v ''pending_approval'' d") (simp_all add: review_tx_def)
  with assms(1) obtain d2 where u: "repo_Update ?pg v n d1 = Inr d2"
    by (cases "repo_Update ?pg v n d1") (simp_all add: review_tx_def)
  with assms(1) rv have ev: "addChangedEvent s ?v st (pr_ID caller) d2 = Inr d'" and a: "a = ?v"
    by (auto simp: review_tx_def Let_def)
  obtain r where r: "pg_uuid ?pg (e_ID v) = Some (r_EntryID r)" "r \<in> set (revisions d)"
    "r_Revision r = e_Revision v" "r_Status r = ''pending_approval''"
    "d1 = d\<lparr>revisions := replace_revision (set_review ?pg v r) (revisions d)\<rparr>"
    by (rule repo_UpdateRevisionReview_Inr [OF rv assms(2)])
  have rid: "r_EntryID r = e_ID x"
    using assms(3,4,5) r(1) by (simp add: ids_canonical_def)
  have "schema_ok d1" "x \<in> set (entries d1)" "ids_canonical ?pg d1"
    using repo_UpdateRevisionReview_schema [OF rv assms(2)] assms(3,4) r(5) by (auto simp: ids_canonical_def)
  from update_own_row [OF u this assms(5)] obtain w where w: "json_column ?pg (e_Value v) = Some w"
    "e_Version x = n" "n < max_int64" "entry_check (set_columns ?pg v w x)"
    "d2 = d1\<lparr>entries := replace_entry (set_columns ?pg v w x) (entries d1)\<rparr>" by blast
  from addChangedEvent_Inr [OF ev] obtain row where d': "d' = d2\<lparr>outbox := outbox d2 @ [row]\<rparr>"
    and row: "event_row s caller ?v st row" by blast
  have "d' = d\<lparr>entries := replace_entry (set_columns ?pg v w x) (entries d),
      revisions := replace_revision (set_review ?pg v r) (revisions d), outbox := outbox d @ [row]\<rparr>"
    unfolding d' w(5) r(5) by simp
  with w(1-4) r(2-4) rid a row show ?thesis by blast
qed

lemma rollback_tx_eq:
  "rollback_tx s caller v n d = changeStatus_tx s caller v n ''rolled_back'' True d"
  by (simp only: rollback_tx_def changeStatus_tx_def if_True)

lemma putDraft_committed:
  assumes "PutDraft s c v0 n d = (r, d')" and "schema_ok d" and "ids_canonical (s_repository s) d"
  shows "d' = d \<or> committed s c (OpPutDraft v0 n) d d'"
proof (rule disjCI)
  assume "\<not> committed s c (OpPutDraft v0 n) d d'"
  define v where "v = normalize_draft s v0"
  let ?pg = "s_repository s"
  let ?found = "repo_GetByScope ?pg (e_Environment v) (e_TenantID v) (e_ApplicationID v) (e_Service v) (e_Key v) d"
  show "d' = d"
  proof (rule ccontr)
    assume ne: "d' \<noteq> d"
    with assms(1) obtain caller where ok: "draft_error v = None"
      "access s c (e_TenantID v) (e_ApplicationID v) = Inr caller"
      and run: "putDraft_found s caller v n ?found d = (r, d')"
      by (auto simp: PutDraft_def Let_def v_def split: option.splits sum.splits)
    show False
    proof (cases ?found)
      case (Inl err)
      with run ne obtain a where "map_sum (\<lambda>x. x) (\<lambda>d'. (new_draft s caller v, d'))
          (repo_Insert ?pg (new_draft s caller v) d) = Inr (a, d')"
        by (auto simp: putDraft_found_def split: if_splits dest!: run_tx_cases)
      then have ins: "repo_Insert ?pg (new_draft s caller v) d = Inr d'" by auto
      then obtain u w where nd: "pg_uuid ?pg (s_uuid s) = Some u" "json_column ?pg (e_Value v) = Some w"
        "u \<notin> e_ID ` set (entries d)" "scope_of v \<notin> scope_of ` set (entries d)"
        "entry_check (new_row s caller u w v)"
        "d' = d\<lparr>entries := entries d @ [new_row s caller u w v]\<rparr>"
        by (rule repo_Insert_Inr) (simp add: new_draft_def scope_of_def entry_check_def)
      from committed.create [OF v_def ok nd(4,1,3,2,5)] nd(6) \<open>\<not> committed s c (OpPutDraft v0 n) d d'\<close>
      show False by simp
    next
      case (Inr x)
      with repo_GetByScope_Inr have x: "x \<in> set (entries d)" "scope_of x = scope_of v"
        by (fastforce simp: scope_of_def)+
      let ?x = "next_draft s caller v x"
      from run Inr ne have n: "1 \<le> n" and "\<exists>a. map_sum (\<lambda>x. x)
          (\<lambda>d'. (?x\<lparr>e_Version := wrap64 (n + 1)\<rparr>, d')) (repo_Update ?pg ?x n d) = Inr (a, d')"
        by (auto simp: putDraft_found_def split: if_splits dest!: run_tx_cases)
      then have upd: "repo_Update ?pg ?x n d = Inr d'" by auto
      have "e_ID ?x = e_ID x" and val: "e_Value ?x = e_Value v" by (simp_all add: next_draft_def)
      from update_own_row [OF upd assms(2) x(1) assms(3) this(1)] val
      obtain w where w: "json_column ?pg (e_Value v) = Some w" "e_Version x = n" "n < max_int64"
        "entry_check (set_columns ?pg ?x w x)"
        "d' = d\<lparr>entries := replace_entry (set_columns ?pg ?x w x) (entries d)\<rparr>" by auto
      have "access s c (e_TenantID x) (e_ApplicationID x) = Inr caller"
        using ok(2) x(2) by (simp add: scope_of_def)
      from committed.redraft [OF v_def ok(1) x this w(2) n w(3,1) refl w(4)] w(5)
        \<open>\<not> committed s c (OpPutDraft v0 n) d d'\<close>
      show False by simp
    qed
  qed
qed

lemma changeStatus_cases:
  assumes "changeStatus s c v n st snapshot d = (r, d')" and "d' \<noteq> d"
  obtains caller a where "access s c (e_TenantID v) (e_ApplicationID v) = Inr caller"
    and "changeStatus_tx s caller (v\<lparr>e_Status := st, e_UpdatedAt := s_now s, e_UpdatedBy := pr_ID caller\<rparr>)
           n st snapshot d = Inr (a, d')"
  using assms by (auto simp: changeStatus_def split: sum.splits dest!: run_tx_cases)

lemma submit_committed:
  assumes "SubmitForApproval s c eid n d = (r, d')" and "schema_ok d" and "ids_canonical (s_repository s) d"
    and ne: "d' \<noteq> d"
  shows "committed s c (OpSubmit eid n) d d'"
proof -
  from assms(1) ne obtain x where g: "repo_Get (s_repository s) eid d = Inr x"
    and run: "submit_current s c n x d = (r, d')"
    by (auto simp: SubmitForApproval_def split: sum.splits)
  from repo_Get_Inr [OF g] have x: "x \<in> set (entries d)" "pg_uuid (s_repository s) eid = Some (e_ID x)" by auto
  from run ne have st: "e_Status x = ''draft'' \<or> e_Status x = ''rejected''"
    and run': "changeStatus s c (x\<lparr>e_ReviewComment := [], e_ReviewedBy := [], e_ReviewedAt := None\<rparr>)
             n ''pending_approval'' True d = (r, d')"
    by (auto simp: submit_current_def split: if_splits)
  from changeStatus_cases [OF run' ne] obtain caller a
    where acc: "access s c (e_TenantID x) (e_ApplicationID x) = Inr caller"
    and tx: "changeStatus_tx s caller (submitted_entry s caller x) n ''pending_approval'' True d = Inr (a, d')"
    by auto
  from changeStatus_tx_Inr [OF tx assms(2) x(1) assms(3)] obtain w row
    where "json_column (s_repository s) (e_Value x) = Some w" "e_Version x = n" "n < max_int64"
      "entry_check (set_columns (s_repository s) (submitted_entry s caller x) w x)"
      "event_row s caller ((submitted_entry s caller x)\<lparr>e_Version := wrap64 (n + 1)\<rparr>) ''pending_approval'' row"
      "(e_ID x, e_Revision x) \<notin> rev_key ` set (revisions d)"
      "d' = d\<lparr>entries := replace_entry (set_columns (s_repository s) (submitted_entry s caller x) w x) (entries d),
            revisions := revisions d @ [snapshot_row (s_repository s) (e_ID x) w (submitted_entry s caller x)],
            outbox := outbox d @ [row]\<rparr>"
    by auto
  then show ?thesis using committed.submit [OF x st acc] by simp
qed

lemma publish_committed:
  assumes "Publish s c eid n d = (r, d')" and "schema_ok d" and "ids_canonical (s_repository s) d"
    and ne: "d' \<noteq> d"
  shows "committed s c (OpPublish eid n) d d'"
proof -
  from assms(1) ne obtain x where g: "repo_Get (s_repository s) eid d = Inr x"
    and run: "publish_current s c n x d = (r, d')"
    by (auto simp: Publish_def split: sum.splits)
  from repo_Get_Inr [OF g] have x: "x \<in> set (entries d)" "pg_uuid (s_repository s) eid = Some (e_ID x)" by auto
  from run ne have st: "e_Status x = ''approved''"
    and run': "changeStatus s c (x\<lparr>e_PublishedRevision := e_Revision x\<rparr>) n ''published'' False d = (r, d')"
    by (auto simp: publish_current_def split: if_splits)
  from changeStatus_cases [OF run' ne] obtain caller a
    where acc: "access s c (e_TenantID x) (e_ApplicationID x) = Inr caller"
    and tx: "changeStatus_tx s caller (published_entry s caller x) n ''published'' False d = Inr (a, d')"
    by auto
  from changeStatus_tx_Inr [OF tx assms(2) x(1) assms(3)] obtain w row
    where "json_column (s_repository s) (e_Value x) = Some w" "e_Version x = n" "n < max_int64"
      "entry_check (set_columns (s_repository s) (published_entry s caller x) w x)"
      "event_row s caller ((published_entry s caller x)\<lparr>e_Version := wrap64 (n + 1)\<rparr>) ''published'' row"
      "d' = d\<lparr>entries := replace_entry (set_columns (s_repository s) (published_entry s caller x) w x) (entries d),
            outbox := outbox d @ [row]\<rparr>"
    by auto
  then show ?thesis using committed.publish [OF x st acc] by simp
qed

lemma review_committed:
  assumes "review s c eid n st comment d = (r, d')" and "schema_ok d" and "ids_canonical (s_repository s) d"
    and ne: "d' \<noteq> d"
    and q: "q = OpApprove eid n comment \<and> st = ''approved'' \<or>
       q = OpReject eid n comment \<and> st = ''rejected'' \<and> TrimSpace comment \<noteq> []"
  shows "committed s c q d d'"
proof -
  from assms(1) ne obtain x where g: "repo_Get (s_repository s) eid d = Inr x"
    and run: "review_current s c n st comment x d = (r, d')"
    by (auto simp: review_def split: sum.splits)
  from repo_Get_Inr [OF g] have x: "x \<in> set (entries d)" "pg_uuid (s_repository s) eid = Some (e_ID x)" by auto
  from run ne obtain caller a where st: "e_Status x = ''pending_approval''"
    and acc: "access s c (e_TenantID x) (e_ApplicationID x) = Inr caller"
    and self: "pr_ID caller \<noteq> e_UpdatedBy x"
    and tx: "review_tx s caller (reviewed_entry s caller st comment x) n st d = Inr (a, d')"
    by (auto simp: review_current_def split: if_splits sum.splits dest!: run_tx_cases)
  from review_tx_Inr [OF tx assms(2) x(1) assms(3)] obtain w row z
    where w: "json_column (s_repository s) (e_Value x) = Some w" "e_Version x = n" "n < max_int64"
      "entry_check (set_columns (s_repository s) (reviewed_entry s caller st comment x) w x)"
    and ev: "event_row s caller ((reviewed_entry s caller st comment x)\<lparr>e_Version := wrap64 (n + 1)\<rparr>) st row"
    and z: "z \<in> set (revisions d)" "r_EntryID z = e_ID x" "r_Revision z = e_Revision x"
      "r_Status z = ''pending_approval''"
    and d': "d' = d\<lparr>entries := replace_entry (set_columns (s_repository s) (reviewed_entry s caller st comment x) w x) (entries d),
            revisions := replace_revision (set_review (s_repository s) (reviewed_entry s caller st comment x) z) (revisions d),
            outbox := outbox d @ [row]\<rparr>"
    by auto
  show ?thesis
    unfolding d' by (rule committed.review [OF x st acc self w(2,3,1) q refl w(4) z ev])
qed

lemma rollback_committed:
  assumes "Rollback s c eid t n d = (r, d')" and "schema_ok d" and "ids_canonical (s_repository s) d"
    and ne: "d' \<noteq> d"
  shows "committed s c (OpRollback eid t n) d d'"
proof -
  from assms(1) ne obtain y x where gr: "repo_GetRevision (s_repository s) eid t d = Inr y"
    and g: "repo_Get (s_repository s) eid d = Inr x"
    and run: "rollback_current s c n y x d = (r, d')"
    by (auto simp: Rollback_def split: sum.splits)
  from repo_Get_Inr [OF g] have x: "x \<in> set (entries d)" "pg_uuid (s_repository s) eid = Some (e_ID x)" by auto
  from repo_GetRevision_Inr [OF gr] obtain e z where z: "y = revision_view e z" "e \<in> set (entries d)"
    "z \<in> set (revisions d)" "r_EntryID z = e_ID e" "pg_uuid (s_repository s) eid = Some (e_ID e)"
    "r_Revision z = t" by blast
  from entry_unique [OF assms(2) z(2) x(1)] x(2) z(5) have e: "e = x" by simp
  let ?cur = "\<lambda>caller. stamped s caller (rolled_back (revision_view x z) x)"
  have same: "e_ID (?cur p) = e_ID x" "e_Value (?cur p) = r_Value z" for p
    by (simp_all add: rolled_back_def revision_view_def Let_def)
  from run ne z(1) e obtain caller a where st: "r_Status z = ''approved'' \<or> r_Status z = ''published''"
    and acc: "access s c (e_TenantID x) (e_ApplicationID x) = Inr caller"
    and tx: "changeStatus_tx s caller (?cur caller) n ''rolled_back'' True d = Inr (a, d')"
    by (auto simp: rollback_current_def revision_view_def rollback_tx_eq
        split: if_splits sum.splits dest!: run_tx_cases)
  from changeStatus_tx_Inr [OF tx assms(2) x(1) assms(3) same(1)] same obtain w row
    where w: "json_column (s_repository s) (r_Value z) = Some w" "e_Version x = n" "n < max_int64"
      "entry_check (set_columns (s_repository s) (?cur caller) w x)"
    and ev: "event_row s caller ((?cur caller)\<lparr>e_Version := wrap64 (n + 1)\<rparr>) ''rolled_back'' row"
    and fresh: "(e_ID x, e_Revision (?cur caller)) \<notin> rev_key ` set (revisions d)"
    and d': "d' = d\<lparr>entries := replace_entry (set_columns (s_repository s) (?cur caller) w x) (entries d),
            revisions := revisions d @ [snapshot_row (s_repository s) (e_ID x) w (?cur caller)],
            outbox := outbox d @ [row]\<rparr>"
    by auto
  show ?thesis
    unfolding d'
    by (rule committed.rollback [OF x z(3) _ z(6) st acc w(2,3,1) refl refl w(4) fresh ev])
      (use z(4) e in simp)
qed

text \<open>The refinement: a request runs as one of the steps of \<open>committed\<close> or leaves the database unchanged.\<close>

theorem exec_committed:
  assumes "exec s c q d = (r, d')" and "schema_ok d" and "ids_canonical (s_repository s) d"
  shows "d' = d \<or> committed s c q d d'"
  using assms
  by (cases q)
    (auto simp: Approve_def Reject_def split: if_splits
      dest: putDraft_committed submit_committed publish_committed rollback_committed
      intro: review_committed)

end
