(* ===== verification/Approval_Invariant.thy ===== *)
theory Approval_Invariant
  imports Config_Lifecycle
begin

text \<open>
  The history of an entry and what every request keeps of it: the revision counter, the status
  machine, the row of \<^verbatim>\<open>config_revisions\<close> that each status rests on, and the approval behind every
  published revision. The invariant is proved for each rule of \<open>committed\<close>, and from there for
  every database that requests can reach from the empty one.
\<close>

section \<open>The invariant\<close>

definition revs_of :: "db \<Rightarrow> string \<Rightarrow> revision set" where
  "revs_of d u = {r \<in> set (revisions d). r_EntryID r = u}"

definition same_content :: "revision \<Rightarrow> revision \<Rightarrow> bool" where
  "same_content r r' \<longleftrightarrow>
     r_Value r = r_Value r' \<and> r_SecretRef r = r_SecretRef r' \<and> r_RolloutPercentage r = r_RolloutPercentage r'"

definition content_of :: "entry \<Rightarrow> revision \<Rightarrow> bool" where
  "content_of e r \<longleftrightarrow>
     e_Value e = r_Value r \<and> e_SecretRef e = r_SecretRef r \<and> e_RolloutPercentage e = r_RolloutPercentage r"

definition statuses :: "string list" where
  "statuses = [''pending_approval'', ''approved'', ''rejected'', ''published'']"

text \<open>The counters of an entry: positive, within a \<^verbatim>\<open>BIGINT\<close>, the revision no larger than the version.\<close>

definition counters_ok :: "entry \<Rightarrow> bool" where
  "counters_ok e \<longleftrightarrow>
     1 \<le> e_Revision e \<and> e_Revision e \<le> e_Version e \<and> e_Version e \<le> max_int64 \<and>
     0 \<le> e_PublishedRevision e \<and> e_PublishedRevision e \<le> e_Revision e"

text \<open>
  A revision of an entry: numbered below the entry's counter (the number of an open draft is not
  yet taken), approved only by somebody other than its submitter, published by a rollback only
  with the content of an approved one.
\<close>

definition revision_ok :: "postgres \<Rightarrow> entry \<Rightarrow> revision set \<Rightarrow> revision \<Rightarrow> bool" where
  "revision_ok pg e R r \<longleftrightarrow>
     1 \<le> r_Revision r \<and> r_Revision r \<le> e_Revision e \<and>
     (e_Status e = ''draft'' \<longrightarrow> r_Revision r < e_Revision e) \<and>
     r_ID r = r_EntryID r @ ''-'' @ itoa (r_Revision r) \<and>
     json_column pg (r_Value r) = Some (r_Value r) \<and> r_Status r \<in> set statuses \<and>
     (r_Status r = ''pending_approval'' \<longrightarrow> r_Version r = 1) \<and>
     (r_Status r = ''approved'' \<longrightarrow> r_ReviewedBy r \<noteq> r_CreatedBy r) \<and>
     (r_Status r = ''published'' \<longrightarrow> (\<exists>a \<in> R. r_Status a = ''approved'' \<and> same_content r a))"

text \<open>The row an entry that is not a draft stands on: the revision it shows, in the same state.\<close>

definition stands_on :: "entry \<Rightarrow> revision \<Rightarrow> bool" where
  "stands_on e r \<longleftrightarrow> r_Revision r = e_Revision e \<and> content_of e r \<and>
     (e_Status e = ''pending_approval'' \<and> r_Status r = ''pending_approval'' \<and> r_CreatedBy r = e_UpdatedBy e \<or>
      e_Status e = ''approved'' \<and> r_Status r = ''approved'' \<or>
      e_Status e = ''rejected'' \<and> r_Status r = ''rejected'' \<or>
      e_Status e = ''published'' \<and> r_Status r \<in> {''approved'', ''published''} \<and>
        e_PublishedRevision e = e_Revision e)"

definition history_ok :: "postgres \<Rightarrow> entry \<Rightarrow> revision set \<Rightarrow> bool" where
  "history_ok pg e R \<longleftrightarrow>
     counters_ok e \<and> json_column pg (e_Value e) = Some (e_Value e) \<and>
     (\<forall>r \<in> R. revision_ok pg e R r) \<and>
     (e_Status e = ''draft'' \<or> (\<exists>r \<in> R. stands_on e r)) \<and>
     (0 < e_PublishedRevision e \<longrightarrow>
       (\<exists>r \<in> R. r_Revision r = e_PublishedRevision e \<and> r_Status r \<in> {''approved'', ''published''}))"

definition lifecycle_inv :: "postgres \<Rightarrow> db \<Rightarrow> bool" where
  "lifecycle_inv pg d \<longleftrightarrow> schema_ok d \<and> ids_canonical pg d \<and>
     (\<forall>e \<in> set (entries d). history_ok pg e (revs_of d (e_ID e)))"

lemma lifecycle_invD:
  assumes "lifecycle_inv pg d"
  shows "schema_ok d" and "ids_canonical pg d"
    and "e \<in> set (entries d) \<Longrightarrow> history_ok pg e (revs_of d (e_ID e))"
  using assms by (auto simp: lifecycle_inv_def)

lemma history_okD:
  assumes "history_ok pg e R"
  shows "counters_ok e" and "json_column pg (e_Value e) = Some (e_Value e)"
    and "r \<in> R \<Longrightarrow> revision_ok pg e R r"
    and "e_Status e \<noteq> ''draft'' \<Longrightarrow> \<exists>r \<in> R. stands_on e r"
    and "0 < e_PublishedRevision e \<Longrightarrow>
      \<exists>r \<in> R. r_Revision r = e_PublishedRevision e \<and> r_Status r \<in> {''approved'', ''published''}"
  using assms unfolding history_ok_def by blast+

lemma lifecycle_inv_empty: "lifecycle_inv pg empty_db"
  unfolding lifecycle_inv_def ids_canonical_def using schema_ok_empty by (simp add: empty_db_def)

text \<open>Only the entry that changed has to be looked at again.\<close>

lemma lifecycle_inv_replace:
  assumes "lifecycle_inv pg d" and "schema_ok d'" and "x \<in> set (entries d)" and "e_ID x' = e_ID x"
    and "entries d' = replace_entry x' (entries d)"
    and "\<And>u. u \<noteq> e_ID x \<Longrightarrow> revs_of d' u = revs_of d u"
    and "history_ok pg x' (revs_of d' (e_ID x))"
  shows "lifecycle_inv pg d'"
proof -
  have "set (entries d') = insert x' {y \<in> set (entries d). e_ID y \<noteq> e_ID x}"
    using set_replace_entry [of x' "entries d"] assms(3,4,5) by simp
  with assms show ?thesis by (auto simp: lifecycle_inv_def ids_canonical_def)
qed

section \<open>What each kind of step does to a history\<close>

text \<open>An entry whose content is redrafted: the next revision number, which no row has yet.\<close>

lemma history_redraft:
  assumes "history_ok pg x R" and "e_Version x < max_int64"
    and "e_Revision x' = e_Revision x + 1" and "e_Version x' = e_Version x + 1"
    and "e_PublishedRevision x' = e_PublishedRevision x" and "e_Status x' = ''draft''"
    and "json_column pg (e_Value x') = Some (e_Value x')"
  shows "history_ok pg x' R"
  proof -
  have "revision_ok pg x' R r" if "r \<in> R" for r
    using history_okD(3) [OF assms(1) that] assms(3) by (simp add: revision_ok_def)
  moreover have "counters_ok x'"
    using history_okD(1) [OF assms(1)] assms(2-5) by (simp add: counters_ok_def)
  ultimately show ?thesis
    unfolding history_ok_def using assms(5-7) history_okD(5) [OF assms(1)] by simp
qed

text \<open>A new row of the history at the entry's number.\<close>

lemma history_snapshot:
  assumes "history_ok pg x R"
    and "e_Revision x \<le> e_Revision x'" and "e_Revision x' \<le> e_Version x'" and "e_Version x' \<le> max_int64"
    and "e_PublishedRevision x' \<in> {e_PublishedRevision x, e_Revision x'}"
    and "json_column pg (e_Value x') = Some (e_Value x')" and "stands_on x' r"
    and "e_Status x' \<noteq> ''draft''"
    and "r_ID r = r_EntryID r @ ''-'' @ itoa (r_Revision r) \<and> r_Version r = 1"
    and "r_Status r = ''pending_approval'' \<and> e_PublishedRevision x' = e_PublishedRevision x \<or>
      r_Status r = ''published'' \<and> e_PublishedRevision x' = e_Revision x' \<and>
      (\<exists>a \<in> R. r_Status a = ''approved'' \<and> same_content r a)"
  shows "history_ok pg x' (insert r R)"
proof -
  have num: "r_Revision r = e_Revision x'" "r_Value r = e_Value x'"
    using assms(7) by (simp_all add: stands_on_def content_of_def)
  have c: "counters_ok x'"
    using history_okD(1) [OF assms(1)] assms(2-5) by (auto simp: counters_ok_def)
  have "revision_ok pg x' (insert r R) y" if "y \<in> R" for y
    using history_okD(3) [OF assms(1) that] assms(2,8) unfolding revision_ok_def by simp
  moreover have "revision_ok pg x' (insert r R) r"
    using c assms(6,8,9,10) num unfolding revision_ok_def counters_ok_def statuses_def by (elim disjE conjE) simp_all
  moreover have "0 < e_PublishedRevision x' \<longrightarrow> (\<exists>r \<in> insert r R.
      r_Revision r = e_PublishedRevision x' \<and> r_Status r \<in> {''approved'', ''published''})"
    using assms(10) history_okD(5) [OF assms(1)] num(1) by (elim disjE conjE) simp_all
  ultimately show ?thesis
    unfolding history_ok_def using c assms(6,7) by simp
qed

text \<open>The pending row of the history replaced by the reviewed one.\<close>

lemma history_review:
  assumes "history_ok pg x R" and "r \<in> R" and "r_Status r = ''pending_approval''"
    and "\<And>y. y \<in> R \<Longrightarrow> r_Revision y = r_Revision r \<Longrightarrow> y = r"
    and "e_Revision x' = e_Revision x" and "e_Version x' = e_Version x + 1" and "e_Version x < max_int64"
    and "e_PublishedRevision x' = e_PublishedRevision x" and "e_Value x' = e_Value x"
    and "stands_on x' r'" and "r_Status r' \<in> {''approved'', ''rejected''}" and "e_Status x' \<noteq> ''draft''"
    and "r_ID r' = r_ID r" and "r_EntryID r' = r_EntryID r" and "r_Revision r' = r_Revision r"
    and "r_Value r' = r_Value r" and "r_ReviewedBy r' \<noteq> r_CreatedBy r'"
  shows "history_ok pg x' (insert r' {y \<in> R. y \<noteq> r})"
proof -
  let ?R = "insert r' {y \<in> R. y \<noteq> r}"
  have keep: "\<exists>a \<in> ?R. r_Status a = ''approved'' \<and> same_content y a"
    if "\<exists>a \<in> R. r_Status a = ''approved'' \<and> same_content y a" for y
    using that assms(3) by auto
  have "revision_ok pg x' ?R y" if "y \<in> R" for y
    using history_okD(3) [OF assms(1) that] assms(5,12) keep [of y] unfolding revision_ok_def by auto
  moreover have "revision_ok pg x' ?R r'"
    using history_okD(3) [OF assms(1,2)] assms(5,11-17) unfolding revision_ok_def statuses_def by auto
  moreover have "counters_ok x'"
    using history_okD(1) [OF assms(1)] assms(5-8) unfolding counters_ok_def by simp
  moreover have "\<exists>y \<in> ?R. r_Revision y = e_PublishedRevision x' \<and> r_Status y \<in> {''approved'', ''published''}"
    if "0 < e_PublishedRevision x'"
    using history_okD(5) [OF assms(1)] that assms(3,8) by force
  ultimately show ?thesis
    unfolding history_ok_def using history_okD(2) [OF assms(1)] assms(9,10) by auto
qed

text \<open>The entry published at the approved row it stands on.\<close>

lemma history_publish:
  assumes "history_ok pg x R" and "e_Status x = ''approved''" and "e_Version x < max_int64"
    and "e_Revision x' = e_Revision x" and "e_Version x' = e_Version x + 1"
    and "e_PublishedRevision x' = e_Revision x" and "e_Status x' = ''published''"
    and "e_Value x' = e_Value x" and "e_SecretRef x' = e_SecretRef x"
    and "e_RolloutPercentage x' = e_RolloutPercentage x"
  shows "history_ok pg x' R"
proof -
  from history_okD(4) [OF assms(1)] assms(2) obtain r where r: "r \<in> R" "stands_on x r" by auto
  have "revision_ok pg x' R y" if "y \<in> R" for y
    using history_okD(3) [OF assms(1) that] assms(4,7) unfolding revision_ok_def by auto
  moreover have "stands_on x' r" and "r_Revision r = e_PublishedRevision x'" and "r_Status r = ''approved''"
    using r(2) assms(2,4-10) by (auto simp: stands_on_def content_of_def)
  moreover have "counters_ok x'"
    using history_okD(1) [OF assms(1)] assms(3-6) unfolding counters_ok_def by simp
  ultimately show ?thesis
    unfolding history_ok_def using history_okD(2) [OF assms(1)] assms(8) r(1) by auto
qed

section \<open>Every committed step keeps the invariant\<close>

text \<open>
  A draft that the caller cannot mark as published. The HTTP handler builds its drafts this way;
  the gRPC handler copies the field from the request.
\<close>

fun op_ok :: "op \<Rightarrow> bool" where
  "op_ok (OpPutDraft v _) = (e_PublishedRevision v = 0)"
| "op_ok _ = True"

lemma json_column_canonical:
  "pg_canonical pg \<Longrightarrow> json_column pg v = Some w \<Longrightarrow> json_column pg w = Some w"
  by (auto simp: pg_canonical_def json_column_def split: if_splits)

lemma revs_of_update [simp]:
  "revs_of (d\<lparr>entries := es\<rparr>) u = revs_of d u" "revs_of (d\<lparr>outbox := os\<rparr>) u = revs_of d u"
  "revs_of (d\<lparr>revisions := rs\<rparr>) u = {r \<in> set rs. r_EntryID r = u}"
  by (simp_all add: revs_of_def)

lemma create_inv:
  assumes "lifecycle_inv pg d" and "schema_ok (d\<lparr>entries := entries d @ [e]\<rparr>)"
    and "pg_canonical pg" and "pg_uuid pg x = Some (e_ID e)" and "json_column pg y = Some (e_Value e)"
    and "e_Status e = ''draft''" and "e_Revision e = 1" and "e_Version e = 1" and "e_PublishedRevision e = 0"
    and "e_ID e \<notin> e_ID ` set (entries d)"
  shows "lifecycle_inv pg (d\<lparr>entries := entries d @ [e]\<rparr>)"
proof -
  have "revs_of d (e_ID e) = {}"
    using schema_okD(5) [OF lifecycle_invD(1) [OF assms(1)]] assms(10)
    unfolding revs_of_def by (metis (mono_tags, lifting) Collect_empty_eq)
  then have "history_ok pg e (revs_of d (e_ID e))"
    using json_column_canonical [OF assms(3,5)] assms(6-9)
    by (simp add: history_ok_def counters_ok_def max_int64_def)
  moreover have "pg_uuid pg (e_ID e) = Some (e_ID e)"
    using assms(3,4) by (auto simp: pg_canonical_def)
  ultimately show ?thesis
    using assms(1,2) by (auto simp: lifecycle_inv_def ids_canonical_def)
qed

text \<open>The rules that update an entry, each from the premises of \<open>committed\<close> it needs.\<close>

lemma redraft_inv:
  assumes inv: "lifecycle_inv pg d" and can: "pg_canonical pg" and x: "x \<in> set (entries d)" "e_Version x < max_int64"
    and w: "json_column pg (e_Value v) = Some w"
    and ok: "schema_ok (d\<lparr>entries := replace_entry (set_columns pg (next_draft s caller v x) w x) (entries d)\<rparr>)"
  shows "lifecycle_inv pg (d\<lparr>entries := replace_entry (set_columns pg (next_draft s caller v x) w x) (entries d)\<rparr>)"
proof (rule lifecycle_inv_replace [OF inv ok x(1)])
  have h: "history_ok pg x (revs_of d (e_ID x))" using lifecycle_invD(3) [OF inv x(1)] .
  then have "wrap64 (e_Revision x + 1) = e_Revision x + 1"
    using history_okD(1) [OF h] x(2) by (simp add: counters_ok_def wrap64_incr)
  then show "history_ok pg (set_columns pg (next_draft s caller v x) w x)
     (revs_of (d\<lparr>entries := replace_entry (set_columns pg (next_draft s caller v x) w x) (entries d)\<rparr>) (e_ID x))"
    using json_column_canonical [OF can w]
    by (simp add: history_redraft [OF h x(2)] next_draft_def)
qed simp_all

lemma snapshot_inv:
  assumes inv: "lifecycle_inv pg d" and can: "pg_canonical pg" and x: "x \<in> set (entries d)" "e_Version x < max_int64"
    and v: "e_ID v = e_ID x" "e_Revision v \<in> {e_Revision x, e_Revision x + 1}"
    and w: "json_column pg (e_Value v) = Some w"
    and st: "e_Status v = ''pending_approval'' \<and> e_PublishedRevision v = e_PublishedRevision x \<or>
      e_Status v = ''published'' \<and> e_PublishedRevision v = e_Revision v \<and>
      (\<exists>a \<in> revs_of d (e_ID x). r_Status a = ''approved'' \<and> same_content (snapshot_row pg (e_ID x) w v) a)"
    and d': "d' = d\<lparr>entries := replace_entry (set_columns pg v w x) (entries d),
       revisions := revisions d @ [snapshot_row pg (e_ID x) w v], outbox := os\<rparr>"
    and ok: "schema_ok d'"
  shows "lifecycle_inv pg d'"
proof (rule lifecycle_inv_replace [OF inv ok x(1)])
  have h: "history_ok pg x (revs_of d (e_ID x))" using lifecycle_invD(3) [OF inv x(1)] .
  let ?r = "snapshot_row pg (e_ID x) w v" and ?x = "set_columns pg v w x"
  have "stands_on ?x ?r"
    using st by (auto simp: stands_on_def content_of_def snapshot_row_def)
  moreover have "e_Revision x \<le> e_Revision ?x" "e_Revision ?x \<le> e_Version ?x" "e_Version ?x \<le> max_int64"
    using history_okD(1) [OF h] v(2) x(2) by (auto simp: counters_ok_def)
  ultimately have "history_ok pg ?x (insert ?r (revs_of d (e_ID x)))"
    using st json_column_canonical [OF can w] v(1)
    by (intro history_snapshot [OF h]) (auto simp: snapshot_row_def)
  moreover have "revs_of d' (e_ID x) = insert ?r (revs_of d (e_ID x))"
    by (auto simp: d' revs_of_def snapshot_row_def)
  ultimately show "history_ok pg ?x (revs_of d' (e_ID x))" by simp
  show "\<And>u. u \<noteq> e_ID x \<Longrightarrow> revs_of d' u = revs_of d u"
    by (auto simp: d' revs_of_def snapshot_row_def)
qed (simp_all add: d')

lemma review_inv:
  assumes inv: "lifecycle_inv pg d" and x: "x \<in> set (entries d)" "e_Version x < max_int64"
    "e_Status x = ''pending_approval''" "pr_ID caller \<noteq> e_UpdatedBy x"
    and w: "json_column pg (e_Value x) = Some w" and st: "st \<in> {''approved'', ''rejected''}"
    and r: "r \<in> set (revisions d)" "r_EntryID r = e_ID x" "r_Revision r = e_Revision x"
      "r_Status r = ''pending_approval''"
    and v: "v = reviewed_entry s caller st comment x"
    and d': "d' = d\<lparr>entries := replace_entry (set_columns pg v w x) (entries d),
          revisions := replace_revision (set_review pg v r) (revisions d), outbox := os\<rparr>"
    and ok: "schema_ok d'"
  shows "lifecycle_inv pg d'"
proof (rule lifecycle_inv_replace [OF inv ok x(1)])
  have h: "history_ok pg x (revs_of d (e_ID x))" using lifecycle_invD(3) [OF inv x(1)] .
  have uniq: "y = r" if "y \<in> set (revisions d)" "r_EntryID y = e_ID x" "r_Revision y = r_Revision r" for y
    using revision_unique [OF lifecycle_invD(1) [OF inv] that(1) r(1)] that r(2) by simp
  let ?r = "set_review pg v r" and ?x = "set_columns pg v w x"
  from history_okD(4) [OF h] x(3) obtain z where z: "z \<in> revs_of d (e_ID x)" "stands_on x z" by auto
  then have "z = r" using uniq [of z] r(3) by (auto simp: revs_of_def stands_on_def)
  with z x(3) have on: "content_of x r" "r_CreatedBy r = e_UpdatedBy x" by (auto simp: stands_on_def)
  have wx: "w = e_Value x" using w history_okD(2) [OF h] by simp
  have "rev_key ?r \<in> rev_key ` set (revisions d)" using r(1) by simp
  from set_replace_revision [OF this] have rs: "set (revisions d') =
      insert ?r {y \<in> set (revisions d). rev_key y \<noteq> (e_ID x, r_Revision r)}"
    using r(2) by (simp add: d' rev_key_def)
  have "history_ok pg ?x (insert ?r {y \<in> revs_of d (e_ID x). y \<noteq> r})"
  proof (rule history_review [OF h])
    show "stands_on ?x ?r" using on st r(3) wx v by (auto simp: stands_on_def content_of_def)
    show "\<And>y. y \<in> revs_of d (e_ID x) \<Longrightarrow> r_Revision y = r_Revision r \<Longrightarrow> y = r"
      unfolding revs_of_def by (blast intro: uniq)
    show "e_Status ?x \<noteq> ''draft''" using st v by auto
  qed (use r x(2,4) st on wx v in \<open>simp_all add: revs_of_def\<close>)
  moreover have "revs_of d' (e_ID x) = insert ?r {y \<in> revs_of d (e_ID x). y \<noteq> r}"
    using r(2) by (auto simp: rs revs_of_def rev_key_def intro: uniq)
  ultimately show "history_ok pg ?x (revs_of d' (e_ID x))" by simp
  show "\<And>u. u \<noteq> e_ID x \<Longrightarrow> revs_of d' u = revs_of d u"
    using r(2) by (auto simp: rs revs_of_def rev_key_def)
qed (simp_all add: d')

lemma publish_inv:
  assumes inv: "lifecycle_inv pg d" and x: "x \<in> set (entries d)" "e_Version x < max_int64" "e_Status x = ''approved''"
    and w: "json_column pg (e_Value x) = Some w" and v: "v = published_entry s caller x"
    and d': "d' = d\<lparr>entries := replace_entry (set_columns pg v w x) (entries d), outbox := os\<rparr>"
    and ok: "schema_ok d'"
  shows "lifecycle_inv pg d'"
proof (rule lifecycle_inv_replace [OF inv ok x(1)])
  have h: "history_ok pg x (revs_of d (e_ID x))" using lifecycle_invD(3) [OF inv x(1)] .
  have "w = e_Value x" using w history_okD(2) [OF h] by simp
  then show "history_ok pg (set_columns pg v w x) (revs_of d' (e_ID x))"
    by (simp add: d' v history_publish [OF h x(3,2)])
qed (simp_all add: d')

lemma rollback_inv:
  assumes inv: "lifecycle_inv pg d" and can: "pg_canonical pg" and x: "x \<in> set (entries d)" "e_Version x < max_int64"
    and r: "r \<in> set (revisions d)" "r_EntryID r = e_ID x" "r_Status r = ''approved'' \<or> r_Status r = ''published''"
    and w: "json_column pg (r_Value r) = Some w"
    and v: "v = stamped s caller (rolled_back (revision_view x r) x)"
    and d': "d' = d\<lparr>entries := replace_entry (set_columns pg v w x) (entries d),
       revisions := revisions d @ [snapshot_row pg (e_ID x) w v], outbox := os\<rparr>"
    and ok: "schema_ok d'"
  shows "lifecycle_inv pg d'"
proof (rule snapshot_inv [OF inv can x _ _ _ _ d' ok])
  have h: "history_ok pg x (revs_of d (e_ID x))" using lifecycle_invD(3) [OF inv x(1)] .
  have rin: "r \<in> revs_of d (e_ID x)" using r by (simp add: revs_of_def)
  from history_okD(3) [OF h rin] r(3) have ex: "\<exists>a \<in> revs_of d (e_ID x). r_Status a = ''approved'' \<and> same_content r a"
    and "json_column pg (r_Value r) = Some (r_Value r)"
    using rin by (auto simp: revision_ok_def same_content_def)
  with w have "w = r_Value r" by simp
  moreover have "wrap64 (e_Revision x + 1) = e_Revision x + 1"
    using history_okD(1) [OF h] x(2) by (simp add: counters_ok_def wrap64_incr)
  ultimately show "e_ID v = e_ID x" "e_Revision v \<in> {e_Revision x, e_Revision x + 1}" "json_column pg (e_Value v) = Some w"
    "e_Status v = ''pending_approval'' \<and> e_PublishedRevision v = e_PublishedRevision x \<or>
      e_Status v = ''published'' \<and> e_PublishedRevision v = e_Revision v \<and>
      (\<exists>a \<in> revs_of d (e_ID x). r_Status a = ''approved'' \<and> same_content (snapshot_row pg (e_ID x) w v) a)"
    using w ex by (simp_all add: v rolled_back_def revision_view_def Let_def snapshot_row_def same_content_def)
qed

theorem committed_inv:
  assumes "committed s c q d d'" and "lifecycle_inv (s_repository s) d" and "pg_canonical (s_repository s)"
    and "schema_ok d'" and "op_ok q"
  shows "lifecycle_inv (s_repository s) d'"
  using assms(1)
proof cases
  case (create v v0 caller u w n)
  then show ?thesis
    using assms create_inv [of "s_repository s" d "new_row s caller u w v" "s_uuid s" "e_Value v"]
    by (simp add: new_draft_def normalize_draft_def)
next
  case (redraft v v0 x caller n w x')
  then show ?thesis using redraft_inv [OF assms(2,3), of x v w s caller] assms(4) by simp
next
  case (submit x eid caller n w x' row)
  then show ?thesis
    using snapshot_inv [OF assms(2,3), of x "submitted_entry s caller x" w d'] assms(4) by simp
next
  case (publish x eid caller n w x' row)
  then show ?thesis using publish_inv [OF assms(2), of x w _ caller s d'] assms(4) by simp
next
  case (review x eid caller n w comment st x' r row)
  then show ?thesis
    using review_inv [OF assms(2), of x caller w st r _ s comment d'] assms(4) by auto
next
  case (rollback x eid r targetRevision caller n w cur x' row)
  then show ?thesis using rollback_inv [OF assms(2,3), of x r w cur caller s d'] assms(4) by simp
qed

section \<open>Every run keeps the schema, and reachable databases the invariant\<close>

lemma changeStatus_tx_schema:
  "changeStatus_tx s caller v n st snapshot d = Inr (a, d') \<Longrightarrow> schema_ok d \<Longrightarrow> schema_ok d'"
  by (auto simp: changeStatus_tx_def addChangedEvent_def Let_def split: sum.splits if_splits dest: repo_schema)

lemma review_tx_schema: "review_tx s caller v n st d = Inr (a, d') \<Longrightarrow> schema_ok d \<Longrightarrow> schema_ok d'"
  by (auto simp: review_tx_def addChangedEvent_def Let_def split: sum.splits if_splits dest: repo_schema)

lemma run_tx_schema:
  assumes "run_tx s fn d = (r, d')" and "schema_ok d" and "\<And>a d'. fn d = Inr (a, d') \<Longrightarrow> schema_ok d'"
  shows "schema_ok d'"
  using run_tx_cases [OF assms(1)] assms(2,3) by blast

lemma changeStatus_schema: "changeStatus s c v n st snapshot d = (r, d') \<Longrightarrow> schema_ok d \<Longrightarrow> schema_ok d'"
  by (auto simp: changeStatus_def split: sum.splits elim!: run_tx_schema dest: changeStatus_tx_schema)

lemma review_schema: "review s c eid n st comment d = (r, d') \<Longrightarrow> schema_ok d \<Longrightarrow> schema_ok d'"
  by (auto simp: review_def review_current_def split: sum.splits if_splits elim!: run_tx_schema dest: review_tx_schema)

lemma exec_schema: "exec s c q d = (r, d') \<Longrightarrow> schema_ok d \<Longrightarrow> schema_ok d'"
  by (cases q)
    (auto simp: service_defs rollback_tx_eq Let_def split: sum.splits if_splits option.splits
      elim!: run_tx_schema dest: changeStatus_tx_schema repo_schema changeStatus_schema review_tx_schema)

lemma lifecycle_inv_fault [simp]: "lifecycle_inv (pg\<lparr>pg_fault := f\<rparr>) d = lifecycle_inv pg d"
  by (simp add: lifecycle_inv_def ids_canonical_def history_ok_def revision_ok_def json_column_def)

lemma pg_canonical_fault [simp]: "pg_canonical (pg\<lparr>pg_fault := f\<rparr>) = pg_canonical pg"
  by (simp add: pg_canonical_def)

text \<open>
  The databases that requests reach: any caller, any request, any failures of the driver, the
  event library and the verifier on the way, against one database server.
\<close>

inductive reachable :: "postgres \<Rightarrow> db \<Rightarrow> bool" for pg where
  start: "reachable pg empty_db"
| step: "reachable pg d \<Longrightarrow> s_repository s = pg\<lparr>pg_fault := f\<rparr> \<Longrightarrow> op_ok q \<Longrightarrow>
         exec s c q d = (r, d') \<Longrightarrow> reachable pg d'"

theorem exec_inv:
  assumes "exec s c q d = (r, d')" and "lifecycle_inv (s_repository s) d" and "pg_canonical (s_repository s)"
    and "op_ok q"
  shows "lifecycle_inv (s_repository s) d'"
  using exec_committed [OF assms(1) lifecycle_invD(1,2) [OF assms(2)]] assms(2)
    committed_inv [OF _ assms(2,3) exec_schema [OF assms(1) lifecycle_invD(1) [OF assms(2)]] assms(4)]
  by blast

theorem reachable_inv: "reachable pg d \<Longrightarrow> pg_canonical pg \<Longrightarrow> lifecycle_inv pg d"
proof (induction rule: reachable.induct)
  case start
  show ?case by (rule lifecycle_inv_empty)
next
  case (step d s f q c r d')
  then show ?case using exec_inv [OF step.hyps(4)] by simp
qed

end
