(* ===== verification/Audit_Trail.thy ===== *)
theory Audit_Trail
  imports Approval_Invariant
begin

text \<open>
  Several requests, one after the other: what the database keeps over time. A row of
  \<^verbatim>\<open>config_revisions\<close> is never removed and never changes its content; an entry keeps its scope
  and author; the version of an entry only grows, one step per committed change, so that it
  names one content of the row and one writer.
\<close>

section \<open>One step\<close>

fun op_version :: "op \<Rightarrow> int" where
  "op_version (OpPutDraft _ n) = n"
| "op_version (OpSubmit _ n) = n"
| "op_version (OpApprove _ n _) = n"
| "op_version (OpReject _ n _) = n"
| "op_version (OpPublish _ n) = n"
| "op_version (OpRollback _ _ n) = n"

text \<open>A revision and a later state of it: the same content, the status settled by one review.\<close>

definition later_revision :: "revision \<Rightarrow> revision \<Rightarrow> bool" where
  "later_revision r r' \<longleftrightarrow> r_ID r' = r_ID r \<and> rev_key r' = rev_key r \<and> same_content r' r \<and>
     r_CreatedBy r' = r_CreatedBy r \<and> r_CreatedAt r' = r_CreatedAt r \<and>
     (r_Status r' = r_Status r \<or> r_Status r = ''pending_approval'' \<and> r_Status r' \<in> {''approved'', ''rejected''})"

definition later_entry :: "entry \<Rightarrow> entry \<Rightarrow> bool" where
  "later_entry e e' \<longleftrightarrow> e_ID e' = e_ID e \<and> scope_of e' = scope_of e \<and> e_CreatedBy e' = e_CreatedBy e \<and>
     e_CreatedAt e' = e_CreatedAt e \<and> e_Version e \<le> e_Version e' \<and> (e_Version e' = e_Version e \<longrightarrow> e' = e)"

lemma later_refl [simp]: "later_revision r r" "later_entry e e"
  by (simp_all add: later_revision_def same_content_def later_entry_def)

lemma later_revision_trans: "later_revision r r' \<Longrightarrow> later_revision r' r'' \<Longrightarrow> later_revision r r''"
  unfolding later_revision_def same_content_def by auto

lemma later_entry_trans: "later_entry e e' \<Longrightarrow> later_entry e' e'' \<Longrightarrow> later_entry e e''"
  unfolding later_entry_def by auto

lemma replace_entry_member:
  assumes "e \<in> set xs" and "e_ID x' \<in> e_ID ` set xs"
  shows "(if e_ID e = e_ID x' then x' else e) \<in> set (replace_entry x' xs)"
  using set_replace_entry [OF assms(2)] assms(1) by auto

lemma later_set_columns:
  "later_entry x (set_columns pg v w x)" "e_Version (set_columns pg v w x) = e_Version x + 1"
  by (simp_all add: later_entry_def)

lemma replace_entry_later:
  assumes "schema_ok d" and "x \<in> set (entries d)" and "e \<in> set (entries d)" and "x' = set_columns pg v w x"
  shows "\<exists>e' \<in> set (replace_entry x' (entries d)). later_entry e e' \<and> (e' \<noteq> e \<longrightarrow> e_Version e = e_Version x)"
proof (cases "e_ID e = e_ID x'")
  case True
  then have "e = x" using entry_unique [OF assms(1,3,2)] assms(4) by simp
  then show ?thesis
    using replace_entry_member [OF assms(3), of x'] assms(2,4) later_set_columns(1) [of x pg v w] by auto
next
  case False
  then show ?thesis
    using replace_entry_member [OF assms(3), of x'] assms(2,4) by (intro bexI [of _ e]) auto
qed

lemma committed_entry:
  assumes "committed s c q d d'" and "schema_ok d" and "e \<in> set (entries d)"
  shows "\<exists>e' \<in> set (entries d'). later_entry e e' \<and> (e' \<noteq> e \<longrightarrow> e_Version e = op_version q)"
  using assms(1)
proof cases
  case (create v v0 caller u w n)
  then show ?thesis using assms(3) by (intro bexI [of _ e]) auto
next
  case (redraft v v0 x caller n w x')
  then show ?thesis using replace_entry_later [OF assms(2) _ assms(3), of x x'] by simp
next
  case (submit x eid caller n w x' row)
  then show ?thesis using replace_entry_later [OF assms(2) _ assms(3), of x x'] by simp
next
  case (publish x eid caller n w x' row)
  then show ?thesis using replace_entry_later [OF assms(2) _ assms(3), of x x'] by simp
next
  case (review x eid caller n w comment st x' r row)
  then have "op_version q = n" by auto
  with review show ?thesis using replace_entry_later [OF assms(2) _ assms(3), of x x'] by simp
next
  case (rollback x eid r targetRevision caller n w cur x' row)
  then show ?thesis using replace_entry_later [OF assms(2) _ assms(3), of x x'] by simp
qed

lemma committed_revision:
  assumes "committed s c q d d'" and "schema_ok d" and "r \<in> set (revisions d)"
  shows "\<exists>r' \<in> set (revisions d'). later_revision r r'"
  using assms(1)
proof cases
  case (review x eid caller n w comment st x' z row)
  let ?z = "set_review (s_repository s) (reviewed_entry s caller st comment x) z"
  have rs: "set (revisions d') = insert ?z {y \<in> set (revisions d). rev_key y \<noteq> rev_key z}"
    using review set_replace_revision [of ?z "revisions d"] by simp
  show ?thesis
  proof (cases "rev_key r = rev_key z")
    case True
    then have "r = z" using revision_unique [OF assms(2,3), of z] review by (simp add: rev_key_def)
    moreover have "later_revision z ?z"
      using review by (auto simp: later_revision_def same_content_def set_review_def rev_key_def)
    ultimately show ?thesis using rs by auto
  next
    case False
    then show ?thesis using assms(3) rs by (intro bexI [of _ r]) auto
  qed
qed (use assms(3) in \<open>auto intro: bexI [of _ r]\<close>)

section \<open>Many steps\<close>

inductive reaches :: "postgres \<Rightarrow> db \<Rightarrow> db \<Rightarrow> bool" for pg where
  here: "reaches pg d d"
| onward: "reaches pg d d1 \<Longrightarrow> s_repository s = pg\<lparr>pg_fault := f\<rparr> \<Longrightarrow> op_ok q \<Longrightarrow>
         exec s c q d1 = (r, d2) \<Longrightarrow> reaches pg d d2"

lemma reaches_inv: "reaches pg d d' \<Longrightarrow> lifecycle_inv pg d \<Longrightarrow> pg_canonical pg \<Longrightarrow> lifecycle_inv pg d'"
proof (induction rule: reaches.induct)
  case (onward d d1 s f q c r d2)
  then show ?case using exec_inv [OF onward.hyps(4)] by simp
qed

lemma exec_later:
  assumes "exec s c q d = (r, d')" and "lifecycle_inv (s_repository s) d"
  shows "e \<in> set (entries d) \<Longrightarrow>
      \<exists>e' \<in> set (entries d'). later_entry e e' \<and> (e' \<noteq> e \<longrightarrow> e_Version e = op_version q)"
    and "z \<in> set (revisions d) \<Longrightarrow> \<exists>z' \<in> set (revisions d'). later_revision z z'"
  using exec_committed [OF assms(1) lifecycle_invD(1,2) [OF assms(2)]]
    committed_entry [OF _ lifecycle_invD(1) [OF assms(2)]] committed_revision [OF _ lifecycle_invD(1) [OF assms(2)]]
    later_refl by metis+

lemma reaches_entry:
  assumes "reaches pg d d'" and "lifecycle_inv pg d" and "pg_canonical pg" and "e \<in> set (entries d)"
  shows "\<exists>e' \<in> set (entries d'). later_entry e e'"
  using assms
proof (induction rule: reaches.induct)
  case (here d)
  then show ?case using later_refl by blast
next
  case (onward d d1 s f q c r d2)
  then obtain e1 where e1: "e1 \<in> set (entries d1)" "later_entry e e1" by blast
  have "lifecycle_inv (s_repository s) d1"
    using reaches_inv [OF onward.hyps(1)] onward.prems onward.hyps(2) by simp
  from exec_later(1) [OF onward.hyps(4) this e1(1)] e1(2) show ?case using later_entry_trans by blast
qed

lemma reaches_revision:
  assumes "reaches pg d d'" and "lifecycle_inv pg d" and "pg_canonical pg" and "z \<in> set (revisions d)"
  shows "\<exists>z' \<in> set (revisions d'). later_revision z z'"
  using assms
proof (induction rule: reaches.induct)
  case (here d)
  then show ?case using later_refl by blast
next
  case (onward d d1 s f q c r d2)
  then obtain z1 where z1: "z1 \<in> set (revisions d1)" "later_revision z z1" by blast
  have "lifecycle_inv (s_repository s) d1"
    using reaches_inv [OF onward.hyps(1)] onward.prems onward.hyps(2) by simp
  from exec_later(2) [OF onward.hyps(4) this z1(1)] z1(2) show ?case using later_revision_trans by blast
qed

text \<open>A version that an entry has left behind admits no further change of it.\<close>

lemma spent_version:
  assumes "exec s c q d = (r, d')" and "lifecycle_inv (s_repository s) d" and "e \<in> set (entries d)"
    and "op_version q < e_Version e"
  shows "e \<in> set (entries d')"
  using exec_later(1) [OF assms(1,2,3)] assms(4) by (metis less_irrefl)

end
