(* ===== verification/Resolution.thy ===== *)
theory Resolution
  imports Dynamic_Config "HOL-Library.Multiset"
begin

text \<open>
  Reading: what \<^verbatim>\<open>Resolve\<close> and \<^verbatim>\<open>List\<close> return, against a specification. The specification of
  \<^verbatim>\<open>Resolve\<close> (\<open>effective\<close>) says for one key which published row a subject gets: the most specific
  one whose rollout reaches the subject. It does not mention the loop, the map or the order in
  which the database returns the rows.
\<close>

section \<open>Rollout buckets\<close>

lemma rolloutBucket_range: "0 \<le> rolloutBucket subject key revision \<and> rolloutBucket subject key revision < 100"
  by (simp add: rolloutBucket_def Let_def)

lemma rolloutHit_mono:
  "p \<le> q \<Longrightarrow> rolloutHit subject key revision p \<Longrightarrow> rolloutHit subject key revision q"
  by (auto simp: rolloutHit_def split: if_splits)

lemma rolloutHit_iff:
  "subject \<noteq> [] \<Longrightarrow> rolloutHit subject key revision p \<longleftrightarrow> rolloutBucket subject key revision < p"
  using rolloutBucket_range [of subject key revision] by (auto simp: rolloutHit_def)

section \<open>The loop of Resolve\<close>

definition hit_for :: "string \<Rightarrow> string \<Rightarrow> entry \<Rightarrow> bool" where
  "hit_for subject k v \<longleftrightarrow>
     e_Key v = k \<and> rolloutHit subject (e_Key v) (e_Revision v) (e_RolloutPercentage v)"

lemma select_rows_find:
  "select_rows subject vs m k = (case m k of Some v \<Rightarrow> Some v | None \<Rightarrow> find (hit_for subject k) vs)"
  by (induction vs arbitrary: m) (auto simp: hit_for_def split: option.splits)

lemma find_sorted_least:
  fixes f :: "'a \<Rightarrow> nat"
  assumes "sorted_wrt (\<lambda>x y. f x \<le> f y) xs" and "find p xs = Some x" and "y \<in> set xs" and "p y"
  shows "f x \<le> f y"
  using assms by (induction xs) (auto split: if_splits)

lemma find_sorted_unique:
  fixes f :: "'a \<Rightarrow> nat"
  assumes "sorted_wrt (\<lambda>x y. f x \<le> f y) xs"
    and "\<And>x y. x \<in> set xs \<Longrightarrow> y \<in> set xs \<Longrightarrow> p x \<Longrightarrow> p y \<Longrightarrow> f x = f y \<Longrightarrow> x = y"
  shows "find p xs = Some x \<longleftrightarrow> x \<in> set xs \<and> p x \<and> (\<forall>y \<in> set xs. p y \<longrightarrow> f x \<le> f y)"
proof
  assume "find p xs = Some x"
  then show "x \<in> set xs \<and> p x \<and> (\<forall>y \<in> set xs. p y \<longrightarrow> f x \<le> f y)"
    using find_SomeD find_sorted_least [OF assms(1)] by metis
next
  assume x: "x \<in> set xs \<and> p x \<and> (\<forall>y \<in> set xs. p y \<longrightarrow> f x \<le> f y)"
  then obtain z where z: "find p xs = Some z"
    by (metis find_NoneD not_Some_eq)
  from x find_sorted_least [OF assms(1) z] find_SomeD [OF z] assms(2) [of z x] show "find p xs = Some x"
    using z by (metis le_antisym)
qed

section \<open>The specification of Resolve\<close>

definition published_row :: "db \<Rightarrow> string \<Rightarrow> string \<Rightarrow> string \<Rightarrow> string \<Rightarrow> entry \<Rightarrow> bool" where
  "published_row d environment tenantID applicationID service v \<longleftrightarrow>
     (\<exists>e \<in> set (entries d). \<exists>r \<in> set (revisions d).
        v = resolve_view e r \<and> r_EntryID r = e_ID e \<and> r_Revision r = e_PublishedRevision e \<and>
        0 < e_PublishedRevision e \<and> e_Environment e = environment \<and> e_Service e = service \<and>
        (e_TenantID e, e_ApplicationID e) \<in> {(tenantID, applicationID), (tenantID, []), ([], [])})"

text \<open>A row is at least as specific as another when it names what the other names.\<close>

definition at_least_as_specific :: "entry \<Rightarrow> entry \<Rightarrow> bool" where
  "at_least_as_specific v v' \<longleftrightarrow>
     (e_TenantID v = [] \<longrightarrow> e_TenantID v' = []) \<and> (e_ApplicationID v = [] \<longrightarrow> e_ApplicationID v' = [])"

definition effective ::
    "db \<Rightarrow> string \<Rightarrow> string \<Rightarrow> string \<Rightarrow> string \<Rightarrow> string \<Rightarrow> string \<Rightarrow> entry \<Rightarrow> bool" where
  "effective d environment tenantID applicationID service subject k v \<longleftrightarrow>
     published_row d environment tenantID applicationID service v \<and> hit_for subject k v \<and>
     (\<forall>v'. published_row d environment tenantID applicationID service v' \<longrightarrow> hit_for subject k v' \<longrightarrow>
        at_least_as_specific v v')"

lemma resolve_view_same [simp]:
  "e_ID (resolve_view e r) = e_ID e" "e_Key (resolve_view e r) = e_Key e"
  "e_TenantID (resolve_view e r) = e_TenantID e" "e_ApplicationID (resolve_view e r) = e_ApplicationID e"
  "e_Environment (resolve_view e r) = e_Environment e" "e_Service (resolve_view e r) = e_Service e"
  "e_Value (resolve_view e r) = r_Value r" "e_SecretRef (resolve_view e r) = r_SecretRef r"
  "e_Revision (resolve_view e r) = r_Revision r" "e_RolloutPercentage (resolve_view e r) = r_RolloutPercentage r"
  "scope_rank t a (resolve_view e r) = scope_rank t a e"
  by (simp_all add: resolve_view_def scope_rank_def)

text \<open>The order of the query is the order of specificity.\<close>

lemma scope_rank_specific:
  assumes "published_row d environment tenantID applicationID service v"
    and "published_row d environment tenantID applicationID service v'"
  shows "scope_rank tenantID applicationID v \<le> scope_rank tenantID applicationID v' \<longleftrightarrow> at_least_as_specific v v'"
proof -
  have "(e_TenantID v, e_ApplicationID v) \<in> {(tenantID, applicationID), (tenantID, []), ([], [])}"
    and "(e_TenantID v', e_ApplicationID v') \<in> {(tenantID, applicationID), (tenantID, []), ([], [])}"
    using assms by (auto simp: published_row_def)
  then show ?thesis by (auto simp: scope_rank_def at_least_as_specific_def)
qed

lemma effective_rank:
  "effective d environment tenantID applicationID service subject k v \<longleftrightarrow>
     published_row d environment tenantID applicationID service v \<and> hit_for subject k v \<and>
     (\<forall>v'. published_row d environment tenantID applicationID service v' \<longrightarrow> hit_for subject k v' \<longrightarrow>
        scope_rank tenantID applicationID v \<le> scope_rank tenantID applicationID v')"
  unfolding effective_def using scope_rank_specific by blast

lemma published_row_where:
  "{v. published_row d environment tenantID applicationID service v \<and> e_Key v \<in> set keys} =
   (\<lambda>(e, r). resolve_view e r) `
     {p \<in> set (joined d). resolve_where environment tenantID applicationID service keys p}" (is "?l = ?r")
proof
  show "?l \<subseteq> ?r"
  proof
    fix v
    assume "v \<in> ?l"
    then obtain e r where "(e, r) \<in> set (joined d)" "v = resolve_view e r"
      "resolve_where environment tenantID applicationID service keys (e, r)"
      by (auto simp: published_row_def set_joined resolve_where_def)
    then show "v \<in> ?r" by (intro image_eqI [of _ _ "(e, r)"]) simp_all
  qed
  show "?r \<subseteq> ?l"
    by (auto simp: published_row_def set_joined resolve_where_def)
qed

lemma repo_Resolve_set:
  assumes "repo_Resolve pg environment tenantID applicationID service keys d = Inr rows"
  shows "set rows = {v. published_row d environment tenantID applicationID service v \<and> e_Key v \<in> set keys}"
    and "sorted_wrt (\<lambda>x y. scope_rank tenantID applicationID x \<le> scope_rank tenantID applicationID y) rows"
proof -
  show "set rows = {v. published_row d environment tenantID applicationID service v \<and> e_Key v \<in> set keys}"
    unfolding published_row_where using assms
    by (auto simp: repo_Resolve_def resolve_where_def split: if_splits)
  show "sorted_wrt (\<lambda>x y. scope_rank tenantID applicationID x \<le> scope_rank tenantID applicationID y) rows"
    using assms by (auto simp: repo_Resolve_def split: if_splits intro!: sorted_wrt_sort_by)
qed

text \<open>Two published rows of one key in the same place of the order are the same row.\<close>

lemma published_row_unique:
  assumes "schema_ok d"
    and "published_row d environment tenantID applicationID service v"
    and "published_row d environment tenantID applicationID service v'"
    and "e_Key v = e_Key v'"
    and "scope_rank tenantID applicationID v = scope_rank tenantID applicationID v'"
  shows "v = v'"
proof -
  from assms(2,3) obtain e r e' r' where
    e: "e \<in> set (entries d)" "r \<in> set (revisions d)" "v = resolve_view e r" "r_EntryID r = e_ID e"
      "r_Revision r = e_PublishedRevision e" "e_Environment e = environment" "e_Service e = service"
      "(e_TenantID e, e_ApplicationID e) \<in> {(tenantID, applicationID), (tenantID, []), ([], [])}"
    and e': "e' \<in> set (entries d)" "r' \<in> set (revisions d)" "v' = resolve_view e' r'" "r_EntryID r' = e_ID e'"
      "r_Revision r' = e_PublishedRevision e'" "e_Environment e' = environment" "e_Service e' = service"
      "(e_TenantID e', e_ApplicationID e') \<in> {(tenantID, applicationID), (tenantID, []), ([], [])}"
    unfolding published_row_def by blast
  have "scope_of e = scope_of e'"
    using assms(4,5) e(3,6-8) e'(3,6-8) by (auto simp: scope_of_def scope_rank_def split: if_splits)
  then have "e = e'"
    by (rule distinct_map_eqD [OF schema_okD(2) [OF assms(1)] e(1) e'(1)])
  with revision_unique [OF assms(1) e(2) e'(2)] e e' show ?thesis by simp
qed

text \<open>Whatever order the database gives to rows of equal rank, each key gets its effective row.\<close>

lemma select_rows_effective:
  assumes "schema_ok d"
    and "set rows = {v. published_row d environment tenantID applicationID service v \<and> e_Key v \<in> set keys}"
    and "sorted_wrt (\<lambda>x y. scope_rank tenantID applicationID x \<le> scope_rank tenantID applicationID y) rows"
    and "k \<in> set keys"
  shows "select_rows subject rows Map.empty k = Some v \<longleftrightarrow>
    effective d environment tenantID applicationID service subject k v"
proof -
  have "find (hit_for subject k) rows = Some v \<longleftrightarrow> v \<in> set rows \<and> hit_for subject k v \<and>
     (\<forall>v' \<in> set rows. hit_for subject k v' \<longrightarrow>
        scope_rank tenantID applicationID v \<le> scope_rank tenantID applicationID v')"
    by (rule find_sorted_unique [OF assms(3)])
      (metis (mono_tags, lifting) assms(1,2) published_row_unique hit_for_def mem_Collect_eq)
  then show ?thesis
    using assms(2,4) by (auto simp: select_rows_find effective_rank hit_for_def)
qed

lemma set_map_filter_Some: "set (List.map_filter f ks) = {v. \<exists>k \<in> set ks. f k = Some v}"
  by (auto simp: List.map_filter_def image_iff) force

lemma map_filter_keys:
  assumes "\<And>k v. f k = Some v \<Longrightarrow> g v = k"
  shows "map g (List.map_filter f ks) = filter (\<lambda>k. \<exists>v. f k = Some v) ks"
    and "v \<in> set (List.map_filter f ks) \<longleftrightarrow> g v \<in> set ks \<and> f (g v) = Some v"
proof -
  have "g (the (f k)) = k" if "f k \<noteq> None" for k
    using that assms [of k "the (f k)"] by auto
  then show "map g (List.map_filter f ks) = filter (\<lambda>k. \<exists>v. f k = Some v) ks"
    by (auto simp: List.map_filter_def intro!: map_idI)
  show "v \<in> set (List.map_filter f ks) \<longleftrightarrow> g v \<in> set ks \<and> f (g v) = Some v"
    unfolding set_map_filter_Some by (auto dest: assms)
qed

lemma Resolve_Inr:
  assumes "Resolve s c environment tenantID applicationID service subject keys d = Inr (vs, etag)"
  obtains caller rows where "access s c tenantID applicationID = Inr caller"
    and "repo_Resolve (s_repository s) environment tenantID applicationID service keys d = Inr rows"
    and "vs = List.map_filter (select_rows subject rows Map.empty) keys"
    and "etag = hex_encode (Sum256 (etag_text vs))"
  using assms by (auto simp: Resolve_def Let_def split: sum.splits)

lemma Resolve_access:
  "Resolve s c environment tenantID applicationID service subject keys d = Inr r \<Longrightarrow>
   \<exists>caller. access s c tenantID applicationID = Inr caller"
  by (auto simp: Resolve_def split: sum.splits)

lemma published_row_tenant:
  "published_row d environment tenantID applicationID service v \<Longrightarrow> e_TenantID v = tenantID \<or> e_TenantID v = []"
  by (auto simp: published_row_def)

lemma select_rows_key: "select_rows subject rows Map.empty k = Some v \<Longrightarrow> e_Key v = k"
  by (auto simp: select_rows_find hit_for_def dest: find_SomeD)

lemma Resolve_member:
  assumes "Resolve s c environment tenantID applicationID service subject keys d = Inr (vs, etag)"
    and "v \<in> set vs"
  shows "published_row d environment tenantID applicationID service v"
proof (rule Resolve_Inr [OF assms(1)])
  fix caller rows
  assume rows: "repo_Resolve (s_repository s) environment tenantID applicationID service keys d = Inr rows"
    and "vs = List.map_filter (select_rows subject rows Map.empty) keys"
  with assms(2) have "select_rows subject rows Map.empty (e_Key v) = Some v"
    using map_filter_keys(2) [of "select_rows subject rows Map.empty" e_Key v keys] select_rows_key by blast
  then have "v \<in> set rows" by (auto simp: select_rows_find dest: find_SomeD)
  with repo_Resolve_set(1) [OF rows] show ?thesis by simp
qed

theorem Resolve_effective:
  assumes "Resolve s c environment tenantID applicationID service subject keys d = Inr (vs, etag)"
    and "schema_ok d"
  shows "map e_Key vs =
      filter (\<lambda>k. \<exists>v. effective d environment tenantID applicationID service subject k v) keys"
    and "v \<in> set vs \<longleftrightarrow> e_Key v \<in> set keys \<and>
      effective d environment tenantID applicationID service subject (e_Key v) v"
proof -
  obtain rows where rows: "repo_Resolve (s_repository s) environment tenantID applicationID service keys d = Inr rows"
    and vs: "vs = List.map_filter (select_rows subject rows Map.empty) keys"
    by (rule Resolve_Inr [OF assms(1)])
  have eff: "select_rows subject rows Map.empty k = Some v \<longleftrightarrow>
      effective d environment tenantID applicationID service subject k v" if "k \<in> set keys" for k v
    by (rule select_rows_effective [OF assms(2) repo_Resolve_set [OF rows] that])
  have "map e_Key vs = filter (\<lambda>k. \<exists>v. select_rows subject rows Map.empty k = Some v) keys"
    unfolding vs by (rule map_filter_keys(1)) (rule select_rows_key)
  also have "\<dots> = filter (\<lambda>k. \<exists>v. effective d environment tenantID applicationID service subject k v) keys"
    by (rule filter_cong [OF refl]) (simp add: eff)
  finally show "map e_Key vs = \<dots>" .
  show "v \<in> set vs \<longleftrightarrow> e_Key v \<in> set keys \<and>
      effective d environment tenantID applicationID service subject (e_Key v) v"
    using map_filter_keys(2) [of "select_rows subject rows Map.empty" e_Key v keys] select_rows_key eff
    unfolding vs by blast
qed

section \<open>The entity tag\<close>

lemma sep_inject:
  "c \<notin> set a \<Longrightarrow> c \<notin> set b \<Longrightarrow> a @ c # x = b @ c # y \<longleftrightarrow> a = b \<and> x = y"
proof (induction a arbitrary: b)
  case Nil
  then show ?case by (cases b) auto
next
  case (Cons h a)
  then show ?case by (cases b) auto
qed

lemma itoa_chars: "0 \<le> i \<Longrightarrow> c \<in> set (itoa i) \<Longrightarrow> 48 \<le> (of_char c :: int) \<and> (of_char c :: int) \<le> 57"
  by (auto simp: itoa_def dest: decimal_digits)

lemma itoa_no_semicolon: "0 \<le> i \<Longrightarrow> CHR '';'' \<notin> set (itoa i)"
  using itoa_chars [of i "CHR '';''"] by auto

lemma etag_text_simps:
  "etag_text [] = []"
  "etag_text (v # vs) = e_ID v @ CHR '':'' # itoa (e_Revision v) @ CHR '';'' # etag_text vs"
  by (simp_all add: etag_text_def)

text \<open>The text behind the tag names every row and its revision: it is the same only for the same list.\<close>

lemma etag_text_inject:
  assumes "\<And>v. v \<in> set vs \<union> set ws \<Longrightarrow> CHR '':'' \<notin> set (e_ID v) \<and> 0 \<le> e_Revision v"
  shows "etag_text vs = etag_text ws \<longleftrightarrow> map (\<lambda>v. (e_ID v, e_Revision v)) vs = map (\<lambda>v. (e_ID v, e_Revision v)) ws"
  using assms
proof (induction vs arbitrary: ws)
  case Nil
  then show ?case by (cases ws) (auto simp: etag_text_simps)
next
  case (Cons v vs)
  show ?case
  proof (cases ws)
    case Nil
    then show ?thesis by (simp add: etag_text_simps)
  next
    case (Cons w ws')
    have ids: "CHR '':'' \<notin> set (e_ID v)" "CHR '':'' \<notin> set (e_ID w)" "0 \<le> e_Revision v" "0 \<le> e_Revision w"
      using Cons.prems Cons by auto
    have "etag_text (v # vs) = etag_text ws \<longleftrightarrow>
        e_ID v = e_ID w \<and> itoa (e_Revision v) = itoa (e_Revision w) \<and> etag_text vs = etag_text ws'"
      unfolding Cons etag_text_simps sep_inject [OF ids(1,2)]
        sep_inject [OF itoa_no_semicolon [OF ids(3)] itoa_no_semicolon [OF ids(4)]] ..
    also have "etag_text vs = etag_text ws' \<longleftrightarrow>
        map (\<lambda>v. (e_ID v, e_Revision v)) vs = map (\<lambda>v. (e_ID v, e_Revision v)) ws'"
      by (rule Cons.IH) (use Cons.prems Cons in auto)
    finally show ?thesis using itoa_inject [OF ids(3,4)] Cons by auto
  qed
qed

section \<open>Pages\<close>

definition scope_list :: "postgres \<Rightarrow> string \<Rightarrow> string \<Rightarrow> string \<Rightarrow> string \<Rightarrow> db \<Rightarrow> entry list" where
  "scope_list pg environment tenantID applicationID service d =
     sort_by (\<lambda>x y. pg_collate pg (e_Key x) (e_Key y))
       (filter (in_scope environment tenantID applicationID service) (entries d))"

lemma concat_slices: "concat (map (\<lambda>i. take k (drop (i * k) xs)) [0..<n]) = take (n * k) xs"
proof (induction n)
  case (Suc n)
  have "take (Suc n * k) xs = take (n * k) xs @ take k (drop (n * k) xs)"
    using take_add [of "n * k" k xs] by (simp add: add.commute)
  with Suc show ?case by simp
qed simp

lemma List_page:
  assumes "access s c tenantID applicationID = Inr caller"
    and "pg_fault (s_repository s) StmtCount = None" and "pg_fault (s_repository s) StmtList = None"
    and "1 \<le> pageSize" and "pageSize \<le> 100" and "int (Suc i) * pageSize \<le> max_int64"
  shows "List s c environment tenantID applicationID service (int i + 1) pageSize d =
    Inr \<lparr>p_Entries = take (nat pageSize) (drop (i * nat pageSize)
            (scope_list (s_repository s) environment tenantID applicationID service d)),
         p_Total = int (length (scope_list (s_repository s) environment tenantID applicationID service d)),
         p_Page = int i + 1, p_PageSize = pageSize\<rparr>"
proof -
  have "0 \<le> int i * pageSize" "int i * pageSize \<le> max_int64"
    using assms(4,6) by (auto simp: algebra_simps)
  then have "wrap64 (int i * pageSize) = int i * pageSize" by (intro wrap64_id) auto
  moreover have "nat (int i * pageSize) = i * nat pageSize"
    by (simp add: nat_mult_distrib)
  ultimately show ?thesis
    using assms \<open>0 \<le> int i * pageSize\<close>
    by (simp add: List_def Let_def repo_List_def scope_list_def not_less)
qed

end
