(* ===== verification/Access_Control.thy ===== *)
theory Access_Control
  imports Audit_Trail Resolution
begin

text \<open>
  Who can read and change what: the tenant boundary for user principals, the outcome of a request
  for the database when it fails, and the rule that a sensitive key never holds a plain value.
\<close>

section \<open>The access check\<close>

lemma access_Inr:
  assumes "access s c tenantID applicationID = Inr caller"
  shows "ctx_principal c = Some caller"
    and "pr_Type caller = TypeUser \<Longrightarrow> pr_TenantID caller = TrimSpace tenantID \<and> TrimSpace tenantID \<noteq> []"
    and "TrimSpace applicationID \<noteq> [] \<Longrightarrow>
      s_applications s (TrimSpace tenantID) (TrimSpace applicationID) = None"
  using assms by (auto simp: access_defs Let_def TrimSpace_idem split: option.splits if_splits)

lemma access_None: "ctx_principal c = None \<Longrightarrow> access s c t a = Inl (Unauthorized ''authenticated actor is required'')"
  by (simp add: access_def)

section \<open>Success and failure of a request\<close>

lemma run_tx_Inr: "run_tx s fn d = (Inr a, d') \<Longrightarrow> fn d = Inr (a, d')"
  using transactor_within.committed [of "s_transactor s" fn d a d']
  by (auto simp: run_tx_def split: prod.splits)

text \<open>The commit whose answer was lost: the only way a failed request can have taken effect.\<close>

definition commit_lost :: "transactor \<Rightarrow> bool" where
  "commit_lost t \<longleftrightarrow> (case tx_commit t of CommitOk \<Rightarrow> False | CommitErr m applied \<Rightarrow> applied)"

lemma run_tx_Inl: "run_tx s fn d = (Inl e, d') \<Longrightarrow> d' = d \<or> commit_lost (s_transactor s)"
  by (auto simp: run_tx_def Within_def commit_lost_def
      split: prod.splits if_splits option.splits sum.splits commit_outcome.splits)

lemma changeStatus_Inl: "changeStatus s c v n st snapshot d = (Inl e, d') \<Longrightarrow> d' = d \<or> commit_lost (s_transactor s)"
  by (auto simp: changeStatus_def split: sum.splits dest: run_tx_Inl)

lemma exec_Inl: "exec s c q d = (Inl e, d') \<Longrightarrow> d' = d \<or> commit_lost (s_transactor s)"
  by (cases q)
    (auto simp: service_defs Let_def split: sum.splits if_splits option.splits
      dest: run_tx_Inl changeStatus_Inl)

text \<open>Without a principal nothing changes.\<close>

lemma exec_no_principal: "ctx_principal c = None \<Longrightarrow> snd (exec s c q d) = d"
  by (cases q) (auto simp: service_defs changeStatus_def access_None Let_def split: sum.splits option.splits)

text \<open>A caller to whom every access is denied changes nothing.\<close>

lemma exec_denied:
  assumes "\<And>t a. access s c t a = Inl (denied t a)"
  shows "\<exists>e. exec s c q d = (Inl e, d)"
  using assms
  by (cases q) (auto simp: service_defs changeStatus_def Let_def split: sum.splits option.splits)

lemma access_no_tenant:
  assumes "ctx_principal c = Some p" and "pr_Type p = TypeUser" and "pr_TenantID p = []"
  shows "access s c t a = Inl (Forbidden ''tenant access denied'')"
  using assms by (simp add: access_defs)

text \<open>Every status change writes one event about the entry it returns.\<close>

lemma changeStatus_tx_event:
  assumes "changeStatus_tx s caller v n st snapshot d = Inr (a, d')"
  shows "\<exists>row. outbox d' = outbox d @ [row] \<and> event_row s caller a st row"
proof -
  from assms obtain d2 where "addChangedEvent s a st (pr_ID caller) d2 = Inr d'" "outbox d2 = outbox d"
    by (auto simp: changeStatus_tx_def repo_Update_def repo_Snapshot_def Let_def
        split: sum.splits if_splits option.splits)
  with addChangedEvent_Inr [OF this(1)] show ?thesis by auto
qed

lemma review_tx_event:
  assumes "review_tx s caller v n st d = Inr (a, d')"
  shows "\<exists>row. outbox d' = outbox d @ [row] \<and> event_row s caller a st row"
proof -
  from assms obtain d2 where "addChangedEvent s a st (pr_ID caller) d2 = Inr d'" "outbox d2 = outbox d"
    by (auto simp: review_tx_def repo_Update_def repo_UpdateRevisionReview_def Let_def
        split: sum.splits if_splits option.splits)
  with addChangedEvent_Inr [OF this(1)] show ?thesis by auto
qed

fun op_change :: "op \<Rightarrow> string option" where
  "op_change (OpPutDraft _ _) = None"
| "op_change (OpSubmit _ _) = Some ''pending_approval''"
| "op_change (OpApprove _ _ _) = Some ''approved''"
| "op_change (OpReject _ _ _) = Some ''rejected''"
| "op_change (OpPublish _ _) = Some ''published''"
| "op_change (OpRollback _ _ _) = Some ''rolled_back''"

lemma changeStatus_event:
  "changeStatus s c v n st snapshot d = (Inr a, d') \<Longrightarrow>
   \<exists>row caller. ctx_principal c = Some caller \<and> outbox d' = outbox d @ [row] \<and> event_row s caller a st row"
  by (auto simp: changeStatus_def split: sum.splits dest!: run_tx_Inr changeStatus_tx_event dest: access_Inr(1))

lemma exec_event:
  assumes "exec s c q d = (Inr a, d')"
  shows "case op_change q of
      None \<Rightarrow> outbox d' = outbox d
    | Some st \<Rightarrow> \<exists>row caller. ctx_principal c = Some caller \<and> outbox d' = outbox d @ [row] \<and> event_row s caller a st row"
proof (cases q)
  case (OpPutDraft v0 n)
  with assms show ?thesis
    by (auto simp: service_defs repo_Insert_def repo_Update_def Let_def
        split: sum.splits if_splits option.splits dest!: run_tx_Inr)
qed (use assms in \<open>auto simp: service_defs rollback_tx_eq split: sum.splits if_splits
      dest!: run_tx_Inr changeStatus_event changeStatus_tx_event review_tx_event dest: access_Inr(1)\<close>)

lemma repo_Update_changes: "repo_Update pg v n d = Inr d' \<Longrightarrow> schema_ok d \<Longrightarrow> d' \<noteq> d"
proof (erule repo_Update_Inr, assumption)
  fix w x
  assume ok: "schema_ok d" and x: "x \<in> set (entries d)"
    and d': "d' = d\<lparr>entries := replace_entry (set_columns pg v w x) (entries d)\<rparr>"
  show "d' \<noteq> d"
  proof
    assume "d' = d"
    then have "replace_entry (set_columns pg v w x) (entries d) = entries d"
      using d' by (metis db.select_convs(1) db.surjective db.update_convs(1))
    moreover have "set_columns pg v w x \<in> set (replace_entry (set_columns pg v w x) (entries d))"
      using x set_replace_entry [of "set_columns pg v w x" "entries d"] by simp
    ultimately have "set_columns pg v w x \<in> set (entries d)" by simp
    from entry_unique [OF ok this x] set_columns_same(3) [of pg v w x] show False by simp
  qed
qed

lemma repo_Insert_changes: "repo_Insert pg v d = Inr d' \<Longrightarrow> length (entries d') = Suc (length (entries d))"
  by (erule repo_Insert_Inr) simp

lemma exec_Inr_changes:
  assumes "exec s c q d = (Inr v, d')" and "schema_ok d"
  shows "d' \<noteq> d"
proof (cases q)
  case (OpPutDraft v0 n)
  with assms show ?thesis
    by (auto simp: service_defs Let_def split: sum.splits if_splits option.splits
        dest!: run_tx_Inr repo_Update_changes repo_Insert_changes)
qed (use exec_event [OF assms(1)] in auto)

text \<open>A request that succeeds has committed one step.\<close>

theorem exec_Inr_committed:
  assumes "exec s c q d = (Inr v, d')" and "lifecycle_inv (s_repository s) d"
  shows "committed s c q d d'"
  using exec_committed [OF assms(1) lifecycle_invD(1,2) [OF assms(2)]]
    exec_Inr_changes [OF assms(1) lifecycle_invD(1) [OF assms(2)]] by blast

section \<open>The tenant boundary\<close>

text \<open>The entries a step touched: new ones, and those whose row is another than before.\<close>

lemma committed_touched:
  assumes "committed s c q d d'" and "e \<in> set (entries d')" and "e \<notin> set (entries d)"
  shows "\<exists>caller. access s c (e_TenantID e) (e_ApplicationID e) = Inr caller"
  using assms(1)
proof cases
  case (create v v0 caller u w n)
  then have "e = new_row s caller u w v" using assms(2,3) by auto
  then show ?thesis using create by (simp add: new_draft_def)
qed (use assms(2,3) in \<open>auto simp: replace_entry_def set_update_where\<close>)

lemma committed_new_revision:
  assumes "committed s c q d d'" and "r \<in> set (revisions d')" and "r \<notin> set (revisions d)"
  shows "\<exists>x \<in> set (entries d). r_EntryID r = e_ID x \<and> (\<exists>caller. access s c (e_TenantID x) (e_ApplicationID x) = Inr caller)"
  using assms(1)
  by cases (use assms(2,3) in \<open>auto simp: snapshot_row_def replace_revision_def set_update_where\<close>)

section \<open>Sensitive keys\<close>

definition secrets_ok :: "db \<Rightarrow> bool" where
  "secrets_ok d \<longleftrightarrow> (\<forall>e \<in> set (entries d). sensitiveKey (e_Key e) \<longrightarrow>
     e_Value e = [] \<and> (\<forall>r \<in> revs_of d (e_ID e). r_Value r = []))"

lemma json_column_Nil [simp]: "json_column pg [] = Some []"
  by (simp add: json_column_def)

lemma secrets_replace:
  assumes "secrets_ok d" and "x \<in> set (entries d)" and "e_ID x' = e_ID x" and "e_Key x' = e_Key x"
    and "entries d' = replace_entry x' (entries d)"
    and "\<And>r. r \<in> set (revisions d') \<Longrightarrow> r_EntryID r \<noteq> e_ID x \<Longrightarrow> r \<in> set (revisions d)"
    and "sensitiveKey (e_Key x) \<Longrightarrow> e_Value x' = [] \<and> (\<forall>r \<in> revs_of d' (e_ID x). r_Value r = [])"
  shows "secrets_ok d'"
proof -
  have "set (entries d') = insert x' {y \<in> set (entries d). e_ID y \<noteq> e_ID x}"
    using set_replace_entry [of x' "entries d"] assms(2,3,5) by simp
  with assms show ?thesis by (auto simp: secrets_ok_def revs_of_def)
qed

lemma secrets_okD:
  "secrets_ok d \<Longrightarrow> x \<in> set (entries d) \<Longrightarrow> sensitiveKey (e_Key x) \<Longrightarrow>
   e_Value x = [] \<and> (\<forall>r \<in> revs_of d (e_ID x). r_Value r = [])"
  by (simp add: secrets_ok_def)

lemma draft_error_sensitive: "draft_error v = None \<Longrightarrow> sensitiveKey (e_Key v) \<Longrightarrow> e_Value v = []"
  by (auto simp: draft_error_def split: if_splits)

lemma committed_secrets:
  assumes "committed s c q d d'" and "schema_ok d" and "secrets_ok d"
  shows "secrets_ok d'"
  using assms(1)
proof cases
  case (create v v0 caller u w n)
  have "revs_of d u = {}"
    using schema_okD(5) [OF assms(2)] create(8) by (metis (mono_tags, lifting) revs_of_def Collect_empty_eq)
  then show ?thesis
    using create assms(3) draft_error_sensitive [of v]
    by (auto simp: secrets_ok_def new_draft_def)
next
  case (redraft v v0 x caller n w x')
  then have "sensitiveKey (e_Key x) \<Longrightarrow> w = []"
    using draft_error_sensitive [of v] by (auto simp: scope_of_def)
  then show ?thesis
    using redraft secrets_okD [OF assms(3), of x] by (intro secrets_replace [OF assms(3), of x x']) auto
next
  case (submit x eid caller n w x' row)
  then show ?thesis
    using secrets_okD [OF assms(3), of x]
    by (intro secrets_replace [OF assms(3), of x x']) (auto simp: revs_of_def snapshot_row_def)
next
  case (publish x eid caller n w x' row)
  then show ?thesis
    using secrets_okD [OF assms(3), of x]
    by (intro secrets_replace [OF assms(3), of x x']) (auto simp: revs_of_def)
next
  case (review x eid caller n w comment st x' r row)
  then show ?thesis
    using secrets_okD [OF assms(3), of x]
    by (intro secrets_replace [OF assms(3), of x x'])
      (auto simp: revs_of_def replace_revision_def set_update_where)
next
  case (rollback x eid r targetRevision caller n w cur x' row)
  then show ?thesis
    using secrets_okD [OF assms(3), of x]
    by (intro secrets_replace [OF assms(3), of x x'])
      (auto simp: revs_of_def snapshot_row_def)
qed

lemma reachable_secrets: "reachable pg d \<Longrightarrow> pg_canonical pg \<Longrightarrow> secrets_ok d"
proof (induction rule: reachable.induct)
  case start
  show ?case by (simp add: secrets_ok_def empty_db_def)
next
  case (step d s f q c r d')
  have "lifecycle_inv (s_repository s) d"
    using reachable_inv [OF step.hyps(1)] step.prems step.hyps(2) by simp
  from exec_committed [OF step.hyps(4) lifecycle_invD(1,2) [OF this]]
    committed_secrets [OF _ lifecycle_invD(1) [OF this] step.IH [OF step.prems]] step.IH [OF step.prems]
  show ?case by blast
qed

section \<open>What a client may cache\<close>

text \<open>The same entry at the same published revision has the same content, now and later.\<close>

lemma published_row_stable:
  assumes "reaches pg d d'" and "lifecycle_inv pg d" and "pg_canonical pg"
    and "published_row d environment tenantID applicationID service v"
    and "published_row d' environment' tenantID' applicationID' service' v'"
    and "e_ID v = e_ID v'" and "e_Revision v = e_Revision v'"
  shows "e_Key v = e_Key v' \<and> e_Value v = e_Value v' \<and> e_SecretRef v = e_SecretRef v' \<and>
    e_RolloutPercentage v = e_RolloutPercentage v'"
proof -
  have ok: "schema_ok d'" using lifecycle_invD(1) reaches_inv [OF assms(1-3)] by blast
  from assms(4,5) obtain e r e' r' where
    e: "e \<in> set (entries d)" "r \<in> set (revisions d)" "v = resolve_view e r" "r_EntryID r = e_ID e"
    and e': "e' \<in> set (entries d')" "r' \<in> set (revisions d')" "v' = resolve_view e' r'" "r_EntryID r' = e_ID e'"
    unfolding published_row_def by blast
  obtain e1 where e1: "e1 \<in> set (entries d')" "later_entry e e1"
    using reaches_entry [OF assms(1-3) e(1)] by blast
  obtain r1 where r1: "r1 \<in> set (revisions d')" "later_revision r r1"
    using reaches_revision [OF assms(1-3) e(2)] by blast
  have "e1 = e'"
    using entry_unique [OF ok e1(1) e'(1)] e1(2) assms(6) e(3) e'(3) by (simp add: later_entry_def)
  moreover have "r1 = r'"
    using revision_unique [OF ok r1(1) e'(2)] r1(2) assms(6,7) e(3,4) e'(3,4)
    by (simp add: later_revision_def rev_key_def)
  ultimately show ?thesis
    using e1(2) r1(2) e(3) e'(3) by (simp add: later_entry_def later_revision_def same_content_def scope_of_def)
qed

lemma map_eq_transfer:
  assumes "map f xs = map f ys" and "\<And>x y. x \<in> set xs \<Longrightarrow> y \<in> set ys \<Longrightarrow> f x = f y \<Longrightarrow> g x = g y"
  shows "map g xs = map g ys"
  using assms
proof (induction xs arbitrary: ys)
  case (Cons x xs)
  then obtain y ys' where "ys = y # ys'" "f x = f y" "map f xs = map f ys'" by (cases ys) auto
  with Cons show ?case by simp
qed simp

section \<open>What is served was approved\<close>

lemma Resolve_approved:
  assumes "reachable pg d" and "pg_canonical pg"
    and "Resolve s c environment tenantID applicationID service subject keys d = Inr (vs, etag)"
    and "v \<in> set vs"
  shows "\<exists>r \<in> set (revisions d). r_EntryID r = e_ID v \<and> r_Status r = ''approved'' \<and>
    r_ReviewedBy r \<noteq> r_CreatedBy r \<and> content_of v r"
proof -
  have inv: "lifecycle_inv pg d" by (rule reachable_inv [OF assms(1,2)])
  from Resolve_member [OF assms(3,4)] obtain e r where
    e: "e \<in> set (entries d)" "r \<in> set (revisions d)" "v = resolve_view e r" "r_EntryID r = e_ID e"
      "r_Revision r = e_PublishedRevision e" "0 < e_PublishedRevision e"
    unfolding published_row_def by blast
  note h = lifecycle_invD(3) [OF inv e(1)]
  from history_okD(5) [OF h e(6)] obtain z where z: "z \<in> revs_of d (e_ID e)"
    "r_Revision z = e_PublishedRevision e" "r_Status z \<in> {''approved'', ''published''}" by blast
  then have "z = r"
    using revision_unique [OF lifecycle_invD(1) [OF inv] _ e(2)] e(4,5) by (simp add: revs_of_def)
  with history_okD(3) [OF h z(1)] z obtain a where a: "a \<in> revs_of d (e_ID e)" "r_Status a = ''approved''"
    "same_content r a"
    by (auto simp: revision_ok_def same_content_def)
  with history_okD(3) [OF h a(1)] e(3) show ?thesis
    by (auto simp: revision_ok_def same_content_def content_of_def revs_of_def)
qed

end
