(* ===== verification/Concurrency.thy ===== *)
theory Concurrency
  imports Access_Control
begin

text \<open>
  Interleaved requests. A method of the service reads the entry outside the transaction that
  writes it, so other requests may commit in between. \<open>finish\<close> runs a request that read the
  database \<open>d0\<close> and writes to \<open>d\<close>, the state some requests later. A request that names the version it
  read is linearizable: it either changes nothing or does what it would have done alone on \<open>d\<close>.
\<close>

fun finish :: "service \<Rightarrow> ctx \<Rightarrow> op \<Rightarrow> db \<Rightarrow> db \<Rightarrow> entry result \<times> db" where
  "finish s c (OpPutDraft v0 n) d0 d =
     (let v = normalize_draft s v0 in
      case draft_error v of
        Some err \<Rightarrow> (Inl err, d)
      | None \<Rightarrow>
        (case access s c (e_TenantID v) (e_ApplicationID v) of
           Inl err \<Rightarrow> (Inl err, d)
         | Inr caller \<Rightarrow>
             putDraft_found s caller v n
               (repo_GetByScope (s_repository s) (e_Environment v) (e_TenantID v) (e_ApplicationID v)
                  (e_Service v) (e_Key v) d0) d))"
| "finish s c (OpSubmit eid n) d0 d =
     (case repo_Get (s_repository s) eid d0 of
        Inl err \<Rightarrow> (Inl (translate err), d) | Inr x \<Rightarrow> submit_current s c n x d)"
| "finish s c (OpApprove eid n comment) d0 d =
     (case repo_Get (s_repository s) eid d0 of
        Inl err \<Rightarrow> (Inl (translate err), d) | Inr x \<Rightarrow> review_current s c n ''approved'' comment x d)"
| "finish s c (OpReject eid n reason) d0 d =
     (if TrimSpace reason = [] then (Inl (Invalid ''rejection reason is required'' None), d)
      else case repo_Get (s_repository s) eid d0 of
        Inl err \<Rightarrow> (Inl (translate err), d) | Inr x \<Rightarrow> review_current s c n ''rejected'' reason x d)"
| "finish s c (OpPublish eid n) d0 d =
     (case repo_Get (s_repository s) eid d0 of
        Inl err \<Rightarrow> (Inl (translate err), d) | Inr x \<Rightarrow> publish_current s c n x d)"
| "finish s c (OpRollback eid t n) d0 d =
     (case repo_GetRevision (s_repository s) eid t d0 of
        Inl err \<Rightarrow> (Inl (translate err), d)
      | Inr target \<Rightarrow>
        (case repo_Get (s_repository s) eid d0 of
           Inl err \<Rightarrow> (Inl (translate err), d) | Inr x \<Rightarrow> rollback_current s c n target x d))"

text \<open>With nothing in between, this is the request.\<close>

lemma finish_same: "finish s c q d d = exec s c q d"
  by (cases q) (simp_all add: PutDraft_def SubmitForApproval_def Approve_def Reject_def review_def Publish_def
      Rollback_def)

text \<open>The entry a request read, and that the request names the version it read.\<close>

fun reads :: "service \<Rightarrow> op \<Rightarrow> db \<Rightarrow> entry result" where
  "reads s (OpPutDraft v0 n) d =
     (let v = normalize_draft s v0 in
      repo_GetByScope (s_repository s) (e_Environment v) (e_TenantID v) (e_ApplicationID v) (e_Service v) (e_Key v) d)"
| "reads s (OpSubmit eid n) d = repo_Get (s_repository s) eid d"
| "reads s (OpApprove eid n comment) d = repo_Get (s_repository s) eid d"
| "reads s (OpReject eid n reason) d = repo_Get (s_repository s) eid d"
| "reads s (OpPublish eid n) d = repo_Get (s_repository s) eid d"
| "reads s (OpRollback eid t n) d = repo_Get (s_repository s) eid d"

definition fresh_read :: "service \<Rightarrow> op \<Rightarrow> db \<Rightarrow> bool" where
  "fresh_read s q d0 \<longleftrightarrow> (case reads s q d0 of Inl e \<Rightarrow> True | Inr x \<Rightarrow> e_Version x = op_version q)"

lemma reads_member: "reads s q d = Inr x \<Longrightarrow> x \<in> set (entries d)"
  by (cases q) (auto simp: Let_def dest: repo_Get_Inr repo_GetByScope_Inr)

section \<open>The entry has changed since\<close>

lemma stale_update:
  assumes "schema_ok d" and "ids_canonical pg d" and "y \<in> set (entries d)" and "e_ID v = e_ID y"
    and "e_Version y \<noteq> n"
  shows "\<nexists>d'. repo_Update pg v n d = Inr d'"
  using update_own_row [OF _ assms(1,3,2,4)] assms(5) by blast

lemma run_tx_stuck: "\<nexists>a d'. fn d = Inr (a, d') \<Longrightarrow> snd (run_tx s fn d) = d"
  using run_tx_cases [of s fn d "fst (run_tx s fn d)" "snd (run_tx s fn d)"] by auto

lemma changeStatus_tx_stale:
  "\<nexists>d'. repo_Update (s_repository s) v n d = Inr d' \<Longrightarrow> \<nexists>a d'. changeStatus_tx s caller v n st snapshot d = Inr (a, d')"
  by (auto simp: changeStatus_tx_def split: sum.splits)

lemma review_tx_stale:
  assumes "schema_ok d" and "ids_canonical (s_repository s) d" and "y \<in> set (entries d)" and "e_ID v = e_ID y"
    and "e_Version y \<noteq> n"
  shows "\<nexists>a d'. review_tx s caller v n st d = Inr (a, d')"
  using review_tx_Inr [OF _ assms(1,3,2,4)] assms(5) by blast

lemma finish_stale:
  assumes "schema_ok d" and "ids_canonical (s_repository s) d" and "reads s q d0 = Inr x"
    and "y \<in> set (entries d)" and "e_ID y = e_ID x" and "e_Version y \<noteq> op_version q"
  shows "snd (finish s c q d0 d) = d"
proof -
  have upd: "\<nexists>d'. repo_Update (s_repository s) v (op_version q) d = Inr d'" if "e_ID v = e_ID x" for v
    by (rule stale_update [OF assms(1,2,4)]) (use that assms(5,6) in auto)
  have rev: "\<nexists>a d'. review_tx s caller v (op_version q) st d = Inr (a, d')" if "e_ID v = e_ID x" for v st caller
    by (rule review_tx_stale [OF assms(1,2,4)]) (use that assms(5,6) in auto)
  have cs: "snd (changeStatus s c v (op_version q) st snapshot d) = d" if "e_ID v = e_ID x" for v st snapshot
    unfolding changeStatus_def
    by (auto split: sum.splits intro!: run_tx_stuck changeStatus_tx_stale upd simp: that)
  have ct: "\<nexists>a d'. changeStatus_tx s caller v (op_version q) st snapshot d = Inr (a, d')"
    if "e_ID v = e_ID x" for v st snapshot caller
    by (rule changeStatus_tx_stale [OF upd [OF that]])
  show ?thesis
  proof (cases q)
    case (OpPutDraft v0 n)
    then show ?thesis
      using assms(3) upd
      by (auto simp: Let_def putDraft_found_def next_draft_def split: option.splits sum.splits intro!: run_tx_stuck)
  next
    case (OpSubmit eid n)
    then show ?thesis using assms(3) cs by (simp add: submit_current_def)
  next
    case (OpApprove eid n comment)
    then show ?thesis
      using assms(3) rev by (auto simp: review_current_def split: sum.splits intro!: run_tx_stuck)
  next
    case (OpReject eid n reason)
    then show ?thesis
      using assms(3) rev by (auto simp: review_current_def split: sum.splits intro!: run_tx_stuck)
  next
    case (OpPublish eid n)
    then show ?thesis using assms(3) cs by (simp add: publish_current_def)
  next
    case (OpRollback eid t n)
    then show ?thesis
      using assms(3) ct
      by (auto simp: rollback_current_def rollback_tx_eq rolled_back_def Let_def split: sum.splits
          intro!: run_tx_stuck)
  qed
qed

section \<open>The entry is still the one that was read\<close>

lemma repo_Get_again:
  assumes "repo_Get pg eid d0 = Inr x" and "schema_ok d" and "x \<in> set (entries d)"
  shows "repo_Get pg eid d = Inr x"
  using assms(1,3) repo_Get_Inr [OF assms(1)] lookup_entry_Some [OF assms(2), of "e_ID x" x]
  by (auto simp: repo_Get_def lookup_entry_def split: option.splits)

lemma repo_GetByScope_again:
  assumes "repo_GetByScope pg env t a sv k d0 = Inr x" and "schema_ok d" and "x \<in> set (entries d)"
  shows "repo_GetByScope pg env t a sv k d = Inr x"
  using assms(1,3) repo_GetByScope_Inr [OF assms(1)]
    find_Some_unique [OF schema_okD(2) [OF assms(2)], of "(env, t, a, sv, k)" x]
  by (auto simp: repo_GetByScope_def split: option.splits)

lemma reads_again:
  "reads s q d0 = Inr x \<Longrightarrow> schema_ok d \<Longrightarrow> x \<in> set (entries d) \<Longrightarrow> reads s q d = Inr x"
  by (cases q) (auto simp: Let_def intro: repo_Get_again repo_GetByScope_again)

lemma finish_reads:
  "reads s q d0 = reads s q d \<Longrightarrow> \<nexists>eid t n. q = OpRollback eid t n \<Longrightarrow> finish s c q d0 d = finish s c q d d"
  by (cases q) (auto simp: Let_def split: option.splits sum.splits)

text \<open>The target of a rollback: an approved revision is still there, with the same content.\<close>

lemma rollback_target_again:
  assumes "repo_GetRevision pg eid t d0 = Inr y" and "repo_Get pg eid d0 = Inr x" and "schema_ok d0"
    and "schema_ok d" and "x \<in> set (entries d)"
    and later: "\<And>z. z \<in> set (revisions d0) \<Longrightarrow> \<exists>z' \<in> set (revisions d). later_revision z z'"
  shows "\<exists>y'. repo_GetRevision pg eid t d = Inr y' \<and> rolled_back y' x = rolled_back y x \<and>
    (e_Status y' = e_Status y \<or> e_Status y = ''pending_approval'')"
proof -
  from repo_GetRevision_Inr [OF assms(1)] obtain e z where z: "y = revision_view e z" "e \<in> set (entries d0)"
    "z \<in> set (revisions d0)" "r_EntryID z = e_ID e" "pg_uuid pg eid = Some (e_ID e)" "r_Revision z = t" by blast
  with repo_Get_Inr [OF assms(2)] entry_unique [OF assms(3) z(2), of x] have e: "e = x" by simp
  from later [OF z(3)] obtain z' where z': "z' \<in> set (revisions d)" "later_revision z z'" by blast
  then have key: "r_EntryID z' = e_ID x" "r_Revision z' = t"
    using z(4,6) e by (auto simp: later_revision_def rev_key_def)
  have "(x, z') \<in> set (joined d)"
    using assms(5) z'(1) key by (simp add: set_joined)
  moreover have "p = (x, z')" if "p \<in> set (joined d)" "case p of (e, r) \<Rightarrow> r_EntryID r = e_ID x \<and> r_Revision r = t" for p
    using that entry_unique [OF assms(4) _ assms(5)] revision_unique [OF assms(4) _ z'(1)] key
    by (auto simp: set_joined)
  ultimately have "find (\<lambda>(e, r). r_EntryID r = e_ID x \<and> r_Revision r = t) (joined d) = Some (x, z')"
    using key by (metis (mono_tags, lifting) case_prodI find_NoneD find_SomeD option.exhaust)
  moreover have "pg_fault pg StmtGetRevision = None"
    using assms(1) by (simp add: repo_GetRevision_def)
  ultimately have "repo_GetRevision pg eid t d = Inr (revision_view x z')"
    using z(5) e by (simp add: repo_GetRevision_def)
  moreover have "rolled_back (revision_view x z') x = rolled_back y x"
    "e_Status (revision_view x z') = e_Status y \<or> e_Status y = ''pending_approval''"
    using z'(2) z(1) e
    by (auto simp: later_revision_def same_content_def rolled_back_def revision_view_def Let_def)
  ultimately show ?thesis by blast
qed

lemma rollback_current_cong:
  assumes "rolled_back y' x = rolled_back y x" and "e_Status y' = e_Status y \<or> e_Status y = ''pending_approval''"
  shows "snd (rollback_current s c n y x d) = d \<or> rollback_current s c n y x d = rollback_current s c n y' x d"
  using assms by (auto simp: rollback_current_def split: sum.splits)

lemma putDraft_late:
  assumes "reads s (OpPutDraft v0 n) d0 = Inl err"
  shows "snd (finish s c (OpPutDraft v0 n) d0 d) = d \<or>
    finish s c (OpPutDraft v0 n) d0 d = finish s c (OpPutDraft v0 n) d d"
proof (cases "reads s (OpPutDraft v0 n) d")
  case (Inl err')
  show ?thesis
  proof (cases "err = ErrNotFound")
    case True
    with assms Inl have "err' = ErrNotFound"
      by (auto simp: Let_def repo_GetByScope_def faulty_def split: option.splits)
    with True assms Inl show ?thesis using finish_reads [of s "OpPutDraft v0 n" d0 d c] by auto
  next
    case False
    then show ?thesis
      using assms by (auto simp: Let_def putDraft_found_def repo_GetByScope_def faulty_def split: option.splits sum.splits)
  qed
next
  case (Inr x)
  let ?v = "normalize_draft s v0"
  have x: "x \<in> set (entries d)" "scope_of x = scope_of ?v"
    using Inr repo_GetByScope_Inr by (fastforce simp: Let_def scope_of_def)+
  have "\<nexists>d'. repo_Insert (s_repository s) (new_draft s caller ?v) d = Inr d'" for caller
  proof
    assume "\<exists>d'. repo_Insert (s_repository s) (new_draft s caller ?v) d = Inr d'"
    then have "scope_of (new_draft s caller ?v) \<notin> scope_of ` set (entries d)"
      by (auto elim: repo_Insert_Inr)
    moreover have "scope_of (new_draft s caller ?v) = scope_of x"
      using x(2) by (simp add: new_draft_def scope_of_def)
    ultimately show False using x(1) by simp
  qed
  then show ?thesis
    using assms by (auto simp: Let_def putDraft_found_def split: option.splits sum.splits intro!: run_tx_stuck)
qed

theorem finish_linearizable:
  assumes "reaches pg d0 d" and "lifecycle_inv pg d0" and "pg_canonical pg"
    and "s_repository s = pg\<lparr>pg_fault := f\<rparr>" and "fresh_read s q d0"
  shows "snd (finish s c q d0 d) = d \<or> finish s c q d0 d = exec s c q d"
proof (cases "reads s q d0")
  case (Inl err)
  then show ?thesis
    using putDraft_late [of s _ _ d0 err c d] unfolding finish_same [symmetric]
    by (cases q) (auto split: sum.splits)
next
  case (Inr x)
  have inv: "lifecycle_inv (s_repository s) d" and inv0: "lifecycle_inv (s_repository s) d0"
    using reaches_inv [OF assms(1-3)] assms(2,4) by simp_all
  note ok = lifecycle_invD(1,2) [OF inv]
  have "x \<in> set (entries d0)" and ver: "e_Version x = op_version q"
    using reads_member [OF Inr] assms(5) Inr by (simp_all add: fresh_read_def)
  then obtain y where y: "y \<in> set (entries d)" "later_entry x y"
    using reaches_entry [OF assms(1-3)] by blast
  show ?thesis
  proof (cases "e_Version y = op_version q")
    case False
    then have "snd (finish s c q d0 d) = d"
      using finish_stale [OF ok Inr y(1)] y(2) by (simp add: later_entry_def)
    then show ?thesis ..
  next
    case True
    with y ver have x: "x \<in> set (entries d)" by (simp add: later_entry_def)
    have again: "reads s q d = Inr x" by (rule reads_again [OF Inr ok(1) x])
    show ?thesis
    proof (cases "\<exists>eid t n. q = OpRollback eid t n")
      case False
      then show ?thesis using finish_reads [of s q d0 d c] Inr again by (simp add: finish_same)
    next
      case True
      then obtain eid t n where q: "q = OpRollback eid t n" by blast
      show ?thesis
      proof (cases "repo_GetRevision (s_repository s) eid t d0")
        case (Inl err)
        then show ?thesis by (simp add: q)
      next
        case (Inr target)
        obtain t' where "repo_GetRevision (s_repository s) eid t d = Inr t'"
          "rolled_back t' x = rolled_back target x" "e_Status t' = e_Status target \<or> e_Status target = ''pending_approval''"
          using rollback_target_again [OF Inr _ lifecycle_invD(1) [OF inv0] ok(1) x reaches_revision [OF assms(1-3)]]
            \<open>reads s q d0 = Inr x\<close> q by auto
        with rollback_current_cong [of t' x target s c n d] Inr again \<open>reads s q d0 = Inr x\<close> show ?thesis
          by (simp add: q Rollback_def)
      qed
    qed
  qed
qed

end
