(* ===== verification/Progress.thy ===== *)
theory Progress
  imports Access_Control
begin

text \<open>
  Requests that must succeed. On a healthy deployment a request that passes the documented checks
  (the right status, the current version, an authorised caller, another reviewer than the
  submitter) is carried out: no constraint of the schema and no missing row can stop it. The one
  exception, the submission of a rejected entry, is stated as it is.
\<close>

section \<open>A healthy deployment\<close>

definition event_id_free :: "service \<Rightarrow> db \<Rightarrow> bool" where
  "event_id_free s d \<longleftrightarrow>
     (\<forall>m p. em_EventID m = s_uuid s \<longrightarrow> (\<exists>env b. s_newEnvelope s m p = Inr env \<and> s_marshal s env = Inr b \<and>
        GetEventId env \<notin> (\<lambda>row. ev_ID (o_Event row)) ` set (outbox d)))"

definition healthy :: "service \<Rightarrow> db \<Rightarrow> bool" where
  "healthy s d \<longleftrightarrow> tx_healthy (s_transactor s) \<and> (\<forall>q. pg_fault (s_repository s) q = None) \<and> event_id_free s d"

lemma healthyD:
  assumes "healthy s d"
  shows "tx_healthy (s_transactor s)" and "pg_fault (s_repository s) q = None" and "event_id_free s d"
  using assms by (auto simp: healthy_def)

lemma run_tx_healthy:
  "tx_healthy (s_transactor s) \<Longrightarrow> fn d = Inr (a, d') \<Longrightarrow> run_tx s fn d = (Inr a, d')"
  by (simp add: run_tx_def Within_healthy)

lemma run_tx_healthy_error:
  "tx_healthy (s_transactor s) \<Longrightarrow> fn d = Inl e \<Longrightarrow> run_tx s fn d = (Inl (translate e), d)"
  by (simp add: run_tx_def Within_healthy)

section \<open>Statements that must succeed\<close>

lemma repo_Get_own:
  assumes "pg_fault pg StmtGet = None" and "schema_ok d" and "x \<in> set (entries d)"
    and "pg_uuid pg eid = Some (e_ID x)"
  shows "repo_Get pg eid d = Inr x"
  using assms lookup_entry_Some [OF assms(2), of "e_ID x" x] by (simp add: repo_Get_def lookup_entry_def)

lemma repo_Update_own:
  assumes "pg_fault pg StmtUpdate = None" and "schema_ok d" and "x \<in> set (entries d)"
    and "pg_uuid pg (e_ID v) = Some (e_ID x)" and "json_column pg (e_Value v) = Some w"
    and "e_Version x = n" and "n < max_int64" and "entry_check (set_columns pg v w x)"
  shows "repo_Update pg v n d = Inr (d\<lparr>entries := replace_entry (set_columns pg v w x) (entries d)\<rparr>)"
proof -
  have u: "y = x" if "y \<in> set (entries d)" "e_ID y = e_ID x" for y
    using entry_unique [OF assms(2) that(1) assms(3) that(2)] .
  have "filter (\<lambda>y. e_ID y = e_ID x \<and> e_Version y = n) (entries d) \<noteq> []"
    using assms(3,6) by (auto simp: filter_empty_conv)
  moreover have "y = x" if "y \<in> set (filter (\<lambda>y. e_ID y = e_ID x \<and> e_Version y = n) (entries d))" for y
    using that u by simp
  moreover have "update_where (\<lambda>y. e_ID y = e_ID x \<and> e_Version y = n) (set_columns pg v w) (entries d)
      = replace_entry (set_columns pg v w x) (entries d)"
    unfolding update_where_def replace_entry_def
  proof (rule map_cong [OF refl])
    fix y
    assume y: "y \<in> set (entries d)"
    show "(if e_ID y = e_ID x \<and> e_Version y = n then set_columns pg v w y else y) =
        (if e_ID y = e_ID (set_columns pg v w x) then set_columns pg v w x else y)"
      by (cases "e_ID y = e_ID x") (use u [OF y] assms(6) in simp_all)
  qed
  ultimately show ?thesis
    using assms(1,4-8) by (auto simp: repo_Update_def Let_def)
qed

lemma addChangedEvent_free:
  assumes "pg_fault (s_repository s) StmtAddOutbox = None" and "event_id_free s d" and "outbox d1 = outbox d"
  shows "\<exists>d2. addChangedEvent s v st actor d1 = Inr d2"
proof -
  have "em_EventID (changed_metadata s v actor) = s_uuid s" by (simp add: changed_metadata_def)
  with assms(2) obtain env b where "s_newEnvelope s (changed_metadata s v actor) (changed_payload s v st) = Inr env"
    "s_marshal s env = Inr b" "GetEventId env \<notin> (\<lambda>row. ev_ID (o_Event row)) ` set (outbox d)"
    unfolding event_id_free_def by blast
  with assms(1,3) show ?thesis by (simp add: addChangedEvent_def repo_AddOutbox_def)
qed

text \<open>A row identifier \<^verbatim>\<open><entry>-<revision>\<close> is free when no row has that entry and revision.\<close>

lemma snapshot_id_fresh:
  assumes "lifecycle_inv pg d" and "(u, n) \<notin> rev_key ` set (revisions d)" and "0 \<le> n"
  shows "u @ ''-'' @ itoa n \<notin> r_ID ` set (revisions d)"
proof
  assume "u @ ''-'' @ itoa n \<in> r_ID ` set (revisions d)"
  then obtain r where r: "r \<in> set (revisions d)" "r_ID r = u @ ''-'' @ itoa n" by (auto simp: image_iff)
  then obtain e where e: "e \<in> set (entries d)" "r_EntryID r = e_ID e"
    using schema_okD(5) [OF lifecycle_invD(1) [OF assms(1)] r(1)] by auto
  then have "revision_ok pg e (revs_of d (e_ID e)) r"
    using history_okD(3) [OF lifecycle_invD(3) [OF assms(1) e(1)], of r] r(1) by (simp add: revs_of_def)
  then have "0 \<le> r_Revision r" "r_EntryID r @ CHR ''-'' # itoa (r_Revision r) = u @ CHR ''-'' # itoa n"
    using r(2) by (auto simp: revision_ok_def)
  with append_sep_inject [OF this(2)] assms(3) have "r_EntryID r = u" "r_Revision r = n"
    by (simp_all add: itoa_no_dash itoa_inject)
  with r(1) assms(2) show False by (auto simp: rev_key_def)
qed

lemma changeStatus_tx_own:
  assumes h: "healthy s d" and inv: "lifecycle_inv (s_repository s) d" and x: "x \<in> set (entries d)"
    and v: "e_ID v = e_ID x" "json_column (s_repository s) (e_Value v) = Some w" "0 \<le> e_Revision v"
      "entry_check (set_columns (s_repository s) v w x)"
    and n: "e_Version x = n" "n < max_int64"
    and fresh: "snapshot \<Longrightarrow> (e_ID x, e_Revision v) \<notin> rev_key ` set (revisions d)"
  shows "\<exists>d'. changeStatus_tx s caller v n st snapshot d = Inr (v\<lparr>e_Version := wrap64 (n + 1)\<rparr>, d')"
proof -
  let ?pg = "s_repository s" and ?v = "v\<lparr>e_Version := wrap64 (n + 1)\<rparr>"
  let ?d1 = "d\<lparr>entries := replace_entry (set_columns ?pg v w x) (entries d)\<rparr>"
  have can: "pg_uuid ?pg (e_ID v) = Some (e_ID x)"
    using lifecycle_invD(2) [OF inv] x v(1) by (simp add: ids_canonical_def)
  have upd: "repo_Update ?pg v n d = Inr ?d1"
    by (rule repo_Update_own [OF healthyD(2) [OF h] lifecycle_invD(1) [OF inv] x can v(2) n v(4)])
  have "e_ID x \<in> e_ID ` set (entries ?d1)"
    using x set_replace_entry [of "set_columns ?pg v w x" "entries d"] by simp
  then have "\<exists>d2. (if snapshot then repo_Snapshot ?pg ?v ?d1 else Inr ?d1) = Inr d2 \<and> outbox d2 = outbox d"
    using fresh snapshot_id_fresh [OF inv _ v(3), of "e_ID x"] can v(1,2) healthyD(2) [OF h]
    by (auto simp: repo_Snapshot_def Let_def snapshot_row_def rev_key_def)
  then obtain d2 where d2: "(if snapshot then repo_Snapshot ?pg ?v ?d1 else Inr ?d1) = Inr d2" "outbox d2 = outbox d"
    by blast
  obtain d3 where "addChangedEvent s ?v st (pr_ID caller) d2 = Inr d3"
    using addChangedEvent_free [OF healthyD(2,3) [OF h] d2(2)] by blast
  with upd d2(1) show ?thesis by (simp add: changeStatus_tx_def Let_def)
qed

lemma review_tx_own:
  assumes h: "healthy s d" and inv: "lifecycle_inv (s_repository s) d" and x: "x \<in> set (entries d)"
    and v: "e_ID v = e_ID x" "json_column (s_repository s) (e_Value v) = Some w" "e_Revision v = e_Revision x"
      "entry_check (set_columns (s_repository s) v w x)"
    and n: "e_Version x = n" "n < max_int64" and pending: "e_Status x = ''pending_approval''"
  shows "\<exists>d'. review_tx s caller v n st d = Inr (v\<lparr>e_Version := wrap64 (n + 1)\<rparr>, d')"
proof -
  let ?pg = "s_repository s" and ?v = "v\<lparr>e_Version := wrap64 (n + 1)\<rparr>"
  have ok: "history_ok ?pg x (revs_of d (e_ID x))" by (rule lifecycle_invD(3) [OF inv x])
  with pending obtain r where r: "r \<in> revs_of d (e_ID x)" "stands_on x r"
    using history_okD(4) by fastforce
  have can: "pg_uuid ?pg (e_ID v) = Some (e_ID x)"
    using lifecycle_invD(2) [OF inv] x v(1) by (simp add: ids_canonical_def)
  let ?hit = "\<lambda>r. r_EntryID r = e_ID x \<and> r_Revision r = e_Revision v \<and> r_Status r = ''pending_approval''"
  have one: "r_Version z = 1" if "z \<in> set (filter ?hit (revisions d))" for z
    using that history_okD(3) [OF ok, of z] by (auto simp: revs_of_def revision_ok_def)
  then have small: "\<not> max_int64 \<le> r_Version z" if "z \<in> set (filter ?hit (revisions d))" for z
    using one [OF that] by (simp add: max_int64_def)
  have "filter ?hit (revisions d) \<noteq> []"
    using r pending v(3) by (auto simp: revs_of_def stands_on_def filter_empty_conv)
  moreover have "\<not> (\<exists>z \<in> set (filter ?hit (revisions d)). max_int64 \<le> r_Version z)"
    using small by blast
  ultimately obtain d1 where d1: "repo_UpdateRevisionReview ?pg v ''pending_approval'' d = Inr d1"
    "entries d1 = entries d" "outbox d1 = outbox d"
    using can healthyD(2) [OF h] by (auto simp: repo_UpdateRevisionReview_def Let_def)
  have "repo_Update ?pg v n d1 = Inr (d1\<lparr>entries := replace_entry (set_columns ?pg v w x) (entries d1)\<rparr>)"
    using repo_Update_own [OF healthyD(2) [OF h] repo_UpdateRevisionReview_schema [OF d1(1) lifecycle_invD(1) [OF inv]]
        _ can v(2) n v(4)] x d1(2) by simp
  moreover have "\<exists>d3. addChangedEvent s ?v st (pr_ID caller)
      (d1\<lparr>entries := replace_entry (set_columns ?pg v w x) (entries d1)\<rparr>) = Inr d3"
    by (rule addChangedEvent_free [OF healthyD(2,3) [OF h]]) (simp add: d1(3))
  ultimately show ?thesis using d1(1) by (auto simp: review_tx_def Let_def)
qed

section \<open>Requests that must succeed\<close>

lemma entry_check_kept:
  "entry_check x \<Longrightarrow> e_SecretRef v = e_SecretRef x \<Longrightarrow> e_RolloutPercentage v = e_RolloutPercentage x \<Longrightarrow>
   entry_check (set_columns pg v (e_Value x) x)"
  by (simp add: entry_check_def)

text \<open>What the requests on an existing entry share: the row they read and its current content.\<close>

lemma current_row:
  assumes "healthy s d" and "lifecycle_inv (s_repository s) d" and "x \<in> set (entries d)"
    and "pg_uuid (s_repository s) eid = Some (e_ID x)"
  shows "repo_Get (s_repository s) eid d = Inr x" and "entry_check x" and "0 \<le> e_Revision x"
    and "json_column (s_repository s) (e_Value x) = Some (e_Value x)"
  using repo_Get_own [OF healthyD(2) [OF assms(1)] lifecycle_invD(1) [OF assms(2)] assms(3,4)]
    schema_okD(6) [OF lifecycle_invD(1) [OF assms(2)] assms(3)]
    history_okD(1,2) [OF lifecycle_invD(3) [OF assms(2,3)]]
  by (auto simp: counters_ok_def)

lemma changeStatus_own:
  assumes h: "healthy s d" and inv: "lifecycle_inv (s_repository s) d" and x: "x \<in> set (entries d)"
    and v: "e_ID v = e_ID x" "e_Value v = e_Value x" "e_SecretRef v = e_SecretRef x" "e_Revision v = e_Revision x"
      "e_RolloutPercentage v = e_RolloutPercentage x" "access s c (e_TenantID v) (e_ApplicationID v) = Inr caller"
    and n: "e_Version x < max_int64"
    and fresh: "snapshot \<Longrightarrow> (e_ID x, e_Revision x) \<notin> rev_key ` set (revisions d)"
  shows "\<exists>d'. changeStatus s c v (e_Version x) st snapshot d =
    (Inr (v\<lparr>e_Status := st, e_UpdatedAt := s_now s, e_UpdatedBy := pr_ID caller,
            e_Version := wrap64 (e_Version x + 1)\<rparr>), d')"
proof -
  let ?v = "v\<lparr>e_Status := st, e_UpdatedAt := s_now s, e_UpdatedBy := pr_ID caller\<rparr>"
  have row: "entry_check x" "0 \<le> e_Revision x" "json_column (s_repository s) (e_Value x) = Some (e_Value x)"
    using current_row [OF h inv x, of "e_ID x"] lifecycle_invD(2) [OF inv] x by (auto simp: ids_canonical_def)
  have "\<exists>d'. changeStatus_tx s caller ?v (e_Version x) st snapshot d = Inr (?v\<lparr>e_Version := wrap64 (e_Version x + 1)\<rparr>, d')"
    by (rule changeStatus_tx_own [OF h inv x _ _ _ _ refl n])
      (use v row fresh entry_check_kept [OF row(1), of ?v] in simp_all)
  then show ?thesis
    using v(6) run_tx_healthy [OF healthyD(1) [OF h], of "changeStatus_tx s caller ?v (e_Version x) st snapshot"]
    by (auto simp: changeStatus_def)
qed

lemma draft_number_free:
  assumes "lifecycle_inv pg d" and "x \<in> set (entries d)" and "e_Status x = ''draft''"
  shows "(e_ID x, e_Revision x) \<notin> rev_key ` set (revisions d)"
proof
  assume "(e_ID x, e_Revision x) \<in> rev_key ` set (revisions d)"
  then obtain r where "r \<in> revs_of d (e_ID x)" "r_Revision r = e_Revision x"
    by (auto simp: rev_key_def revs_of_def)
  with history_okD(3) [OF lifecycle_invD(3) [OF assms(1,2)], of r] assms(3) show False
    by (simp add: revision_ok_def)
qed

text \<open>One lemma per request: submission of a draft, review by another user, publication.\<close>

lemma submit_succeeds:
  assumes "healthy s d" and "lifecycle_inv (s_repository s) d" and "x \<in> set (entries d)"
    and "pg_uuid (s_repository s) eid = Some (e_ID x)" and "e_Version x < max_int64"
    and "access s c (e_TenantID x) (e_ApplicationID x) = Inr caller" and "e_Status x = ''draft''"
  shows "\<exists>d'. SubmitForApproval s c eid (e_Version x) d =
    (Inr ((submitted_entry s caller x)\<lparr>e_Version := wrap64 (e_Version x + 1)\<rparr>), d')"
  using changeStatus_own [OF assms(1-3), of "x\<lparr>e_ReviewComment := [], e_ReviewedBy := [], e_ReviewedAt := None\<rparr>"
      c caller True "''pending_approval''"] draft_number_free [OF assms(2,3,7)]
    current_row(1) [OF assms(1-4)] assms(5-7)
  by (auto simp: SubmitForApproval_def submit_current_def)

lemma publish_succeeds:
  assumes "healthy s d" and "lifecycle_inv (s_repository s) d" and "x \<in> set (entries d)"
    and "pg_uuid (s_repository s) eid = Some (e_ID x)" and "e_Version x < max_int64"
    and "access s c (e_TenantID x) (e_ApplicationID x) = Inr caller" and "e_Status x = ''approved''"
  shows "\<exists>d'. Publish s c eid (e_Version x) d =
    (Inr ((published_entry s caller x)\<lparr>e_Version := wrap64 (e_Version x + 1)\<rparr>), d')"
  using changeStatus_own [OF assms(1-3), of "x\<lparr>e_PublishedRevision := e_Revision x\<rparr>" c caller False "''published''"]
    current_row(1) [OF assms(1-4)] assms(5-7)
  by (auto simp: Publish_def publish_current_def)

lemma review_succeeds:
  assumes "healthy s d" and "lifecycle_inv (s_repository s) d" and "x \<in> set (entries d)"
    and "pg_uuid (s_repository s) eid = Some (e_ID x)" and "e_Version x < max_int64"
    and "access s c (e_TenantID x) (e_ApplicationID x) = Inr caller" and "e_Status x = ''pending_approval''"
    and "pr_ID caller \<noteq> e_UpdatedBy x"
  shows "\<exists>d'. review s c eid (e_Version x) st comment d =
    (Inr ((reviewed_entry s caller st comment x)\<lparr>e_Version := wrap64 (e_Version x + 1)\<rparr>), d')"
proof -
  note row = current_row [OF assms(1-4)]
  have "\<exists>d'. review_tx s caller (reviewed_entry s caller st comment x) (e_Version x) st d =
      Inr ((reviewed_entry s caller st comment x)\<lparr>e_Version := wrap64 (e_Version x + 1)\<rparr>, d')"
    by (rule review_tx_own [OF assms(1-3) _ _ _ _ refl assms(5,7)])
      (use row entry_check_kept [OF row(2), of "reviewed_entry s caller st comment x"] in simp_all)
  then show ?thesis
    using row(1) assms(6-8)
      run_tx_healthy [OF healthyD(1) [OF assms(1)], of "review_tx s caller (reviewed_entry s caller st comment x) (e_Version x) st"]
    by (auto simp: review_def review_current_def)
qed

text \<open>A rejected entry cannot be submitted again: its revision number is taken.\<close>

lemma resubmit_fails:
  assumes "healthy s d" and "lifecycle_inv (s_repository s) d" and "x \<in> set (entries d)"
    and "pg_uuid (s_repository s) eid = Some (e_ID x)" and "e_Version x < max_int64"
    and "access s c (e_TenantID x) (e_ApplicationID x) = Inr caller" and "e_Status x = ''rejected''"
  shows "SubmitForApproval s c eid (e_Version x) d = (Inl (Internal (SQLError UniqueViolation)), d)"
proof -
  let ?pg = "s_repository s" and ?v = "submitted_entry s caller x"
  note row = current_row [OF assms(1-4)]
  have can: "pg_uuid ?pg (e_ID x) = Some (e_ID x)"
    using lifecycle_invD(2) [OF assms(2)] assms(3) by (simp add: ids_canonical_def)
  obtain r where "r \<in> revs_of d (e_ID x)" "stands_on x r"
    using history_okD(4) [OF lifecycle_invD(3) [OF assms(2,3)]] assms(7) by auto
  then have taken: "(e_ID x, e_Revision x) \<in> (\<lambda>r. (r_EntryID r, r_Revision r)) ` set (revisions d)"
    by (force simp: revs_of_def stands_on_def)
  have "repo_Update ?pg ?v (e_Version x) d = Inr (d\<lparr>entries := replace_entry (set_columns ?pg ?v (e_Value x) x) (entries d)\<rparr>)"
    by (rule repo_Update_own [OF healthyD(2) [OF assms(1)] lifecycle_invD(1) [OF assms(2)] assms(3)])
      (use can row assms(5) entry_check_kept [OF row(2), of ?v] in simp_all)
  then have "changeStatus_tx s caller ?v (e_Version x) ''pending_approval'' True d = Inl (SQLError UniqueViolation)"
    using can row(4) taken healthyD(2) [OF assms(1)]
    by (simp add: changeStatus_tx_def Let_def repo_Snapshot_def)
  then show ?thesis
    using row(1) assms(6,7) run_tx_healthy_error [OF healthyD(1) [OF assms(1)],
        of "changeStatus_tx s caller ?v (e_Version x) ''pending_approval'' True"]
    by (simp add: SubmitForApproval_def submit_current_def changeStatus_def translate_def)
qed

end
