(* ===== verification/Fixtures.thy ===== *)
theory Fixtures
  imports Progress
begin

text \<open>
  A concrete deployment on which the witnesses of the properties are evaluated: a healthy
  database that keeps identifiers, JSON texts and times as they are written, an event library
  that never fails, one tenant with an author and a reviewer.
\<close>

definition fix_pg :: postgres where
  "fix_pg = \<lparr>pg_uuid = Some, pg_json = (\<lambda>v. if v = [] then None else Some v), pg_time = (\<lambda>t. t),
     pg_collate = (\<lambda>_ _. True), pg_fault = (\<lambda>_. None)\<rparr>"

definition fix_tx :: transactor where
  "fix_tx = \<lparr>tx_available = True, tx_begin = None, tx_rollback = None, tx_commit = CommitOk\<rparr>"

definition fix_service :: "string \<Rightarrow> service" where
  "fix_service uuid =
     \<lparr>s_repository = fix_pg, s_transactor = fix_tx, s_now = 1000, s_applications = allowAllApplications,
      s_uuid = uuid, s_lower = (\<lambda>r. r),
      s_newEnvelope = (\<lambda>m p. Inr (Envelope (em_EventID m) (px_Id (cc_Entry p)))),
      s_marshal = (\<lambda>env. Inr (case env of Envelope i b \<Rightarrow> i @ b)), s_timestamp = (\<lambda>t. (t, 0))\<rparr>"

definition as_user :: "string \<Rightarrow> string \<Rightarrow> ctx" where
  "as_user uid tenant =
     background\<lparr>ctx_principal := Some \<lparr>pr_ID = uid, pr_Type = TypeUser, pr_TenantID = tenant\<rparr>\<rparr>"

definition fix_entry :: entry where
  "fix_entry =
     \<lparr>e_ID = [], e_Environment = ''prod'', e_TenantID = ''t1'', e_ApplicationID = [], e_Service = ''web'',
      e_Key = ''flag'', e_Value = ''true'', e_SecretRef = [], e_Status = [], e_Revision = 0,
      e_RolloutPercentage = 100, e_PublishedRevision = 0, e_ReviewComment = [], e_ReviewedBy = [],
      e_ReviewedAt = None, e_Version = 0, e_CreatedAt = 0, e_UpdatedAt = 0, e_CreatedBy = [], e_UpdatedBy = []\<rparr>"

text \<open>The states of one entry's life: drafted, submitted, approved, published; or rejected.\<close>

definition db_drafted :: db where
  "db_drafted = snd (PutDraft (fix_service ''c1'') (as_user ''ann'' ''t1'') fix_entry 0 empty_db)"

definition db_submitted :: db where
  "db_submitted = snd (SubmitForApproval (fix_service ''v1'') (as_user ''ann'' ''t1'') ''c1'' 1 db_drafted)"

definition db_approved :: db where
  "db_approved = snd (Approve (fix_service ''v2'') (as_user ''bob'' ''t1'') ''c1'' 2 ''ok'' db_submitted)"

definition db_rejected :: db where
  "db_rejected = snd (Reject (fix_service ''v2'') (as_user ''bob'' ''t1'') ''c1'' 2 ''no'' db_submitted)"

definition db_published :: db where
  "db_published = snd (Publish (fix_service ''v3'') (as_user ''ann'' ''t1'') ''c1'' 3 db_approved)"

definition db_redrafted :: db where
  "db_redrafted = snd (PutDraft (fix_service ''v4'') (as_user ''bob'' ''t1'')
     (fix_entry\<lparr>e_Value := ''false''\<rparr>) 4 db_published)"

definition db_secret :: db where
  "db_secret = snd (PutDraft (fix_service ''c2'') (as_user ''ann'' ''t1'')
     (fix_entry\<lparr>e_Key := ''db_password'', e_Value := [], e_SecretRef := ''vault/db''\<rparr>) 0 empty_db)"

section \<open>Facts about the deployment\<close>

lemma fix_canonical: "pg_canonical fix_pg"
  by (auto simp: pg_canonical_def fix_pg_def)

lemma fix_service_same [simp]:
  "s_repository (fix_service uuid) = fix_pg" "s_transactor (fix_service uuid) = fix_tx"
  "s_now (fix_service uuid) = 1000"
  by (simp_all add: fix_service_def)

lemma fix_same [simp]:
  "pg_fault fix_pg q = None" "pg_uuid fix_pg eid = Some eid" "pg_collate fix_pg x y"
  by (simp_all add: fix_pg_def)

lemma fix_reachable: "reachable fix_pg d \<Longrightarrow> op_ok q \<Longrightarrow> reachable fix_pg (snd (exec (fix_service uuid) c q d))"
  by (rule reachable.step [of fix_pg d "fix_service uuid" "pg_fault fix_pg" q c "fst (exec (fix_service uuid) c q d)"])
    simp_all

lemma fix_reaches: "exec (fix_service uuid) c q d = (r, d') \<Longrightarrow> op_ok q \<Longrightarrow> reaches fix_pg d d'"
  by (rule reaches.onward [OF reaches.here, where s = "fix_service uuid" and f = "pg_fault fix_pg"]) simp_all

lemma db_drafted_reachable: "reachable fix_pg db_drafted"
  using fix_reachable [OF reachable.start, of "OpPutDraft fix_entry 0" "''c1''" "as_user ''ann'' ''t1''"]
  by (simp add: db_drafted_def fix_entry_def)

lemma db_submitted_reachable: "reachable fix_pg db_submitted"
  using fix_reachable [OF db_drafted_reachable, of "OpSubmit ''c1'' 1" "''v1''" "as_user ''ann'' ''t1''"]
  by (simp add: db_submitted_def)

lemma db_approved_reachable: "reachable fix_pg db_approved"
  using fix_reachable [OF db_submitted_reachable, of "OpApprove ''c1'' 2 ''ok''" "''v2''" "as_user ''bob'' ''t1''"]
  by (simp add: db_approved_def)

lemma db_rejected_reachable: "reachable fix_pg db_rejected"
  using fix_reachable [OF db_submitted_reachable, of "OpReject ''c1'' 2 ''no''" "''v2''" "as_user ''bob'' ''t1''"]
  by (simp add: db_rejected_def)

lemma db_published_reachable: "reachable fix_pg db_published"
  using fix_reachable [OF db_approved_reachable, of "OpPublish ''c1'' 3" "''v3''" "as_user ''ann'' ''t1''"]
  by (simp add: db_published_def)

lemmas fix_inv = reachable_inv [OF db_drafted_reachable fix_canonical] reachable_inv [OF db_submitted_reachable fix_canonical]
  reachable_inv [OF db_approved_reachable fix_canonical] reachable_inv [OF db_rejected_reachable fix_canonical]
  reachable_inv [OF db_published_reachable fix_canonical]

text \<open>The rows of these states.\<close>

lemma db_drafted_rows [code]:
  "db_drafted =
    \<lparr>entries = [\<lparr>e_ID = ''c1'', e_Environment = ''prod'', e_TenantID = ''t1'', e_ApplicationID = [],
     e_Service = ''web'', e_Key = ''flag'', e_Value = ''true'', e_SecretRef = [], e_Status = ''draft'', e_Revision =
     1, e_RolloutPercentage = 100, e_PublishedRevision = 0, e_ReviewComment = [], e_ReviewedBy = [], e_ReviewedAt =
     None, e_Version = 1, e_CreatedAt = 1000, e_UpdatedAt = 1000, e_CreatedBy = ''ann'', e_UpdatedBy =
     ''ann''\<rparr>], revisions = [], outbox = []\<rparr>"
  by code_simp

lemma db_submitted_rows [code]:
  "db_submitted =
    \<lparr>entries = [\<lparr>e_ID = ''c1'', e_Environment = ''prod'', e_TenantID = ''t1'', e_ApplicationID = [],
     e_Service = ''web'', e_Key = ''flag'', e_Value = ''true'', e_SecretRef = [], e_Status = ''pending_approval'',
     e_Revision = 1, e_RolloutPercentage = 100, e_PublishedRevision = 0, e_ReviewComment = [], e_ReviewedBy = [],
     e_ReviewedAt = None, e_Version = 2, e_CreatedAt = 1000, e_UpdatedAt = 1000, e_CreatedBy = ''ann'', e_UpdatedBy =
     ''ann''\<rparr>], revisions = [\<lparr>r_ID = ''c1-1'', r_EntryID = ''c1'', r_Revision = 1, r_Value = ''true'',
     r_SecretRef = [], r_Status = ''pending_approval'', r_RolloutPercentage = 100, r_ReviewComment = [], r_ReviewedBy
     = [], r_ReviewedAt = None, r_Version = 1, r_CreatedAt = 1000, r_UpdatedAt = 1000, r_CreatedBy = ''ann'',
     r_UpdatedBy = ''ann''\<rparr>], outbox = [\<lparr>o_Event = \<lparr>ev_ID = ''v1'', ev_Subject =
     ''platform.config.entry.changed.v1'', ev_Envelope = ''v1c1'', ev_AvailableAt = 1000, ev_CreatedAt = 1000,
     ev_UpdatedAt = 1000, ev_CreatedBy = ''ann'', ev_UpdatedBy = ''ann''\<rparr>, o_Attempts = 0, o_PublishedAt =
     None, o_LastError = [], o_Version = 1\<rparr>]\<rparr>"
  by code_simp

lemma db_approved_rows [code]:
  "db_approved =
    \<lparr>entries = [\<lparr>e_ID = ''c1'', e_Environment = ''prod'', e_TenantID = ''t1'', e_ApplicationID = [],
     e_Service = ''web'', e_Key = ''flag'', e_Value = ''true'', e_SecretRef = [], e_Status = ''approved'', e_Revision
     = 1, e_RolloutPercentage = 100, e_PublishedRevision = 0, e_ReviewComment = ''ok'', e_ReviewedBy = ''bob'',
     e_ReviewedAt = Some 1000, e_Version = 3, e_CreatedAt = 1000, e_UpdatedAt = 1000, e_CreatedBy = ''ann'',
     e_UpdatedBy = ''bob''\<rparr>], revisions = [\<lparr>r_ID = ''c1-1'', r_EntryID = ''c1'', r_Revision = 1, r_Value
     = ''true'', r_SecretRef = [], r_Status = ''approved'', r_RolloutPercentage = 100, r_ReviewComment = ''ok'',
     r_ReviewedBy = ''bob'', r_ReviewedAt = Some 1000, r_Version = 2, r_CreatedAt = 1000, r_UpdatedAt = 1000,
     r_CreatedBy = ''ann'', r_UpdatedBy = ''bob''\<rparr>], outbox = [\<lparr>o_Event = \<lparr>ev_ID = ''v1'',
     ev_Subject = ''platform.config.entry.changed.v1'', ev_Envelope = ''v1c1'', ev_AvailableAt = 1000, ev_CreatedAt =
     1000, ev_UpdatedAt = 1000, ev_CreatedBy = ''ann'', ev_UpdatedBy = ''ann''\<rparr>, o_Attempts = 0, o_PublishedAt
     = None, o_LastError = [], o_Version = 1\<rparr>, \<lparr>o_Event = \<lparr>ev_ID = ''v2'', ev_Subject =
     ''platform.config.entry.changed.v1'', ev_Envelope = ''v2c1'', ev_AvailableAt = 1000, ev_CreatedAt = 1000,
     ev_UpdatedAt = 1000, ev_CreatedBy = ''bob'', ev_UpdatedBy = ''bob''\<rparr>, o_Attempts = 0, o_PublishedAt =
     None, o_LastError = [], o_Version = 1\<rparr>]\<rparr>"
  by code_simp

lemma db_rejected_rows [code]:
  "db_rejected =
    \<lparr>entries = [\<lparr>e_ID = ''c1'', e_Environment = ''prod'', e_TenantID = ''t1'', e_ApplicationID = [],
     e_Service = ''web'', e_Key = ''flag'', e_Value = ''true'', e_SecretRef = [], e_Status = ''rejected'', e_Revision
     = 1, e_RolloutPercentage = 100, e_PublishedRevision = 0, e_ReviewComment = ''no'', e_ReviewedBy = ''bob'',
     e_ReviewedAt = Some 1000, e_Version = 3, e_CreatedAt = 1000, e_UpdatedAt = 1000, e_CreatedBy = ''ann'',
     e_UpdatedBy = ''bob''\<rparr>], revisions = [\<lparr>r_ID = ''c1-1'', r_EntryID = ''c1'', r_Revision = 1, r_Value
     = ''true'', r_SecretRef = [], r_Status = ''rejected'', r_RolloutPercentage = 100, r_ReviewComment = ''no'',
     r_ReviewedBy = ''bob'', r_ReviewedAt = Some 1000, r_Version = 2, r_CreatedAt = 1000, r_UpdatedAt = 1000,
     r_CreatedBy = ''ann'', r_UpdatedBy = ''bob''\<rparr>], outbox = [\<lparr>o_Event = \<lparr>ev_ID = ''v1'',
     ev_Subject = ''platform.config.entry.changed.v1'', ev_Envelope = ''v1c1'', ev_AvailableAt = 1000, ev_CreatedAt =
     1000, ev_UpdatedAt = 1000, ev_CreatedBy = ''ann'', ev_UpdatedBy = ''ann''\<rparr>, o_Attempts = 0, o_PublishedAt
     = None, o_LastError = [], o_Version = 1\<rparr>, \<lparr>o_Event = \<lparr>ev_ID = ''v2'', ev_Subject =
     ''platform.config.entry.changed.v1'', ev_Envelope = ''v2c1'', ev_AvailableAt = 1000, ev_CreatedAt = 1000,
     ev_UpdatedAt = 1000, ev_CreatedBy = ''bob'', ev_UpdatedBy = ''bob''\<rparr>, o_Attempts = 0, o_PublishedAt =
     None, o_LastError = [], o_Version = 1\<rparr>]\<rparr>"
  by code_simp

lemma db_published_rows [code]:
  "db_published =
    \<lparr>entries = [\<lparr>e_ID = ''c1'', e_Environment = ''prod'', e_TenantID = ''t1'', e_ApplicationID = [],
     e_Service = ''web'', e_Key = ''flag'', e_Value = ''true'', e_SecretRef = [], e_Status = ''published'', e_Revision
     = 1, e_RolloutPercentage = 100, e_PublishedRevision = 1, e_ReviewComment = ''ok'', e_ReviewedBy = ''bob'',
     e_ReviewedAt = Some 1000, e_Version = 4, e_CreatedAt = 1000, e_UpdatedAt = 1000, e_CreatedBy = ''ann'',
     e_UpdatedBy = ''ann''\<rparr>], revisions = [\<lparr>r_ID = ''c1-1'', r_EntryID = ''c1'', r_Revision = 1, r_Value
     = ''true'', r_SecretRef = [], r_Status = ''approved'', r_RolloutPercentage = 100, r_ReviewComment = ''ok'',
     r_ReviewedBy = ''bob'', r_ReviewedAt = Some 1000, r_Version = 2, r_CreatedAt = 1000, r_UpdatedAt = 1000,
     r_CreatedBy = ''ann'', r_UpdatedBy = ''bob''\<rparr>], outbox = [\<lparr>o_Event = \<lparr>ev_ID = ''v1'',
     ev_Subject = ''platform.config.entry.changed.v1'', ev_Envelope = ''v1c1'', ev_AvailableAt = 1000, ev_CreatedAt =
     1000, ev_UpdatedAt = 1000, ev_CreatedBy = ''ann'', ev_UpdatedBy = ''ann''\<rparr>, o_Attempts = 0, o_PublishedAt
     = None, o_LastError = [], o_Version = 1\<rparr>, \<lparr>o_Event = \<lparr>ev_ID = ''v2'', ev_Subject =
     ''platform.config.entry.changed.v1'', ev_Envelope = ''v2c1'', ev_AvailableAt = 1000, ev_CreatedAt = 1000,
     ev_UpdatedAt = 1000, ev_CreatedBy = ''bob'', ev_UpdatedBy = ''bob''\<rparr>, o_Attempts = 0, o_PublishedAt =
     None, o_LastError = [], o_Version = 1\<rparr>, \<lparr>o_Event = \<lparr>ev_ID = ''v3'', ev_Subject =
     ''platform.config.entry.changed.v1'', ev_Envelope = ''v3c1'', ev_AvailableAt = 1000, ev_CreatedAt = 1000,
     ev_UpdatedAt = 1000, ev_CreatedBy = ''ann'', ev_UpdatedBy = ''ann''\<rparr>, o_Attempts = 0, o_PublishedAt =
     None, o_LastError = [], o_Version = 1\<rparr>]\<rparr>"
  by code_simp

lemma db_redrafted_rows [code]:
  "db_redrafted =
    \<lparr>entries = [\<lparr>e_ID = ''c1'', e_Environment = ''prod'', e_TenantID = ''t1'', e_ApplicationID = [],
     e_Service = ''web'', e_Key = ''flag'', e_Value = ''false'', e_SecretRef = [], e_Status = ''draft'', e_Revision =
     2, e_RolloutPercentage = 100, e_PublishedRevision = 1, e_ReviewComment = [], e_ReviewedBy = [], e_ReviewedAt =
     None, e_Version = 5, e_CreatedAt = 1000, e_UpdatedAt = 1000, e_CreatedBy = ''ann'', e_UpdatedBy =
     ''bob''\<rparr>], revisions = [\<lparr>r_ID = ''c1-1'', r_EntryID = ''c1'', r_Revision = 1, r_Value = ''true'',
     r_SecretRef = [], r_Status = ''approved'', r_RolloutPercentage = 100, r_ReviewComment = ''ok'', r_ReviewedBy =
     ''bob'', r_ReviewedAt = Some 1000, r_Version = 2, r_CreatedAt = 1000, r_UpdatedAt = 1000, r_CreatedBy = ''ann'',
     r_UpdatedBy = ''bob''\<rparr>], outbox = [\<lparr>o_Event = \<lparr>ev_ID = ''v1'', ev_Subject =
     ''platform.config.entry.changed.v1'', ev_Envelope = ''v1c1'', ev_AvailableAt = 1000, ev_CreatedAt = 1000,
     ev_UpdatedAt = 1000, ev_CreatedBy = ''ann'', ev_UpdatedBy = ''ann''\<rparr>, o_Attempts = 0, o_PublishedAt =
     None, o_LastError = [], o_Version = 1\<rparr>, \<lparr>o_Event = \<lparr>ev_ID = ''v2'', ev_Subject =
     ''platform.config.entry.changed.v1'', ev_Envelope = ''v2c1'', ev_AvailableAt = 1000, ev_CreatedAt = 1000,
     ev_UpdatedAt = 1000, ev_CreatedBy = ''bob'', ev_UpdatedBy = ''bob''\<rparr>, o_Attempts = 0, o_PublishedAt =
     None, o_LastError = [], o_Version = 1\<rparr>, \<lparr>o_Event = \<lparr>ev_ID = ''v3'', ev_Subject =
     ''platform.config.entry.changed.v1'', ev_Envelope = ''v3c1'', ev_AvailableAt = 1000, ev_CreatedAt = 1000,
     ev_UpdatedAt = 1000, ev_CreatedBy = ''ann'', ev_UpdatedBy = ''ann''\<rparr>, o_Attempts = 0, o_PublishedAt =
     None, o_LastError = [], o_Version = 1\<rparr>]\<rparr>"
  by code_simp

text \<open>The steps of that life, evaluated once.\<close>

lemma fix_submit:
  "exec (fix_service ''v1'') (as_user ''ann'' ''t1'') (OpSubmit ''c1'' 1) db_drafted =
    (Inr ((hd (entries db_submitted))), db_submitted)"
  by code_simp

lemma fix_approve:
  "exec (fix_service ''v2'') (as_user ''bob'' ''t1'') (OpApprove ''c1'' 2 ''ok'') db_submitted =
    (Inr ((hd (entries db_approved))), db_approved)"
  by code_simp

lemma fix_reject:
  "exec (fix_service ''v2'') (as_user ''bob'' ''t1'') (OpReject ''c1'' 2 ''no'') db_submitted =
    (Inr ((hd (entries db_rejected))), db_rejected)"
  by code_simp

lemma fix_redraft:
  "exec (fix_service ''v4'') (as_user ''bob'' ''t1'') (OpPutDraft (fix_entry\<lparr>e_Value := ''false''\<rparr>) 4) db_published =
    (Inr (hd (entries db_redrafted)), db_redrafted)"
  by code_simp

lemma fix_healthy: "uuid \<notin> (\<lambda>row. ev_ID (o_Event row)) ` set (outbox d) \<Longrightarrow> healthy (fix_service uuid) d"
  by (auto simp: healthy_def event_id_free_def fix_tx_def tx_healthy_def fix_service_def fix_pg_def)

text \<open>What the published entry looks like to a client.\<close>

definition fix_row :: entry where
  "fix_row = (hd (entries db_published))\<lparr>e_Revision := 1\<rparr>"

definition fix_row_redrafted :: entry where
  "fix_row_redrafted = (hd (entries db_redrafted))\<lparr>e_Value := ''true'', e_Status := ''published'', e_Revision := 1,
     e_ReviewComment := ''ok'', e_ReviewedBy := ''bob'', e_ReviewedAt := Some 1000\<rparr>"

lemma fix_access:
  "access (fix_service ''x'') (as_user ''eve'' ''t1'') ''t1'' [] =
     Inr \<lparr>pr_ID = ''eve'', pr_Type = TypeUser, pr_TenantID = ''t1''\<rparr>"
  by code_simp

lemma fix_resolve:
  "Resolve (fix_service ''x'') (as_user ''eve'' ''t1'') ''prod'' ''t1'' [] ''web'' ''user-1'' [''flag''] db_published =
     Inr ([fix_row], hex_encode (Sum256 (etag_text [fix_row])))"
proof -
  have "repo_Resolve fix_pg ''prod'' ''t1'' [] ''web'' [''flag''] db_published = Inr [fix_row]" by code_simp
  moreover have "List.map_filter (select_rows ''user-1'' [fix_row] Map.empty) [''flag''] = [fix_row]" by code_simp
  ultimately show ?thesis by (simp only: Resolve_def fix_service_same fix_access sum.case Let_def)
qed

lemma fix_resolve_redrafted:
  "Resolve (fix_service ''x'') (as_user ''eve'' ''t1'') ''prod'' ''t1'' [] ''web'' ''user-1'' [''flag''] db_redrafted =
     Inr ([fix_row_redrafted], hex_encode (Sum256 (etag_text [fix_row_redrafted])))"
proof -
  have "repo_Resolve fix_pg ''prod'' ''t1'' [] ''web'' [''flag''] db_redrafted = Inr [fix_row_redrafted]" by code_simp
  moreover have "List.map_filter (select_rows ''user-1'' [fix_row_redrafted] Map.empty) [''flag''] = [fix_row_redrafted]"
    by code_simp
  ultimately show ?thesis by (simp only: Resolve_def fix_service_same fix_access sum.case Let_def)
qed

end
