(* ===== verification/Path_Match.thy ===== *)
theory Path_Match
  imports Go_Strings
begin

text \<open>
  \<^verbatim>\<open>path.Match\<close> of Go's standard library, with which the service matches routes and gRPC methods
  against configured patterns, following the library's algorithm chunk by chunk. \<open>None\<close> stands for
  \<^verbatim>\<open>path.ErrBadPattern\<close>.
\<close>

abbreviation backslash :: char where
  "backslash \<equiv> CHR 0x5C"

section \<open>Character classes\<close>

definition getEsc :: "string \<Rightarrow> (int \<times> string) option" where
  "getEsc chunk =
     (case chunk of
        [] \<Rightarrow> None
      | c # cs \<Rightarrow>
          if c = CHR ''-'' \<or> c = CHR '']'' then None
          else (let chunk' = (if c = backslash then cs else chunk) in
            if chunk' = [] then None
            else (case decode_rune chunk' of (r, n) \<Rightarrow>
              if (r = RuneError \<and> n = 1) \<or> drop n chunk' = [] then None else Some (r, drop n chunk'))))"

lemma getEsc_shorter:
  assumes "getEsc chunk = Some (r, rest)"
  shows "length rest < length chunk"
proof (cases chunk)
  case Nil
  with assms show ?thesis by (simp add: getEsc_def)
next
  case (Cons c cs)
  define s where "s = (if c = backslash then cs else chunk)"
  have "s \<noteq> [] \<and> rest = drop (snd (decode_rune s)) s"
    using assms Cons by (simp add: getEsc_def Let_def s_def split: if_splits prod.splits)
  moreover have "length s \<le> length chunk" using Cons by (simp add: s_def)
  ultimately show ?thesis using decode_rune_width [of s] by (cases s) auto
qed

text \<open>One range of a class, \<^verbatim>\<open>lo\<close> or \<^verbatim>\<open>lo-hi\<close>, and what follows it.\<close>

definition range_step :: "string \<Rightarrow> (int \<times> int \<times> string) option" where
  "range_step chunk =
     (case getEsc chunk of
        None \<Rightarrow> None
      | Some (lo, c1) \<Rightarrow>
          if hd c1 = CHR ''-''
          then (case getEsc (tl c1) of None \<Rightarrow> None | Some (hi, c2) \<Rightarrow> Some (lo, hi, c2))
          else Some (lo, lo, c1))"

lemma range_step_shorter: "range_step chunk = Some (lo, hi, rest) \<Longrightarrow> length rest < length chunk"
  by (auto simp: range_step_def split: option.splits if_splits dest!: getEsc_shorter)

text \<open>The ranges of a class, up to its closing bracket: whether one of them has \<open>r\<close>, and what follows.\<close>

function class_ranges :: "int \<Rightarrow> string \<Rightarrow> bool \<Rightarrow> bool \<Rightarrow> (bool \<times> string) option" where
  "class_ranges r chunk some matched =
     (if chunk \<noteq> [] \<and> hd chunk = CHR '']'' \<and> some then Some (matched, tl chunk)
      else (case range_step chunk of
              None \<Rightarrow> None
            | Some (lo, hi, rest) \<Rightarrow> class_ranges r rest True (matched \<or> lo \<le> r \<and> r \<le> hi)))"
  by pat_completeness auto
termination
  by (relation "measure (\<lambda>(r, chunk, some, matched). length chunk)") (auto dest!: range_step_shorter)

declare class_ranges.simps [simp del]

lemma class_ranges_shorter: "class_ranges r chunk some m = Some (b, rest) \<Longrightarrow> length rest < length chunk"
proof (induction "length chunk" arbitrary: chunk some m rule: less_induct)
  case less
  show ?case
  proof (cases "chunk \<noteq> [] \<and> hd chunk = CHR '']'' \<and> some")
    case True
    then have "rest = tl chunk" using less.prems by (simp add: class_ranges.simps [of r chunk])
    with True show ?thesis by (cases chunk) simp_all
  next
    case False
    then obtain lo hi c2 where c2: "range_step chunk = Some (lo, hi, c2)"
      "class_ranges r c2 True (m \<or> lo \<le> r \<and> r \<le> hi) = Some (b, rest)"
      using less.prems by (auto simp: class_ranges.simps [of r chunk] split: option.splits)
    from range_step_shorter [OF c2(1)] less.hyps [OF _ c2(2)] show ?thesis by simp
  qed
qed

section \<open>Chunks\<close>

text \<open>
  \<^verbatim>\<open>matchChunk\<close>: the rest of the name after the chunk (\<open>Some None\<close> when it does not match). Once the
  match has failed the chunk is still read to its end, for its syntax.
\<close>

function matchChunk :: "string \<Rightarrow> string \<Rightarrow> bool \<Rightarrow> string option option" where
  "matchChunk [] s failed = Some (if failed then None else Some s)"
| "matchChunk (c # cs) s failed0 =
     (let failed = (failed0 \<or> s = []) in
      if c = CHR ''['' then
        (let r = (if failed then 0 else fst (decode_rune s));
             s' = (if failed then s else drop (snd (decode_rune s)) s);
             negated = (cs \<noteq> [] \<and> hd cs = CHR ''^'');
             cs' = (if negated then tl cs else cs)
         in case class_ranges r cs' False False of
              None \<Rightarrow> None
            | Some (m, rest) \<Rightarrow> matchChunk rest s' (failed \<or> m = negated))
      else if c = CHR ''?'' then
        (if failed then matchChunk cs s True
         else matchChunk cs (drop (snd (decode_rune s)) s) (hd s = CHR ''/''))
      else if c = backslash then
        (case cs of
           [] \<Rightarrow> None
         | c' # cs' \<Rightarrow> if failed then matchChunk cs' s True else matchChunk cs' (tl s) (c' \<noteq> hd s))
      else if failed then matchChunk cs s True else matchChunk cs (tl s) (c \<noteq> hd s))"
  by pat_completeness auto
termination
  by (relation "measure (\<lambda>(chunk, s, failed). length chunk)")
    (auto split: if_splits dest!: class_ranges_shorter)

fun scan :: "bool \<Rightarrow> string \<Rightarrow> string \<times> string" where
  "scan inrange [] = ([], [])"
| "scan inrange (c # cs) =
     (if c = backslash then
        (case cs of [] \<Rightarrow> ([c], []) | d # ds \<Rightarrow> (case scan inrange ds of (a, b) \<Rightarrow> (c # d # a, b)))
      else if c = CHR ''*'' \<and> \<not> inrange then ([], c # cs)
      else (case scan (if c = CHR ''['' then True else if c = CHR '']'' then False else inrange) cs of
              (a, b) \<Rightarrow> (c # a, b)))"

definition scanChunk :: "string \<Rightarrow> bool \<times> string \<times> string" where
  "scanChunk pattern =
     (pattern \<noteq> [] \<and> hd pattern = CHR ''*'', scan False (dropWhile (\<lambda>c. c = CHR ''*'') pattern))"

lemma scan_append: "scan inrange p = (a, b) \<Longrightarrow> p = a @ b"
  by (induction inrange p arbitrary: a b rule: scan.induct)
    (auto split: if_splits prod.splits list.splits)

lemma scan_Nil: "scan False p = ([], b) \<Longrightarrow> p \<noteq> [] \<Longrightarrow> hd p = CHR ''*''"
  by (cases p) (auto split: if_splits prod.splits list.splits)

lemma scanChunk_shorter: "scanChunk p = (star, chunk, rest) \<Longrightarrow> p \<noteq> [] \<Longrightarrow> length rest < length p"
proof -
  assume sc: "scanChunk p = (star, chunk, rest)" and p: "p \<noteq> []"
  let ?q = "dropWhile (\<lambda>c. c = CHR ''*'') p"
  from sc have s: "scan False ?q = (chunk, rest)" by (simp add: scanChunk_def)
  show ?thesis
  proof (cases "hd p = CHR ''*''")
    case True
    with p have "length ?q < length p"
      by (cases p) (auto simp: le_imp_less_Suc length_dropWhile_le)
    moreover have "length ?q = length chunk + length rest" unfolding scan_append [OF s] by simp
    ultimately show ?thesis by simp
  next
    case False
    with p have "?q = p" by (cases p) auto
    with s scan_Nil [of p rest] False p have "chunk \<noteq> []" by auto
    with scan_append [OF s] \<open>?q = p\<close> show ?thesis by auto
  qed
qed

section \<open>Patterns\<close>

text \<open>The search after a star: the first position, not beyond a slash, where the chunk matches.\<close>

fun skip :: "string \<Rightarrow> bool \<Rightarrow> string \<Rightarrow> string option option" where
  "skip chunk final [] = Some None"
| "skip chunk final (c # cs) =
     (if c = CHR ''/'' then Some None
      else case matchChunk chunk cs False of
        None \<Rightarrow> None
      | Some None \<Rightarrow> skip chunk final cs
      | Some (Some t) \<Rightarrow> if final \<and> t \<noteq> [] then skip chunk final cs else Some (Some t))"

text \<open>The syntax check of the rest of a pattern that no longer matters for the match.\<close>

function check_rest :: "string \<Rightarrow> bool option" where
  "check_rest pattern =
     (if pattern = [] then Some False
      else (case scanChunk pattern of (star, chunk, rest) \<Rightarrow>
        (case matchChunk chunk [] False of None \<Rightarrow> None | Some _ \<Rightarrow> check_rest rest)))"
  by pat_completeness auto
termination
  by (relation "measure length") (auto simp: scanChunk_shorter [OF sym])

declare check_rest.simps [simp del]

function Match :: "string \<Rightarrow> string \<Rightarrow> bool option" where
  "Match pattern name =
     (if pattern = [] then Some (name = [])
      else (case scanChunk pattern of (star, chunk, rest) \<Rightarrow>
        if star \<and> chunk = [] then Some (CHR ''/'' \<notin> set name)
        else (case matchChunk chunk name False of
                None \<Rightarrow> None
              | Some m \<Rightarrow>
                if m \<noteq> None \<and> (m = Some [] \<or> rest \<noteq> []) then Match rest (the m)
                else if star then
                  (case skip chunk (rest = []) name of
                     None \<Rightarrow> None
                   | Some None \<Rightarrow> check_rest rest
                   | Some (Some t) \<Rightarrow> Match rest t)
                else check_rest rest)))"
  by pat_completeness auto
termination
  by (relation "measure (\<lambda>(pattern, name). length pattern)") (auto simp: scanChunk_shorter [OF sym])

declare Match.simps [simp del]

section \<open>Syntax does not depend on the name\<close>

lemma class_ranges_syntax:
  "map_option snd (class_ranges r chunk some m) = map_option snd (class_ranges r' chunk some m')"
proof (induction "length chunk" arbitrary: chunk some m m' rule: less_induct)
  case less
  show ?case
  proof (cases "range_step chunk")
    case None
    then show ?thesis by (simp add: class_ranges.simps [of _ chunk])
  next
    case (Some x)
    then obtain lo hi c2 where c2: "range_step chunk = Some (lo, hi, c2)" by (cases x) auto
    from less.hyps [OF range_step_shorter [OF c2]] show ?thesis
      by (simp add: class_ranges.simps [of _ chunk] c2)
  qed
qed

lemma class_ranges_syntax_None:
  "class_ranges r chunk some m = None \<longleftrightarrow> class_ranges r' chunk some m' = None"
  using class_ranges_syntax [of r chunk some m r' m'] by (metis option.map_disc_iff)

lemma class_ranges_syntax_Some:
  "class_ranges r chunk some m = Some (b, rest) \<Longrightarrow> \<exists>b'. class_ranges r' chunk some m' = Some (b', rest)"
proof -
  assume "class_ranges r chunk some m = Some (b, rest)"
  then have "map_option snd (class_ranges r' chunk some m') = Some rest"
    by (subst class_ranges_syntax [of r' chunk some m' r m]) simp
  then show ?thesis by auto
qed

lemma scanChunk_empty:
  assumes "scanChunk p = (star, chunk, rest)" and "chunk = []"
  shows "rest = []"
proof (rule ccontr)
  let ?q = "dropWhile (\<lambda>c. c = CHR ''*'') p"
  assume "rest \<noteq> []"
  have s: "scan False ?q = ([], rest)" using assms by (simp add: scanChunk_def)
  from scan_append [OF this] \<open>rest \<noteq> []\<close> have "?q \<noteq> []" by simp
  with scan_Nil [OF s] hd_dropWhile [OF this] show False by simp
qed

lemma matchChunk_class:
  "matchChunk (CHR ''['' # cs) s failed =
     (case class_ranges (if failed \<or> s = [] then 0 else fst (decode_rune s))
             (if cs \<noteq> [] \<and> hd cs = CHR ''^'' then tl cs else cs) False False of
        None \<Rightarrow> None
      | Some (m, rest) \<Rightarrow>
          matchChunk rest (if failed \<or> s = [] then s else drop (snd (decode_rune s)) s)
            ((failed \<or> s = []) \<or> m = (cs \<noteq> [] \<and> hd cs = CHR ''^'')))"
  by (simp add: Let_def)

lemma matchChunk_syntax: "matchChunk chunk s failed = None \<longleftrightarrow> matchChunk chunk s' failed' = None"
proof (induction "length chunk" arbitrary: chunk s failed s' failed' rule: less_induct)
  case less
  show ?case
  proof (cases chunk)
    case (Cons c cs)
    have IH: "matchChunk ds t f = None \<longleftrightarrow> matchChunk ds t' f' = None" if "length ds \<le> length cs" for ds t f t' f'
      using less [of ds] that Cons by simp
    let ?cs = "if cs \<noteq> [] \<and> hd cs = CHR ''^'' then tl cs else cs"
    show ?thesis
    proof (cases "c = CHR ''[''")
      case False
      then show ?thesis using Cons IH by (auto simp: Let_def split: list.splits)
    next
      case True
      have short: "length rest \<le> length cs" if "class_ranges r ?cs False False = Some (m, rest)" for r m rest
        using class_ranges_shorter [OF that] by (auto split: if_splits)
      show ?thesis
      proof (cases "class_ranges 0 ?cs False False")
        case None
        then have "class_ranges r ?cs False False = None" for r
          using class_ranges_syntax_None by blast
        with Cons True show ?thesis by (simp only: matchChunk_class option.case)
      next
        case (Some x)
        then obtain m rest where "class_ranges 0 ?cs False False = Some (m, rest)" by (cases x) auto
        then have "\<exists>m. class_ranges r ?cs False False = Some (m, rest)" for r
          by (rule class_ranges_syntax_Some)
        then obtain f where f: "class_ranges r ?cs False False = Some (f r, rest)" for r by metis
        show ?thesis
          unfolding Cons True matchChunk_class f option.case prod.case by (rule IH) (rule short [OF f])
      qed
    qed
  qed simp
qed

lemma skip_syntax: "matchChunk chunk [] False \<noteq> None \<Longrightarrow> skip chunk final name \<noteq> None"
proof (induction name)
  case (Cons c name)
  then have "matchChunk chunk name False \<noteq> None"
    using matchChunk_syntax [of chunk "[]" False name False] by simp
  with Cons show ?case by (auto split: option.splits)
qed simp

text \<open>A pattern is rejected for its syntax alone: the name it is matched against does not matter.\<close>

theorem Match_syntax: "Match pattern name = None \<longleftrightarrow> check_rest pattern = None"
proof (induction "length pattern" arbitrary: pattern name rule: less_induct)
  case less
  show ?case
  proof (cases "pattern = []")
    case True
    then show ?thesis by (simp add: Match.simps check_rest.simps)
  next
    case False
    obtain star chunk rest where sc: "scanChunk pattern = (star, chunk, rest)" by (cases "scanChunk pattern")
    have IH: "Match rest t = None \<longleftrightarrow> check_rest rest = None" for t
      using less scanChunk_shorter [OF sc False] by blast
    have empty: "rest = []" if "chunk = []" by (rule scanChunk_empty [OF sc that])
    have syn: "matchChunk chunk name False = None \<longleftrightarrow> matchChunk chunk [] False = None"
      by (rule matchChunk_syntax)
    show ?thesis
    proof (cases "matchChunk chunk [] False")
      case None
      with syn False sc show ?thesis
        by (auto simp: Match.simps [of pattern] check_rest.simps [of pattern])
    next
      case (Some m)
      moreover obtain m' where "matchChunk chunk name False = Some m'" using syn Some by auto
      moreover obtain t where "skip chunk (rest = []) name = Some t"
        using skip_syntax [of chunk "rest = []" name] Some by auto
      ultimately show ?thesis
        using False sc IH empty
        by (auto simp: Match.simps [of pattern] check_rest.simps [of pattern] check_rest.simps [of "[]"]
            split: option.splits)
    qed
  qed
qed

section \<open>Literal patterns and trailing stars\<close>

definition plain :: "string \<Rightarrow> bool" where
  "plain p \<longleftrightarrow> set p \<inter> {CHR ''*'', CHR ''?'', CHR ''['', backslash} = {}"

lemma plain_Cons [simp]:
  "plain (c # p) \<longleftrightarrow> c \<noteq> CHR ''*'' \<and> c \<noteq> CHR ''?'' \<and> c \<noteq> CHR ''['' \<and> c \<noteq> backslash \<and> plain p"
  by (auto simp: plain_def)

lemma scan_plain: "plain p \<Longrightarrow> scan False (p @ q) = (p @ fst (scan False q), snd (scan False q))"
  by (induction p) (auto split: prod.splits)

lemma scanChunk_plain:
  assumes "plain p" and "p \<noteq> []"
  shows "scanChunk (p @ q) = (False, p @ fst (scan False q), snd (scan False q))"
proof -
  have "hd p \<noteq> CHR ''*''" "dropWhile (\<lambda>c. c = CHR ''*'') (p @ q) = p @ q"
    using assms by (cases p; simp)+
  then show ?thesis using assms scan_plain [of p q] by (simp add: scanChunk_def)
qed

lemma matchChunk_plain_failed: "plain p \<Longrightarrow> matchChunk p s True = Some None"
  by (induction p) (auto simp: Let_def)

lemma matchChunk_plain:
  "plain p \<Longrightarrow> matchChunk p s False = Some (if HasPrefix s p then Some (drop (length p) s) else None)"
proof (induction p arbitrary: s)
  case (Cons c p)
  show ?case
  proof (cases s)
    case (Cons d t)
    show ?thesis
    proof (cases "c = d")
      case True
      with Cons Cons.IH [of t] Cons.prems show ?thesis by (simp add: Let_def HasPrefix_def)
    next
      case False
      with Cons Cons.prems show ?thesis by (simp add: Let_def HasPrefix_def matchChunk_plain_failed)
    qed
  qed (use Cons.prems in \<open>simp add: Let_def HasPrefix_def matchChunk_plain_failed\<close>)
qed (simp add: HasPrefix_def)

lemma HasPrefix_all: "HasPrefix s p \<and> drop (length p) s = [] \<longleftrightarrow> s = p"
  by (auto simp: HasPrefix_def)

theorem Match_literal:
  assumes "plain p"
  shows "Match p name = Some (name = p)"
proof (cases "p = []")
  case False
  with scanChunk_plain [OF assms False, of "[]"] have sc: "scanChunk p = (False, p, [])" by simp
  show ?thesis
    using False HasPrefix_all [of name p]
    by (auto simp: Match.simps [of p] Match.simps [of "[]"] sc matchChunk_plain [OF assms] check_rest.simps)
qed (simp add: Match.simps)

theorem Match_trailing_star:
  assumes "plain p" and "p \<noteq> []"
  shows "Match (p @ ''*'') name = Some (\<exists>x. name = p @ x \<and> CHR ''/'' \<notin> set x)"
proof -
  have sc: "scanChunk (p @ ''*'') = (False, p, ''*'')" using scanChunk_plain [OF assms, of "''*''"] by simp
  have star: "scanChunk ''*'' = (True, [], [])" by (simp add: scanChunk_def)
  then have rest: "check_rest ''*'' = Some False" "Match ''*'' t = Some (CHR ''/'' \<notin> set t)" for t
    by (simp_all add: check_rest.simps [of "''*''"] check_rest.simps [of "[]"] Match.simps [of "''*''"])
  show ?thesis
  proof (cases "HasPrefix name p")
    case True
    then obtain x where "name = p @ x" by (auto simp: HasPrefix_iff)
    then show ?thesis
      by (simp add: Match.simps [of "p @ ''*''"] sc matchChunk_plain [OF assms(1)] rest)
  next
    case False
    then show ?thesis
      by (auto simp: Match.simps [of "p @ ''*''"] sc matchChunk_plain [OF assms(1)] rest)
  qed
qed

end
