(* ===== verification/Settings.thy ===== *)
theory Settings
  imports Complex_Main App_Error Path_Match
begin

text \<open>
  The process configuration (\<^verbatim>\<open>config/config.go\<close>): its structs as records, the defaults, the
  validation that runs before anything starts, and the loading of a base file and a profile.
  What \<^verbatim>\<open>viper\<close> and the file system answer is a parameter (\<open>loader\<close>). A Go map is an association
  list in the order in which the program ranges over it.
\<close>

section \<open>The structs\<close>

record Runtime =
  runtime_ActiveProfile :: string
  runtime_ConfigFiles :: "string list"

record App =
  app_Name :: string
  app_Schema :: string
  app_Env :: string
  app_ShutdownTimeout :: duration

record CORS =
  cors_Enabled :: bool
  cors_AllowedOrigins :: "string list"
  cors_AllowedHeaders :: "string list"
  cors_ExposedHeaders :: "string list"
  cors_MaxAge :: duration

record HTTP =
  http_Address :: string
  http_ReadTimeout :: duration
  http_WriteTimeout :: duration
  http_IdleTimeout :: duration
  http_RequestTimeout :: duration
  http_MaxBodyBytes :: int
  http_TrustedProxies :: "string list"
  http_CORS :: CORS

record GRPCTLS =
  gtls_Enabled :: bool
  gtls_CertFile :: string
  gtls_KeyFile :: string
  gtls_ClientCAFile :: string

record GRPC =
  grpc_Enabled :: bool
  grpc_Address :: string
  grpc_ReflectionEnabled :: bool
  grpc_MaxReceiveBytes :: int
  grpc_TLS :: GRPCTLS

record Log =
  log_Level :: string
  log_Format :: string
  log_File :: string
  log_MaxSizeMB :: int
  log_MaxBackups :: int
  log_MaxAgeDays :: int
  log_Compress :: bool

record Database =
  db_Enabled :: bool
  db_Name :: string
  db_Schema :: string
  db_Type :: string
  db_DSN :: string
  db_MaxOpenConns :: int
  db_MaxIdleConns :: int
  db_ConnMaxLifetime :: duration
  db_ConnMaxIdleTime :: duration
  db_PingTimeout :: duration

record Redis =
  redis_Enabled :: bool
  redis_Address :: string
  redis_Username :: string
  redis_Password :: string
  redis_DB :: int
  redis_DialTimeout :: duration
  redis_ReadTimeout :: duration
  redis_WriteTimeout :: duration

record Health =
  health_DatabaseTimeout :: duration
  health_RedisTimeout :: duration

record RateLimitRule =
  rule_Rate :: int
  rule_Burst :: int
  rule_Period :: duration

record RateLimit =
  rl_Enabled :: bool
  rl_FailOpen :: bool
  rl_IP :: RateLimitRule
  rl_API :: RateLimitRule
  rl_User :: RateLimitRule
  rl_Login :: RateLimitRule

record Observability =
  obs_MetricsEnabled :: bool
  obs_TracingEnabled :: bool
  obs_TracingEndpoint :: string
  obs_TracingSampleRatio :: rat
  obs_PprofEnabled :: bool
  obs_PprofToken :: string

record Swagger =
  swagger_Enabled :: bool
  swagger_RequireAuth :: bool

record JWT =
  jwt_Issuer :: string
  jwt_Secret :: string
  jwt_TTL :: duration

record PSK =
  psk_Enabled :: bool
  psk_Key :: string
  psk_HTTPPaths :: "string list"
  psk_GRPCMethods :: "string list"

record Auth =
  auth_JWKSURL :: string
  auth_Issuer :: string
  auth_Audience :: string
  auth_ClientID :: string
  auth_ClientSecret :: string
  auth_SkipHTTPPaths :: "string list"
  auth_SkipGRPCMethods :: "string list"
  auth_PSK :: PSK

record Authorization =
  authz_Enabled :: bool

record Cron =
  cron_Enabled :: bool
  cron_Timezone :: string
  cron_SampleSpec :: string

record Migration =
  mig_AutoUp :: bool
  mig_CreateSchema :: bool
  mig_Path :: string
  mig_DatabaseURL :: string
  mig_Table :: string
  mig_Schema :: string
  mig_DatabaseName :: string

record User =
  user_CacheTTL :: duration
  user_LockTTL :: duration
  user_LockRetryDelay :: duration

record Idempotency =
  idem_Enabled :: bool
  idem_HTTPPaths :: "string list"
  idem_GRPCMethods :: "string list"
  idem_ProcessingTTL :: duration
  idem_ResultTTL :: duration
  idem_FailureTTL :: duration

record ClientAuth =
  ca_Type :: string
  ca_Token :: string

record Retry =
  retry_MaxAttempts :: int
  retry_InitialBackoff :: duration
  retry_MaxBackoff :: duration
  retry_Methods :: "string list"

record Breaker =
  brk_Enabled :: bool
  brk_FailureThreshold :: int
  brk_OpenTimeout :: duration

record ClientTLS =
  ctls_Enabled :: bool
  ctls_ServerName :: string
  ctls_CAFile :: string
  ctls_CertFile :: string
  ctls_KeyFile :: string

record HTTPUpstream =
  hup_BaseURL :: string
  hup_Timeout :: duration
  hup_Auth :: ClientAuth
  hup_Retry :: Retry
  hup_Breaker :: Breaker
  hup_TLS :: ClientTLS

record GRPCUpstream =
  gup_Target :: string
  gup_Timeout :: duration
  gup_Auth :: ClientAuth
  gup_Retry :: Retry
  gup_Breaker :: Breaker
  gup_TLS :: ClientTLS

record Outbound =
  out_HTTP :: "(string \<times> HTTPUpstream) list"
  out_GRPC :: "(string \<times> GRPCUpstream) list"

record EventBus =
  bus_Enabled :: bool
  bus_URLs :: "string list"
  bus_StreamName :: string
  bus_Subjects :: "string list"
  bus_Storage :: string
  bus_MaxAge :: duration
  bus_DuplicateWindow :: duration
  bus_ConnectTimeout :: duration
  bus_ReconnectWait :: duration
  bus_PublishTimeout :: duration
  bus_ConsumerAckWait :: duration
  bus_ConsumerMaxDeliver :: int
  bus_DispatchInterval :: duration
  bus_DispatchBatchSize :: int
  bus_DispatchLease :: duration
  bus_DispatchRetryDelay :: duration
  bus_PublishedRetention :: duration
  bus_CleanupInterval :: duration
  bus_CleanupBatchSize :: int

record Config =
  cfg_Runtime :: Runtime
  cfg_App :: App
  cfg_HTTP :: HTTP
  cfg_GRPC :: GRPC
  cfg_Log :: Log
  cfg_Database :: Database
  cfg_Redis :: Redis
  cfg_Health :: Health
  cfg_RateLimit :: RateLimit
  cfg_Observability :: Observability
  cfg_Swagger :: Swagger
  cfg_JWT :: JWT
  cfg_Auth :: Auth
  cfg_Authorization :: Authorization
  cfg_Cron :: Cron
  cfg_Migration :: Migration
  cfg_User :: User
  cfg_Idempotency :: Idempotency
  cfg_Outbound :: Outbound
  cfg_EventBus :: EventBus

section \<open>Defaults\<close>

datatype setting = SStr string | SInt int | SBool bool | SStrs "string list" | SRat rat | SMap

definition setRateLimitDefaults :: "string \<Rightarrow> int \<Rightarrow> int \<Rightarrow> (string \<times> setting) list" where
  "setRateLimitDefaults key rate burst =
     [(key @ ''.rate'', SInt rate), (key @ ''.burst'', SInt burst), (key @ ''.period'', SStr ''1m'')]"

definition setDefaults :: "(string \<times> setting) list" where
  "setDefaults =
     [(''app.name'', SStr ''config-service''),
      (''app.env'', SStr ''development''),
      (''app.shutdown_timeout'', SStr ''10s''),
      (''http.address'', SStr ''127.0.0.1:8080''),
      (''http.read_timeout'', SStr ''10s''),
      (''http.write_timeout'', SStr ''15s''),
      (''http.idle_timeout'', SStr ''60s''),
      (''http.request_timeout'', SStr ''10s''),
      (''http.max_body_bytes'', SInt (1 * 2 ^ 20)),
      (''http.trusted_proxies'', SStrs []),
      (''http.cors.enabled'', SBool False),
      (''http.cors.allowed_origins'', SStrs []),
      (''http.cors.allowed_headers'', SStrs [''Authorization'', ''Content-Type'', ''X-Request-ID'']),
      (''http.cors.exposed_headers'', SStrs [''X-Request-ID'', ''X-RateLimit-Limit'', ''X-RateLimit-Remaining'', ''Retry-After'']),
      (''http.cors.max_age'', SStr ''12h''),
      (''grpc.enabled'', SBool True),
      (''grpc.address'', SStr ''127.0.0.1:9090''),
      (''grpc.reflection_enabled'', SBool True),
      (''grpc.max_receive_bytes'', SInt (16 * 2 ^ 20)),
      (''grpc.tls.enabled'', SBool False),
      (''grpc.tls.cert_file'', SStr ''''),
      (''grpc.tls.key_file'', SStr ''''),
      (''grpc.tls.client_ca_file'', SStr ''''),
      (''log.level'', SStr ''info''),
      (''log.format'', SStr ''json''),
      (''log.file'', SStr ''logs/app.log''),
      (''log.max_size_mb'', SInt 100),
      (''log.max_backups'', SInt 10),
      (''log.max_age_days'', SInt 30),
      (''log.compress'', SBool True),
      (''database.ping_timeout'', SStr ''5s''),
      (''database.max_open_conns'', SInt 25),
      (''database.max_idle_conns'', SInt 10),
      (''database.conn_max_lifetime'', SStr ''5m''),
      (''database.conn_max_idle_time'', SStr ''1m''),
      (''database.enabled'', SBool False),
      (''database.name'', SStr ''platform''),
      (''database.schema'', SStr ''config''),
      (''database.type'', SStr ''postgres''),
      (''database.dsn'', SStr ''''),
      (''redis.address'', SStr ''127.0.0.1:6379''),
      (''redis.dial_timeout'', SStr ''5s''),
      (''redis.read_timeout'', SStr ''3s''),
      (''redis.write_timeout'', SStr ''3s''),
      (''redis.enabled'', SBool False),
      (''redis.username'', SStr ''''),
      (''redis.password'', SStr ''''),
      (''redis.db'', SInt 0),
      (''health.database_timeout'', SStr ''2s''),
      (''health.redis_timeout'', SStr ''2s''),
      (''rate_limit.enabled'', SBool False),
      (''rate_limit.fail_open'', SBool False)] @
     setRateLimitDefaults ''rate_limit.ip'' 120 30 @
     setRateLimitDefaults ''rate_limit.api'' 10000 1000 @
     setRateLimitDefaults ''rate_limit.user'' 600 100 @
     setRateLimitDefaults ''rate_limit.login'' 10 3 @
     [(''observability.metrics_enabled'', SBool True),
      (''observability.tracing_enabled'', SBool False),
      (''observability.tracing_endpoint'', SStr ''http://127.0.0.1:4318''),
      (''observability.tracing_sample_ratio'', SRat (1 / 10)),
      (''observability.pprof_enabled'', SBool False),
      (''observability.pprof_token'', SStr ''''),
      (''swagger.enabled'', SBool True),
      (''swagger.require_auth'', SBool False),
      (''jwt.issuer'', SStr ''config-service''),
      (''jwt.secret'', SStr ''''),
      (''jwt.ttl'', SStr ''2h''),
      (''auth.client_id'', SStr ''''),
      (''auth.jwks_url'', SStr ''''),
      (''auth.issuer'', SStr ''identity-service''),
      (''auth.audience'', SStr ''config-service''),
      (''auth.client_secret'', SStr ''''),
      (''auth.skip_http_paths'', SStrs [''/api/v1/version'']),
      (''auth.skip_grpc_methods'', SStrs [''/grpc.health.v1.Health/*'']),
      (''auth.psk.enabled'', SBool False),
      (''auth.psk.key'', SStr ''''),
      (''auth.psk.http_paths'', SStrs []),
      (''auth.psk.grpc_methods'', SStrs []),
      (''authorization.enabled'', SBool False),
      (''cron.enabled'', SBool True),
      (''cron.timezone'', SStr ''Asia/Shanghai''),
      (''cron.sample_spec'', SStr ''0 */5 * * * *''),
      (''migration.path'', SStr ''migrations/postgres''),
      (''migration.database_url'', SStr ''''),
      (''migration.auto_up'', SBool False),
      (''migration.create_schema'', SBool False),
      (''migration.table'', SStr ''config_schema_migrations''),
      (''user.cache_ttl'', SStr ''5m''),
      (''user.lock_ttl'', SStr ''10s''),
      (''user.lock_retry_delay'', SStr ''100ms''),
      (''idempotency.enabled'', SBool False),
      (''idempotency.processing_ttl'', SStr ''30s''),
      (''idempotency.result_ttl'', SStr ''24h''),
      (''idempotency.failure_ttl'', SStr ''5m''),
      (''event_bus.enabled'', SBool False),
      (''event_bus.urls'', SStrs [''nats://127.0.0.1:4222'']),
      (''event_bus.stream_name'', SStr ''PLATFORM_EVENTS''),
      (''event_bus.subjects'', SStrs [''platform.>'']),
      (''event_bus.storage'', SStr ''file''),
      (''event_bus.max_age'', SStr ''168h''),
      (''event_bus.duplicate_window'', SStr ''10m''),
      (''event_bus.connect_timeout'', SStr ''5s''),
      (''event_bus.reconnect_wait'', SStr ''1s''),
      (''event_bus.publish_timeout'', SStr ''5s''),
      (''event_bus.consumer_ack_wait'', SStr ''30s''),
      (''event_bus.consumer_max_deliver'', SInt 10),
      (''event_bus.dispatch_interval'', SStr ''1s''),
      (''event_bus.dispatch_batch_size'', SInt 100),
      (''event_bus.dispatch_lease'', SStr ''30s''),
      (''event_bus.dispatch_retry_delay'', SStr ''5s''),
      (''event_bus.published_retention'', SStr ''168h''),
      (''event_bus.cleanup_interval'', SStr ''1h''),
      (''event_bus.cleanup_batch_size'', SInt 1000),
      (''outbound.http'', SMap),
      (''outbound.grpc'', SMap)]"

section \<open>Validation\<close>

text \<open>\<^verbatim>\<open>^[a-z][a-z0-9_]{0,62}$\<close> and \<^verbatim>\<open>^[a-z0-9][a-z0-9_-]*$\<close>.\<close>

definition is_lower :: "char \<Rightarrow> bool" where
  "is_lower c \<longleftrightarrow> 97 \<le> byte c \<and> byte c \<le> 122"

definition is_digit :: "char \<Rightarrow> bool" where
  "is_digit c \<longleftrightarrow> 48 \<le> byte c \<and> byte c \<le> 57"

definition validMigrationTable :: "string \<Rightarrow> bool" where
  "validMigrationTable s =
     (case s of
        [] \<Rightarrow> False
      | c # cs \<Rightarrow> is_lower c \<and> length cs \<le> 62 \<and> list_all (\<lambda>x. is_lower x \<or> is_digit x \<or> x = CHR ''_'') cs)"

definition validProfile :: "string \<Rightarrow> bool" where
  "validProfile s =
     (case s of
        [] \<Rightarrow> False
      | c # cs \<Rightarrow> (is_lower c \<or> is_digit c) \<and>
          list_all (\<lambda>x. is_lower x \<or> is_digit x \<or> x = CHR ''_'' \<or> x = CHR ''-'') cs)"

definition isDBType :: "string \<Rightarrow> bool" where
  "isDBType v \<longleftrightarrow> v = ''mysql'' \<or> v = ''postgres'' \<or> v = ''kingbase''"

text \<open>A sequence of checks: the first that fails is the answer.\<close>

definition check :: "bool \<Rightarrow> string \<Rightarrow> gerror option" where
  "check failed message = (if failed then Some (Plain message) else None)"

fun first_error :: "gerror option list \<Rightarrow> gerror option" where
  "first_error [] = None"
| "first_error (None # es) = first_error es"
| "first_error (Some e # es) = Some e"

definition bad_pattern :: gerror where
  "bad_pattern = Plain ''syntax error in pattern''"

definition match_error :: "string \<Rightarrow> gerror option" where
  "match_error pattern = (if Match pattern ''/validation/target'' = None then Some bad_pattern else None)"

text \<open>The loops over route patterns and over method patterns; \<open>quote\<close> is the \<^verbatim>\<open>%q\<close> of \<^verbatim>\<open>fmt\<close>.\<close>

definition check_path :: "(string \<Rightarrow> string) \<Rightarrow> string \<Rightarrow> string \<Rightarrow> gerror option" where
  "check_path quote field pattern =
     (if \<not> HasPrefix pattern ''/api/'' then Some (Plain (field @ '' contains path outside /api '' @ quote pattern))
      else map_option (Wrap (field @ '' contains invalid pattern '' @ quote pattern)) (match_error pattern))"

definition method_pattern :: "string \<Rightarrow> bool" where
  "method_pattern pattern \<longleftrightarrow> HasPrefix pattern ''/'' \<and> Count pattern (CHR ''/'') = 2"

definition check_method :: "(string \<Rightarrow> string) \<Rightarrow> string \<Rightarrow> string \<Rightarrow> gerror option" where
  "check_method quote field pattern =
     (if \<not> method_pattern pattern then Some (Plain (field @ '' contains invalid method pattern '' @ quote pattern))
      else map_option (Wrap (field @ '' contains invalid pattern '' @ quote pattern)) (match_error pattern))"

definition check_retry_method :: "string \<Rightarrow> string \<Rightarrow> gerror option" where
  "check_retry_method name pattern =
     (if \<not> method_pattern pattern then Some (Plain (''outbound '' @ name @ '' retry method pattern is invalid''))
      else map_option (Wrap (''outbound '' @ name @ '' retry method pattern is invalid'')) (match_error pattern))"

definition validateClientPolicy ::
    "string \<Rightarrow> ClientAuth \<Rightarrow> Retry \<Rightarrow> Breaker \<Rightarrow> ClientTLS \<Rightarrow> gerror option" where
  "validateClientPolicy name auth retry breaker tls = first_error (
     [check (ca_Type auth \<noteq> [] \<and> ca_Type auth \<noteq> ''bearer'' \<and> ca_Type auth \<noteq> ''psk'')
        (''outbound '' @ name @ '' auth.type must be bearer or psk''),
      check (ca_Type auth \<noteq> [] \<and> ca_Token auth = []) (''outbound '' @ name @ '' auth.token is required''),
      check (ca_Type auth \<noteq> [] \<and> \<not> ctls_Enabled tls) (''outbound '' @ name @ '' credentials require TLS''),
      check (retry_MaxAttempts retry < 1 \<or> retry_MaxAttempts retry > 5 \<or> retry_InitialBackoff retry \<le> 0 \<or>
             retry_MaxBackoff retry < retry_InitialBackoff retry)
        (''outbound '' @ name @ '' retry policy is invalid'')] @
     map (check_retry_method name) (retry_Methods retry) @
     [check (brk_Enabled breaker \<and> (brk_FailureThreshold breaker = 0 \<or> brk_OpenTimeout breaker \<le> 0))
        (''outbound '' @ name @ '' breaker policy is invalid''),
      check (ctls_Enabled tls \<and> (ctls_CertFile tls = []) \<noteq> (ctls_KeyFile tls = []))
        (''outbound '' @ name @ '' TLS certificate and key must be configured together'')])"

definition check_rule :: "string \<times> RateLimitRule \<Rightarrow> gerror option" where
  "check_rule = (\<lambda>(name, rule).
     check (rule_Rate rule \<le> 0 \<or> rule_Burst rule \<le> 0 \<or> rule_Period rule \<le> 0)
       (''rate_limit.'' @ name @ '' values must be positive''))"

text \<open>The four rules, in the order in which the map literal is ranged over: \<open>order\<close> permutes them.\<close>

definition rate_rules :: "RateLimit \<Rightarrow> string list \<Rightarrow> (string \<times> RateLimitRule) list" where
  "rate_rules r order = map (\<lambda>name. (name,
     if name = ''ip'' then rl_IP r else if name = ''api'' then rl_API r
     else if name = ''user'' then rl_User r else rl_Login r)) order"

definition bus_error :: "EventBus \<Rightarrow> bool" where
  "bus_error b \<longleftrightarrow>
     bus_URLs b = [] \<or> bus_StreamName b = [] \<or> bus_Subjects b = [] \<or>
     (bus_Storage b \<noteq> ''file'' \<and> bus_Storage b \<noteq> ''memory'') \<or>
     bus_MaxAge b \<le> 0 \<or> bus_DuplicateWindow b \<le> 0 \<or> bus_ConnectTimeout b \<le> 0 \<or> bus_ReconnectWait b \<le> 0 \<or>
     bus_PublishTimeout b \<le> 0 \<or> bus_ConsumerAckWait b \<le> 0 \<or> bus_ConsumerMaxDeliver b \<le> 0 \<or>
     bus_DispatchInterval b \<le> 0 \<or> bus_DispatchBatchSize b \<le> 0 \<or> bus_DispatchLease b \<le> 0 \<or>
     bus_DispatchRetryDelay b \<le> 0 \<or> bus_PublishedRetention b < bus_MaxAge b \<or> bus_CleanupInterval b \<le> 0 \<or>
     bus_CleanupBatchSize b \<le> 0"

definition check_http_upstream :: "string \<times> HTTPUpstream \<Rightarrow> gerror option" where
  "check_http_upstream = (\<lambda>(name, u). first_error
     [check (hup_BaseURL u = [] \<or> hup_Timeout u \<le> 0) (''outbound.http.'' @ name @ '' requires base_url and positive timeout''),
      validateClientPolicy name (hup_Auth u) (hup_Retry u) (hup_Breaker u) (hup_TLS u)])"

definition check_grpc_upstream :: "string \<times> GRPCUpstream \<Rightarrow> gerror option" where
  "check_grpc_upstream = (\<lambda>(name, u). first_error
     [check (gup_Target u = [] \<or> gup_Timeout u \<le> 0) (''outbound.grpc.'' @ name @ '' requires target and positive timeout''),
      validateClientPolicy name (gup_Auth u) (gup_Retry u) (gup_Breaker u) (gup_TLS u)])"

definition production :: "Config \<Rightarrow> bool" where
  "production c \<longleftrightarrow> app_Env (cfg_App c) = ''production''"

definition Validate :: "(string \<Rightarrow> string) \<Rightarrow> string list \<Rightarrow> Config \<Rightarrow> gerror option" where
  "Validate quote order c = first_error (
     [check (\<not> validMigrationTable (db_Name (cfg_Database c)))
        ''database.name must contain lowercase letters, digits, or underscores and be at most 63 characters'',
      check (db_Schema (cfg_Database c) \<noteq> [] \<and> \<not> validMigrationTable (db_Schema (cfg_Database c)))
        ''database.schema must contain lowercase letters, digits, or underscores and be at most 63 characters'',
      check (http_Address (cfg_HTTP c) = []) ''http.address is required'',
      check (grpc_Enabled (cfg_GRPC c) \<and> (grpc_Address (cfg_GRPC c) = [] \<or> grpc_MaxReceiveBytes (cfg_GRPC c) \<le> 0))
        ''enabled grpc requires address and positive max_receive_bytes'',
      check (gtls_Enabled (grpc_TLS (cfg_GRPC c)) \<and>
             (gtls_CertFile (grpc_TLS (cfg_GRPC c)) = [] \<or> gtls_KeyFile (grpc_TLS (cfg_GRPC c)) = []))
        ''grpc tls requires cert_file and key_file'',
      check (production c \<and> grpc_Enabled (cfg_GRPC c) \<and> \<not> gtls_Enabled (grpc_TLS (cfg_GRPC c)))
        ''grpc tls must be enabled in production'',
      check (production c \<and> grpc_ReflectionEnabled (cfg_GRPC c)) ''grpc reflection must be disabled in production'',
      check (db_Enabled (cfg_Database c) \<and> (db_DSN (cfg_Database c) = [] \<or> \<not> isDBType (db_Type (cfg_Database c))))
        ''enabled database requires dsn and type mysql, postgres, or kingbase'',
      check (db_Enabled (cfg_Database c) \<and> map_of (out_GRPC (cfg_Outbound c)) ''application'' = None)
        ''enabled database requires outbound.grpc.application'',
      check (mig_AutoUp (cfg_Migration c) \<and>
             (\<not> db_Enabled (cfg_Database c) \<or> mig_Path (cfg_Migration c) = [] \<or> mig_DatabaseURL (cfg_Migration c) = [] \<or>
              \<not> validMigrationTable (mig_Table (cfg_Migration c))))
        ''migration.auto_up requires enabled database, path, database_url, and a valid service-specific table'',
      check (redis_Enabled (cfg_Redis c) \<and> redis_Address (cfg_Redis c) = []) ''enabled redis requires address'',
      check (http_RequestTimeout (cfg_HTTP c) \<le> 0 \<or> health_DatabaseTimeout (cfg_Health c) \<le> 0 \<or>
             health_RedisTimeout (cfg_Health c) \<le> 0) ''http and health timeouts must be positive'',
      check (rl_Enabled (cfg_RateLimit c) \<and> \<not> redis_Enabled (cfg_Redis c)) ''rate_limit requires redis.enabled''] @
     (if rl_Enabled (cfg_RateLimit c) then map check_rule (rate_rules (cfg_RateLimit c) order) else []) @
     [check (cors_Enabled (http_CORS (cfg_HTTP c)) \<and> cors_AllowedOrigins (http_CORS (cfg_HTTP c)) = [])
        ''cors.allowed_origins is required when cors is enabled'',
      check (obs_TracingSampleRatio (cfg_Observability c) < 0 \<or> obs_TracingSampleRatio (cfg_Observability c) > 1)
        ''observability.tracing_sample_ratio must be between 0 and 1'',
      check (obs_TracingEnabled (cfg_Observability c) \<and> obs_TracingEndpoint (cfg_Observability c) = [])
        ''observability.tracing_endpoint is required'',
      check (obs_PprofEnabled (cfg_Observability c) \<and> length (obs_PprofToken (cfg_Observability c)) < 32)
        ''observability.pprof_token must contain at least 32 bytes'',
      check (production c \<and> swagger_Enabled (cfg_Swagger c) \<and> \<not> swagger_RequireAuth (cfg_Swagger c))
        ''swagger.require_auth must be enabled in production'',
      check (production c \<and> (auth_JWKSURL (cfg_Auth c) = [] \<or> auth_Issuer (cfg_Auth c) = [] \<or> auth_Audience (cfg_Auth c) = []))
        ''production auth requires jwks_url, issuer, and audience'',
      check (production c \<and> \<not> authz_Enabled (cfg_Authorization c)) ''authorization must be enabled in production'',
      check (authz_Enabled (cfg_Authorization c) \<and> map_of (out_GRPC (cfg_Outbound c)) ''authorization'' = None)
        ''enabled authorization requires outbound.grpc.authorization'',
      check ((auth_ClientID (cfg_Auth c) \<noteq> [] \<or> auth_ClientSecret (cfg_Auth c) \<noteq> []) \<and>
             length (jwt_Secret (cfg_JWT c)) < 32)
        ''jwt.secret must contain at least 32 bytes when auth is enabled''] @
     map (check_path quote ''auth.skip_http_paths'') (auth_SkipHTTPPaths (cfg_Auth c)) @
     map (check_method quote ''auth.skip_grpc_methods'') (auth_SkipGRPCMethods (cfg_Auth c)) @
     [check (psk_Enabled (auth_PSK (cfg_Auth c)) \<and>
             (length (psk_Key (auth_PSK (cfg_Auth c))) < 32 \<or>
              length (psk_HTTPPaths (auth_PSK (cfg_Auth c))) + length (psk_GRPCMethods (auth_PSK (cfg_Auth c))) = 0))
        ''enabled auth.psk requires a key of at least 32 bytes and at least one route pattern''] @
     map (check_path quote ''auth.psk.http_paths'') (psk_HTTPPaths (auth_PSK (cfg_Auth c))) @
     map (check_method quote ''auth.psk.grpc_methods'') (psk_GRPCMethods (auth_PSK (cfg_Auth c))) @
     [check (user_CacheTTL (cfg_User c) \<le> 0 \<or> user_LockTTL (cfg_User c) \<le> 0 \<or> user_LockRetryDelay (cfg_User c) \<le> 0)
        ''user cache and lock durations must be positive'',
      check (idem_Enabled (cfg_Idempotency c) \<and>
             (\<not> redis_Enabled (cfg_Redis c) \<or>
              length (idem_HTTPPaths (cfg_Idempotency c)) + length (idem_GRPCMethods (cfg_Idempotency c)) = 0 \<or>
              idem_ProcessingTTL (cfg_Idempotency c) \<le> 0 \<or> idem_ResultTTL (cfg_Idempotency c) \<le> 0 \<or>
              idem_FailureTTL (cfg_Idempotency c) \<le> 0))
        ''enabled idempotency requires redis, at least one route pattern, and positive TTL values''] @
     map (check_path quote ''idempotency.http_paths'') (idem_HTTPPaths (cfg_Idempotency c)) @
     map (check_method quote ''idempotency.grpc_methods'') (idem_GRPCMethods (cfg_Idempotency c)) @
     [check (bus_Enabled (cfg_EventBus c) \<and> bus_error (cfg_EventBus c))
        (''enabled event_bus requires stream settings, positive delivery/dispatch/cleanup settings, '' @
         ''and published retention at least max_age'')] @
     map check_http_upstream (out_HTTP (cfg_Outbound c)) @
     map check_grpc_upstream (out_GRPC (cfg_Outbound c)))"

section \<open>Loading\<close>

text \<open>\<^verbatim>\<open>strings.Trim\<close> with a cutset of ASCII characters, and the decode hook for string lists.\<close>

definition Trim :: "char set \<Rightarrow> string \<Rightarrow> string" where
  "Trim cutset s = rev (dropWhile (\<lambda>c. c \<in> cutset) (rev (dropWhile (\<lambda>c. c \<in> cutset) s)))"

definition stringToStringSliceHook :: "string \<Rightarrow> string list" where
  "stringToStringSliceHook text =
     (let raw = TrimSpace text;
          raw = (if HasPrefix raw ''['' \<and> HasSuffix raw '']'' then TrimSpace (butlast (tl raw)) else raw)
      in if raw = [] then []
         else map (\<lambda>v. Trim {CHR 0x22, CHR 0x27} (TrimSpace v)) (Split raw (CHR '','')))"

text \<open>\<^verbatim>\<open>filepath.Ext\<close>: from the last dot of the last path element.\<close>

definition Ext :: "string \<Rightarrow> string" where
  "Ext path =
     (let tail = takeWhile (\<lambda>c. c \<noteq> CHR ''/'') (rev path);
          ext = takeWhile (\<lambda>c. c \<noteq> CHR ''.'') tail
      in if CHR ''.'' \<in> set tail then CHR ''.'' # rev ext else [])"

definition TrimSuffix :: "string \<Rightarrow> string \<Rightarrow> string" where
  "TrimSuffix s suffix = (if HasSuffix s suffix then take (length s - length suffix) s else s)"

definition profileConfigPath :: "string \<Rightarrow> string \<Rightarrow> string" where
  "profileConfigPath path profile = TrimSuffix path (Ext path) @ ''-'' @ profile @ Ext path"

datatype stat_outcome = Exists | NotExist | StatError gerror

text \<open>
  What \<^verbatim>\<open>viper\<close> and the file system answer: \<open>l_read\<close> the error of reading the base file and whether it
  is a \<^verbatim>\<open>ConfigFileNotFoundError\<close>, \<open>l_env\<close> the setting \<^verbatim>\<open>app.env\<close> after that, \<open>l_unmarshal\<close> the decoded
  settings of the files loaded, with \<^verbatim>\<open>app.env\<close> set to the profile.
\<close>

record loader =
  l_bindEnv :: "gerror option"
  l_read :: "string \<Rightarrow> (gerror \<times> bool) option"
  l_env :: string
  l_stat :: "string \<Rightarrow> stat_outcome"
  l_merge :: "string \<Rightarrow> gerror option"
  l_unmarshal :: "string list \<Rightarrow> string \<Rightarrow> Config result"
  l_lower :: "int \<Rightarrow> int"
  l_quote :: "string \<Rightarrow> string"
  l_order :: "string list"

definition finish_load :: "loader \<Rightarrow> string \<Rightarrow> string list \<Rightarrow> Config result" where
  "finish_load l profile loadedFiles =
     (case l_unmarshal l loadedFiles profile of
        Inl err \<Rightarrow> Inl (Wrap ''decode config'' err)
      | Inr cfg \<Rightarrow>
        (let cfg = cfg\<lparr>cfg_Migration := (cfg_Migration cfg)\<lparr>mig_Schema := db_Schema (cfg_Database cfg),
                         mig_DatabaseName := db_Name (cfg_Database cfg)\<rparr>\<rparr>
         in case Validate (l_quote l) (l_order l) cfg of
              Some err \<Rightarrow> Inl err
            | None \<Rightarrow> Inr (cfg\<lparr>cfg_Runtime := \<lparr>runtime_ActiveProfile = profile, runtime_ConfigFiles = loadedFiles\<rparr>\<rparr>)))"

definition load_profile :: "loader \<Rightarrow> string \<Rightarrow> string \<Rightarrow> Config result" where
  "load_profile l path explicitProfile =
     (let explicit = ToLower (l_lower l) (TrimSpace explicitProfile);
          profile = (if explicit = [] then ToLower (l_lower l) (TrimSpace (l_env l)) else explicit);
          profilePath = profileConfigPath path profile in
      if \<not> validProfile profile then Inl (Plain (''invalid environment profile '' @ l_quote l profile))
      else if profilePath = path then finish_load l profile [path]
      else (case l_stat l profilePath of
              Exists \<Rightarrow>
                (case l_merge l profilePath of
                   Some err \<Rightarrow> Inl (Wrap (''merge profile config '' @ l_quote l profilePath) err)
                 | None \<Rightarrow> finish_load l profile [path, profilePath])
            | NotExist \<Rightarrow> finish_load l profile [path]
            | StatError err \<Rightarrow> Inl (Wrap (''inspect profile config '' @ l_quote l profilePath) err)))"

definition LoadWithProfile :: "loader \<Rightarrow> string \<Rightarrow> string \<Rightarrow> Config result" where
  "LoadWithProfile l path explicitProfile =
     (case l_bindEnv l of
        Some err \<Rightarrow> Inl (Wrap ''bind environment profile'' err)
      | None \<Rightarrow>
        (case l_read l path of
           Some (err, notFound) \<Rightarrow>
             if path \<noteq> [] \<or> \<not> notFound then Inl (Wrap ''read config'' err)
             else load_profile l path explicitProfile
         | None \<Rightarrow> load_profile l path explicitProfile))"

definition Load :: "loader \<Rightarrow> string \<Rightarrow> Config result" where
  "Load l path = LoadWithProfile l path []"

section \<open>What a valid configuration guarantees\<close>

lemma first_error_None [simp]: "first_error es = None \<longleftrightarrow> (\<forall>e \<in> set es. e = None)"
  by (induction es rule: first_error.induct) auto

lemma check_None [simp]: "check failed m = None \<longleftrightarrow> \<not> failed"
  by (simp add: check_def)

lemma match_error_None [simp]: "match_error p = None \<longleftrightarrow> (\<forall>name. Match p name \<noteq> None)"
  using Match_syntax [of p "''/validation/target''"] Match_syntax [of p] by (auto simp: match_error_def)

lemma check_path_None [simp]:
  "check_path quote field p = None \<longleftrightarrow> HasPrefix p ''/api/'' \<and> (\<forall>name. Match p name \<noteq> None)"
  by (simp add: check_path_def)

lemma check_method_None [simp]:
  "check_method quote field p = None \<longleftrightarrow> method_pattern p \<and> (\<forall>name. Match p name \<noteq> None)"
  by (simp add: check_method_def)

lemma check_retry_method_None [simp]:
  "check_retry_method name p = None \<longleftrightarrow> method_pattern p \<and> (\<forall>n. Match p n \<noteq> None)"
  by (simp add: check_retry_method_def)

lemma validateClientPolicy_None:
  "validateClientPolicy name auth retry breaker tls = None \<Longrightarrow>
   (ca_Type auth = [] \<or> ca_Token auth \<noteq> [] \<and> ctls_Enabled tls) \<and>
   1 \<le> retry_MaxAttempts retry \<and> retry_MaxAttempts retry \<le> 5 \<and> 0 < retry_InitialBackoff retry \<and>
   retry_InitialBackoff retry \<le> retry_MaxBackoff retry"
  by (auto simp: validateClientPolicy_def)

lemma Validate_runtime [simp]: "Validate quote order (c\<lparr>cfg_Runtime := r\<rparr>) = Validate quote order c"
  by (simp add: Validate_def production_def)

lemma finish_load_Inr:
  "finish_load l profile files = Inr cfg \<Longrightarrow>
   Validate (l_quote l) (l_order l) cfg = None \<and> cfg_Runtime cfg = \<lparr>runtime_ActiveProfile = profile, runtime_ConfigFiles = files\<rparr> \<and>
   mig_Schema (cfg_Migration cfg) = db_Schema (cfg_Database cfg) \<and>
   mig_DatabaseName (cfg_Migration cfg) = db_Name (cfg_Database cfg)"
  by (auto simp: finish_load_def Let_def split: sum.splits option.splits)

lemma load_profile_Inr:
  assumes "load_profile l path explicitProfile = Inr cfg"
  obtains profile files where "finish_load l profile files = Inr cfg" and "validProfile profile"
    and "files = [path] \<or> files = [path, profileConfigPath path profile] \<and> l_stat l (profileConfigPath path profile) = Exists"
  using assms
  by (auto simp: load_profile_def Let_def split: option.splits if_splits stat_outcome.splits)

lemma LoadWithProfile_Inr:
  "LoadWithProfile l path explicitProfile = Inr cfg \<Longrightarrow> load_profile l path explicitProfile = Inr cfg"
  by (auto simp: LoadWithProfile_def split: option.splits if_splits)

text \<open>The checks that the other parts of the program rely on, read off in one step.\<close>

lemma Validate_facts:
  assumes "Validate quote order c = None"
  shows "(\<forall>p \<in> set (auth_SkipHTTPPaths (cfg_Auth c)). HasPrefix p ''/api/'' \<and> (\<forall>name. Match p name \<noteq> None)) \<and>
    (\<forall>p \<in> set (psk_HTTPPaths (auth_PSK (cfg_Auth c))). HasPrefix p ''/api/'' \<and> (\<forall>name. Match p name \<noteq> None)) \<and>
    (\<forall>p \<in> set (idem_HTTPPaths (cfg_Idempotency c)). HasPrefix p ''/api/'' \<and> (\<forall>name. Match p name \<noteq> None)) \<and>
    (\<forall>p \<in> set (auth_SkipGRPCMethods (cfg_Auth c)). method_pattern p \<and> (\<forall>name. Match p name \<noteq> None)) \<and>
    (\<forall>p \<in> set (psk_GRPCMethods (auth_PSK (cfg_Auth c))). method_pattern p \<and> (\<forall>name. Match p name \<noteq> None)) \<and>
    (\<forall>p \<in> set (idem_GRPCMethods (cfg_Idempotency c)). method_pattern p \<and> (\<forall>name. Match p name \<noteq> None)) \<and>
    (\<forall>p \<in> set (out_HTTP (cfg_Outbound c)). check_http_upstream p = None) \<and>
    (\<forall>p \<in> set (out_GRPC (cfg_Outbound c)). check_grpc_upstream p = None) \<and>
    (production c \<longrightarrow>
      (grpc_Enabled (cfg_GRPC c) \<longrightarrow> gtls_Enabled (grpc_TLS (cfg_GRPC c)) \<and>
        gtls_CertFile (grpc_TLS (cfg_GRPC c)) \<noteq> [] \<and> gtls_KeyFile (grpc_TLS (cfg_GRPC c)) \<noteq> []) \<and>
      \<not> grpc_ReflectionEnabled (cfg_GRPC c) \<and>
      (swagger_Enabled (cfg_Swagger c) \<longrightarrow> swagger_RequireAuth (cfg_Swagger c)) \<and>
      auth_JWKSURL (cfg_Auth c) \<noteq> [] \<and> auth_Issuer (cfg_Auth c) \<noteq> [] \<and> auth_Audience (cfg_Auth c) \<noteq> [] \<and>
      authz_Enabled (cfg_Authorization c) \<and> map_of (out_GRPC (cfg_Outbound c)) ''authorization'' \<noteq> None) \<and>
    (psk_Enabled (auth_PSK (cfg_Auth c)) \<longrightarrow> 32 \<le> length (psk_Key (auth_PSK (cfg_Auth c)))) \<and>
    (obs_PprofEnabled (cfg_Observability c) \<longrightarrow> 32 \<le> length (obs_PprofToken (cfg_Observability c)))"
  using assms unfolding Validate_def by (simp add: ball_Un not_less)

lemma Validate_upstreams:
  assumes "Validate quote order c = None"
  shows "(name, u) \<in> set (out_HTTP (cfg_Outbound c)) \<Longrightarrow> hup_BaseURL u \<noteq> [] \<and> 0 < hup_Timeout u \<and>
      validateClientPolicy name (hup_Auth u) (hup_Retry u) (hup_Breaker u) (hup_TLS u) = None"
    and "(name, v) \<in> set (out_GRPC (cfg_Outbound c)) \<Longrightarrow> gup_Target v \<noteq> [] \<and> 0 < gup_Timeout v \<and>
      validateClientPolicy name (gup_Auth v) (gup_Retry v) (gup_Breaker v) (gup_TLS v) = None"
proof -
  have "\<forall>p \<in> set (out_HTTP (cfg_Outbound c)). check_http_upstream p = None"
    using Validate_facts [OF assms] by (elim conjE)
  moreover have "\<forall>p \<in> set (out_GRPC (cfg_Outbound c)). check_grpc_upstream p = None"
    using Validate_facts [OF assms] by (elim conjE)
  ultimately show "(name, u) \<in> set (out_HTTP (cfg_Outbound c)) \<Longrightarrow> hup_BaseURL u \<noteq> [] \<and> 0 < hup_Timeout u \<and>
      validateClientPolicy name (hup_Auth u) (hup_Retry u) (hup_Breaker u) (hup_TLS u) = None"
    and "(name, v) \<in> set (out_GRPC (cfg_Outbound c)) \<Longrightarrow> gup_Target v \<noteq> [] \<and> 0 < gup_Timeout v \<and>
      validateClientPolicy name (gup_Auth v) (gup_Retry v) (gup_Breaker v) (gup_TLS v) = None"
    by (auto simp: check_http_upstream_def check_grpc_upstream_def)
qed

lemma loaded_valid: "LoadWithProfile l path explicitProfile = Inr cfg \<Longrightarrow> Validate (l_quote l) (l_order l) cfg = None"
  by (drule LoadWithProfile_Inr) (auto elim!: load_profile_Inr dest: finish_load_Inr)

section \<open>Lists in environment variables\<close>

text \<open>Items that the decode hook for string lists keeps as they are, and the two notations it reads.\<close>

definition list_item :: "string \<Rightarrow> bool" where
  "list_item v \<longleftrightarrow> v \<noteq> [] \<and> (\<forall>c \<in> set v. graphic c \<and> c \<notin> {CHR '','', CHR 0x22, CHR 0x27, CHR ''['', CHR '']''})"

definition quoted :: "string \<Rightarrow> string" where
  "quoted v = [CHR 0x22] @ v @ [CHR 0x22]"

lemma Trim_item: "list_item v \<Longrightarrow> Trim {CHR 0x22, CHR 0x27} v = v \<and> Trim {CHR 0x22, CHR 0x27} (quoted v) = v"
proof -
  let ?P = "\<lambda>c. c \<in> {CHR 0x22, CHR 0x27}"
  assume v: "list_item v"
  then have ends: "v \<noteq> []" "\<not> ?P (hd v)" "\<not> ?P (last v)"
    using hd_in_set [of v] last_in_set [of v] unfolding list_item_def by blast+
  have hd: "dropWhile ?P (v @ w) = v @ w" for w using ends(1,2) by (cases v) simp_all
  have tl: "dropWhile ?P (rev v) = rev v" using ends(1,3) by (cases v rule: rev_cases) simp_all
  from hd [of "[]"] hd [of "[CHR 0x22]"] tl show ?thesis by (simp add: Trim_def quoted_def)
qed

lemma hook_items:
  assumes "vs \<noteq> []" and "\<forall>v \<in> set vs. v \<noteq> [] \<and> (\<forall>c \<in> set v. graphic c \<and> c \<noteq> CHR '','' \<and> c \<noteq> CHR ''['' \<and> c \<noteq> CHR '']'')"
  shows "stringToStringSliceHook (Join vs '','') = map (Trim {CHR 0x22, CHR 0x27}) vs"
    and "stringToStringSliceHook (''['' @ Join vs '','' @ '']'') = map (Trim {CHR 0x22, CHR 0x27}) vs"
proof -
  let ?j = "Join vs '',''"
  have chars: "\<forall>c \<in> set ?j. graphic c \<and> c \<noteq> CHR ''[''"
  proof
    fix c
    assume "c \<in> set ?j"
    with set_Join [of vs "'',''"] have "(\<exists>v \<in> set vs. c \<in> set v) \<or> c = CHR '',''" by auto
    with assms(2) show "graphic c \<and> c \<noteq> CHR ''[''" by (elim disjE bexE) (auto simp: graphic_def)
  qed
  have trim: "TrimSpace ?j = ?j" by (rule TrimSpace_graphic) (use chars in blast)
  have ne: "?j \<noteq> []" using assms by (subst Join_Nil_iff) blast+
  have "\<not> HasPrefix ?j ''[''"
  proof
    assume "HasPrefix ?j ''[''"
    then have "CHR ''['' \<in> set ?j" unfolding HasPrefix_iff by force
    with chars show False by blast
  qed
  note j = trim ne this
  have "TrimSpace (''['' @ ?j @ '']'') = ''['' @ ?j @ '']''"
    using chars by (intro TrimSpace_graphic) (auto simp: graphic_def)
  moreover have "HasPrefix (''['' @ ?j @ '']'') ''[''" "HasSuffix (''['' @ ?j @ '']'') '']''"
    by (simp_all add: HasPrefix_def HasSuffix_def)
  moreover have split: "Split ?j (CHR '','') = vs" using assms by (intro Split_Join) auto
  moreover have items: "map (\<lambda>v. Trim {CHR 0x22, CHR 0x27} (TrimSpace v)) vs = map (Trim {CHR 0x22, CHR 0x27}) vs"
    using assms(2) by (intro map_cong) (auto simp: TrimSpace_graphic)
  ultimately show "stringToStringSliceHook (''['' @ ?j @ '']'') = map (Trim {CHR 0x22, CHR 0x27}) vs"
    using j by (simp add: stringToStringSliceHook_def)
  show "stringToStringSliceHook ?j = map (Trim {CHR 0x22, CHR 0x27}) vs"
    using j split items by (simp add: stringToStringSliceHook_def)
qed

lemma hook_roundtrip:
  assumes "vs \<noteq> []" and "\<forall>v \<in> set vs. list_item v"
  shows "stringToStringSliceHook (Join vs '','') = vs \<and>
    stringToStringSliceHook (''['' @ Join (map quoted vs) '','' @ '']'') = vs"
proof -
  have "map (Trim {CHR 0x22, CHR 0x27}) vs = vs" "map (Trim {CHR 0x22, CHR 0x27}) (map quoted vs) = vs"
    using assms(2) Trim_item by (simp_all add: map_idI)
  moreover have "stringToStringSliceHook (Join vs '','') = map (Trim {CHR 0x22, CHR 0x27}) vs"
    using assms by (intro hook_items) (auto simp: list_item_def)
  moreover have "stringToStringSliceHook (''['' @ Join (map quoted vs) '','' @ '']'') = map (Trim {CHR 0x22, CHR 0x27}) (map quoted vs)"
    using assms by (intro hook_items) (auto simp: list_item_def quoted_def graphic_def)
  ultimately show ?thesis by simp
qed

end
