(* ===== verification/Auth.thy ===== *)
theory Auth
  imports Settings Request_Context
begin

text \<open>
  Package \<^verbatim>\<open>auth\<close>: pattern lists, pre-shared keys and JSON web tokens. The token library and the
  verifier of an identity service's keys (\<^verbatim>\<open>authn.JWKSVerifier\<close>) are parameters; \<open>jwt_documented\<close> is
  what the documentation of the library promises of its options.
\<close>

section \<open>Patterns and pre-shared keys\<close>

definition MatchesAny :: "string \<Rightarrow> string list \<Rightarrow> bool" where
  "MatchesAny v patterns = list_ex (\<lambda>pattern. Match pattern v = Some True) patterns"

text \<open>\<^verbatim>\<open>subtle.ConstantTimeCompare\<close> compares contents (its timing is not modelled).\<close>

definition VerifyPSK :: "string \<Rightarrow> string \<Rightarrow> bool" where
  "VerifyPSK authorization expected =
     (case Cut authorization (CHR '' '') of (scheme, supplied, ok) \<Rightarrow>
        if \<not> ok \<or> \<not> EqualFold scheme ''PSK'' \<or> supplied = [] \<or> length supplied \<noteq> length expected then False
        else supplied = expected)"

section \<open>Tokens\<close>

record claims =
  cl_Issuer :: string
  cl_Subject :: string
  cl_ID :: string
  cl_IssuedAt :: "time option"
  cl_NotBefore :: "time option"
  cl_ExpiresAt :: "time option"

text \<open>
  The token library: the precision of a \<^verbatim>\<open>NumericDate\<close>, signing with HS256, the algorithm that a token
  names, whether its signature verifies with a key under that algorithm, and parsing with the options
  of \<^verbatim>\<open>Parse\<close> (a required issuer, a required expiry, a check of the issue time) at a given time. The key
  function gets the algorithm and returns the key or refuses; the result has the claims and whether
  the token is valid.
\<close>

record jwt_lib =
  jwt_date :: "time \<Rightarrow> time"
  jwt_sign :: "claims \<Rightarrow> bytes \<Rightarrow> string result"
  jwt_alg :: "string \<Rightarrow> string"
  jwt_verifies :: "string \<Rightarrow> bytes \<Rightarrow> bool"
  jwt_parse :: "string \<Rightarrow> (string \<Rightarrow> bytes result) \<Rightarrow> string \<Rightarrow> time \<Rightarrow> (claims \<times> bool) result"

record auth_service =
  as_issuer :: string
  as_secret :: bytes
  as_ttl :: duration
  as_clientID :: string
  as_clientSecret :: string
  as_verifier :: "(string \<Rightarrow> principal result) option"

definition auth_New :: "Config \<Rightarrow> auth_service" where
  "auth_New cfg =
     \<lparr>as_issuer = jwt_Issuer (cfg_JWT cfg), as_secret = jwt_Secret (cfg_JWT cfg), as_ttl = jwt_TTL (cfg_JWT cfg),
      as_clientID = auth_ClientID (cfg_Auth cfg), as_clientSecret = auth_ClientSecret (cfg_Auth cfg),
      as_verifier = None\<rparr>"

text \<open>\<open>newJWKS\<close> is \<^verbatim>\<open>authn.NewJWKSVerifier\<close>: from the URL, the issuer and the audience, a verifier.\<close>

definition NewRuntime ::
    "(string \<Rightarrow> string \<Rightarrow> string \<Rightarrow> (string \<Rightarrow> principal result) result) \<Rightarrow> Config \<Rightarrow> auth_service result" where
  "NewRuntime newJWKS cfg =
     (let s = auth_New cfg in
      if auth_JWKSURL (cfg_Auth cfg) = [] then Inr s
      else (case newJWKS (auth_JWKSURL (cfg_Auth cfg)) (auth_Issuer (cfg_Auth cfg)) (auth_Audience (cfg_Auth cfg)) of
              Inl err \<Rightarrow> Inl (Wrap ''configure identity token verifier'' err)
            | Inr v \<Rightarrow> Inr (s\<lparr>as_verifier := Some v\<rparr>)))"

definition Enabled :: "auth_service \<Rightarrow> bool" where
  "Enabled s \<longleftrightarrow> 32 \<le> length (as_secret s) \<and> as_clientID s \<noteq> [] \<and> as_clientSecret s \<noteq> []"

definition Authenticate :: "auth_service \<Rightarrow> string \<Rightarrow> string \<Rightarrow> bool" where
  "Authenticate s clientID clientSecret =
     (if \<not> Enabled s then False else clientID = as_clientID s \<and> clientSecret = as_clientSecret s)"

text \<open>\<^verbatim>\<open>base64.RawURLEncoding\<close>.\<close>

fun sextets :: "int list \<Rightarrow> int list" where
  "sextets (a # b # c # xs) =
     a div 4 # (a mod 4 * 16 + b div 16) # (b mod 16 * 4 + c div 64) # (c mod 64) # sextets xs"
| "sextets [a, b] = [a div 4, a mod 4 * 16 + b div 16, b mod 16 * 4]"
| "sextets [a] = [a div 4, a mod 4 * 16]"
| "sextets [] = []"

definition base64_char :: "int \<Rightarrow> char" where
  "base64_char n =
     (if n < 26 then char_of (65 + n) else if n < 52 then char_of (71 + n) else if n < 62 then char_of (n - 4)
      else if n = 62 then CHR ''-'' else CHR ''_'')"

text \<open>\<^verbatim>\<open>randomID\<close>: 16 random bytes, \<open>Inl\<close> when \<^verbatim>\<open>rand.Read\<close> fails.\<close>

definition randomID :: "bytes result \<Rightarrow> string result" where
  "randomID random =
     (case random of Inl err \<Rightarrow> Inl err | Inr b \<Rightarrow> Inr (map base64_char (sextets (map byte b))))"

definition Issue :: "jwt_lib \<Rightarrow> auth_service \<Rightarrow> time \<Rightarrow> bytes result \<Rightarrow> string \<Rightarrow> string result" where
  "Issue lib s now random subject =
     (if \<not> Enabled s then Inl (Plain ''authentication is not configured'')
      else (case randomID random of
              Inl err \<Rightarrow> Inl (Wrap ''create token id'' err)
            | Inr jti \<Rightarrow>
                jwt_sign lib
                  \<lparr>cl_Issuer = as_issuer s, cl_Subject = subject, cl_ID = jti, cl_IssuedAt = Some (jwt_date lib now),
                   cl_NotBefore = Some (jwt_date lib now), cl_ExpiresAt = Some (jwt_date lib (now + as_ttl s))\<rparr> (as_secret s)))"

definition key_func :: "auth_service \<Rightarrow> string \<Rightarrow> bytes result" where
  "key_func s alg =
     (if alg \<noteq> ''HS256'' then Inl (Plain (''unexpected signing method '' @ alg)) else Inr (as_secret s))"

definition Parse :: "jwt_lib \<Rightarrow> auth_service \<Rightarrow> time \<Rightarrow> string \<Rightarrow> claims result" where
  "Parse lib s now raw =
     (if \<not> Enabled s then Inl (Plain ''authentication is not configured'')
      else (case jwt_parse lib raw (key_func s) (as_issuer s) now of
              Inl err \<Rightarrow> Inl (Wrap ''parse jwt'' err)
            | Inr (c, valid) \<Rightarrow> if \<not> valid then Inl (Plain ''invalid jwt claims'') else Inr c))"

definition Verify :: "jwt_lib \<Rightarrow> auth_service \<Rightarrow> time \<Rightarrow> string \<Rightarrow> principal result" where
  "Verify lib s now raw =
     (case as_verifier s of
        Some verify \<Rightarrow> verify raw
      | None \<Rightarrow>
        (case Parse lib s now raw of
           Inl err \<Rightarrow> Inl err
         | Inr c \<Rightarrow> Inr \<lparr>pr_ID = cl_Subject c, pr_Type = TypeUser, pr_TenantID = []\<rparr>))"

text \<open>
  What the authorization service is asked about (\<^verbatim>\<open>authz.Requirement\<close>); every requirement of the source
  has the principal's scope. The principal of a caller with the pre-shared key.
\<close>

record requirement =
  rq_Resource :: string
  rq_Action :: string

definition psk_principal :: principal where
  "psk_principal = \<lparr>pr_ID = ''config-service:psk'', pr_Type = TypeServiceAccount, pr_TenantID = []\<rparr>"

section \<open>What is accepted\<close>

text \<open>What an authorization value proves: the pre-shared key, or a bearer token that the service verifies.\<close>

definition credential :: "(string \<Rightarrow> principal result) \<Rightarrow> Auth \<Rightarrow> string \<Rightarrow> principal \<Rightarrow> bool" where
  "credential verify cfg v p \<longleftrightarrow>
     psk_Enabled (auth_PSK cfg) \<and> VerifyPSK v (psk_Key (auth_PSK cfg)) \<and> p = psk_principal \<or>
     (\<exists>scheme raw. v = scheme @ CHR '' '' # raw \<and> EqualFold scheme ''Bearer'' \<and> verify raw = Inr p)"

lemma VerifyPSK_iff:
  "VerifyPSK authorization expected \<longleftrightarrow>
   expected \<noteq> [] \<and> (\<exists>scheme. authorization = scheme @ CHR '' '' # expected \<and> CHR '' '' \<notin> set scheme \<and>
     EqualFold scheme ''PSK'')"
proof
  assume "VerifyPSK authorization expected"
  then obtain scheme supplied where "Cut authorization (CHR '' '') = (scheme, supplied, True)"
    "EqualFold scheme ''PSK''" "supplied = expected" "supplied \<noteq> []"
    by (auto simp: VerifyPSK_def split: prod.splits if_splits)
  with Cut_TrueD show "expected \<noteq> [] \<and> (\<exists>scheme. authorization = scheme @ CHR '' '' # expected \<and>
      CHR '' '' \<notin> set scheme \<and> EqualFold scheme ''PSK'')" by blast
next
  assume "expected \<noteq> [] \<and> (\<exists>scheme. authorization = scheme @ CHR '' '' # expected \<and> CHR '' '' \<notin> set scheme \<and>
     EqualFold scheme ''PSK'')"
  then show "VerifyPSK authorization expected" by (auto simp: VerifyPSK_def Cut_found)
qed

text \<open>
  The documented behaviour of the token library: what was signed with a key parses with that key,
  the issuer and within the validity period; what parses as valid has a signature that verifies with
  the key the key function returned for the token's algorithm, the required issuer and a validity
  period that contains the present.
\<close>

definition valid_at :: "claims \<Rightarrow> time \<Rightarrow> bool" where
  "valid_at c now \<longleftrightarrow>
     (case cl_ExpiresAt c of None \<Rightarrow> False | Some t \<Rightarrow> now < t) \<and>
     (case cl_NotBefore c of None \<Rightarrow> True | Some t \<Rightarrow> t \<le> now) \<and>
     (case cl_IssuedAt c of None \<Rightarrow> True | Some t \<Rightarrow> t \<le> now)"

definition jwt_documented :: "jwt_lib \<Rightarrow> bool" where
  "jwt_documented lib \<longleftrightarrow>
     (\<forall>t. jwt_date lib t \<le> t) \<and>
     (\<forall>c k raw kf now. jwt_sign lib c k = Inr raw \<and> kf ''HS256'' = Inr k \<and> valid_at c now \<longrightarrow>
        jwt_parse lib raw kf (cl_Issuer c) now = Inr (c, True)) \<and>
     (\<forall>raw kf iss now c. jwt_parse lib raw kf iss now = Inr (c, True) \<longrightarrow>
        cl_Issuer c = iss \<and> valid_at c now \<and> (\<exists>k. kf (jwt_alg lib raw) = Inr k \<and> jwt_verifies lib raw k))"

lemma Issue_Parse:
  assumes "jwt_documented lib" and "Issue lib s now random subject = Inr raw" and "now \<le> later"
    and "later < jwt_date lib (now + as_ttl s)"
  shows "\<exists>c. Parse lib s later raw = Inr c \<and> cl_Subject c = subject \<and>
    cl_ExpiresAt c = Some (jwt_date lib (now + as_ttl s))"
proof -
  from assms(2) obtain jti where e: "Enabled s" and sign: "jwt_sign lib
      \<lparr>cl_Issuer = as_issuer s, cl_Subject = subject, cl_ID = jti, cl_IssuedAt = Some (jwt_date lib now),
       cl_NotBefore = Some (jwt_date lib now), cl_ExpiresAt = Some (jwt_date lib (now + as_ttl s))\<rparr> (as_secret s) = Inr raw"
    (is "jwt_sign lib ?c _ = _")
    by (auto simp: Issue_def split: if_splits sum.splits)
  have "jwt_date lib now \<le> later" using assms(1,3) unfolding jwt_documented_def by (metis order_trans)
  with assms(4) have "valid_at ?c later" by (simp add: valid_at_def)
  moreover have "key_func s ''HS256'' = Inr (as_secret s)" by (simp add: key_func_def)
  ultimately have "jwt_parse lib raw (key_func s) (cl_Issuer ?c) later = Inr (?c, True)"
    using assms(1) sign unfolding jwt_documented_def by blast
  with e show ?thesis by (simp add: Parse_def)
qed

lemma Parse_sound:
  assumes "jwt_documented lib" and "Parse lib s now raw = Inr c"
  shows "Enabled s \<and> cl_Issuer c = as_issuer s \<and> valid_at c now \<and> jwt_alg lib raw = ''HS256'' \<and>
    jwt_verifies lib raw (as_secret s)"
proof -
  from assms(2) have e: "Enabled s" and p: "jwt_parse lib raw (key_func s) (as_issuer s) now = Inr (c, True)"
    by (auto simp: Parse_def split: if_splits sum.splits)
  have k: "key_func s alg = Inr k \<Longrightarrow> alg = ''HS256'' \<and> k = as_secret s" for alg k
    by (simp add: key_func_def split: if_splits)
  from assms(1) p obtain k where "cl_Issuer c = as_issuer s" "valid_at c now"
    "key_func s (jwt_alg lib raw) = Inr k" "jwt_verifies lib raw k"
    unfolding jwt_documented_def by blast
  with e k show ?thesis by metis
qed

lemma Verify_local: "as_verifier s = None \<Longrightarrow> Verify lib s now raw = Inr p \<Longrightarrow> pr_Type p = TypeUser \<and> pr_TenantID p = []"
  by (auto simp: Verify_def split: sum.splits)

end
