(* ===== verification/Health_Limits.thy ===== *)
theory Health_Limits
  imports Settings
begin

text \<open>
  Readiness (\<^verbatim>\<open>health/service.go\<close>) and rate limiting (\<^verbatim>\<open>ratelimit/limiter.go\<close>). The answers of the
  database, of Redis and of the Redis rate limiter are parameters.
\<close>

section \<open>Health\<close>

record Dependency =
  dep_Status :: string
  dep_Latency :: string

record Status =
  st_Status :: string
  st_Dependencies :: "string \<rightharpoonup> Dependency"

record health_result =
  hr_name :: string
  hr_dependency :: Dependency
  hr_ready :: bool

text \<open>A dependency as the service sees it: not configured, or the latency and the error of a ping.\<close>

datatype ping = Absent | Ping (ping_latency: string) (ping_error: "gerror option")

record health_service =
  hs_db :: ping
  hs_redis :: ping

definition Live :: Status where
  "Live = \<lparr>st_Status = ''up'', st_Dependencies = Map.empty\<rparr>"

definition checkResult :: "string \<Rightarrow> string \<Rightarrow> gerror option \<Rightarrow> health_result" where
  "checkResult name latency err =
     (case err of
        Some e \<Rightarrow> \<lparr>hr_name = name, hr_dependency = \<lparr>dep_Status = ''down'', dep_Latency = latency\<rparr>, hr_ready = False\<rparr>
      | None \<Rightarrow> \<lparr>hr_name = name, hr_dependency = \<lparr>dep_Status = ''up'', dep_Latency = latency\<rparr>, hr_ready = True\<rparr>)"

definition check_dependency :: "string \<Rightarrow> ping \<Rightarrow> health_result" where
  "check_dependency name p =
     (case p of
        Absent \<Rightarrow> \<lparr>hr_name = name, hr_dependency = \<lparr>dep_Status = ''disabled'', dep_Latency = []\<rparr>, hr_ready = True\<rparr>
      | Ping latency err \<Rightarrow> checkResult name latency err)"

definition checkDatabase :: "health_service \<Rightarrow> health_result" where
  "checkDatabase s = check_dependency ''database'' (hs_db s)"

definition checkRedis :: "health_service \<Rightarrow> health_result" where
  "checkRedis s = check_dependency ''redis'' (hs_redis s)"

text \<open>The two checks run concurrently: \<open>redis_first\<close> says which result arrives first.\<close>

fun collect :: "health_result list \<Rightarrow> Status \<Rightarrow> bool \<Rightarrow> Status \<times> bool" where
  "collect [] status ready = (if \<not> ready then (status\<lparr>st_Status := ''not_ready''\<rparr>, ready) else (status, ready))"
| "collect (item # items) status ready =
     collect items (status\<lparr>st_Dependencies := (st_Dependencies status)(hr_name item \<mapsto> hr_dependency item)\<rparr>)
       (ready \<and> hr_ready item)"

definition Ready :: "health_service \<Rightarrow> bool \<Rightarrow> Status \<times> bool" where
  "Ready s redis_first =
     collect (if redis_first then [checkRedis s, checkDatabase s] else [checkDatabase s, checkRedis s])
       \<lparr>st_Status = ''ready'', st_Dependencies = Map.empty\<rparr> True"

definition dependency_up :: "ping \<Rightarrow> bool" where
  "dependency_up p \<longleftrightarrow> (case p of Absent \<Rightarrow> True | Ping latency err \<Rightarrow> err = None)"

lemma check_dependency_ready [simp]:
  "hr_ready (check_dependency name p) = dependency_up p" "hr_name (check_dependency name p) = name"
  by (auto simp: check_dependency_def dependency_up_def checkResult_def split: ping.splits option.splits)

lemma Ready_spec:
  "Ready s redis_first =
     (\<lparr>st_Status = (if dependency_up (hs_db s) \<and> dependency_up (hs_redis s) then ''ready'' else ''not_ready''),
       st_Dependencies = [''database'' \<mapsto> hr_dependency (checkDatabase s), ''redis'' \<mapsto> hr_dependency (checkRedis s)]\<rparr>,
      dependency_up (hs_db s) \<and> dependency_up (hs_redis s))"
  by (auto simp: Ready_def checkDatabase_def checkRedis_def fun_upd_twist)

section \<open>Rate limits\<close>

record rate_result =
  rr_Allowed :: bool
  rr_Limit :: int
  rr_Remaining :: int
  rr_RetryAfter :: duration

text \<open>\<open>lim_backend\<close>: what the Redis limiter answers for a key and a rule, as (allowed, remaining, retry after).\<close>

record limiter =
  lim_enabled :: bool
  lim_failOpen :: bool
  lim_backend :: "(string \<Rightarrow> RateLimitRule \<Rightarrow> (int \<times> int \<times> duration) result) option"

definition limiter_New :: "(string \<Rightarrow> RateLimitRule \<Rightarrow> (int \<times> int \<times> duration) result) option \<Rightarrow> Config \<Rightarrow> limiter" where
  "limiter_New client cfg =
     \<lparr>lim_enabled = rl_Enabled (cfg_RateLimit cfg), lim_failOpen = rl_FailOpen (cfg_RateLimit cfg), lim_backend = client\<rparr>"

definition Allow :: "limiter \<Rightarrow> string \<Rightarrow> RateLimitRule \<Rightarrow> rate_result result" where
  "Allow l key rule =
     (if \<not> lim_enabled l then Inr \<lparr>rr_Allowed = True, rr_Limit = 0, rr_Remaining = 0, rr_RetryAfter = 0\<rparr>
      else (case lim_backend l of
              None \<Rightarrow> Inl (Plain ''redis rate limiter is unavailable'')
            | Some backend \<Rightarrow>
              (case backend key rule of
                 Inl err \<Rightarrow> Inl (Wrap ''check redis rate limit'' err)
               | Inr (allowed, remaining, retryAfter) \<Rightarrow>
                   Inr \<lparr>rr_Allowed = 0 < allowed, rr_Limit = rule_Burst rule, rr_Remaining = remaining,
                        rr_RetryAfter = retryAfter\<rparr>)))"

end
