(* ===== verification/Observability.thy ===== *)
theory Observability
  imports Settings
begin

text \<open>
  Metrics (\<^verbatim>\<open>observability/metrics.go\<close>) and the setup of tracing (\<^verbatim>\<open>observability/tracing.go\<close>). A metric
  vector has a name and the names of its labels; a registry is the list of the collectors registered with it. The
  Prometheus library is outside: whether it accepts a collector is the parameter \<open>accepts\<close>, and a
  sample is a call of it, which panics unless there is one value, in UTF-8, for every label of the vector. An
  operation gives the samples that it takes. A histogram observes the time since the start of the
  operation, here \<open>elapsed\<close>, with the library's default buckets.
\<close>

section \<open>Metrics\<close>

record vec =
  vec_Name :: string
  vec_Help :: string
  vec_Labels :: "string list"

datatype collector =
    GoCollector | ProcessCollector | CounterVec vec | HistogramVec vec | DBStatsCollector string | GaugeFunc string string

record Metrics =
  m_enabled :: bool
  m_registry :: "collector list"
  m_HTTPRequests :: vec
  m_HTTPDuration :: vec
  m_CronRuns :: vec
  m_CronDuration :: vec
  m_GRPCRequests :: vec
  m_GRPCDuration :: vec
  m_OutboundRequests :: vec
  m_OutboundDuration :: vec

text \<open>\<^verbatim>\<open>MustRegister\<close> of the registry: \<open>None\<close> is a panic.\<close>

fun MustRegister :: "(collector \<Rightarrow> collector list \<Rightarrow> bool) \<Rightarrow> collector list \<Rightarrow> collector list \<Rightarrow> collector list option" where
  "MustRegister accepts [] registry = Some registry"
| "MustRegister accepts (c # cs) registry = (if accepts c registry then MustRegister accepts cs (registry @ [c]) else None)"

definition redis_gauges :: "(string \<times> string) list" where
  "redis_gauges =
     [(''redis_pool_hits_total'', ''Redis pool hits.''), (''redis_pool_misses_total'', ''Redis pool misses.''),
      (''redis_pool_timeouts_total'', ''Redis pool timeouts.''), (''redis_pool_connections'', ''Current Redis connections.''),
      (''redis_pool_idle_connections'', ''Current idle Redis connections.'')]"

fun register_gauges :: "(collector \<Rightarrow> collector list \<Rightarrow> bool) \<Rightarrow> (string \<times> string) list \<Rightarrow> collector list \<Rightarrow> collector list option" where
  "register_gauges accepts [] registry = Some registry"
| "register_gauges accepts ((name, help) # metrics) registry =
     (case MustRegister accepts [GaugeFunc name help] registry of
        None \<Rightarrow> None
      | Some registry' \<Rightarrow> register_gauges accepts metrics registry')"

definition registerRedisMetrics :: "(collector \<Rightarrow> collector list \<Rightarrow> bool) \<Rightarrow> collector list \<Rightarrow> collector list option" where
  "registerRedisMetrics accepts registry = register_gauges accepts redis_gauges registry"

text \<open>The metrics before anything is registered.\<close>

definition new_vectors :: "Config \<Rightarrow> Metrics" where
  "new_vectors cfg =
     \<lparr>m_enabled = obs_MetricsEnabled (cfg_Observability cfg), m_registry = [],
      m_HTTPRequests = \<lparr>vec_Name = ''http_requests_total'', vec_Help = ''Total HTTP requests.'', vec_Labels = [''method'', ''route'', ''status'']\<rparr>,
      m_HTTPDuration = \<lparr>vec_Name = ''http_request_duration_seconds'', vec_Help = ''HTTP request latency.'', vec_Labels = [''method'', ''route'']\<rparr>,
      m_CronRuns = \<lparr>vec_Name = ''cron_runs_total'', vec_Help = ''Total cron executions.'', vec_Labels = [''job'', ''status'']\<rparr>,
      m_CronDuration = \<lparr>vec_Name = ''cron_run_duration_seconds'', vec_Help = ''Cron execution latency.'', vec_Labels = [''job'']\<rparr>,
      m_GRPCRequests = \<lparr>vec_Name = ''grpc_server_requests_total'', vec_Help = ''Total gRPC requests.'', vec_Labels = [''method'', ''code'']\<rparr>,
      m_GRPCDuration = \<lparr>vec_Name = ''grpc_server_duration_seconds'', vec_Help = ''gRPC request latency.'', vec_Labels = [''method'']\<rparr>,
      m_OutboundRequests = \<lparr>vec_Name = ''outbound_requests_total'', vec_Help = ''Total outbound requests.'', vec_Labels = [''protocol'', ''client'', ''status'']\<rparr>,
      m_OutboundDuration = \<lparr>vec_Name = ''outbound_request_duration_seconds'', vec_Help = ''Outbound request latency.'', vec_Labels = [''protocol'', ''client'']\<rparr>\<rparr>"

text \<open>\<open>db\<close> and \<open>client\<close>: whether there is a database and a Redis client.\<close>

definition NewMetrics :: "(collector \<Rightarrow> collector list \<Rightarrow> bool) \<Rightarrow> Config \<Rightarrow> bool \<Rightarrow> bool \<Rightarrow> Metrics option" where
  "NewMetrics accepts cfg db client =
     (let metrics = new_vectors cfg in
      case MustRegister accepts
             [GoCollector, ProcessCollector, CounterVec (m_HTTPRequests metrics), HistogramVec (m_HTTPDuration metrics),
              CounterVec (m_CronRuns metrics), HistogramVec (m_CronDuration metrics), CounterVec (m_GRPCRequests metrics),
              HistogramVec (m_GRPCDuration metrics), CounterVec (m_OutboundRequests metrics),
              HistogramVec (m_OutboundDuration metrics)] (m_registry metrics) of
        None \<Rightarrow> None
      | Some r1 \<Rightarrow>
        (case (if db then MustRegister accepts [DBStatsCollector ''primary''] r1 else Some r1) of
           None \<Rightarrow> None
         | Some r2 \<Rightarrow>
           (case (if client then registerRedisMetrics accepts r2 else Some r2) of
              None \<Rightarrow> None
            | Some r3 \<Rightarrow> Some (metrics\<lparr>m_registry := r3\<rparr>))))"

section \<open>Samples\<close>

datatype sample = Inc vec "string list" | Observe vec "string list" duration

definition ObserveCron :: "Metrics \<Rightarrow> string \<Rightarrow> string \<Rightarrow> duration \<Rightarrow> sample list" where
  "ObserveCron m job status elapsed =
     (if \<not> m_enabled m then []
      else [Inc (m_CronRuns m) [job, status], Observe (m_CronDuration m) [job] elapsed])"

text \<open>The samples that the transports and the clients of upstreams take.\<close>

definition http_samples :: "Metrics \<Rightarrow> string \<Rightarrow> string \<Rightarrow> int \<Rightarrow> duration \<Rightarrow> sample list" where
  "http_samples m verb fullPath status elapsed =
     (if \<not> m_enabled m then []
      else (let path = (if fullPath = [] then ''unmatched'' else fullPath)
            in [Inc (m_HTTPRequests m) [verb, path, itoa status], Observe (m_HTTPDuration m) [verb, path] elapsed]))"

definition grpc_samples :: "Metrics \<Rightarrow> string \<Rightarrow> string \<Rightarrow> duration \<Rightarrow> sample list" where
  "grpc_samples m fullMethod code elapsed =
     (if m_enabled m then [Inc (m_GRPCRequests m) [fullMethod, code], Observe (m_GRPCDuration m) [fullMethod] elapsed] else [])"

definition outbound_samples :: "Metrics \<Rightarrow> string \<Rightarrow> string \<Rightarrow> string \<Rightarrow> duration \<Rightarrow> sample list" where
  "outbound_samples m protocol name status elapsed =
     (if m_enabled m
      then [Inc (m_OutboundRequests m) [protocol, name, status], Observe (m_OutboundDuration m) [protocol, name] elapsed]
      else [])"

section \<open>Tracing\<close>

text \<open>
  The provider that is made global, with the exporter's endpoint, the attributes of the resource and the
  ratio of the sampler; its shutdown is the stop hook. \<open>newExporter\<close> is the error of making the exporter
  for an endpoint, \<open>version\<close> the version of the build.
\<close>

record tracer_provider =
  tp_Endpoint :: string
  tp_Resource :: "(string \<times> string) list"
  tp_Ratio :: rat

record Tracing =
  tr_enabled :: bool
  tr_provider :: "tracer_provider option"

definition NewTracing :: "(string \<Rightarrow> gerror option) \<Rightarrow> string \<Rightarrow> Config \<Rightarrow> Tracing result" where
  "NewTracing newExporter version cfg =
     (let obs = cfg_Observability cfg;
          tracing = \<lparr>tr_enabled = obs_TracingEnabled obs, tr_provider = None\<rparr>
      in if \<not> tr_enabled tracing then Inr tracing
         else (case newExporter (obs_TracingEndpoint obs) of
                 Some err \<Rightarrow> Inl (Wrap ''create OTLP trace exporter'' err)
               | None \<Rightarrow> Inr (tracing\<lparr>tr_provider := Some
                   \<lparr>tp_Endpoint = obs_TracingEndpoint obs,
                    tp_Resource = [(''service.name'', app_Name (cfg_App cfg)), (''service.version'', version)],
                    tp_Ratio = obs_TracingSampleRatio obs\<rparr>\<rparr>)))"

section \<open>Registration never panics\<close>

text \<open>
  What the library documents: names of metrics and labels have a certain form, and a collector is
  accepted when it has such names and none of its metrics has the name of one that is registered. \<open>own\<close>
  gives the names of the library's own collectors, which start with \<^verbatim>\<open>go_\<close> and \<^verbatim>\<open>process_\<close>.
\<close>

definition word_char :: "char \<Rightarrow> bool" where
  "word_char ch \<longleftrightarrow> ch \<in> set ''abcdefghijklmnopqrstuvwxyzABCDEFGHIJKLMNOPQRSTUVWXYZ_''"

definition metric_name :: "string \<Rightarrow> bool" where
  "metric_name name \<longleftrightarrow> name \<noteq> [] \<and> word_char (hd name) \<and>
     list_all (\<lambda>ch. word_char ch \<or> ch \<in> set ''0123456789'') name"

fun metric_names :: "(collector \<Rightarrow> string set) \<Rightarrow> collector \<Rightarrow> string set" where
  "metric_names own (CounterVec v) = {vec_Name v}"
| "metric_names own (HistogramVec v) = {vec_Name v}"
| "metric_names own (GaugeFunc name help) = {name}"
| "metric_names own c = own c"

fun well_named :: "collector \<Rightarrow> bool" where
  "well_named (CounterVec v) \<longleftrightarrow> metric_name (vec_Name v) \<and> list_all metric_name (vec_Labels v) \<and> distinct (vec_Labels v)"
| "well_named (HistogramVec v) \<longleftrightarrow> metric_name (vec_Name v) \<and> list_all metric_name (vec_Labels v) \<and> distinct (vec_Labels v)"
| "well_named (GaugeFunc name help) \<longleftrightarrow> metric_name name"
| "well_named c \<longleftrightarrow> True"

definition separate :: "(collector \<Rightarrow> string set) \<Rightarrow> collector \<Rightarrow> collector \<Rightarrow> bool" where
  "separate own c c' \<longleftrightarrow> metric_names own c \<inter> metric_names own c' = {}"

definition registry_documented :: "(collector \<Rightarrow> string set) \<Rightarrow> (collector \<Rightarrow> collector list \<Rightarrow> bool) \<Rightarrow> bool" where
  "registry_documented own accepts \<longleftrightarrow>
     (\<forall>c registry. well_named c \<longrightarrow> (\<forall>c'\<in>set registry. separate own c' c) \<longrightarrow> accepts c registry) \<and>
     (\<forall>name\<in>own GoCollector. take 3 name = ''go_'') \<and> (\<forall>name\<in>own ProcessCollector. take 8 name = ''process_'') \<and>
     (\<forall>db. (\<forall>name\<in>own (DBStatsCollector db). take 7 name = ''go_sql_'') \<and> own GoCollector \<inter> own (DBStatsCollector db) = {})"

lemma MustRegister_separate:
  assumes "registry_documented own accepts"
  shows "sorted_wrt (separate own) (registry @ cs) \<Longrightarrow> list_all well_named cs \<Longrightarrow>
    MustRegister accepts cs registry = Some (registry @ cs)"
proof (induction cs arbitrary: registry)
  case (Cons c cs)
  then have "accepts c registry"
    using assms by (simp add: registry_documented_def sorted_wrt_append)
  moreover have "MustRegister accepts cs (registry @ [c]) = Some ((registry @ [c]) @ cs)"
    using Cons by (intro Cons.IH) simp_all
  ultimately show ?case by simp
qed simp

lemma register_gauges_eq:
  "register_gauges accepts gauges registry = MustRegister accepts (map (\<lambda>(name, help). GaugeFunc name help) gauges) registry"
  by (induction accepts gauges registry rule: register_gauges.induct) (auto split: option.splits)

lemma MustRegister_append:
  "MustRegister accepts (cs @ cs') registry =
     (case MustRegister accepts cs registry of None \<Rightarrow> None | Some r \<Rightarrow> MustRegister accepts cs' r)"
  by (induction accepts cs registry rule: MustRegister.induct) auto

definition vectors :: "Metrics \<Rightarrow> collector list" where
  "vectors m =
     [CounterVec (m_HTTPRequests m), HistogramVec (m_HTTPDuration m), CounterVec (m_CronRuns m), HistogramVec (m_CronDuration m),
      CounterVec (m_GRPCRequests m), HistogramVec (m_GRPCDuration m), CounterVec (m_OutboundRequests m),
      HistogramVec (m_OutboundDuration m)]"

definition all_collectors :: "Config \<Rightarrow> bool \<Rightarrow> bool \<Rightarrow> collector list" where
  "all_collectors cfg db client =
     [GoCollector, ProcessCollector] @ vectors (new_vectors cfg) @ (if db then [DBStatsCollector ''primary''] else []) @
     (if client then map (\<lambda>(name, help). GaugeFunc name help) redis_gauges else [])"

lemma NewMetrics_eq:
  "NewMetrics accepts cfg db client =
     map_option (\<lambda>r. (new_vectors cfg)\<lparr>m_registry := r\<rparr>) (MustRegister accepts (all_collectors cfg db client) [])"
proof -
  have "m_registry (new_vectors cfg) = []" by (simp add: new_vectors_def)
  then show ?thesis
    unfolding NewMetrics_def Let_def all_collectors_def vectors_def registerRedisMetrics_def register_gauges_eq
    by (simp add: MustRegister_append del: MustRegister.simps split: option.split)
      (simp split: option.split)
qed

lemma all_collectors_well_named: "list_all well_named (all_collectors cfg db client)"
proof -
  have "list_all well_named (vectors (new_vectors cfg))"
    unfolding vectors_def new_vectors_def by simp (simp add: metric_name_def word_char_def)
  moreover have "list_all (\<lambda>(name, help). metric_name name) redis_gauges" by code_simp
  ultimately show ?thesis
    by (auto simp: all_collectors_def list_all_iff)
qed

text \<open>The names that the service itself gives are distinct, and none starts like a name of the library.\<close>

definition own_names :: "string list" where
  "own_names = map fst redis_gauges @ [''http_requests_total'', ''http_request_duration_seconds'', ''cron_runs_total'',
     ''cron_run_duration_seconds'', ''grpc_server_requests_total'', ''grpc_server_duration_seconds'', ''outbound_requests_total'',
     ''outbound_request_duration_seconds'']"

lemma own_names_apart: "distinct own_names \<and> list_all (\<lambda>name. take 3 name \<noteq> ''go_'' \<and> take 8 name \<noteq> ''process_'') own_names"
  by code_simp

lemma all_collectors_separate:
  assumes "registry_documented own accepts"
  shows "sorted_wrt (separate own) (all_collectors cfg db client)"
proof -
  have lib: "name \<notin> own GoCollector" "name \<notin> own ProcessCollector" "name \<notin> own (DBStatsCollector d)"
    if "take 3 name \<noteq> ''go_''" "take 8 name \<noteq> ''process_''" for name d
  proof -
    have "take 3 name = ''go_''" if "take 7 name = ''go_sql_''"
      using arg_cong [OF that, of "take 3"] by (simp add: min_def)
    with assms that show "name \<notin> own GoCollector" "name \<notin> own ProcessCollector" "name \<notin> own (DBStatsCollector d)"
      unfolding registry_documented_def by blast+
  qed
  have disj: "own GoCollector \<inter> own ProcessCollector = {}" "own GoCollector \<inter> own (DBStatsCollector d) = {}"
    "own ProcessCollector \<inter> own (DBStatsCollector d) = {}" for d
  proof -
    have "False" if "take 8 name = ''process_''" "take k name = CHR ''g'' # rest" for name k rest
      using that by (cases name; cases k) auto
    with assms show "own GoCollector \<inter> own ProcessCollector = {}" "own GoCollector \<inter> own (DBStatsCollector d) = {}"
      "own ProcessCollector \<inter> own (DBStatsCollector d) = {}"
      unfolding registry_documented_def by blast+
  qed
  show ?thesis
    by (simp add: all_collectors_def vectors_def new_vectors_def redis_gauges_def separate_def lib disj)
qed

lemma NewMetrics_total:
  assumes "registry_documented own accepts"
  shows "NewMetrics accepts cfg db client = Some ((new_vectors cfg)\<lparr>m_registry := all_collectors cfg db client\<rparr>)"
  using MustRegister_separate [OF assms, of "[]"] all_collectors_separate [OF assms] all_collectors_well_named
  by (simp add: NewMetrics_eq)

section \<open>Well-formed samples\<close>

text \<open>\<^verbatim>\<open>utf8.ValidString\<close>: no byte is decoded to the error rune.\<close>

function ValidString :: "string \<Rightarrow> bool" where
  "ValidString s =
     (if s = [] then True
      else decode_rune s \<noteq> (RuneError, 1) \<and> ValidString (drop (snd (decode_rune s)) s))"
  by pat_completeness auto
termination
  by (relation "measure length") (use decode_rune_width in \<open>fastforce\<close>)+

declare ValidString.simps [simp del]

lemma ValidString_ascii: "list_all (\<lambda>ch. byte ch < 128) s \<Longrightarrow> ValidString s"
  by (induction s)
    (simp_all add: ValidString.simps [of "[]"] ValidString.simps [of "_ # _"] decode_rune_ascii RuneError_def)

lemma decimal_ascii: "list_all (\<lambda>ch. byte ch < 128) (decimal n)"
proof (induction n rule: decimal.induct)
  case (1 n)
  moreover have "n mod 10 < 80" using mod_less_divisor [of 10 n] by linarith
  ultimately show ?case by (subst decimal.simps) (simp add: of_char_digit)
qed

lemma ValidString_itoa [simp]: "ValidString (itoa i)"
  by (rule ValidString_ascii) (simp add: itoa_def decimal_ascii)

lemma ValidString_labels [simp]:
  "ValidString ''unmatched''" "ValidString ''sample''" "ValidString ''success''" "ValidString ''error''"
  "ValidString ''http''" "ValidString ''grpc''"
  by (rule ValidString_ascii, simp)+

text \<open>A sample that the library takes: a registered vector of its kind, with a valid value for every label.\<close>

fun well_typed :: "Metrics \<Rightarrow> sample \<Rightarrow> bool" where
  "well_typed m (Inc v values) \<longleftrightarrow>
     CounterVec v \<in> set (m_registry m) \<and> length values = length (vec_Labels v) \<and> list_all ValidString values"
| "well_typed m (Observe v values t) \<longleftrightarrow>
     HistogramVec v \<in> set (m_registry m) \<and> length values = length (vec_Labels v) \<and> list_all ValidString values"

lemma MustRegister_set: "MustRegister accepts cs registry = Some r \<Longrightarrow> set r = set registry \<union> set cs"
  by (induction accepts cs registry rule: MustRegister.induct) (auto split: if_splits)

lemma NewMetrics_registered:
  assumes "NewMetrics accepts cfg db client = Some m"
  shows "set (vectors m) \<subseteq> set (m_registry m)" and "m = (new_vectors cfg)\<lparr>m_registry := m_registry m\<rparr>"
proof -
  obtain r where r: "MustRegister accepts (all_collectors cfg db client) [] = Some r" "m = (new_vectors cfg)\<lparr>m_registry := r\<rparr>"
    using assms by (auto simp: NewMetrics_eq)
  then have "set r = set (all_collectors cfg db client)" using MustRegister_set by force
  moreover have "vectors m = vectors (new_vectors cfg)" by (simp add: r(2) vectors_def)
  ultimately show "set (vectors m) \<subseteq> set (m_registry m)" by (auto simp: r(2) all_collectors_def)
  show "m = (new_vectors cfg)\<lparr>m_registry := m_registry m\<rparr>" by (simp add: r(2))
qed

lemma samples_well_typed:
  assumes "NewMetrics accepts cfg db client = Some m"
  shows "ValidString job \<Longrightarrow> ValidString status \<Longrightarrow> list_all (well_typed m) (ObserveCron m job status elapsed)"
    and "ValidString verb \<Longrightarrow> ValidString fullPath \<Longrightarrow> list_all (well_typed m) (http_samples m verb fullPath code elapsed)"
    and "ValidString fullMethod \<Longrightarrow> ValidString status \<Longrightarrow> list_all (well_typed m) (grpc_samples m fullMethod status elapsed)"
    and "ValidString protocol \<Longrightarrow> ValidString name \<Longrightarrow> ValidString status \<Longrightarrow>
      list_all (well_typed m) (outbound_samples m protocol name status elapsed)"
proof -
  obtain r where "m = (new_vectors cfg)\<lparr>m_registry := r\<rparr>" using NewMetrics_registered(2) [OF assms] by blast
  with NewMetrics_registered(1) [OF assms]
  show "ValidString job \<Longrightarrow> ValidString status \<Longrightarrow> list_all (well_typed m) (ObserveCron m job status elapsed)"
    and "ValidString verb \<Longrightarrow> ValidString fullPath \<Longrightarrow> list_all (well_typed m) (http_samples m verb fullPath code elapsed)"
    and "ValidString fullMethod \<Longrightarrow> ValidString status \<Longrightarrow> list_all (well_typed m) (grpc_samples m fullMethod status elapsed)"
    and "ValidString protocol \<Longrightarrow> ValidString name \<Longrightarrow> ValidString status \<Longrightarrow>
      list_all (well_typed m) (outbound_samples m protocol name status elapsed)"
    by (simp_all add: vectors_def new_vectors_def ObserveCron_def http_samples_def grpc_samples_def outbound_samples_def Let_def)
qed

end
