(* ===== verification/Http_Context.thy ===== *)
theory Http_Context
  imports Access_Control Auth Health_Limits Observability
begin

text \<open>
  The HTTP side of a request: the fields of the request that the code reads, the state that a
  \<^verbatim>\<open>*gin.Context\<close> carries through the handlers (\<^verbatim>\<open>c.Set\<close> keys, the context of the request, the body
  reader, the response so far, the metric samples taken, the database) and the response envelope of
  \<^verbatim>\<open>transport/http/response.go\<close>.

  A handler maps this state to the state after it and whether it panicked. A middleware is a function
  from the rest of the chain to a handler: \<^verbatim>\<open>c.Next()\<close> is the call of its argument. Every middleware
  of the source either aborts and returns or calls \<^verbatim>\<open>c.Next()\<close> once, so leaving out the call is aborting.
\<close>

section \<open>Requests and responses\<close>

text \<open>
  \<open>q_Header\<close> is \<^verbatim>\<open>c.GetHeader\<close> (empty when absent), \<open>q_MediaType\<close> the media type that
  \<^verbatim>\<open>mime.ParseMediaType\<close> finds in the content type (\<open>None\<close> for an error), \<open>q_FullPath\<close> the matched route.
\<close>

record http_request =
  q_Method :: string
  q_FullPath :: string
  q_Header :: "string \<Rightarrow> string"
  q_MediaType :: "string option"
  q_ContentLength :: int
  q_ClientIP :: string
  q_TLS :: bool

text \<open>A decoded JSON value (\<^verbatim>\<open>any\<close> after \<^verbatim>\<open>json.Unmarshal\<close>).\<close>

datatype json =
    JNull | JBool bool | JNumber string | JString string | JArray "json list" | JObject "(string \<times> json) list"

record ConfigEntryResponseBody =
  cb_ID :: string
  cb_Environment :: string
  cb_TenantID :: string
  cb_ApplicationID :: string
  cb_Service :: string
  cb_Key :: string
  cb_Value :: "json option"
  cb_SecretRef :: string
  cb_Status :: string
  cb_Revision :: int
  cb_RolloutPercentage :: int
  cb_PublishedRevision :: int
  cb_ReviewComment :: string
  cb_ReviewedBy :: string
  cb_ReviewedAt :: "time option"
  cb_Version :: int
  cb_CreatedAt :: time
  cb_UpdatedAt :: time
  cb_CreatedBy :: string
  cb_UpdatedBy :: string

record ConfigPageResponseBody =
  pb_Entries :: "ConfigEntryResponseBody list"
  pb_Total :: int
  pb_Page :: int
  pb_PageSize :: int

record ResolveConfigResponseBody =
  rb_Entries :: "ConfigEntryResponseBody list"
  rb_ETag :: string

record Info =
  info_Version :: string
  info_Commit :: string
  info_BuildTime :: string
  info_StartedAt :: time
  info_Uptime :: string

text \<open>The values that the handlers put in the body of the envelope.\<close>

datatype body =
    NilBody
  | EntryBody ConfigEntryResponseBody
  | PageBody ConfigPageResponseBody
  | ResolveBody ResolveConfigResponseBody
  | MeBody "string option"
  | HealthBody Status
  | InfoBody Info
  | StoredBody json

record Response =
  r_Code :: int
  r_Message :: string
  r_Body :: body
  r_RequestID :: string

text \<open>What has been written to the client: envelopes, or the plain text of gin's own answers.\<close>

datatype out = Envelope_out Response | Text_out string

text \<open>A call of the idempotency manager that stores a result.\<close>

datatype idem_call = Complete string string Response | Fail_call string string int string int

record gin =
  c_ctx :: ctx
  c_request_id :: "string option"
  c_environment :: "string option"
  c_subject :: "string option"
  c_body :: bytes
  c_limit :: "int option"
  c_header :: "string \<rightharpoonup> string"
  c_status :: int
  c_written :: bool
  c_out :: "out list"
  c_calls :: "idem_call list"
  c_samples :: "sample list"
  c_db :: db

type_synonym handler = "gin \<Rightarrow> gin \<times> bool"
type_synonym middleware = "handler \<Rightarrow> handler"

text \<open>The state in which a request enters the router, with gin's default status.\<close>

definition enter :: "bytes \<Rightarrow> db \<Rightarrow> gin" where
  "enter body d =
     \<lparr>c_ctx = background, c_request_id = None, c_environment = None, c_subject = None, c_body = body, c_limit = None,
      c_header = Map.empty, c_status = 200, c_written = False, c_out = [], c_calls = [], c_samples = [], c_db = d\<rparr>"

section \<open>Writing\<close>

text \<open>\<^verbatim>\<open>c.Header\<close>: an empty value deletes the header.\<close>

definition set_header :: "string \<Rightarrow> string \<Rightarrow> gin \<Rightarrow> gin" where
  "set_header key v g = g\<lparr>c_header := (c_header g)(key := (if v = [] then None else Some v))\<rparr>"

text \<open>\<^verbatim>\<open>c.JSON\<close> and \<^verbatim>\<open>c.AbortWithStatusJSON\<close>: the status is fixed by the first write, the body appended.\<close>

definition write_out :: "int \<Rightarrow> out \<Rightarrow> gin \<Rightarrow> gin" where
  "write_out status v g =
     g\<lparr>c_status := (if c_written g then c_status g else status), c_written := True, c_out := c_out g @ [v]\<rparr>"

text \<open>\<^verbatim>\<open>c.AbortWithStatus\<close>: the header is sent with no body.\<close>

definition abort_status :: "int \<Rightarrow> gin \<Rightarrow> gin" where
  "abort_status status g = g\<lparr>c_status := (if c_written g then c_status g else status), c_written := True\<rparr>"

definition requestID :: "gin \<Rightarrow> string" where
  "requestID g = (case c_request_id g of None \<Rightarrow> [] | Some rid \<Rightarrow> rid)"

definition envelope :: "int \<Rightarrow> string \<Rightarrow> body \<Rightarrow> gin \<Rightarrow> Response" where
  "envelope code message b g = \<lparr>r_Code = code, r_Message = message, r_Body = b, r_RequestID = requestID g\<rparr>"

text \<open>\<^verbatim>\<open>OK\<close> and \<^verbatim>\<open>Fail\<close>; \<open>num\<close> gives the numbers behind the codes. Logging is left out.\<close>

definition OK :: "(errcode \<Rightarrow> int) \<Rightarrow> body \<Rightarrow> gin \<Rightarrow> gin" where
  "OK num b g = write_out 200 (Envelope_out (envelope (num CodeOK) ''success'' b g)) g"

definition Fail :: "(errcode \<Rightarrow> int) \<Rightarrow> gerror \<Rightarrow> gin \<Rightarrow> gin" where
  "Fail num err g =
     (let appErr = (case errors_As_app err of None \<Rightarrow> Internal err | Some e \<Rightarrow> e)
      in write_out (HTTPStatus appErr) (Envelope_out (envelope (num (Code appErr)) (Message appErr) NilBody g)) g)"

text \<open>
  Reading the body: \<^verbatim>\<open>http.MaxBytesReader\<close> makes a read beyond the limit fail.
\<close>

definition read_body :: "gin \<Rightarrow> bytes result" where
  "read_body g =
     (case c_limit g of
        None \<Rightarrow> Inr (c_body g)
      | Some limit \<Rightarrow> if int (length (c_body g)) \<le> limit then Inr (c_body g) else Inl (Plain ''http: request body too large''))"

section \<open>Laws of the writer\<close>

lemma write_out_simps [simp]:
  "c_ctx (write_out st v g) = c_ctx g" "c_db (write_out st v g) = c_db g" "c_written (write_out st v g)"
  "c_request_id (write_out st v g) = c_request_id g" "c_out (write_out st v g) = c_out g @ [v]"
  "c_header (write_out st v g) = c_header g" "c_calls (write_out st v g) = c_calls g"
  "c_status (write_out st v g) = (if c_written g then c_status g else st)"
  "c_subject (write_out st v g) = c_subject g" "c_samples (write_out st v g) = c_samples g"
  by (simp_all add: write_out_def)

lemma abort_status_simps [simp]:
  "c_ctx (abort_status st g) = c_ctx g" "c_db (abort_status st g) = c_db g" "c_written (abort_status st g)"
  "c_request_id (abort_status st g) = c_request_id g" "c_out (abort_status st g) = c_out g"
  "c_header (abort_status st g) = c_header g" "c_calls (abort_status st g) = c_calls g"
  "c_samples (abort_status st g) = c_samples g"
  by (simp_all add: abort_status_def)

lemma set_header_simps [simp]:
  "c_ctx (set_header k v g) = c_ctx g" "c_db (set_header k v g) = c_db g" "c_written (set_header k v g) = c_written g"
  "c_request_id (set_header k v g) = c_request_id g" "c_out (set_header k v g) = c_out g"
  "c_status (set_header k v g) = c_status g" "c_calls (set_header k v g) = c_calls g"
  "c_body (set_header k v g) = c_body g" "c_limit (set_header k v g) = c_limit g"
  "c_subject (set_header k v g) = c_subject g" "c_samples (set_header k v g) = c_samples g"
  "requestID (set_header k v g) = requestID g"
  by (simp_all add: set_header_def requestID_def)

lemma Fail_simps [simp]:
  "c_ctx (Fail num e g) = c_ctx g" "c_db (Fail num e g) = c_db g" "c_written (Fail num e g)"
  "c_request_id (Fail num e g) = c_request_id g" "c_calls (Fail num e g) = c_calls g"
  "c_header (Fail num e g) = c_header g" "c_samples (Fail num e g) = c_samples g"
  by (simp_all add: Fail_def Let_def)

lemma OK_simps [simp]:
  "c_ctx (OK num b g) = c_ctx g" "c_db (OK num b g) = c_db g" "c_written (OK num b g)"
  "c_request_id (OK num b g) = c_request_id g" "c_calls (OK num b g) = c_calls g" "c_header (OK num b g) = c_header g"
  "c_samples (OK num b g) = c_samples g"
  by (simp_all add: OK_def)

text \<open>
  What a client is told of an error: only the code, message and status of the application error in
  its chain. The wrapped cause never appears, and an error of any other kind is reported as internal.
\<close>

lemma Fail_response:
  "\<exists>code message status. c_out (Fail num e g) = c_out g @ [Envelope_out (envelope (num code) message NilBody g)] \<and>
     c_status (Fail num e g) = (if c_written g then c_status g else status) \<and>
     (case errors_As_app e of
        None \<Rightarrow> code = CodeInternal \<and> message = ''internal server error'' \<and> status = 500
      | Some a \<Rightarrow> code = Code a \<and> message = Message a \<and> status = HTTPStatus a)"
  by (cases "errors_As_app e") (auto simp: Fail_def Let_def err_defs)

end
