(* ===== verification/Http_Middleware.thy ===== *)
theory Http_Middleware
  imports Http_Context
begin

text \<open>
  The middleware of \<^verbatim>\<open>transport/http/middleware.go\<close> in the order of the file, and the contract that all
  of them have: what reaches the rest of the chain. The platform module (idempotency keys and store,
  \<^verbatim>\<open>authz.Enforce\<close>) is a parameter of the functions that use it; request logging is left out.
\<close>

section \<open>Request identifier, profile, idempotency key\<close>

definition RequestID :: "string \<Rightarrow> http_request \<Rightarrow> middleware" where
  "RequestID generated q next g =
     (let given = q_Header q ''X-Request-ID'';
          rid = (if \<not> Valid given then generated else given)
      in next ((set_header ''X-Request-ID'' rid (g\<lparr>c_request_id := Some rid\<rparr>))
                 \<lparr>c_ctx := requestid_WithContext rid (c_ctx g)\<rparr>))"

definition Environment_mw :: "string \<Rightarrow> middleware" where
  "Environment_mw profile next g =
     next (g\<lparr>c_environment := Some profile, c_ctx := environment_WithContext profile (c_ctx g)\<rparr>)"

definition IdempotencyKey :: "(errcode \<Rightarrow> int) \<Rightarrow> (string \<Rightarrow> bool) \<Rightarrow> http_request \<Rightarrow> middleware" where
  "IdempotencyKey num key_valid q next g =
     (let key = q_Header q ''Idempotency-Key'' in
      if key = [] then next g
      else if \<not> key_valid key then (Fail num (Invalid ''invalid Idempotency-Key'' None) g, False)
      else next ((set_header ''Idempotency-Key'' key g)\<lparr>c_ctx := (c_ctx g)\<lparr>ctx_idempotency_key := Some key\<rparr>\<rparr>))"

section \<open>Idempotent execution\<close>

datatype idem_state = StateAcquired | StateProcessing | StateCompleted | StateFailed | StateConflict | StateOther

text \<open>\<open>dc_Response\<close> is the stored response as \<^verbatim>\<open>json.Unmarshal\<close> reads it, \<open>None\<close> when it does not.\<close>

record Failure =
  fl_Code :: int
  fl_Message :: string
  fl_HTTPStatus :: int

record Decision =
  dc_State :: idem_state
  dc_Owner :: string
  dc_Response :: "Response option"
  dc_Failure :: Failure

record manager =
  im_Enabled :: bool
  im_Begin :: "string \<Rightarrow> string \<Rightarrow> Decision result"

text \<open>\<^verbatim>\<open>fmt.Sprint(subject)\<close> prints an absent subject as \<^verbatim>\<open><nil>\<close>.\<close>

definition fingerprint_text :: "string option \<Rightarrow> string \<Rightarrow> string \<Rightarrow> bytes \<Rightarrow> bytes" where
  "fingerprint_text subject method path body =
     (case subject of None \<Rightarrow> ''<nil>'' | Some v \<Rightarrow> v) @ [CHR 0x00] @ method @ [CHR 0x00] @ path @ [CHR 0x00] @ body"

definition idempotencyFingerprint :: "http_request \<Rightarrow> gin \<Rightarrow> (string \<times> gin) result" where
  "idempotencyFingerprint q g =
     (case read_body g of
        Inl err \<Rightarrow> Inl err
      | Inr body \<Rightarrow>
          Inr (hex_encode (Sum256 (fingerprint_text (c_subject g) (q_Method q) (q_FullPath q) body)),
               g\<lparr>c_body := body, c_limit := None\<rparr>))"

text \<open>What the response capture decodes to: one envelope, and nothing else.\<close>

definition captured :: "out list \<Rightarrow> Response option" where
  "captured outs = (case outs of [Envelope_out r] \<Rightarrow> Some r | _ \<Rightarrow> None)"

text \<open>After the handler: store the response or the failure under the key. The answer of the store is only logged.\<close>

definition persist :: "string \<Rightarrow> string \<Rightarrow> out list \<Rightarrow> gin \<Rightarrow> gin" where
  "persist key owner outs g =
     (case captured outs of
        None \<Rightarrow> g
      | Some r \<Rightarrow>
          g\<lparr>c_calls := c_calls g @
              [if 400 \<le> c_status g then Fail_call key owner (r_Code r) (r_Message r) (c_status g)
               else Complete key owner (r\<lparr>r_RequestID := []\<rparr>)]\<rparr>)"

definition run_acquired :: "string \<Rightarrow> string \<Rightarrow> middleware" where
  "run_acquired key owner next g =
     (case next g of
        (g', True) \<Rightarrow> (g', True)
      | (g', False) \<Rightarrow> (persist key owner (drop (length (c_out g)) (c_out g')) g', False))"

definition decide :: "(errcode \<Rightarrow> int) \<Rightarrow> string \<Rightarrow> Decision \<Rightarrow> middleware" where
  "decide num key decision next g =
     (case dc_State decision of
        StateCompleted \<Rightarrow>
          (case dc_Response decision of
             None \<Rightarrow> (Fail num (Unavailable ''idempotency response is unavailable'' None) g, False)
           | Some response \<Rightarrow> (write_out 200 (Envelope_out (response\<lparr>r_RequestID := requestID g\<rparr>)) g, False))
      | StateFailed \<Rightarrow>
          (write_out (fl_HTTPStatus (dc_Failure decision))
             (Envelope_out (envelope (fl_Code (dc_Failure decision)) (fl_Message (dc_Failure decision)) NilBody g)) g, False)
      | StateProcessing \<Rightarrow> (Fail num RequestInProgress g, False)
      | StateConflict \<Rightarrow> (Fail num (Conflict ''idempotency key belongs to a different request'' None) g, False)
      | StateAcquired \<Rightarrow> run_acquired key (dc_Owner decision) next g
      | StateOther \<Rightarrow> (Fail num (Unavailable ''idempotency state is invalid'' None) g, False))"

definition IdempotencyExecution ::
    "(errcode \<Rightarrow> int) \<Rightarrow> manager option \<Rightarrow> string list \<Rightarrow> http_request \<Rightarrow> middleware" where
  "IdempotencyExecution num mgr paths q next g =
     (case (ctx_idempotency_key (c_ctx g), mgr) of
        (Some key, Some m) \<Rightarrow>
          if \<not> im_Enabled m \<or> q_Method q \<noteq> ''POST'' \<or> \<not> MatchesAny (q_FullPath q) paths then next g
          else (case idempotencyFingerprint q g of
                  Inl err \<Rightarrow> (Fail num (Invalid ''read idempotent request'' (Some err)) g, False)
                | Inr (fingerprint, g1) \<Rightarrow>
                  (case im_Begin m key fingerprint of
                     Inl err \<Rightarrow> (Fail num (Unavailable ''idempotency is unavailable'' (Some err)) g1, False)
                   | Inr decision \<Rightarrow> decide num key decision next g1))
      | _ \<Rightarrow> next g)"

section \<open>Recovery, deadline, body\<close>

definition Recovery :: "(errcode \<Rightarrow> int) \<Rightarrow> middleware" where
  "Recovery num next g =
     (case next g of
        (g', True) \<Rightarrow>
          (write_out 500 (Envelope_out (envelope (num CodeInternal) ''internal server error'' NilBody g')) g', False)
      | (g', False) \<Rightarrow> (g', False))"

text \<open>A panic passes through \<^verbatim>\<open>c.Next()\<close> before anything is counted.\<close>

definition HTTPMetrics :: "Metrics \<Rightarrow> duration \<Rightarrow> http_request \<Rightarrow> middleware" where
  "HTTPMetrics m elapsed q next g =
     (case next g of
        (g', True) \<Rightarrow> (g', True)
      | (g', False) \<Rightarrow>
          (g'\<lparr>c_samples := c_samples g' @ http_samples m (q_Method q) (q_FullPath q) (c_status g') elapsed\<rparr>, False))"

lemma HTTPMetrics_code [code]:
  "HTTPMetrics m elapsed q next g =
     (if m_enabled m then
        (case next g of
           (g', True) \<Rightarrow> (g', True)
         | (g', False) \<Rightarrow>
             (g'\<lparr>c_samples := c_samples g' @ http_samples m (q_Method q) (q_FullPath q) (c_status g') elapsed\<rparr>, False))
      else next g)"
  by (simp add: HTTPMetrics_def http_samples_def split: prod.split bool.split)

text \<open>\<open>expired\<close>: whether the deadline has passed when the handlers return.\<close>

definition Timeout_mw :: "(errcode \<Rightarrow> int) \<Rightarrow> bool \<Rightarrow> middleware" where
  "Timeout_mw num expired next g =
     (case next g of
        (g', True) \<Rightarrow> (g', True)
      | (g', False) \<Rightarrow> if expired \<and> \<not> c_written g' then (Fail num RequestTimeout g', False) else (g', False))"

definition MaxBody :: "int \<Rightarrow> middleware" where
  "MaxBody limit next g = next (g\<lparr>c_limit := Some (max 0 limit)\<rparr>)"

definition RequireJSON :: "(errcode \<Rightarrow> int) \<Rightarrow> http_request \<Rightarrow> middleware" where
  "RequireJSON num q next g =
     (if q_Method q = ''POST'' \<and> q_ContentLength q \<noteq> 0 \<and> q_MediaType q \<noteq> Some ''application/json''
      then (write_out 415 (Envelope_out
              (envelope (num CodeInvalidArgument) ''content type must be application/json'' NilBody g)) g, False)
      else next g)"

section \<open>Headers and origins\<close>

fun set_headers :: "(string \<times> string) list \<Rightarrow> gin \<Rightarrow> gin" where
  "set_headers [] g = g"
| "set_headers ((k, v) # hs) g = set_headers hs (set_header k v g)"

definition SecurityHeaders :: "http_request \<Rightarrow> middleware" where
  "SecurityHeaders q next g =
     next (set_headers
       ([(''X-Content-Type-Options'', ''nosniff''), (''X-Frame-Options'', ''DENY''), (''Referrer-Policy'', ''no-referrer''),
         (''Content-Security-Policy'', ''default-src '' @ [CHR 0x27] @ ''none'' @ [CHR 0x27] @ ''; frame-ancestors '' @
            [CHR 0x27] @ ''none'' @ [CHR 0x27]),
         (''Cache-Control'', ''no-store'')] @
        (if q_TLS q then [(''Strict-Transport-Security'', ''max-age=31536000; includeSubDomains'')] else [])) g)"

text \<open>Go's division truncates; \<^verbatim>\<open>Duration.Seconds\<close> cut to an int is the division by a second.\<close>

definition quot :: "int \<Rightarrow> int \<Rightarrow> int" where
  "quot a b = sgn a * sgn b * (\<bar>a\<bar> div \<bar>b\<bar>)"

definition second :: duration where
  "second = 1000000000"

definition CORS_mw :: "(errcode \<Rightarrow> int) \<Rightarrow> CORS \<Rightarrow> http_request \<Rightarrow> middleware" where
  "CORS_mw num cfg q next g =
     (let origin = q_Header q ''Origin'' in
      if \<not> cors_Enabled cfg \<or> origin = [] then next g
      else if origin \<notin> set (cors_AllowedOrigins cfg) then
        (write_out 403 (Envelope_out (envelope (num CodeForbidden) ''origin is not allowed'' NilBody g)) g, False)
      else (let g1 = set_headers
                [(''Access-Control-Allow-Origin'', origin), (''Vary'', ''Origin''),
                 (''Access-Control-Allow-Methods'', ''POST, GET, OPTIONS''),
                 (''Access-Control-Allow-Headers'', Join (cors_AllowedHeaders cfg) '', ''),
                 (''Access-Control-Expose-Headers'', Join (cors_ExposedHeaders cfg) '', ''),
                 (''Access-Control-Max-Age'', itoa (quot (cors_MaxAge cfg) second))] g
            in if q_Method q = ''OPTIONS'' then (abort_status 204 g1, False) else next g1))"

section \<open>Rate limits\<close>

text \<open>\<^verbatim>\<open>Duration.Round(time.Second)\<close>: half away from zero, with the bounds of an int64.\<close>

definition round_second :: "duration \<Rightarrow> duration" where
  "round_second d =
     (let r = \<bar>d\<bar> mod second in
      if 2 * r < second then sgn d * (\<bar>d\<bar> - r)
      else (let d1 = sgn d * (\<bar>d\<bar> + second - r) in
            if d1 < - (2 ^ 63) then - (2 ^ 63) else if 2 ^ 63 \<le> d1 then 2 ^ 63 - 1 else d1))"

definition RateLimit_mw ::
    "(errcode \<Rightarrow> int) \<Rightarrow> limiter \<Rightarrow> RateLimitRule \<Rightarrow> string \<Rightarrow> (gin \<Rightarrow> string) \<Rightarrow> middleware" where
  "RateLimit_mw num lmt rule dimension keyFunc next g =
     (if \<not> lim_enabled lmt then next g
      else (let key = keyFunc g in
        if key = [] then next g
        else (case Allow lmt (''rate:'' @ dimension @ '':'' @ key) rule of
                Inl err \<Rightarrow>
                  if lim_failOpen lmt then next g
                  else (Fail num (Unavailable ''rate limiter unavailable'' (Some err)) g, False)
              | Inr result \<Rightarrow>
                  (let g1 = set_header ''X-RateLimit-Remaining'' (itoa (rr_Remaining result))
                              (set_header ''X-RateLimit-Limit'' (itoa (rr_Limit result)) g)
                   in if \<not> rr_Allowed result then
                        (Fail num TooManyRequests
                           (set_header ''Retry-After''
                              (itoa (max 1 (quot (round_second (rr_RetryAfter result)) second))) g1), False)
                      else next g1))))"

section \<open>Authentication and authorization\<close>

definition JWT_mw :: "(errcode \<Rightarrow> int) \<Rightarrow> (string \<Rightarrow> principal result) \<Rightarrow> http_request \<Rightarrow> middleware" where
  "JWT_mw num verify q next g =
     (let header = q_Header q ''Authorization'' in
      case Cut header (CHR '' '') of (scheme, raw, ok) \<Rightarrow>
        if \<not> ok \<or> \<not> EqualFold scheme ''Bearer'' \<or> raw = [] then
          (Fail num (Unauthorized ''missing bearer token'') g, False)
        else (case verify raw of
                Inl err \<Rightarrow> (Fail num (Unauthorized ''invalid or expired token'') g, False)
              | Inr caller \<Rightarrow>
                  next (g\<lparr>c_subject := Some (pr_ID caller),
                          c_ctx := (c_ctx g)\<lparr>ctx_principal := Some caller, ctx_credential := Some header\<rparr>\<rparr>)))"

definition configHTTPRequirement :: "string \<Rightarrow> requirement option" where
  "configHTTPRequirement route = map_of
     (map (\<lambda>(path, action). (path, \<lparr>rq_Resource = ''config.entry'', rq_Action = action\<rparr>))
       [(''/api/v1/config/entries/get'', ''read''), (''/api/v1/config/entries/put-draft'', ''update''),
        (''/api/v1/config/entries/submit'', ''submit''), (''/api/v1/config/entries/approve'', ''approve''),
        (''/api/v1/config/entries/reject'', ''reject''), (''/api/v1/config/entries/publish'', ''publish''),
        (''/api/v1/config/entries/rollback'', ''rollback''), (''/api/v1/config/resolve'', ''read''),
        (''/api/v1/config/entries/list'', ''list'')]) route"

definition Authorization_mw ::
    "(errcode \<Rightarrow> int) \<Rightarrow> bool \<Rightarrow> (ctx \<Rightarrow> requirement \<Rightarrow> gerror option) \<Rightarrow> http_request \<Rightarrow> middleware" where
  "Authorization_mw num enabled enforce q next g =
     (case configHTTPRequirement (q_FullPath q) of
        None \<Rightarrow> next g
      | Some requirement \<Rightarrow>
          if \<not> enabled then next g
          else (case enforce (c_ctx g) requirement of
                  None \<Rightarrow> next g
                | Some err \<Rightarrow>
                    if errors_Is err ErrDecisionUnavailable
                    then (Fail num (Unavailable ''authorization decision is unavailable'' (Some err)) g, False)
                    else (Fail num (Forbidden ''permission denied'') g, False)))"

definition Authentication ::
    "(errcode \<Rightarrow> int) \<Rightarrow> (string \<Rightarrow> principal result) \<Rightarrow> Auth \<Rightarrow> http_request \<Rightarrow> middleware" where
  "Authentication num verify cfg q next g =
     (let header = q_Header q ''Authorization'' in
      if psk_Enabled (auth_PSK cfg) \<and> MatchesAny (q_FullPath q) (psk_HTTPPaths (auth_PSK cfg)) then
        (if \<not> VerifyPSK header (psk_Key (auth_PSK cfg)) then (Fail num (Unauthorized ''missing or invalid PSK'') g, False)
         else next (g\<lparr>c_subject := Some ''psk'',
                      c_ctx := (c_ctx g)\<lparr>ctx_principal := Some psk_principal, ctx_credential := Some header\<rparr>\<rparr>))
      else if MatchesAny (q_FullPath q) (auth_SkipHTTPPaths cfg) then next g
      else JWT_mw num verify q next g)"

section \<open>The contract of the middleware\<close>

text \<open>
  \<open>replies\<close>: the request has been answered, once, with its own identifier, by an envelope or by the empty
  answer to a preflight request. \<open>enters g g1\<close>: the chain goes on from \<open>g1\<close> with nothing written, the same
  database, body and identifier.
\<close>

definition replies :: "gin \<Rightarrow> gin \<times> bool \<Rightarrow> bool" where
  "replies g res \<longleftrightarrow>
     \<not> snd res \<and> c_written (fst res) \<and> c_request_id (fst res) = c_request_id g \<and>
     c_header (fst res) ''X-Request-ID'' = c_header g ''X-Request-ID'' \<and>
     (c_out (fst res) = c_out g \<and> c_status (fst res) = 204 \<or>
      (\<exists>r. c_out (fst res) = c_out g @ [Envelope_out r] \<and> r_RequestID r = requestID g))"

definition enters :: "gin \<Rightarrow> gin \<Rightarrow> bool" where
  "enters g g1 \<longleftrightarrow>
     c_db g1 = c_db g \<and> c_body g1 = c_body g \<and> c_out g1 = c_out g \<and> c_written g1 = c_written g \<and>
     c_request_id g1 = c_request_id g \<and> c_header g1 ''X-Request-ID'' = c_header g ''X-Request-ID''"

definition replier :: "handler \<Rightarrow> bool" where
  "replier h \<longleftrightarrow> (\<forall>g. \<not> c_written g \<longrightarrow> replies g (h g))"

lemma enters_refl [simp, intro]: "enters g g"
  by (simp add: enters_def)

lemma enters_requestID: "enters g g1 \<Longrightarrow> requestID g1 = requestID g"
  by (simp add: enters_def requestID_def)

lemma enters_set_headers:
  "''X-Request-ID'' \<notin> fst ` set hs \<Longrightarrow> enters g (set_headers hs g)"
proof (induction hs g rule: set_headers.induct)
  case (2 k v hs g)
  then have "enters (set_header k v g) (set_headers hs (set_header k v g))" by simp
  moreover from "2.prems" have "enters g (set_header k v g)" by (auto simp: enters_def set_header_def)
  ultimately show ?case by (auto simp: enters_def)
qed simp

lemma set_headers_ctx [simp]: "c_ctx (set_headers hs g) = c_ctx g"
  by (induction hs g rule: set_headers.induct) simp_all

lemma replies_enters: "enters g g1 \<Longrightarrow> replies g1 res \<Longrightarrow> replies g res"
  by (auto simp: replies_def enters_def requestID_def)

lemma replier_enters: "replier h \<Longrightarrow> enters g g1 \<Longrightarrow> \<not> c_written g \<Longrightarrow> replies g (h g1)"
  by (rule replies_enters [of g g1]) (auto simp: replier_def enters_def)

lemma replies_write_out:
  "enters g g1 \<Longrightarrow> r_RequestID r = requestID g \<Longrightarrow> replies g (write_out status (Envelope_out r) g1, False)"
  by (auto simp: replies_def enters_def)

lemma replies_Fail: "enters g g1 \<Longrightarrow> replies g (Fail num e g1, False)"
  unfolding Fail_def Let_def by (rule replies_write_out) (simp_all add: envelope_def enters_requestID)

text \<open>
  What the server relies on: a middleware in front of a handler that always answers once always answers
  once, and one that is not concerned with authentication answers by itself, with the database
  untouched, or hands the request on with the principal it has.
\<close>

locale replying =
  fixes mw :: middleware
  assumes replies: "replier h \<Longrightarrow> replier (mw h)"

locale relaying = replying +
  assumes forwards: "c_db (fst (mw h g)) = c_db g \<or>
    (\<exists>g1. enters g g1 \<and> ctx_principal (c_ctx g1) = ctx_principal (c_ctx g) \<and> c_db (fst (mw h g)) = c_db (fst (h g1)))"
begin

lemma change:
  assumes "c_db (fst (mw h g)) \<noteq> c_db g"
  obtains g1 where "enters g g1" and "ctx_principal (c_ctx g1) = ctx_principal (c_ctx g)"
    and "c_db (fst (mw h g)) = c_db (fst (h g1))"
  using forwards [of h g] assms by blast

end

text \<open>A middleware that either answers or calls the rest of the chain and returns its result.\<close>

definition relay_step :: "handler \<Rightarrow> gin \<Rightarrow> gin \<times> bool \<Rightarrow> bool" where
  "relay_step h g res \<longleftrightarrow>
     (\<not> c_written g \<longrightarrow> replies g res) \<and> c_db (fst res) = c_db g \<or>
     (\<exists>g1. enters g g1 \<and> ctx_principal (c_ctx g1) = ctx_principal (c_ctx g) \<and> res = h g1)"

lemma relay_next: "enters g g1 \<Longrightarrow> ctx_principal (c_ctx g1) = ctx_principal (c_ctx g) \<Longrightarrow> relay_step h g (h g1)"
  by (auto simp: relay_step_def)

lemma relay_Fail: "enters g g1 \<Longrightarrow> relay_step h g (Fail num e g1, False)"
  using replies_Fail [of g g1 num e] by (simp add: relay_step_def enters_def)

lemma relay_write:
  "enters g g1 \<Longrightarrow> r_RequestID r = requestID g1 \<Longrightarrow> relay_step h g (write_out status (Envelope_out r) g1, False)"
proof -
  assume e: "enters g g1" and r: "r_RequestID r = requestID g1"
  from e r have "replies g (write_out status (Envelope_out r) g1, False)"
    by (intro replies_write_out) (simp_all add: enters_requestID)
  with e show ?thesis by (simp add: relay_step_def enters_def)
qed

lemma relayingI:
  assumes "\<And>h g. relay_step h g (mw h g)"
  shows "relaying mw"
proof (unfold_locales, goal_cases)
  case (1 h)
  show ?case unfolding replier_def
  proof (intro allI impI)
    fix g :: gin
    assume "\<not> c_written g"
    with 1 assms [of h g] replier_enters [of h g] show "replies g (mw h g)" unfolding relay_step_def by metis
  qed
next
  case (2 h g)
  from assms [of h g] show ?case unfolding relay_step_def by metis
qed

lemma envelope_request_id [simp]: "r_RequestID (envelope code message b g) = requestID g"
  by (simp add: envelope_def)

lemma enters_update [simp]:
  "enters g (g1\<lparr>c_ctx := c\<rparr>) = enters g g1" "enters g (g1\<lparr>c_limit := l\<rparr>) = enters g g1"
  "enters g (g1\<lparr>c_environment := e\<rparr>) = enters g g1" "enters g (g1\<lparr>c_subject := u\<rparr>) = enters g g1"
  by (simp_all add: enters_def)

lemma enters_set_header: "k \<noteq> ''X-Request-ID'' \<Longrightarrow> enters g g1 \<Longrightarrow> enters g (set_header k v g1)"
  by (simp add: enters_def set_header_def)

lemmas relay_intros = relay_next relay_Fail relay_write enters_set_header enters_set_headers

interpretation environment_gate: relaying "Environment_mw profile" for profile
  by (rule relayingI) (auto simp: Environment_mw_def environment_WithContext_def intro!: relay_intros)

interpretation key_gate: relaying "IdempotencyKey num key_valid q" for num key_valid q
  by (rule relayingI) (auto simp: IdempotencyKey_def Let_def intro!: relay_intros)

interpretation body_gate: relaying "MaxBody limit" for limit
  by (rule relayingI) (auto simp: MaxBody_def intro!: relay_intros)

interpretation json_gate: relaying "RequireJSON num q" for num q
  by (rule relayingI) (auto simp: RequireJSON_def intro!: relay_intros)

interpretation security_gate: relaying "SecurityHeaders q" for q
  by (rule relayingI) (auto simp: SecurityHeaders_def simp del: set_headers.simps intro!: relay_intros)

lemma relay_preflight: "enters g g1 \<Longrightarrow> relay_step h g (abort_status 204 g1, False)"
  by (simp add: relay_step_def replies_def enters_def abort_status_def)

interpretation cors_gate: relaying "CORS_mw num cfg q" for num cfg q
  by (rule relayingI)
    (auto simp: CORS_mw_def Let_def simp del: set_headers.simps intro!: relay_intros relay_preflight)

interpretation rate_gate: relaying "RateLimit_mw num lmt rule dimension keyFunc" for num lmt rule dimension keyFunc
  by (rule relayingI)
    (auto simp: RateLimit_mw_def Let_def intro!: relay_intros split: sum.splits)

interpretation authorization_gate: relaying "Authorization_mw num enabled enforce q" for num enabled enforce q
  by (rule relayingI) (auto simp: Authorization_mw_def intro!: relay_intros split: option.splits)

text \<open>Middleware that acts after the rest of the chain changes nothing when that has answered.\<close>

interpretation timeout_gate: relaying "Timeout_mw num expired" for num expired
proof (unfold_locales, goal_cases)
  case (1 h)
  then show ?case by (auto simp: replier_def Timeout_mw_def replies_def split: prod.splits bool.splits)
next
  case (2 h g)
  show ?case by (rule disjI2, rule exI [of _ g]) (auto simp: Timeout_mw_def split: prod.splits bool.splits)
qed

interpretation recovery_gate: relaying "Recovery num" for num
proof (unfold_locales, goal_cases)
  case (1 h)
  then show ?case by (auto simp: replier_def Recovery_def replies_def split: prod.splits bool.splits)
next
  case (2 h g)
  show ?case by (rule disjI2, rule exI [of _ g]) (auto simp: Recovery_def split: prod.splits bool.splits)
qed

interpretation metrics_gate: relaying "HTTPMetrics m elapsed q" for m elapsed q
proof (unfold_locales, goal_cases)
  case (1 h)
  then show ?case by (auto simp: replier_def HTTPMetrics_def replies_def split: prod.splits bool.splits)
next
  case (2 h g)
  show ?case by (rule disjI2, rule exI [of _ g]) (auto simp: HTTPMetrics_def split: prod.splits bool.splits)
qed

lemma persist_simps [simp]:
  "c_db (persist key owner outs g) = c_db g" "c_out (persist key owner outs g) = c_out g"
  "c_written (persist key owner outs g) = c_written g" "c_request_id (persist key owner outs g) = c_request_id g"
  "c_header (persist key owner outs g) = c_header g" "c_status (persist key owner outs g) = c_status g"
  "c_samples (persist key owner outs g) = c_samples g"
  by (simp_all add: persist_def split: option.splits)

interpretation acquired_gate: relaying "run_acquired key owner" for key owner
proof (unfold_locales, goal_cases)
  case (1 h)
  then show ?case by (auto simp: replier_def run_acquired_def replies_def split: prod.splits bool.splits)
next
  case (2 h g)
  show ?case by (rule disjI2, rule exI [of _ g]) (auto simp: run_acquired_def split: prod.splits bool.splits)
qed

text \<open>Which middleware acts may depend on the state.\<close>

lemma relaying_pointwise:
  assumes "\<And>g. \<exists>m g1. relaying m \<and> enters g g1 \<and> ctx_principal (c_ctx g1) = ctx_principal (c_ctx g) \<and> (\<forall>h. mw h g = m h g1)"
  shows "relaying mw"
proof (unfold_locales, goal_cases)
  case (1 h)
  show ?case unfolding replier_def
  proof (intro allI impI)
    fix g :: gin
    assume w: "\<not> c_written g"
    from assms [of g] obtain m g1 where m: "relaying m" "enters g g1" "mw h g = m h g1" by blast
    from replying.replies [OF relaying.axioms(1) [OF m(1)] 1] have "replier (m h)" .
    from replier_enters [OF this m(2) w] m(3) show "replies g (mw h g)" by simp
  qed
next
  case (2 h g)
  from assms [of g] obtain m g1 where m: "relaying m" "enters g g1" "ctx_principal (c_ctx g1) = ctx_principal (c_ctx g)"
    "mw h g = m h g1" by blast
  from relaying.forwards [OF m(1), of h g1] m(2-4) show ?case unfolding enters_def by metis
qed

lemma relaying_id: "relaying (\<lambda>h. h)"
  by (rule relayingI) (auto intro!: relay_intros)

lemma relaying_Fail: "relaying (\<lambda>h g. (Fail num e g, False))"
  by (rule relayingI) (auto intro!: relay_intros)

interpretation decide_gate: relaying "decide num key decision" for num key decision
proof (cases "dc_State decision = StateAcquired")
  case True
  then have "decide num key decision = run_acquired key (dc_Owner decision)"
    by (intro ext) (simp add: decide_def)
  then show "relaying (decide num key decision)" using acquired_gate.relaying_axioms by metis
next
  case False
  then show "relaying (decide num key decision)"
    by (intro relayingI) (auto simp: decide_def intro!: relay_intros split: idem_state.splits option.splits)
qed

lemma idempotencyFingerprint_enters:
  "idempotencyFingerprint q g = Inr (fp, g1) \<Longrightarrow> enters g g1 \<and> ctx_principal (c_ctx g1) = ctx_principal (c_ctx g)"
  by (auto simp: idempotencyFingerprint_def read_body_def enters_def split: sum.splits option.splits if_splits)

interpretation execution_gate: relaying "IdempotencyExecution num mgr paths q" for num mgr paths q
proof (rule relaying_pointwise)
  fix g :: gin
  let ?goal = "\<exists>m g1. relaying m \<and> enters g g1 \<and> ctx_principal (c_ctx g1) = ctx_principal (c_ctx g) \<and>
      (\<forall>h. IdempotencyExecution num mgr paths q h g = m h g1)"
  show ?goal
  proof (cases "\<forall>h. IdempotencyExecution num mgr paths q h g = h g")
    case True
    with relaying_id show ?thesis by (intro exI [of _ "\<lambda>h. h"] exI [of _ g]) simp
  next
    case False
    then obtain key m where k: "ctx_idempotency_key (c_ctx g) = Some key" "mgr = Some m"
      "\<not> (\<not> im_Enabled m \<or> q_Method q \<noteq> ''POST'' \<or> \<not> MatchesAny (q_FullPath q) paths)"
      by (auto simp: IdempotencyExecution_def split: option.splits if_splits)
    show ?thesis
    proof (cases "idempotencyFingerprint q g")
      case (Inl err)
      with k show ?thesis
        by (intro exI [of _ "\<lambda>h g. (Fail num (Invalid ''read idempotent request'' (Some err)) g, False)"] exI [of _ g])
          (simp add: IdempotencyExecution_def relaying_Fail)
    next
      case (Inr b)
      then obtain fp g1 where fp: "idempotencyFingerprint q g = Inr (fp, g1)" by (cases b) auto
      note g1 = idempotencyFingerprint_enters [OF fp]
      show ?thesis
      proof (cases "im_Begin m key fp")
        case (Inl err)
        with k fp g1 show ?thesis
          by (intro exI [of _ "\<lambda>h g. (Fail num (Unavailable ''idempotency is unavailable'' (Some err)) g, False)"] exI [of _ g1])
            (simp add: IdempotencyExecution_def relaying_Fail)
      next
        case (Inr decision)
        with k fp g1 decide_gate.relaying_axioms show ?thesis
          by (intro exI [of _ "decide num key decision"] exI [of _ g1]) (simp add: IdempotencyExecution_def)
      qed
    qed
  qed
qed

text \<open>Authentication sets the principal, so that it only has the weaker contract.\<close>

definition reply_step :: "handler \<Rightarrow> gin \<Rightarrow> gin \<times> bool \<Rightarrow> bool" where
  "reply_step h g res \<longleftrightarrow> (\<not> c_written g \<longrightarrow> replies g res) \<or> (\<exists>g1. enters g g1 \<and> res = h g1)"

lemma reply_next: "enters g g1 \<Longrightarrow> reply_step h g (h g1)"
  by (auto simp: reply_step_def)

lemma reply_Fail: "enters g g1 \<Longrightarrow> reply_step h g (Fail num e g1, False)"
  by (auto simp: reply_step_def intro: replies_Fail)

lemma replyingI:
  assumes "\<And>h g. reply_step h g (mw h g)"
  shows "replying mw"
proof (unfold_locales, unfold replier_def, intro allI impI)
  fix h and g :: gin
  assume "\<forall>g. \<not> c_written g \<longrightarrow> replies g (h g)" and "\<not> c_written g"
  then show "replies g (mw h g)"
    using assms [of h g] replier_enters [of h g] unfolding reply_step_def replier_def by metis
qed

interpretation jwt_gate: replying "JWT_mw num verify q" for num verify q
  by (rule replyingI) (auto simp: JWT_mw_def Let_def split: prod.splits sum.splits intro!: reply_next reply_Fail)

interpretation authentication_gate: replying "Authentication num verify cfg q" for num verify cfg q
  by (rule replyingI)
    (auto simp: Authentication_def JWT_mw_def Let_def split: prod.splits sum.splits intro!: reply_next reply_Fail)

text \<open>A request passes authentication with a credential, or without a principal on a route that skips it.\<close>

lemma Authentication_cases:
  obtains (refused) e where "Authentication num verify cfg q h g = (Fail num e g, False)"
  | (accepted) g1 p where "enters g g1" and "Authentication num verify cfg q h g = h g1"
      and "ctx_principal (c_ctx g1) = Some p" and "credential verify cfg (q_Header q ''Authorization'') p"
  | (skipped) "Authentication num verify cfg q h g = h g" and "MatchesAny (q_FullPath q) (auth_SkipHTTPPaths cfg)"
proof -
  let ?v = "q_Header q ''Authorization''"
  have jwt: thesis if eq: "Authentication num verify cfg q h g = JWT_mw num verify q h g"
  proof (cases "Cut ?v (CHR '' '')")
    case (fields scheme raw ok)
    show thesis
    proof (cases "\<not> ok \<or> \<not> EqualFold scheme ''Bearer'' \<or> raw = [] \<or> (\<exists>e. verify raw = Inl e)")
      case True
      with fields eq refused show thesis by (auto simp: JWT_mw_def split: sum.splits if_splits)
    next
      case False
      then obtain p where p: "verify raw = Inr p" by (cases "verify raw") auto
      with False fields Cut_TrueD [of ?v "CHR '' ''" scheme raw] have "credential verify cfg ?v p"
        by (auto simp: credential_def)
      with False fields eq p show thesis
        by (intro accepted [of "g\<lparr>c_subject := Some (pr_ID p), c_ctx := (c_ctx g)\<lparr>ctx_principal := Some p,
            ctx_credential := Some ?v\<rparr>\<rparr>" p]) (simp_all add: JWT_mw_def)
    qed
  qed
  show thesis
  proof (cases "psk_Enabled (auth_PSK cfg) \<and> MatchesAny (q_FullPath q) (psk_HTTPPaths (auth_PSK cfg))")
    case True
    show thesis
    proof (cases "VerifyPSK ?v (psk_Key (auth_PSK cfg))")
      case ok: True
      with True show thesis
        by (intro accepted [of "g\<lparr>c_subject := Some ''psk'', c_ctx := (c_ctx g)\<lparr>ctx_principal := Some psk_principal,
            ctx_credential := Some ?v\<rparr>\<rparr>" psk_principal]) (simp_all add: Authentication_def credential_def)
    next
      case False
      with True refused show thesis by (auto simp: Authentication_def)
    qed
  next
    case False
    with jwt skipped show thesis
      by (cases "MatchesAny (q_FullPath q) (auth_SkipHTTPPaths cfg)") (simp_all add: Authentication_def Let_def)
  qed
qed

section \<open>Idempotent execution\<close>

text \<open>
  A request under an acquired key stores the response that it sent, without its identifier; a later one
  for which the store has that response gets it again with its own identifier, and runs nothing.
\<close>

definition begins :: "manager \<Rightarrow> string list \<Rightarrow> http_request \<Rightarrow> gin \<Rightarrow> Decision \<Rightarrow> bool" where
  "begins m paths q g decision \<longleftrightarrow>
     im_Enabled m \<and> q_Method q = ''POST'' \<and> MatchesAny (q_FullPath q) paths \<and>
     (\<exists>key fp g1. ctx_idempotency_key (c_ctx g) = Some key \<and> idempotencyFingerprint q g = Inr (fp, g1) \<and>
       im_Begin m key fp = Inr decision)"

lemma IdempotencyExecution_begins:
  assumes "begins m paths q g decision"
  obtains key g1 where "IdempotencyExecution num (Some m) paths q h g = decide num key decision h g1" and "enters g g1"
    and "c_calls g1 = c_calls g"
proof -
  from assms obtain key fp g1 where b: "im_Enabled m" "q_Method q = ''POST''" "MatchesAny (q_FullPath q) paths"
      "ctx_idempotency_key (c_ctx g) = Some key" "idempotencyFingerprint q g = Inr (fp, g1)" "im_Begin m key fp = Inr decision"
    unfolding begins_def by blast
  then have "IdempotencyExecution num (Some m) paths q h g = decide num key decision h g1"
    by (simp add: IdempotencyExecution_def)
  moreover from b(5) have "c_calls g1 = c_calls g" by (auto simp: idempotencyFingerprint_def split: sum.splits)
  ultimately show ?thesis using idempotencyFingerprint_enters [OF b(5)] that by blast
qed

lemma acquired_stores:
  assumes "replier h" and "\<not> c_written g" and "begins m paths q g decision" and "dc_State decision = StateAcquired"
    and "IdempotencyExecution num (Some m) paths q h g = (g', False)"
    and "\<And>g1. c_calls (fst (h g1)) = c_calls g1" and "c_status g' \<noteq> 204"
  shows "\<exists>key r. c_out g' = c_out g @ [Envelope_out r] \<and>
    c_calls g' = c_calls g @ [if 400 \<le> c_status g' then Fail_call key (dc_Owner decision) (r_Code r) (r_Message r) (c_status g')
      else Complete key (dc_Owner decision) (r\<lparr>r_RequestID := []\<rparr>)]"
proof -
  obtain key g1 where g1: "IdempotencyExecution num (Some m) paths q h g = decide num key decision h g1" "enters g g1"
      "c_calls g1 = c_calls g" by (rule IdempotencyExecution_begins [OF assms(3)])
  from replier_enters [OF assms(1) enters_refl, of g1] g1(2) assms(2) have r: "replies g1 (h g1)" by (simp add: enters_def)
  with assms(4,5) g1(1) obtain g2 where g2: "h g1 = (g2, False)"
    "g' = persist key (dc_Owner decision) (drop (length (c_out g1)) (c_out g2)) g2"
    by (cases "h g1") (auto simp: decide_def run_acquired_def replies_def split: bool.splits)
  with r assms(7) obtain rr where rr: "c_out g2 = c_out g1 @ [Envelope_out rr]" by (auto simp: replies_def)
  from assms(6) [of g1] g2(1) g1(3) have "c_calls g2 = c_calls g" by simp
  with g2(2) rr g1(2) show ?thesis by (auto simp: persist_def captured_def enters_def)
qed

lemma completed_replays:
  assumes "begins m paths q g decision" and "dc_State decision = StateCompleted" and "dc_Response decision = Some r"
  shows "\<exists>g'. IdempotencyExecution num (Some m) paths q h g = (g', False) \<and>
    c_out g' = c_out g @ [Envelope_out (r\<lparr>r_RequestID := requestID g\<rparr>)] \<and> c_db g' = c_db g \<and> c_calls g' = c_calls g"
proof -
  obtain key g1 where "IdempotencyExecution num (Some m) paths q h g = decide num key decision h g1" "enters g g1"
      "c_calls g1 = c_calls g" by (rule IdempotencyExecution_begins [OF assms(1)])
  with assms(2,3) show ?thesis by (simp add: decide_def enters_requestID) (simp add: enters_def)
qed

section \<open>Samples\<close>

text \<open>
  Samples are taken in one place. A handler that takes none still takes none behind any other
  middleware, so that the number of samples of a request is decided where the metrics stand in the chain.
\<close>

definition unsampled :: "handler \<Rightarrow> bool" where
  "unsampled h \<longleftrightarrow> (\<forall>g. c_samples (fst (h g)) = c_samples g)"

locale unsampling =
  fixes mw :: middleware
  assumes keeps: "unsampled h \<Longrightarrow> unsampled (mw h)"

lemma unsampling_comp: "unsampling f \<Longrightarrow> unsampling m \<Longrightarrow> unsampling (\<lambda>h. f (m h))"
  by (simp add: unsampling_def)

lemma unsampled_next: "unsampled h \<Longrightarrow> c_samples g1 = c_samples g \<Longrightarrow> c_samples (fst (h g1)) = c_samples g"
  by (simp add: unsampled_def)

lemma set_headers_samples [simp]: "c_samples (set_headers hs g) = c_samples g"
  by (induction hs g rule: set_headers.induct) simp_all

lemma unsampled_pair: "unsampled h \<Longrightarrow> h g = (g', p) \<Longrightarrow> c_samples g' = c_samples g"
  by (metis fst_conv unsampled_def)

interpretation recovery_quiet: unsampling "Recovery num" for num
  by unfold_locales (auto simp: unsampled_def [of "Recovery num _"] Recovery_def dest: unsampled_pair split: prod.splits bool.splits)

interpretation timeout_quiet: unsampling "Timeout_mw num expired" for num expired
  by unfold_locales (auto simp: unsampled_def [of "Timeout_mw num expired _"] Timeout_mw_def dest: unsampled_pair split: prod.splits bool.splits)

interpretation body_quiet: unsampling "MaxBody limit" for limit
  by unfold_locales (simp add: unsampled_def MaxBody_def)

interpretation json_quiet: unsampling "RequireJSON num q" for num q
  by unfold_locales (simp add: unsampled_def RequireJSON_def)

interpretation security_quiet: unsampling "SecurityHeaders q" for q
  by unfold_locales (simp add: unsampled_def SecurityHeaders_def del: set_headers.simps)

interpretation cors_quiet: unsampling "CORS_mw num cfg q" for num cfg q
  by unfold_locales (simp add: unsampled_def CORS_mw_def Let_def del: set_headers.simps)

interpretation rate_quiet: unsampling "RateLimit_mw num lmt rule dimension keyFunc" for num lmt rule dimension keyFunc
  by unfold_locales (simp add: unsampled_def RateLimit_mw_def Let_def split: sum.split)

interpretation authentication_quiet: unsampling "Authentication num verify cfg q" for num verify cfg q
  by unfold_locales (simp add: unsampled_def Authentication_def JWT_mw_def Let_def split: prod.split sum.split)

interpretation authorization_quiet: unsampling "Authorization_mw num enabled enforce q" for num enabled enforce q
  by unfold_locales (simp add: unsampled_def Authorization_mw_def split: option.split)

interpretation decide_quiet: unsampling "decide num key decision" for num key decision
  by unfold_locales
    (auto simp: unsampled_def [of "decide num key decision _"] decide_def run_acquired_def dest: unsampled_pair
      split: idem_state.splits option.splits prod.splits bool.splits)

interpretation execution_quiet: unsampling "IdempotencyExecution num mgr paths q" for num mgr paths q
proof (unfold_locales, unfold unsampled_def [of "IdempotencyExecution num mgr paths q _"], intro allI)
  fix h and g :: gin
  assume h: "unsampled h"
  have "c_samples g1 = c_samples g" if "idempotencyFingerprint q g = Inr (fp, g1)" for fp g1
    using that by (auto simp: idempotencyFingerprint_def split: sum.splits)
  with h decide_quiet.keeps [OF h] show "c_samples (fst (IdempotencyExecution num mgr paths q h g)) = c_samples g"
    by (auto simp: IdempotencyExecution_def unsampled_def split: option.split sum.split prod.split)
qed

text \<open>Behind the metrics, a request that does not panic leaves the samples of its status and route.\<close>

lemma HTTPMetrics_samples:
  assumes "unsampled h"
  shows "c_samples (fst (HTTPMetrics m elapsed q h g)) = c_samples g @
    (if snd (h g) then [] else http_samples m (q_Method q) (q_FullPath q) (c_status (fst (HTTPMetrics m elapsed q h g))) elapsed)"
  using assms by (auto simp: HTTPMetrics_def dest: unsampled_pair split: prod.splits bool.splits)

end
