(* ===== verification/Http_Server.thy ===== *)
theory Http_Server
  imports Http_Middleware
begin

text \<open>
  The HTTP handlers (\<^verbatim>\<open>transport/http/handler.go\<close>) and the server that puts them behind the middleware
  (\<^verbatim>\<open>transport/http/server.go\<close>). Decoding and validating a JSON body (\<^verbatim>\<open>c.ShouldBindJSON\<close> of gin) is a
  parameter per request type: from the limit of the body reader and the body to the request or an
  error. Routing is gin's: a request comes with the route it matched. The pages of metrics, profiles
  and Swagger are left out.
\<close>

section \<open>Requests\<close>

record PutConfigRequest =
  pc_ID :: string
  pc_Environment :: string
  pc_TenantID :: string
  pc_ApplicationID :: string
  pc_Service :: string
  pc_Key :: string
  pc_Value :: bytes
  pc_SecretRef :: string
  pc_RolloutPercentage :: int
  pc_ExpectedVersion :: int

record ConfigIDRequest =
  ci_ID :: string
  ci_ExpectedVersion :: int

record GetConfigRequest =
  gr_ID :: string

record ReviewConfigRequest =
  rv_ID :: string
  rv_ExpectedVersion :: int
  rv_Comment :: string

record RollbackConfigRequest =
  ro_ID :: string
  ro_TargetRevision :: int
  ro_ExpectedVersion :: int

record ResolveConfigRequest =
  rs_Environment :: string
  rs_TenantID :: string
  rs_ApplicationID :: string
  rs_Service :: string
  rs_Keys :: "string list"
  rs_SubjectID :: string

record ListConfigRequest =
  ls_Environment :: string
  ls_TenantID :: string
  ls_ApplicationID :: string
  ls_Service :: string
  ls_Page :: int
  ls_PageSize :: int

record decoders =
  bind_Put :: "int option \<Rightarrow> bytes \<Rightarrow> PutConfigRequest result"
  bind_ID :: "int option \<Rightarrow> bytes \<Rightarrow> ConfigIDRequest result"
  bind_Get :: "int option \<Rightarrow> bytes \<Rightarrow> GetConfigRequest result"
  bind_Review :: "int option \<Rightarrow> bytes \<Rightarrow> ReviewConfigRequest result"
  bind_Rollback :: "int option \<Rightarrow> bytes \<Rightarrow> RollbackConfigRequest result"
  bind_Resolve :: "int option \<Rightarrow> bytes \<Rightarrow> ResolveConfigRequest result"
  bind_List :: "int option \<Rightarrow> bytes \<Rightarrow> ListConfigRequest result"

text \<open>
  Everything a request meets: the settings, the services, and what the clock, the random source, the
  platform module and the decoders answer during it.
\<close>

record http_env =
  he_cfg :: Config
  he_service :: service
  he_health :: health_service
  he_redis_first :: bool
  he_info :: Info
  he_num :: "errcode \<Rightarrow> int"
  he_bind :: decoders
  he_unmarshal :: "bytes \<Rightarrow> json option"
  he_generated :: string
  he_key_valid :: "string \<Rightarrow> bool"
  he_verify :: "string \<Rightarrow> principal result"
  he_enforce :: "ctx \<Rightarrow> requirement \<Rightarrow> gerror option"
  he_limiter :: limiter
  he_manager :: "manager option"
  he_expired :: bool
  he_metrics :: Metrics
  he_elapsed :: duration

section \<open>Responses\<close>

definition configEntryResponse :: "http_env \<Rightarrow> entry \<Rightarrow> ConfigEntryResponseBody" where
  "configEntryResponse env v =
     \<lparr>cb_ID = e_ID v, cb_Environment = e_Environment v, cb_TenantID = e_TenantID v, cb_ApplicationID = e_ApplicationID v,
      cb_Service = e_Service v, cb_Key = e_Key v,
      cb_Value = (if e_Value v = [] then None else he_unmarshal env (e_Value v)), cb_SecretRef = e_SecretRef v,
      cb_Status = e_Status v, cb_Revision = e_Revision v, cb_RolloutPercentage = e_RolloutPercentage v,
      cb_PublishedRevision = e_PublishedRevision v, cb_ReviewComment = e_ReviewComment v, cb_ReviewedBy = e_ReviewedBy v,
      cb_ReviewedAt = e_ReviewedAt v, cb_Version = e_Version v, cb_CreatedAt = e_CreatedAt v, cb_UpdatedAt = e_UpdatedAt v,
      cb_CreatedBy = e_CreatedBy v, cb_UpdatedBy = e_UpdatedBy v\<rparr>"

definition configEntryResponses :: "http_env \<Rightarrow> entry list \<Rightarrow> ConfigEntryResponseBody list" where
  "configEntryResponses env vs = map (configEntryResponse env) vs"

text \<open>The end that all handlers have: the error, or the value in an envelope.\<close>

definition respond :: "http_env \<Rightarrow> ('a \<Rightarrow> body) \<Rightarrow> 'a result \<times> db \<Rightarrow> gin \<Rightarrow> gin \<times> bool" where
  "respond env body_of = (\<lambda>(r, d) g.
     (case r of
        Inl err \<Rightarrow> Fail (he_num env) err (g\<lparr>c_db := d\<rparr>)
      | Inr v \<Rightarrow> OK (he_num env) (body_of v) (g\<lparr>c_db := d\<rparr>), False))"

definition bound :: "http_env \<Rightarrow> (int option \<Rightarrow> bytes \<Rightarrow> 'q result) \<Rightarrow> ('q \<Rightarrow> handler) \<Rightarrow> handler" where
  "bound env bind k g =
     (case bind (c_limit g) (c_body g) of
        Inl err \<Rightarrow> (Fail (he_num env) (Invalid ''invalid json request'' (Some err)) g, False)
      | Inr request \<Rightarrow> k request g)"

abbreviation entry_body :: "http_env \<Rightarrow> entry \<Rightarrow> body" where
  "entry_body env v \<equiv> EntryBody (configEntryResponse env v)"

section \<open>Handlers\<close>

definition handler_Live :: "http_env \<Rightarrow> handler" where
  "handler_Live env g = (OK (he_num env) (HealthBody Live) g, False)"

definition handler_Ready :: "http_env \<Rightarrow> handler" where
  "handler_Ready env g =
     (case Ready (he_health env) (he_redis_first env) of (status, ready) \<Rightarrow>
        if \<not> ready then
          (write_out 503 (Envelope_out (envelope (he_num env CodeDependencyUnavailable) ''service is not ready''
             (HealthBody status) g)) g, False)
        else (OK (he_num env) (HealthBody status) g, False))"

definition Me :: "http_env \<Rightarrow> handler" where
  "Me env g = (OK (he_num env) (MeBody (c_subject g)) g, False)"

definition Version :: "http_env \<Rightarrow> handler" where
  "Version env g = (OK (he_num env) (InfoBody (he_info env)) g, False)"

definition put_entry :: "PutConfigRequest \<Rightarrow> entry" where
  "put_entry request =
     \<lparr>e_ID = pc_ID request, e_Environment = pc_Environment request, e_TenantID = pc_TenantID request,
      e_ApplicationID = pc_ApplicationID request, e_Service = pc_Service request, e_Key = pc_Key request,
      e_Value = pc_Value request, e_SecretRef = pc_SecretRef request, e_Status = [], e_Revision = 0,
      e_RolloutPercentage = pc_RolloutPercentage request, e_PublishedRevision = 0, e_ReviewComment = [],
      e_ReviewedBy = [], e_ReviewedAt = None, e_Version = 0, e_CreatedAt = zero_time, e_UpdatedAt = zero_time,
      e_CreatedBy = [], e_UpdatedBy = []\<rparr>"

definition PutConfig :: "http_env \<Rightarrow> handler" where
  "PutConfig env = bound env (bind_Put (he_bind env)) (\<lambda>request g.
     respond env (entry_body env)
       (PutDraft (he_service env) (c_ctx g) (put_entry request) (pc_ExpectedVersion request) (c_db g)) g)"

definition GetConfig :: "http_env \<Rightarrow> handler" where
  "GetConfig env = bound env (bind_Get (he_bind env)) (\<lambda>request g.
     respond env (entry_body env) (Get (he_service env) (c_ctx g) (gr_ID request) (c_db g), c_db g) g)"

definition PublishConfig :: "http_env \<Rightarrow> handler" where
  "PublishConfig env = bound env (bind_ID (he_bind env)) (\<lambda>request g.
     respond env (entry_body env)
       (Publish (he_service env) (c_ctx g) (ci_ID request) (ci_ExpectedVersion request) (c_db g)) g)"

definition SubmitConfig :: "http_env \<Rightarrow> handler" where
  "SubmitConfig env = bound env (bind_ID (he_bind env)) (\<lambda>request g.
     respond env (entry_body env)
       (SubmitForApproval (he_service env) (c_ctx g) (ci_ID request) (ci_ExpectedVersion request) (c_db g)) g)"

definition reviewConfig :: "http_env \<Rightarrow> bool \<Rightarrow> handler" where
  "reviewConfig env approve = bound env (bind_Review (he_bind env)) (\<lambda>request g.
     respond env (entry_body env)
       (if approve
        then Approve (he_service env) (c_ctx g) (rv_ID request) (rv_ExpectedVersion request) (rv_Comment request) (c_db g)
        else Reject (he_service env) (c_ctx g) (rv_ID request) (rv_ExpectedVersion request) (rv_Comment request) (c_db g)) g)"

definition ApproveConfig :: "http_env \<Rightarrow> handler" where
  "ApproveConfig env = reviewConfig env True"

definition RejectConfig :: "http_env \<Rightarrow> handler" where
  "RejectConfig env = reviewConfig env False"

definition RollbackConfig :: "http_env \<Rightarrow> handler" where
  "RollbackConfig env = bound env (bind_Rollback (he_bind env)) (\<lambda>request g.
     respond env (entry_body env)
       (Rollback (he_service env) (c_ctx g) (ro_ID request) (ro_TargetRevision request) (ro_ExpectedVersion request)
          (c_db g)) g)"

definition ResolveConfig :: "http_env \<Rightarrow> handler" where
  "ResolveConfig env = bound env (bind_Resolve (he_bind env)) (\<lambda>request g.
     respond env
       (\<lambda>(values, etag). ResolveBody \<lparr>rb_Entries = configEntryResponses env values, rb_ETag = etag\<rparr>)
       (Resolve (he_service env) (c_ctx g) (rs_Environment request) (rs_TenantID request) (rs_ApplicationID request)
          (rs_Service request) (rs_SubjectID request) (rs_Keys request) (c_db g), c_db g) g)"

definition ListConfig :: "http_env \<Rightarrow> handler" where
  "ListConfig env = bound env (bind_List (he_bind env)) (\<lambda>request g.
     respond env
       (\<lambda>v. PageBody \<lparr>pb_Entries = configEntryResponses env (p_Entries v), pb_Total = p_Total v, pb_Page = p_Page v,
              pb_PageSize = p_PageSize v\<rparr>)
       (List (he_service env) (c_ctx g) (ls_Environment request) (ls_TenantID request) (ls_ApplicationID request)
          (ls_Service request) (ls_Page request) (ls_PageSize request) (c_db g), c_db g) g)"

section \<open>The server\<close>

text \<open>The middleware of every route, in the order of \<^verbatim>\<open>router.Use\<close>, and that of the group \<^verbatim>\<open>/api/v1\<close>.\<close>

definition global_chain :: "http_env \<Rightarrow> http_request \<Rightarrow> middleware" where
  "global_chain env q h =
     RequestID (he_generated env) q
       (IdempotencyKey (he_num env) (he_key_valid env) q
         (Environment_mw (runtime_ActiveProfile (cfg_Runtime (he_cfg env)))
           (Recovery (he_num env)
             (HTTPMetrics (he_metrics env) (he_elapsed env) q
               (SecurityHeaders q
                 (CORS_mw (he_num env) (http_CORS (cfg_HTTP (he_cfg env))) q
                   (MaxBody (http_MaxBodyBytes (cfg_HTTP (he_cfg env)))
                     (Timeout_mw (he_num env) (he_expired env)
                       (RequireJSON (he_num env) q h)))))))))"

definition subject_key :: "gin \<Rightarrow> string" where
  "subject_key g = (case c_subject g of None \<Rightarrow> [] | Some v \<Rightarrow> v)"

definition api_chain :: "http_env \<Rightarrow> http_request \<Rightarrow> middleware" where
  "api_chain env q h =
     RateLimit_mw (he_num env) (he_limiter env) (rl_IP (cfg_RateLimit (he_cfg env))) ''ip'' (\<lambda>g. q_ClientIP q)
       (RateLimit_mw (he_num env) (he_limiter env) (rl_API (cfg_RateLimit (he_cfg env))) ''api'' (\<lambda>g. q_FullPath q)
         (Authentication (he_num env) (he_verify env) (cfg_Auth (he_cfg env)) q
           (Authorization_mw (he_num env) (authz_Enabled (cfg_Authorization (he_cfg env))) (he_enforce env) q
             (RateLimit_mw (he_num env) (he_limiter env) (rl_User (cfg_RateLimit (he_cfg env))) ''user'' subject_key
               (IdempotencyExecution (he_num env) (he_manager env) (idem_HTTPPaths (cfg_Idempotency (he_cfg env))) q h)))))"

definition api_routes :: "http_env \<Rightarrow> (string \<times> handler) list" where
  "api_routes env =
     [(''/api/v1/version'', Version env), (''/api/v1/me'', Me env),
      (''/api/v1/config/entries/put-draft'', PutConfig env), (''/api/v1/config/entries/get'', GetConfig env),
      (''/api/v1/config/entries/submit'', SubmitConfig env), (''/api/v1/config/entries/approve'', ApproveConfig env),
      (''/api/v1/config/entries/reject'', RejectConfig env), (''/api/v1/config/entries/publish'', PublishConfig env),
      (''/api/v1/config/entries/rollback'', RollbackConfig env), (''/api/v1/config/resolve'', ResolveConfig env),
      (''/api/v1/config/entries/list'', ListConfig env)]"

definition route :: "http_env \<Rightarrow> http_request \<Rightarrow> handler option" where
  "route env q =
     (if (q_Method q = ''GET'' \<or> q_Method q = ''POST'') \<and> q_FullPath q = ''/live'' then Some (handler_Live env)
      else if (q_Method q = ''GET'' \<or> q_Method q = ''POST'') \<and> q_FullPath q = ''/ready'' then Some (handler_Ready env)
      else if q_Method q = ''POST'' then map_option (api_chain env q) (map_of (api_routes env) (q_FullPath q))
      else None)"

text \<open>
  One request. Without a matching route gin runs the global middleware with the status 404 and, when
  nothing was written, its own text.
\<close>

definition serve :: "http_env \<Rightarrow> http_request \<Rightarrow> bytes \<Rightarrow> db \<Rightarrow> gin \<times> bool" where
  "serve env q body d =
     (case route env q of
        Some h \<Rightarrow> global_chain env q h (enter body d)
      | None \<Rightarrow>
          (case global_chain env q (\<lambda>g. (g, False)) ((enter body d)\<lparr>c_status := 404\<rparr>) of (g, panicked) \<Rightarrow>
             (if c_written g \<or> panicked \<or> c_status g \<noteq> 404 then g else write_out 404 (Text_out ''404 page not found'') g,
              panicked)))"

text \<open>\<^verbatim>\<open>pprofAuth\<close>, in front of the profiling pages.\<close>

definition pprofAuth :: "string \<Rightarrow> http_request \<Rightarrow> middleware" where
  "pprofAuth expected q next g =
     (case Cut (q_Header q ''Authorization'') (CHR '' '') of (scheme, token, ok) \<Rightarrow>
        if \<not> ok \<or> \<not> EqualFold scheme ''Bearer'' \<or> token \<noteq> expected then (abort_status 401 g, False) else next g)"

section \<open>Every request is answered once\<close>

lemma enters_trans: "enters g g1 \<Longrightarrow> enters g1 g2 \<Longrightarrow> enters g g2"
  by (simp add: enters_def)

lemma relaying_comp:
  assumes "relaying f" and "relaying m"
  shows "relaying (\<lambda>h. f (m h))"
proof (unfold_locales, goal_cases)
  case (1 h)
  then show ?case
    by (rule replying.replies [OF relaying.axioms(1) [OF assms(1)] replying.replies [OF relaying.axioms(1) [OF assms(2)]]])
next
  case (2 h g)
  from relaying.forwards [OF assms(1), of "m h" g] show ?case
  proof (elim disjE exE conjE)
    fix g1
    assume g1: "enters g g1" "ctx_principal (c_ctx g1) = ctx_principal (c_ctx g)" "c_db (fst (f (m h) g)) = c_db (fst (m h g1))"
    from relaying.forwards [OF assms(2), of h g1] show ?thesis
    proof (elim disjE exE conjE)
      assume "c_db (fst (m h g1)) = c_db g1"
      with g1 show ?thesis by (simp add: enters_def)
    next
      fix g2
      assume "enters g1 g2" "ctx_principal (c_ctx g2) = ctx_principal (c_ctx g1)" "c_db (fst (m h g1)) = c_db (fst (h g2))"
      with g1 show ?thesis by (intro disjI2 exI [of _ g2]) (auto intro: enters_trans)
    qed
  qed simp
qed

lemma replying_comp: "replying f \<Longrightarrow> replying m \<Longrightarrow> replying (\<lambda>h. f (m h))"
  by (simp add: replying_def)

lemma replies_respond: "replies g (respond env body_of res g)"
  by (cases res) (auto simp: respond_def OK_def Fail_def Let_def replies_def envelope_def requestID_def split: sum.splits)

lemma bound_replier: "(\<And>request g. replies g (k request g)) \<Longrightarrow> replier (bound env bind k)"
  by (auto simp: replier_def bound_def replies_Fail split: sum.splits)

lemma replies_OK: "replies g (OK num b g, False)"
  unfolding OK_def by (rule replies_write_out) simp_all

lemma handler_replier:
  "replier (handler_Live env)" "replier (handler_Ready env)" "replier (Me env)" "replier (Version env)"
  "replier (PutConfig env)" "replier (GetConfig env)" "replier (PublishConfig env)" "replier (SubmitConfig env)"
  "replier (reviewConfig env approve)" "replier (RollbackConfig env)" "replier (ResolveConfig env)"
  "replier (ListConfig env)"
  unfolding PutConfig_def GetConfig_def PublishConfig_def SubmitConfig_def reviewConfig_def RollbackConfig_def
    ResolveConfig_def ListConfig_def
  by (rule bound_replier replies_respond | simp add: replier_def handler_Live_def Me_def Version_def replies_OK
      handler_Ready_def replies_write_out split: prod.splits)+

lemma api_route_replier: "map_of (api_routes env) path = Some h \<Longrightarrow> replier h"
  by (drule map_of_SomeD) (auto simp: api_routes_def ApproveConfig_def RejectConfig_def handler_replier)

lemma api_chain_replying: "replying (api_chain env q)"
  unfolding api_chain_def [abs_def]
  by (rule replying_comp [OF rate_gate.replying_axioms replying_comp [OF rate_gate.replying_axioms
        replying_comp [OF authentication_gate.replying_axioms replying_comp [OF authorization_gate.replying_axioms
        replying_comp [OF rate_gate.replying_axioms execution_gate.replying_axioms]]]]])

lemma route_replier: "route env q = Some h \<Longrightarrow> replier h"
  by (auto simp: route_def handler_replier intro: replying.replies [OF api_chain_replying] api_route_replier
      split: if_splits)

text \<open>The global middleware after the request identifier.\<close>

definition inner_chain :: "http_env \<Rightarrow> http_request \<Rightarrow> middleware" where
  "inner_chain env q h =
     IdempotencyKey (he_num env) (he_key_valid env) q
       (Environment_mw (runtime_ActiveProfile (cfg_Runtime (he_cfg env)))
         (Recovery (he_num env)
           (HTTPMetrics (he_metrics env) (he_elapsed env) q
             (SecurityHeaders q
               (CORS_mw (he_num env) (http_CORS (cfg_HTTP (he_cfg env))) q
                 (MaxBody (http_MaxBodyBytes (cfg_HTTP (he_cfg env)))
                   (Timeout_mw (he_num env) (he_expired env)
                     (RequireJSON (he_num env) q h))))))))"

lemma inner_chain_relaying: "relaying (inner_chain env q)"
  unfolding inner_chain_def [abs_def]
  by (rule relaying_comp [OF key_gate.relaying_axioms relaying_comp [OF environment_gate.relaying_axioms
        relaying_comp [OF recovery_gate.relaying_axioms relaying_comp [OF metrics_gate.relaying_axioms
        relaying_comp [OF security_gate.relaying_axioms relaying_comp [OF cors_gate.relaying_axioms
        relaying_comp [OF body_gate.relaying_axioms
        relaying_comp [OF timeout_gate.relaying_axioms json_gate.relaying_axioms]]]]]]]])

text \<open>The identifier is chosen first and kept.\<close>

lemma global_chain_inner:
  obtains rid g0 where "rid = he_generated env \<or> Valid rid" and "global_chain env q h g = inner_chain env q h g0"
    and "c_request_id g0 = Some rid" and "c_header g0 ''X-Request-ID'' = (if rid = [] then None else Some rid)"
    and "c_db g0 = c_db g" and "c_body g0 = c_body g" and "c_out g0 = c_out g" and "c_written g0 = c_written g"
    and "ctx_principal (c_ctx g0) = ctx_principal (c_ctx g)"
proof -
  let ?given = "q_Header q ''X-Request-ID''"
  let ?rid = "if \<not> Valid ?given then he_generated env else ?given"
  let ?g0 = "(set_header ''X-Request-ID'' ?rid (g\<lparr>c_request_id := Some ?rid\<rparr>))
      \<lparr>c_ctx := requestid_WithContext ?rid (c_ctx g)\<rparr>"
  have "global_chain env q h g = inner_chain env q h ?g0"
    by (simp add: global_chain_def inner_chain_def RequestID_def Let_def)
  then show ?thesis
    by (rule that [of ?rid ?g0, rotated]) (simp_all add: set_header_def requestid_WithContext_def)
qed

lemma Valid_nonempty: "Valid rid \<Longrightarrow> rid \<noteq> []"
  by (auto simp: Valid_def)

lemma serve_answered:
  assumes "route env q = Some h" and "Valid (he_generated env)"
  shows "\<exists>g rid. serve env q body d = (g, False) \<and> Valid rid \<and> c_written g \<and> c_header g ''X-Request-ID'' = Some rid \<and>
    (c_out g = [] \<and> c_status g = 204 \<or> (\<exists>r. c_out g = [Envelope_out r] \<and> r_RequestID r = rid))"
proof -
  obtain rid g0 where g0: "rid = he_generated env \<or> Valid rid"
      "global_chain env q h (enter body d) = inner_chain env q h g0" "c_request_id g0 = Some rid"
      "c_header g0 ''X-Request-ID'' = (if rid = [] then None else Some rid)" "c_out g0 = c_out (enter body d)"
      "c_written g0 = c_written (enter body d)"
    by (rule global_chain_inner [where env = env and q = q and h = h and g = "enter body d"])
  have rid: "Valid rid" "rid \<noteq> []" "requestID g0 = rid" "\<not> c_written g0" "c_out g0 = []"
    using g0 assms(2) Valid_nonempty [of rid] by (auto simp: requestID_def enter_def)
  have "replier (inner_chain env q h)"
    by (rule replying.replies [OF relaying.axioms(1) [OF inner_chain_relaying] route_replier [OF assms(1)]])
  with rid(4) have "replies g0 (inner_chain env q h g0)" by (simp add: replier_def)
  moreover have "serve env q body d = inner_chain env q h g0" by (simp add: serve_def assms(1) g0(2))
  ultimately show ?thesis
    using rid g0(3,4) by (cases "inner_chain env q h g0") (auto simp: replies_def)
qed

text \<open>No panic of a handler leaves the server.\<close>

lemma global_chain_no_panic: "\<not> snd (global_chain env q h g)"
  by (simp add: global_chain_def RequestID_def IdempotencyKey_def Environment_mw_def Recovery_def Let_def
      split: prod.splits bool.splits)

lemma serve_no_panic: "\<not> snd (serve env q body d)"
  by (simp add: serve_def global_chain_no_panic case_prod_beta split: option.splits)

text \<open>Every routed request has been answered when the deadline is looked at, so the deadline never answers it.\<close>

lemma Timeout_mw_replier: "replier h \<Longrightarrow> \<not> c_written g \<Longrightarrow> Timeout_mw num expired h g = h g"
  by (auto simp: Timeout_mw_def replier_def replies_def split: prod.splits bool.splits)

lemma helpers_deadline [simp]:
  "configEntryResponse (env\<lparr>he_expired := b\<rparr>) = configEntryResponse env"
  "configEntryResponses (env\<lparr>he_expired := b\<rparr>) = configEntryResponses env"
  "respond (env\<lparr>he_expired := b\<rparr>) = respond env" "bound (env\<lparr>he_expired := b\<rparr>) = bound env"
  by (intro ext; simp add: configEntryResponse_def [abs_def] configEntryResponses_def respond_def bound_def case_prod_beta
      cong: sum.case_cong)+

lemma api_routes_deadline: "api_routes (env\<lparr>he_expired := b\<rparr>) = api_routes env"
  by (simp add: api_routes_def Version_def [abs_def] Me_def [abs_def] PutConfig_def GetConfig_def SubmitConfig_def
      ApproveConfig_def RejectConfig_def reviewConfig_def PublishConfig_def RollbackConfig_def ResolveConfig_def
      ListConfig_def)

lemma route_deadline: "route (env\<lparr>he_expired := b\<rparr>) q = route env q"
  by (simp add: route_def api_routes_deadline api_chain_def [abs_def] handler_Live_def [abs_def] handler_Ready_def [abs_def]
      case_prod_beta cong: if_cong)

lemma c_written_set_headers [simp]: "c_written (set_headers hs g) = c_written g"
  by (induction hs g rule: set_headers.induct) simp_all

lemma serve_deadline:
  assumes "route env q = Some h"
  shows "serve (env\<lparr>he_expired := b\<rparr>) q body d = serve env q body d"
proof -
  have "replier (RequireJSON (he_num env) q h)" by (rule json_gate.replies [OF route_replier [OF assms]])
  note timeout = Timeout_mw_replier [OF this]
  show ?thesis
    by (simp add: serve_def assms route_deadline global_chain_def RequestID_def IdempotencyKey_def Environment_mw_def
        Recovery_def HTTPMetrics_def SecurityHeaders_def CORS_mw_def MaxBody_def Let_def timeout enter_def del: set_headers.simps)
qed

section \<open>Every request is counted once\<close>

lemma replier_no_panic: "replier h \<Longrightarrow> \<not> c_written g \<Longrightarrow> \<not> snd (h g)"
  by (simp add: replier_def replies_def)

lemma respond_samples [simp]: "c_samples (fst (respond env body_of res g)) = c_samples g"
  by (cases res) (simp add: respond_def split: sum.split)

lemma handler_unsampled:
  "unsampled (handler_Live env)" "unsampled (handler_Ready env)" "unsampled (Me env)" "unsampled (Version env)"
  "unsampled (PutConfig env)" "unsampled (GetConfig env)" "unsampled (PublishConfig env)" "unsampled (SubmitConfig env)"
  "unsampled (reviewConfig env approve)" "unsampled (RollbackConfig env)" "unsampled (ResolveConfig env)"
  "unsampled (ListConfig env)"
  by (simp_all add: unsampled_def handler_Live_def handler_Ready_def Me_def Version_def PutConfig_def GetConfig_def
      PublishConfig_def SubmitConfig_def reviewConfig_def RollbackConfig_def ResolveConfig_def ListConfig_def bound_def
      split: sum.split prod.split)

lemma route_unsampled:
  assumes "route env q = Some h"
  shows "unsampled h"
proof -
  have "unsampling (api_chain env q)"
    unfolding api_chain_def [abs_def]
    by (rule unsampling_comp [OF rate_quiet.unsampling_axioms unsampling_comp [OF rate_quiet.unsampling_axioms
          unsampling_comp [OF authentication_quiet.unsampling_axioms unsampling_comp [OF authorization_quiet.unsampling_axioms
          unsampling_comp [OF rate_quiet.unsampling_axioms execution_quiet.unsampling_axioms]]]]])
  moreover have "unsampled h'" if "map_of (api_routes env) path = Some h'" for path h'
    using map_of_SomeD [OF that] by (auto simp: api_routes_def ApproveConfig_def RejectConfig_def handler_unsampled)
  ultimately show ?thesis
    using assms by (auto simp: route_def handler_unsampled intro: unsampling.keeps split: if_splits)
qed

text \<open>The part of the chain behind the metrics.\<close>

definition measured_chain :: "http_env \<Rightarrow> http_request \<Rightarrow> middleware" where
  "measured_chain env q h =
     SecurityHeaders q
       (CORS_mw (he_num env) (http_CORS (cfg_HTTP (he_cfg env))) q
         (MaxBody (http_MaxBodyBytes (cfg_HTTP (he_cfg env)))
           (Timeout_mw (he_num env) (he_expired env)
             (RequireJSON (he_num env) q h))))"

lemma measured_chain_contracts: "replying (measured_chain env q)" "unsampling (measured_chain env q)"
  unfolding measured_chain_def [abs_def]
  by (rule replying_comp [OF security_gate.replying_axioms replying_comp [OF cors_gate.replying_axioms
        replying_comp [OF body_gate.replying_axioms replying_comp [OF timeout_gate.replying_axioms json_gate.replying_axioms]]]])
    (rule unsampling_comp [OF security_quiet.unsampling_axioms unsampling_comp [OF cors_quiet.unsampling_axioms
        unsampling_comp [OF body_quiet.unsampling_axioms unsampling_comp [OF timeout_quiet.unsampling_axioms
        json_quiet.unsampling_axioms]]]])

lemma recovered_samples:
  assumes "\<not> snd (h g)" and "unsampled h"
  shows "c_samples (fst (Recovery num (HTTPMetrics m elapsed q h) g)) = c_samples g @
    http_samples m (q_Method q) (q_FullPath q) (c_status (fst (Recovery num (HTTPMetrics m elapsed q h) g))) elapsed"
proof -
  obtain g' where "h g = (g', False)" using assms(1) by (cases "h g") auto
  then show ?thesis using unsampled_pair [OF assms(2)] by (simp add: Recovery_def HTTPMetrics_def)
qed

lemma unmatched_no_panic: "\<not> snd (measured_chain env q (\<lambda>g. (g, False)) g)"
  by (simp add: measured_chain_def SecurityHeaders_def CORS_mw_def MaxBody_def Timeout_mw_def RequireJSON_def Let_def
      del: set_headers.simps split: prod.split bool.split)

text \<open>A key that is refused before the metrics is the only reason for which a request is not counted.\<close>

definition key_refused :: "http_env \<Rightarrow> http_request \<Rightarrow> bool" where
  "key_refused env q \<longleftrightarrow> q_Header q ''Idempotency-Key'' \<noteq> [] \<and> \<not> he_key_valid env (q_Header q ''Idempotency-Key'')"

lemma global_chain_measured:
  assumes "\<not> key_refused env q"
  obtains g0 where "\<And>h. global_chain env q h g =
      Recovery (he_num env) (HTTPMetrics (he_metrics env) (he_elapsed env) q (measured_chain env q h)) g0"
    and "c_written g0 = c_written g" and "c_samples g0 = c_samples g"
proof -
  let ?rid = "if \<not> Valid (q_Header q ''X-Request-ID'') then he_generated env else q_Header q ''X-Request-ID''"
  let ?g1 = "(set_header ''X-Request-ID'' ?rid (g\<lparr>c_request_id := Some ?rid\<rparr>))\<lparr>c_ctx := requestid_WithContext ?rid (c_ctx g)\<rparr>"
  let ?key = "q_Header q ''Idempotency-Key''"
  let ?g2 = "if ?key = [] then ?g1
      else (set_header ''Idempotency-Key'' ?key ?g1)\<lparr>c_ctx := (c_ctx ?g1)\<lparr>ctx_idempotency_key := Some ?key\<rparr>\<rparr>"
  let ?profile = "runtime_ActiveProfile (cfg_Runtime (he_cfg env))"
  let ?g0 = "?g2\<lparr>c_environment := Some ?profile, c_ctx := environment_WithContext ?profile (c_ctx ?g2)\<rparr>"
  have "global_chain env q h g =
      Recovery (he_num env) (HTTPMetrics (he_metrics env) (he_elapsed env) q (measured_chain env q h)) ?g0" for h
    using assms by (cases "?key = []") (simp_all add: global_chain_def measured_chain_def RequestID_def IdempotencyKey_def
        Environment_mw_def key_refused_def Let_def)
  then show ?thesis by (rule that) simp_all
qed

lemma global_chain_samples:
  assumes "replier h \<and> \<not> c_written g \<or> h = (\<lambda>g. (g, False))" and "unsampled h"
  shows "c_samples (fst (global_chain env q h g)) = c_samples g @
    (if key_refused env q then []
     else http_samples (he_metrics env) (q_Method q) (q_FullPath q) (c_status (fst (global_chain env q h g))) (he_elapsed env))"
proof (cases "key_refused env q")
  case True
  then show ?thesis by (simp add: global_chain_def RequestID_def IdempotencyKey_def key_refused_def Let_def)
next
  case False
  obtain g0 where g0: "\<And>h. global_chain env q h g =
      Recovery (he_num env) (HTTPMetrics (he_metrics env) (he_elapsed env) q (measured_chain env q h)) g0"
    "c_written g0 = c_written g" "c_samples g0 = c_samples g"
    using global_chain_measured [OF False] by blast
  have "\<not> snd (measured_chain env q h g0)"
    using assms(1) g0(2) unmatched_no_panic replier_no_panic [OF replying.replies [OF measured_chain_contracts(1)], of h g0] by auto
  moreover have "unsampled (measured_chain env q h)" by (rule unsampling.keeps [OF measured_chain_contracts(2) assms(2)])
  ultimately show ?thesis using False by (simp add: g0(1,3) recovered_samples)
qed

lemma serve_samples:
  "c_samples (fst (serve env q body d)) =
    (if key_refused env q then []
     else http_samples (he_metrics env) (q_Method q) (q_FullPath q) (c_status (fst (serve env q body d))) (he_elapsed env))"
proof (cases "route env q")
  case None
  let ?g = "fst (global_chain env q (\<lambda>g. (g, False)) ((enter body d)\<lparr>c_status := 404\<rparr>))"
  have "c_status (fst (serve env q body d)) = c_status ?g" "c_samples (fst (serve env q body d)) = c_samples ?g"
    by (simp_all add: serve_def None case_prod_beta)
  moreover have "unsampled (\<lambda>g. (g, False))" by (simp add: unsampled_def)
  ultimately show ?thesis
    using global_chain_samples [of "\<lambda>g. (g, False)" "(enter body d)\<lparr>c_status := 404\<rparr>" env q] by (simp add: enter_def)
next
  case (Some h)
  then show ?thesis
    using global_chain_samples [of h "enter body d" env q] route_replier [OF Some] route_unsampled [OF Some]
    by (simp add: serve_def enter_def)
qed

section \<open>What reaches the service\<close>

text \<open>The operation that a request asks for, with the limit of the body reader at the handler.\<close>

definition decoded :: "(int option \<Rightarrow> bytes \<Rightarrow> 'q result) \<Rightarrow> ('q \<Rightarrow> op) \<Rightarrow> int option \<Rightarrow> bytes \<Rightarrow> op option" where
  "decoded bind k limit body = (case bind limit body of Inl e \<Rightarrow> None | Inr request \<Rightarrow> Some (k request))"

definition http_op :: "http_env \<Rightarrow> string \<Rightarrow> int option \<Rightarrow> bytes \<Rightarrow> op option" where
  "http_op env path =
     (if path = ''/api/v1/config/entries/put-draft'' then
        decoded (bind_Put (he_bind env)) (\<lambda>r. OpPutDraft (put_entry r) (pc_ExpectedVersion r))
      else if path = ''/api/v1/config/entries/submit'' then
        decoded (bind_ID (he_bind env)) (\<lambda>r. OpSubmit (ci_ID r) (ci_ExpectedVersion r))
      else if path = ''/api/v1/config/entries/approve'' then
        decoded (bind_Review (he_bind env)) (\<lambda>r. OpApprove (rv_ID r) (rv_ExpectedVersion r) (rv_Comment r))
      else if path = ''/api/v1/config/entries/reject'' then
        decoded (bind_Review (he_bind env)) (\<lambda>r. OpReject (rv_ID r) (rv_ExpectedVersion r) (rv_Comment r))
      else if path = ''/api/v1/config/entries/publish'' then
        decoded (bind_ID (he_bind env)) (\<lambda>r. OpPublish (ci_ID r) (ci_ExpectedVersion r))
      else if path = ''/api/v1/config/entries/rollback'' then
        decoded (bind_Rollback (he_bind env)) (\<lambda>r. OpRollback (ro_ID r) (ro_TargetRevision r) (ro_ExpectedVersion r))
      else (\<lambda>limit body. None))"

lemma c_db_respond [simp]: "c_db (fst (respond env body_of res g)) = snd res"
  by (cases res) (simp add: respond_def split: sum.splits)

lemma c_db_bound:
  "c_db (fst (bound env bind k g)) =
     (case bind (c_limit g) (c_body g) of Inl e \<Rightarrow> c_db g | Inr request \<Rightarrow> c_db (fst (k request g)))"
  by (simp add: bound_def split: sum.splits)

lemma api_handler_db:
  assumes "map_of (api_routes env) path = Some h"
  shows "c_db (fst (h g)) =
    (case http_op env path (c_limit g) (c_body g) of
       None \<Rightarrow> c_db g | Some qo \<Rightarrow> snd (exec (he_service env) (c_ctx g) qo (c_db g)))"
  using map_of_SomeD [OF assms]
  unfolding api_routes_def
  by (elim set_ConsD [elim_format] disjE)
    (auto simp: http_op_def decoded_def c_db_bound Version_def Me_def PutConfig_def GetConfig_def SubmitConfig_def
      ApproveConfig_def RejectConfig_def reviewConfig_def PublishConfig_def RollbackConfig_def ResolveConfig_def
      ListConfig_def split: sum.splits)

text \<open>Authorization lets a request pass when it is off, when the route needs no permission, or when it was granted.\<close>

lemma Authorization_change:
  assumes "c_db (fst (Authorization_mw num enabled enforce q h g)) \<noteq> c_db g"
  shows "Authorization_mw num enabled enforce q h g = h g \<and>
    (\<forall>r. enabled \<longrightarrow> configHTTPRequirement (q_FullPath q) = Some r \<longrightarrow> enforce (c_ctx g) r = None)"
  using assms by (auto simp: Authorization_mw_def split: option.splits if_splits)

text \<open>The handler of an API route, behind the user limit and the idempotent execution.\<close>

definition behind_authorization :: "http_env \<Rightarrow> http_request \<Rightarrow> middleware" where
  "behind_authorization env q h =
     RateLimit_mw (he_num env) (he_limiter env) (rl_User (cfg_RateLimit (he_cfg env))) ''user'' subject_key
       (IdempotencyExecution (he_num env) (he_manager env) (idem_HTTPPaths (cfg_Idempotency (he_cfg env))) q h)"

lemma behind_authorization_relaying: "relaying (behind_authorization env q)"
  unfolding behind_authorization_def [abs_def]
  by (rule relaying_comp [OF rate_gate.relaying_axioms execution_gate.relaying_axioms])

lemma api_chain_change:
  assumes change: "c_db (fst (api_chain env q h g)) \<noteq> c_db g"
  obtains g1 g2 :: gin where "c_db (fst (api_chain env q h g)) = c_db (fst (h g2))" and "enters g g2"
    and "ctx_principal (c_ctx g2) = ctx_principal (c_ctx g1)"
    and "\<And>r. authz_Enabled (cfg_Authorization (he_cfg env)) \<Longrightarrow> configHTTPRequirement (q_FullPath q) = Some r \<Longrightarrow>
      he_enforce env (c_ctx g1) r = None"
    and "ctx_principal (c_ctx g1) = ctx_principal (c_ctx g) \<or>
      (\<exists>p. ctx_principal (c_ctx g1) = Some p \<and>
        credential (he_verify env) (cfg_Auth (he_cfg env)) (q_Header q ''Authorization'') p)"
proof -
  let ?limits = "\<lambda>h. RateLimit_mw (he_num env) (he_limiter env) (rl_IP (cfg_RateLimit (he_cfg env))) ''ip'' (\<lambda>g. q_ClientIP q)
       (RateLimit_mw (he_num env) (he_limiter env) (rl_API (cfg_RateLimit (he_cfg env))) ''api'' (\<lambda>g. q_FullPath q) h)"
  let ?authz = "Authorization_mw (he_num env) (authz_Enabled (cfg_Authorization (he_cfg env))) (he_enforce env) q
      (behind_authorization env q h)"
  let ?authn = "Authentication (he_num env) (he_verify env) (cfg_Auth (he_cfg env)) q ?authz"
  have chain: "api_chain env q h g = ?limits ?authn g"
    by (simp add: api_chain_def behind_authorization_def)
  have "relaying ?limits" by (rule relaying_comp [OF rate_gate.relaying_axioms rate_gate.relaying_axioms])
  from relaying.forwards [OF this, of ?authn g] change [unfolded chain] obtain ga where
    ga: "enters g ga" "ctx_principal (c_ctx ga) = ctx_principal (c_ctx g)" "c_db (fst (api_chain env q h g)) = c_db (fst (?authn ga))"
    unfolding chain by blast
  with change have changed: "c_db (fst (?authn ga)) \<noteq> c_db ga" by (simp add: enters_def)
  have "\<exists>g1. enters ga g1 \<and> c_db (fst (?authn ga)) = c_db (fst (?authz g1)) \<and>
    (ctx_principal (c_ctx g1) = ctx_principal (c_ctx g) \<or>
      (\<exists>p. ctx_principal (c_ctx g1) = Some p \<and>
        credential (he_verify env) (cfg_Auth (he_cfg env)) (q_Header q ''Authorization'') p))"
    by (rule Authentication_cases [where num = "he_num env" and verify = "he_verify env" and cfg = "cfg_Auth (he_cfg env)"
        and q = q and h = ?authz and g = ga]) (use changed ga(2) enters_refl in \<open>auto\<close>)
  then obtain g1 where g1: "enters ga g1" "c_db (fst (?authn ga)) = c_db (fst (?authz g1))"
    "ctx_principal (c_ctx g1) = ctx_principal (c_ctx g) \<or>
      (\<exists>p. ctx_principal (c_ctx g1) = Some p \<and>
        credential (he_verify env) (cfg_Auth (he_cfg env)) (q_Header q ''Authorization'') p)" by blast
  with changed have changed1: "c_db (fst (?authz g1)) \<noteq> c_db g1" by (simp add: enters_def)
  note authz = Authorization_change [OF changed1]
  from relaying.forwards [OF behind_authorization_relaying, of env q h g1] changed1 authz obtain g2 where
    g2: "enters g1 g2" "ctx_principal (c_ctx g2) = ctx_principal (c_ctx g1)" "c_db (fst (?authz g1)) = c_db (fst (h g2))"
    by metis
  show ?thesis
  proof (rule that [of g2 g1])
    show "c_db (fst (api_chain env q h g)) = c_db (fst (h g2))" using ga(3) g1(2) g2(3) by simp
    show "enters g g2" using ga(1) g1(1) g2(1) by (blast intro: enters_trans)
  qed (use authz g1(3) g2(2) in auto)
qed

lemma global_chain_change:
  assumes "c_db (fst (global_chain env q h g)) \<noteq> c_db g"
  obtains g1 :: gin where "c_db (fst (global_chain env q h g)) = c_db (fst (h g1))" and "c_db g1 = c_db g"
    and "c_body g1 = c_body g" and "ctx_principal (c_ctx g1) = ctx_principal (c_ctx g)"
proof -
  obtain rid g0 where g0: "global_chain env q h g = inner_chain env q h g0" "c_db g0 = c_db g" "c_body g0 = c_body g"
      "ctx_principal (c_ctx g0) = ctx_principal (c_ctx g)"
    by (rule global_chain_inner [where env = env and q = q and h = h and g = g])
  with assms relaying.forwards [OF inner_chain_relaying, of env q h g0] obtain g1 where
    "enters g0 g1" "ctx_principal (c_ctx g1) = ctx_principal (c_ctx g0)" "c_db (fst (inner_chain env q h g0)) = c_db (fst (h g1))"
    by auto
  with g0 show ?thesis by (intro that [of g1]) (simp_all add: enters_def)
qed

lemma http_op_api:
  assumes "http_op env path limit body = Some qo"
  shows "op_ok qo" and "\<exists>r. configHTTPRequirement path = Some r"
  using assms by (auto simp: http_op_def decoded_def put_entry_def configHTTPRequirement_def split: if_splits sum.splits)

lemma serve_change:
  assumes "c_db (fst (serve env q body d)) \<noteq> d"
  shows "\<exists>p c limit qo. credential (he_verify env) (cfg_Auth (he_cfg env)) (q_Header q ''Authorization'') p \<and>
    ctx_principal c = Some p \<and> http_op env (q_FullPath q) limit body = Some qo \<and>
    c_db (fst (serve env q body d)) = snd (exec (he_service env) c qo d) \<and>
    (authz_Enabled (cfg_Authorization (he_cfg env)) \<longrightarrow>
      (\<exists>r c1. configHTTPRequirement (q_FullPath q) = Some r \<and> ctx_principal c1 = Some p \<and> he_enforce env c1 r = None))"
proof (cases "route env q")
  case None
  then have "c_db (fst (serve env q body d)) =
      c_db (fst (global_chain env q (\<lambda>g. (g, False)) ((enter body d)\<lparr>c_status := 404\<rparr>)))"
    by (simp add: serve_def case_prod_beta)
  moreover from this assms have "c_db (fst (global_chain env q (\<lambda>g. (g, False)) ((enter body d)\<lparr>c_status := 404\<rparr>))) \<noteq>
      c_db ((enter body d)\<lparr>c_status := 404\<rparr>)" by (simp add: enter_def)
  ultimately show ?thesis using assms by (elim global_chain_change) (simp add: enter_def)
next
  case (Some h0)
  then have s: "serve env q body d = global_chain env q h0 (enter body d)" by (simp add: serve_def)
  have "c_db (fst (global_chain env q h0 (enter body d))) \<noteq> c_db (enter body d)"
    using assms s by (simp add: enter_def)
  then obtain g1 :: gin where g1: "c_db (fst (serve env q body d)) = c_db (fst (h0 g1))" "c_db g1 = d"
      "c_body g1 = body" "ctx_principal (c_ctx g1) = None"
    unfolding s by (rule global_chain_change) (simp add: enter_def background_def)
  with assms have changed: "c_db (fst (h0 g1)) \<noteq> c_db g1" by simp
  then have "h0 \<noteq> handler_Live env" "h0 \<noteq> handler_Ready env"
    by (auto simp: handler_Live_def handler_Ready_def split: prod.splits if_splits)
  with Some obtain h where h: "map_of (api_routes env) (q_FullPath q) = Some h" "h0 = api_chain env q h"
    by (auto simp: route_def split: if_splits)
  from changed [unfolded h(2)] obtain g2 ga :: gin where g2: "c_db (fst (h0 g1)) = c_db (fst (h g2))" "enters g1 g2"
      "ctx_principal (c_ctx g2) = ctx_principal (c_ctx ga)"
      "\<And>r. authz_Enabled (cfg_Authorization (he_cfg env)) \<Longrightarrow> configHTTPRequirement (q_FullPath q) = Some r \<Longrightarrow>
        he_enforce env (c_ctx ga) r = None"
      "ctx_principal (c_ctx ga) = None \<or> (\<exists>p. ctx_principal (c_ctx ga) = Some p \<and>
        credential (he_verify env) (cfg_Auth (he_cfg env)) (q_Header q ''Authorization'') p)"
    unfolding h(2)
  proof (rule api_chain_change, goal_cases)
    case (1 ga gb)
    show ?case by (rule 1(1) [of gb ga]) (use 1 g1(4) in auto)
  qed
  from g2(1,2) changed obtain qo where qo: "http_op env (q_FullPath q) (c_limit g2) body = Some qo"
      "c_db (fst (h0 g1)) = snd (exec (he_service env) (c_ctx g2) qo d)"
    using api_handler_db [OF h(1), of g2] g1(2,3) by (auto simp: enters_def split: option.splits)
  with changed g1(2) exec_no_principal [of "c_ctx g2" "he_service env" qo d] have "ctx_principal (c_ctx g2) \<noteq> None"
    by auto
  with g2(3,5) obtain p where p: "ctx_principal (c_ctx ga) = Some p" "ctx_principal (c_ctx g2) = Some p"
      "credential (he_verify env) (cfg_Auth (he_cfg env)) (q_Header q ''Authorization'') p" by auto
  have "\<exists>r c1. configHTTPRequirement (q_FullPath q) = Some r \<and> ctx_principal c1 = Some p \<and> he_enforce env c1 r = None"
    if "authz_Enabled (cfg_Authorization (he_cfg env))"
    using http_op_api(2) [OF qo(1)] g2(4) [OF that] p(1) by blast
  with p qo g1(1) show ?thesis by (intro exI [of _ p] exI [of _ "c_ctx g2"] exI [of _ "c_limit g2"] exI [of _ qo]) simp
qed

text \<open>The databases that HTTP requests can reach from the empty one.\<close>

inductive http_reachable :: "postgres \<Rightarrow> db \<Rightarrow> bool" for pg where
  http_start: "http_reachable pg empty_db"
| http_step: "http_reachable pg d \<Longrightarrow> s_repository (he_service env) = pg\<lparr>pg_fault := f\<rparr> \<Longrightarrow>
    http_reachable pg (c_db (fst (serve env q body d)))"

lemma http_reachable_reachable: "http_reachable pg d \<Longrightarrow> reachable pg d"
proof (induction rule: http_reachable.induct)
  case http_start
  show ?case by (rule reachable.start)
next
  case (http_step d env f q body)
  show ?case
  proof (cases "c_db (fst (serve env q body d)) = d")
    case True
    with http_step show ?thesis by simp
  next
    case False
    from serve_change [OF False] obtain c limit qo where
      "http_op env (q_FullPath q) limit body = Some qo" "c_db (fst (serve env q body d)) = snd (exec (he_service env) c qo d)"
      by blast
    with http_step http_op_api(1) show ?thesis
      by (metis reachable.step prod.collapse)
  qed
qed

end
