(* ===== verification/Grpc_Transport.thy ===== *)
theory Grpc_Transport
  imports Access_Control Auth Health_Limits
begin

text \<open>
  The gRPC transport (\<^verbatim>\<open>transport/grpc/server.go\<close>): the handlers of the configuration service, the
  error mapping, authentication and the chain of unary interceptors. A handler maps a context, a
  request and the database to its outcome, the response header and the database; an outcome is a
  result or a panic. The interceptors of the platform module (authorization, idempotency) and the
  conversions of \<^verbatim>\<open>timestamppb\<close> are parameters; logging and metrics are left out.
\<close>

section \<open>Status codes\<close>

datatype grpc_code =
    GInternal | GInvalidArgument | GUnauthenticated | GPermissionDenied | GNotFound | GAborted | GUnavailable

datatype grpc_status = GStatus (gs_code: grpc_code) (gs_message: string)

definition app_code :: "errcode \<Rightarrow> grpc_code" where
  "app_code code =
     (case code of
        CodeInvalidArgument \<Rightarrow> GInvalidArgument
      | CodeUnauthorized \<Rightarrow> GUnauthenticated
      | CodeForbidden \<Rightarrow> GPermissionDenied
      | CodeNotFound \<Rightarrow> GNotFound
      | CodeConflict \<Rightarrow> GAborted
      | CodeDependencyUnavailable \<Rightarrow> GUnavailable
      | _ \<Rightarrow> GInternal)"

definition grpcError :: "gerror \<Rightarrow> grpc_status" where
  "grpcError err =
     (case errors_As_app err of
        None \<Rightarrow> GStatus GInternal ''internal server error''
      | Some appErr \<Rightarrow> GStatus (app_code (Code appErr)) (Message appErr))"

section \<open>Messages\<close>

record pb_time =
  ts_New :: "time \<Rightarrow> timestamp"
  ts_IsValid :: "timestamp \<Rightarrow> bool"
  ts_AsTime :: "timestamp \<Rightarrow> time"

definition fromProtoConfig :: "pb_time \<Rightarrow> proto_entry \<Rightarrow> entry" where
  "fromProtoConfig pb v =
     \<lparr>e_ID = px_Id v, e_Environment = px_Environment v, e_TenantID = px_TenantId v,
      e_ApplicationID = px_ApplicationId v, e_Service = px_Service v, e_Key = px_Key v, e_Value = px_Value v,
      e_SecretRef = px_SecretRef v, e_Status = px_Status v, e_Revision = px_Revision v,
      e_RolloutPercentage = px_RolloutPercentage v, e_PublishedRevision = px_PublishedRevision v,
      e_ReviewComment = px_ReviewComment v, e_ReviewedBy = px_ReviewedBy v,
      e_ReviewedAt = (case px_ReviewedAt v of
                        None \<Rightarrow> None | Some t \<Rightarrow> if ts_IsValid pb t then Some (ts_AsTime pb t) else None),
      e_Version = px_Version v, e_CreatedAt = zero_time, e_UpdatedAt = zero_time, e_CreatedBy = [], e_UpdatedBy = []\<rparr>"

definition toProtoConfig :: "pb_time \<Rightarrow> entry \<Rightarrow> proto_entry" where
  "toProtoConfig pb v =
     \<lparr>px_Id = e_ID v, px_Environment = e_Environment v, px_TenantId = e_TenantID v,
      px_ApplicationId = e_ApplicationID v, px_Service = e_Service v, px_Key = e_Key v, px_Value = e_Value v,
      px_SecretRef = e_SecretRef v, px_Status = e_Status v, px_Revision = e_Revision v,
      px_RolloutPercentage = e_RolloutPercentage v, px_PublishedRevision = e_PublishedRevision v,
      px_ReviewComment = e_ReviewComment v, px_ReviewedBy = e_ReviewedBy v,
      px_ReviewedAt = map_option (ts_New pb) (e_ReviewedAt v), px_Version = e_Version v,
      px_CreatedAt = Some (ts_New pb (e_CreatedAt v)), px_UpdatedAt = Some (ts_New pb (e_UpdatedAt v)),
      px_CreatedBy = e_CreatedBy v, px_UpdatedBy = e_UpdatedBy v\<rparr>"

text \<open>The requests and responses of \<^verbatim>\<open>ConfigService\<close>, as far as the handlers read and write them.\<close>

datatype rpc_request =
    GetRequest string
  | PutDraftRequest "proto_entry option" int
  | PublishRequest string int
  | SubmitForApprovalRequest string int
  | ApproveRequest string int string
  | RejectRequest string int string
  | RollbackRequest string int int
  | ResolveRequest string string string string string "string list"
  | ListRequest string string string string "(int \<times> int) option"

datatype rpc_response =
    EntryResponse proto_entry
  | ResolveResponse "proto_entry list" string
  | ListResponse "proto_entry list" int int int

section \<open>Handlers\<close>

datatype 'a outcome = Done 'a | Panic string

type_synonym 'r reply = "(grpc_status + 'r) outcome \<times> (string \<times> string) list \<times> db"
type_synonym ('q, 'r) unary = "ctx \<Rightarrow> 'q \<Rightarrow> db \<Rightarrow> 'r reply"

definition entry_reply :: "pb_time \<Rightarrow> entry result \<times> db \<Rightarrow> rpc_response reply" where
  "entry_reply pb = (\<lambda>(r, d). (Done (map_sum grpcError (\<lambda>v. EntryResponse (toProtoConfig pb v)) r), [], d))"

definition grpc_Get :: "pb_time \<Rightarrow> service \<Rightarrow> ctx \<Rightarrow> string \<Rightarrow> db \<Rightarrow> rpc_response reply" where
  "grpc_Get pb s c eid d = entry_reply pb (Get s c eid d, d)"

definition grpc_PutDraft ::
    "pb_time \<Rightarrow> service \<Rightarrow> ctx \<Rightarrow> proto_entry option \<Rightarrow> int \<Rightarrow> db \<Rightarrow> rpc_response reply" where
  "grpc_PutDraft pb s c v expectedVersion d =
     (case v of
        None \<Rightarrow> (Done (Inl (GStatus GInvalidArgument ''entry is required'')), [], d)
      | Some px \<Rightarrow> entry_reply pb (PutDraft s c (fromProtoConfig pb px) expectedVersion d))"

definition grpc_Resolve ::
    "pb_time \<Rightarrow> service \<Rightarrow> ctx \<Rightarrow> string \<Rightarrow> string \<Rightarrow> string \<Rightarrow> string \<Rightarrow> string \<Rightarrow> string list \<Rightarrow> db
      \<Rightarrow> rpc_response reply" where
  "grpc_Resolve pb s c environment tenantID applicationID service subject keys d =
     (Done (map_sum grpcError (\<lambda>(values, etag). ResolveResponse (map (toProtoConfig pb) values) etag)
        (Resolve s c environment tenantID applicationID service subject keys d)), [], d)"

definition grpc_List ::
    "pb_time \<Rightarrow> service \<Rightarrow> ctx \<Rightarrow> string \<Rightarrow> string \<Rightarrow> string \<Rightarrow> string \<Rightarrow> (int \<times> int) option \<Rightarrow> db
      \<Rightarrow> rpc_response reply" where
  "grpc_List pb s c environment tenantID applicationID service page d =
     (case (case page of None \<Rightarrow> (0, 0) | Some (n, m) \<Rightarrow> (n, m)) of (n, m) \<Rightarrow>
        (Done (map_sum grpcError
           (\<lambda>p. ListResponse (map (toProtoConfig pb) (p_Entries p)) (p_Total p mod 2 ^ 64) (p_Page p mod 2 ^ 32)
                  (p_PageSize p mod 2 ^ 32))
           (List s c environment tenantID applicationID service n m d)), [], d))"

fun configServer :: "pb_time \<Rightarrow> service \<Rightarrow> (rpc_request, rpc_response) unary" where
  "configServer pb s c (GetRequest eid) d = grpc_Get pb s c eid d"
| "configServer pb s c (PutDraftRequest v n) d = grpc_PutDraft pb s c v n d"
| "configServer pb s c (PublishRequest eid n) d = entry_reply pb (Publish s c eid n d)"
| "configServer pb s c (SubmitForApprovalRequest eid n) d = entry_reply pb (SubmitForApproval s c eid n d)"
| "configServer pb s c (ApproveRequest eid n comment) d = entry_reply pb (Approve s c eid n comment d)"
| "configServer pb s c (RejectRequest eid n reason) d = entry_reply pb (Reject s c eid n reason d)"
| "configServer pb s c (RollbackRequest eid t n) d = entry_reply pb (Rollback s c eid t n d)"
| "configServer pb s c (ResolveRequest e t a sv subject keys) d = grpc_Resolve pb s c e t a sv subject keys d"
| "configServer pb s c (ListRequest e t a sv page) d = grpc_List pb s c e t a sv page d"

definition health_Check :: "health_service \<Rightarrow> bool \<Rightarrow> string" where
  "health_Check hs redis_first = (if snd (Ready hs redis_first) then ''SERVING'' else ''NOT_SERVING'')"

definition health_List :: "string \<rightharpoonup> string" where
  "health_List = [[] \<mapsto> ''SERVING'']"

section \<open>Authorization requirements\<close>

datatype rpc =
    MGet | MPutDraft | MSubmitForApproval | MApprove | MReject | MPublish | MRollback | MResolve | MList

text \<open>\<open>names\<close> gives the full method names of the generated code; every requirement has the principal's scope.\<close>

definition configGRPCRequirement :: "(rpc \<Rightarrow> string) \<Rightarrow> bool \<Rightarrow> string \<Rightarrow> requirement option" where
  "configGRPCRequirement names enabled fullMethod =
     (if \<not> enabled then None
      else map_of
        (map (\<lambda>(m, action). (names m, \<lparr>rq_Resource = ''config.entry'', rq_Action = action\<rparr>))
          [(MGet, ''read''), (MPutDraft, ''update''), (MSubmitForApproval, ''submit''), (MApprove, ''approve''),
           (MReject, ''reject''), (MPublish, ''publish''), (MRollback, ''rollback''), (MResolve, ''read''),
           (MList, ''list'')]) fullMethod)"

section \<open>Authentication\<close>

type_synonym metadata = "string \<Rightarrow> string list"

definition authenticateGRPC ::
    "(string \<Rightarrow> principal result) \<Rightarrow> Auth \<Rightarrow> metadata \<Rightarrow> string \<Rightarrow> ctx \<Rightarrow> grpc_status + ctx" where
  "authenticateGRPC verify cfg md fullMethod c =
     (let values = md ''authorization'' in
      if psk_Enabled (auth_PSK cfg) \<and> MatchesAny fullMethod (psk_GRPCMethods (auth_PSK cfg)) then
        (if values = [] \<or> \<not> VerifyPSK (hd values) (psk_Key (auth_PSK cfg))
         then Inl (GStatus GUnauthenticated ''missing or invalid PSK'')
         else Inr (c\<lparr>ctx_principal := Some psk_principal\<rparr>))
      else if MatchesAny fullMethod (auth_SkipGRPCMethods cfg) then Inr c
      else if values = [] then Inl (GStatus GUnauthenticated ''missing bearer token'')
      else (case Cut (hd values) (CHR '' '') of (scheme, raw, ok) \<Rightarrow>
        if \<not> ok \<or> \<not> EqualFold scheme ''Bearer'' then Inl (GStatus GUnauthenticated ''invalid bearer token'')
        else (case verify raw of
                Inl err \<Rightarrow> Inl (GStatus GUnauthenticated ''invalid or expired token'')
              | Inr caller \<Rightarrow> Inr (c\<lparr>ctx_principal := Some caller\<rparr>))))"

section \<open>Interceptors\<close>

definition environmentInterceptor :: "string \<Rightarrow> ('q, 'r) unary \<Rightarrow> ('q, 'r) unary" where
  "environmentInterceptor profile handler c q d = handler (environment_WithContext profile c) q d"

definition requestIDInterceptor :: "metadata \<Rightarrow> string \<Rightarrow> ('q, 'r) unary \<Rightarrow> ('q, 'r) unary" where
  "requestIDInterceptor md generated handler c q d =
     (let values = md ''x-request-id'';
          given = (if values \<noteq> [] \<and> Valid (hd values) then hd values else []);
          rid = (if given = [] then generated else given)
      in case handler (requestid_WithContext rid c) q d of
           (r, header, d') \<Rightarrow> (r, (''x-request-id'', rid) # header, d'))"

definition idempotencyInterceptor :: "(string \<Rightarrow> bool) \<Rightarrow> metadata \<Rightarrow> ('q, 'r) unary \<Rightarrow> ('q, 'r) unary" where
  "idempotencyInterceptor key_valid md handler c q d =
     (case md ''idempotency-key'' of
        [] \<Rightarrow> handler c q d
      | key # _ \<Rightarrow>
          if \<not> key_valid key then (Done (Inl (GStatus GInvalidArgument ''invalid idempotency-key'')), [], d)
          else handler (c\<lparr>ctx_idempotency_key := Some key\<rparr>) q d)"

definition recoveryInterceptor :: "('q, 'r) unary \<Rightarrow> ('q, 'r) unary" where
  "recoveryInterceptor handler c q d =
     (case handler c q d of
        (Panic m, header, d') \<Rightarrow> (Done (Inl (GStatus GInternal ''internal server error'')), header, d')
      | (Done r, header, d') \<Rightarrow> (Done r, header, d'))"

definition authInterceptor ::
    "(string \<Rightarrow> principal result) \<Rightarrow> Auth \<Rightarrow> metadata \<Rightarrow> string \<Rightarrow> ('q, 'r) unary \<Rightarrow> ('q, 'r) unary" where
  "authInterceptor verify cfg md fullMethod handler c q d =
     (case authenticateGRPC verify cfg md fullMethod c of
        Inl st \<Rightarrow> (Done (Inl st), [], d)
      | Inr c' \<Rightarrow> handler c' q d)"

text \<open>
  The whole chain, in the order in which \<^verbatim>\<open>NewServer\<close> installs it. \<open>authz\<close> and \<open>idem\<close> are the
  interceptors of the platform module; the one for metrics returns what the handler returns.
\<close>

record ('q, 'r) grpc_env =
  ge_profile :: string
  ge_generated :: string
  ge_key_valid :: "string \<Rightarrow> bool"
  ge_verify :: "string \<Rightarrow> principal result"
  ge_auth :: Auth
  ge_authz :: "string \<Rightarrow> ('q, 'r) unary \<Rightarrow> ('q, 'r) unary"
  ge_idem :: "string \<Rightarrow> ('q, 'r) unary \<Rightarrow> ('q, 'r) unary"

definition unary_chain :: "('q, 'r) grpc_env \<Rightarrow> metadata \<Rightarrow> string \<Rightarrow> ('q, 'r) unary \<Rightarrow> ('q, 'r) unary" where
  "unary_chain g md fullMethod handler =
     environmentInterceptor (ge_profile g)
       (requestIDInterceptor md (ge_generated g)
         (idempotencyInterceptor (ge_key_valid g) md
           (recoveryInterceptor
             (authInterceptor (ge_verify g) (ge_auth g) md fullMethod
               (ge_authz g fullMethod (ge_idem g fullMethod handler))))))"

section \<open>The contract of an interceptor\<close>

abbreviation final_db :: "'r reply \<Rightarrow> db" where
  "final_db rep \<equiv> snd (snd rep)"

text \<open>
  An interceptor that lets a request pass answers it without touching the database or hands it to
  the next handler with the principal that it got.
\<close>

locale pass_through =
  fixes wrap :: "('q, 'r) unary \<Rightarrow> ('q, 'r) unary"
  assumes forwards: "final_db (wrap h c q d) = d \<or>
    (\<exists>c'. ctx_principal c' = ctx_principal c \<and> final_db (wrap h c q d) = final_db (h c' q d))"
begin

lemma change:
  assumes "final_db (wrap h c q d) \<noteq> d"
  obtains c' where "ctx_principal c' = ctx_principal c" and "final_db (wrap h c q d) = final_db (h c' q d)"
  using forwards [of h c q d] assms by blast

end

interpretation env: pass_through "environmentInterceptor profile" for profile
proof (unfold_locales, goal_cases)
  case (1 h c q d)
  show ?case
    by (rule disjI2, rule exI [of _ "environment_WithContext profile c"])
      (simp add: environmentInterceptor_def environment_WithContext_def)
qed

lemma requestIDInterceptor_forwards:
  obtains rid where "rid = generated \<or> Valid rid"
    and "requestIDInterceptor md generated h c q d =
      (let rep = h (requestid_WithContext rid c) q d in (fst rep, (''x-request-id'', rid) # fst (snd rep), final_db rep))"
proof -
  let ?given = "if md ''x-request-id'' \<noteq> [] \<and> Valid (hd (md ''x-request-id'')) then hd (md ''x-request-id'') else []"
  let ?rid = "if ?given = [] then generated else ?given"
  have "?rid = generated \<or> Valid ?rid" by simp
  moreover have "requestIDInterceptor md generated h c q d =
      (let rep = h (requestid_WithContext ?rid c) q d in (fst rep, (''x-request-id'', ?rid) # fst (snd rep), final_db rep))"
    unfolding requestIDInterceptor_def Let_def by (simp only: case_prod_beta)
  ultimately show ?thesis by (rule that)
qed

interpretation reqid: pass_through "requestIDInterceptor md generated" for md generated
proof (unfold_locales, goal_cases)
  case (1 h c q d)
  obtain rid where "requestIDInterceptor md generated h c q d =
      (let rep = h (requestid_WithContext rid c) q d in (fst rep, (''x-request-id'', rid) # fst (snd rep), final_db rep))"
    by (rule requestIDInterceptor_forwards)
  then show ?case
    by (intro disjI2 exI [of _ "requestid_WithContext rid c"]) (simp add: requestid_WithContext_def Let_def)
qed

interpretation idemkey: pass_through "idempotencyInterceptor key_valid md" for key_valid md
proof (unfold_locales, goal_cases)
  case (1 h c q d)
  show ?case
  proof (cases "md ''idempotency-key''")
    case Nil
    then show ?thesis by (auto simp: idempotencyInterceptor_def)
  next
    case (Cons key ks)
    then have "final_db (idempotencyInterceptor key_valid md h c q d) = d \<or>
        final_db (idempotencyInterceptor key_valid md h c q d) = final_db (h (c\<lparr>ctx_idempotency_key := Some key\<rparr>) q d)"
      by (simp add: idempotencyInterceptor_def)
    then show ?thesis by (elim disjE) (auto intro: exI [of _ "c\<lparr>ctx_idempotency_key := Some key\<rparr>"])
  qed
qed

interpretation recovery: pass_through recoveryInterceptor
  by unfold_locales (auto simp: recoveryInterceptor_def split: prod.splits outcome.splits)

text \<open>The contract is closed under composition, so a stack of such interceptors has it too.\<close>

lemma pass_through_comp:
  assumes "pass_through f" and "pass_through g"
  shows "pass_through (\<lambda>h. f (g h))"
proof (unfold_locales, goal_cases)
  case (1 h c q d)
  show ?case
    using pass_through.forwards [OF assms(1), of "g h" c q d] pass_through.forwards [OF assms(2), of h _ q d]
    by metis
qed

lemma outer_pass_through:
  "pass_through (\<lambda>h. environmentInterceptor profile (requestIDInterceptor md generated
     (idempotencyInterceptor key_valid md (recoveryInterceptor h))))"
  by (rule pass_through_comp [OF env.pass_through_axioms pass_through_comp [OF reqid.pass_through_axioms
        pass_through_comp [OF idemkey.pass_through_axioms recovery.pass_through_axioms]]])

section \<open>What reaches the service\<close>

fun rpc_op :: "pb_time \<Rightarrow> rpc_request \<Rightarrow> op option" where
  "rpc_op pb (PutDraftRequest v n) = map_option (\<lambda>px. OpPutDraft (fromProtoConfig pb px) n) v"
| "rpc_op pb (PublishRequest eid n) = Some (OpPublish eid n)"
| "rpc_op pb (SubmitForApprovalRequest eid n) = Some (OpSubmit eid n)"
| "rpc_op pb (ApproveRequest eid n comment) = Some (OpApprove eid n comment)"
| "rpc_op pb (RejectRequest eid n reason) = Some (OpReject eid n reason)"
| "rpc_op pb (RollbackRequest eid t n) = Some (OpRollback eid t n)"
| "rpc_op pb _ = None"

lemma final_db_entry_reply [simp]: "final_db (entry_reply pb r) = snd r"
  by (cases r) (simp add: entry_reply_def)

lemma configServer_db:
  "final_db (configServer pb s c q d) = (case rpc_op pb q of None \<Rightarrow> d | Some qo \<Rightarrow> snd (exec s c qo d))"
  by (cases q) (auto simp: grpc_Get_def grpc_PutDraft_def grpc_Resolve_def grpc_List_def split: option.splits prod.splits)

text \<open>The first authorization value of the metadata is a credential of the principal.\<close>

abbreviation grpc_credential :: "(string \<Rightarrow> principal result) \<Rightarrow> Auth \<Rightarrow> metadata \<Rightarrow> principal \<Rightarrow> bool" where
  "grpc_credential verify cfg md p \<equiv> \<exists>v vs. md ''authorization'' = v # vs \<and> credential verify cfg v p"

lemma authenticateGRPC_Inr:
  assumes "authenticateGRPC verify cfg md fullMethod c = Inr c'"
  shows "(\<exists>p. c' = c\<lparr>ctx_principal := Some p\<rparr> \<and> grpc_credential verify cfg md p) \<or>
    c' = c \<and> MatchesAny fullMethod (auth_SkipGRPCMethods cfg)"
proof (cases "md ''authorization''")
  case Nil
  with assms show ?thesis by (auto simp: authenticateGRPC_def Let_def split: if_splits)
next
  case (Cons v vs)
  with assms Cut_TrueD [of v "CHR '' ''"] show ?thesis
    by (fastforce simp: authenticateGRPC_def Let_def credential_def split: if_splits prod.splits sum.splits)
qed

lemma authInterceptor_change:
  assumes "final_db (authInterceptor verify cfg md fullMethod h c q d) \<noteq> d" and "ctx_principal c = None"
  obtains c' where "final_db (authInterceptor verify cfg md fullMethod h c q d) = final_db (h c' q d)"
    and "ctx_principal c' = None \<or> (\<exists>p. ctx_principal c' = Some p \<and> grpc_credential verify cfg md p)"
  using assms authenticateGRPC_Inr [of verify cfg md fullMethod c]
  by (auto simp: authInterceptor_def split: sum.splits)

theorem unary_chain_change:
  assumes "pass_through (ge_authz g fullMethod)" and "pass_through (ge_idem g fullMethod)"
    and "final_db (unary_chain g md fullMethod (configServer pb s) c q d) \<noteq> d" and "ctx_principal c = None"
  shows "\<exists>p c' qo. grpc_credential (ge_verify g) (ge_auth g) md p \<and> ctx_principal c' = Some p \<and> rpc_op pb q = Some qo \<and>
    final_db (unary_chain g md fullMethod (configServer pb s) c q d) = snd (exec s c' qo d)"
proof -
  let ?inner = "ge_authz g fullMethod (ge_idem g fullMethod (configServer pb s))"
  let ?auth = "authInterceptor (ge_verify g) (ge_auth g) md fullMethod ?inner"
  let ?d' = "final_db (unary_chain g md fullMethod (configServer pb s) c q d)"
  have outer: "?d' = d \<or> (\<exists>c1. ctx_principal c1 = ctx_principal c \<and> ?d' = final_db (?auth c1 q d))"
    unfolding unary_chain_def
    by (rule pass_through.forwards [OF outer_pass_through])
  with assms(3,4) obtain c1 where c1: "ctx_principal c1 = None" "?d' = final_db (?auth c1 q d)" by metis
  with assms(3) obtain c2 where c2: "?d' = final_db (?inner c2 q d)"
    "ctx_principal c2 = None \<or> (\<exists>p. ctx_principal c2 = Some p \<and> grpc_credential (ge_verify g) (ge_auth g) md p)"
    using authInterceptor_change [of "ge_verify g" "ge_auth g" md fullMethod ?inner c1 q d] by metis
  obtain c3 where c3: "ctx_principal c3 = ctx_principal c2" "?d' = final_db (configServer pb s c3 q d)"
    using pass_through.forwards [OF pass_through_comp [OF assms(1,2)], of "configServer pb s" c2 q d] assms(3) c2(1)
    by metis
  from c3(2) assms(3) obtain qo where qo: "rpc_op pb q = Some qo" "?d' = snd (exec s c3 qo d)"
    by (auto simp: configServer_db split: option.splits)
  with exec_no_principal [of c3 s qo d] assms(3) have "ctx_principal c3 \<noteq> None" by auto
  with c2(2) c3(1) qo show ?thesis by metis
qed

text \<open>No panic leaves the chain, and the reply carries the request's identifier.\<close>

lemma unary_chain_Done: "\<exists>r header d'. unary_chain g md fullMethod handler c q d = (Done r, header, d')"
  by (auto simp: unary_chain_def environmentInterceptor_def requestIDInterceptor_def idempotencyInterceptor_def
      recoveryInterceptor_def Let_def split: prod.splits list.splits outcome.splits)

lemma unary_chain_request_id:
  assumes "Valid (ge_generated g)"
  shows "\<exists>rid r header d'. unary_chain g md fullMethod handler c q d = (r, (''x-request-id'', rid) # header, d') \<and> Valid rid"
  using assms
  by (auto simp: unary_chain_def environmentInterceptor_def requestIDInterceptor_def Let_def split: prod.splits)

end
