(* ===== verification/Transport_Fixtures.thy ===== *)
theory Transport_Fixtures
  imports Fixtures Http_Server Grpc_Transport
begin

text \<open>
  A concrete production configuration and the environment of one HTTP and one gRPC request, on which
  the witnesses of the transport properties are evaluated: callers present the pre-shared key, the
  decoders read a one-word body, authorization is granted, the idempotency store is off.
\<close>

definition fix_key :: string where
  "fix_key = ''0123456789abcdef0123456789abcdef''"

definition fix_upstream :: GRPCUpstream where
  "fix_upstream =
     \<lparr>gup_Target = ''dns:///peer:9090'', gup_Timeout = 1000, gup_Auth = \<lparr>ca_Type = [], ca_Token = []\<rparr>,
      gup_Retry = \<lparr>retry_MaxAttempts = 3, retry_InitialBackoff = 100, retry_MaxBackoff = 250, retry_Methods = [''/a.B/Get'']\<rparr>,
      gup_Breaker = \<lparr>brk_Enabled = False, brk_FailureThreshold = 0, brk_OpenTimeout = 0\<rparr>,
      gup_TLS = \<lparr>ctls_Enabled = False, ctls_ServerName = [], ctls_CAFile = [], ctls_CertFile = [], ctls_KeyFile = []\<rparr>\<rparr>"

definition fix_rule :: RateLimitRule where
  "fix_rule = \<lparr>rule_Rate = 120, rule_Burst = 30, rule_Period = 60000000000\<rparr>"

definition fix_auth :: Auth where
  "fix_auth =
     \<lparr>auth_JWKSURL = ''https://identity/jwks'', auth_Issuer = ''identity-service'', auth_Audience = ''config-service'',
      auth_ClientID = [], auth_ClientSecret = [], auth_SkipHTTPPaths = [''/api/v1/version''],
      auth_SkipGRPCMethods = [''/grpc.health.v1.Health/*''],
      auth_PSK = \<lparr>psk_Enabled = True, psk_Key = fix_key, psk_HTTPPaths = [''/api/v1/config/entries/*''],
                  psk_GRPCMethods = [''/platform.config.v1.ConfigService/*'']\<rparr>\<rparr>"

definition fix_config :: Config where
  "fix_config =
     \<lparr>cfg_Runtime = \<lparr>runtime_ActiveProfile = ''production'', runtime_ConfigFiles = [''config.yaml'']\<rparr>,
      cfg_App = \<lparr>app_Name = ''config-service'', app_Schema = [], app_Env = ''production'', app_ShutdownTimeout = 10\<rparr>,
      cfg_HTTP = \<lparr>http_Address = ''127.0.0.1:8080'', http_ReadTimeout = 10, http_WriteTimeout = 10, http_IdleTimeout = 60,
        http_RequestTimeout = 5, http_MaxBodyBytes = 1048576, http_TrustedProxies = [],
        http_CORS = \<lparr>cors_Enabled = False, cors_AllowedOrigins = [], cors_AllowedHeaders = [], cors_ExposedHeaders = [],
          cors_MaxAge = 0\<rparr>\<rparr>,
      cfg_GRPC = \<lparr>grpc_Enabled = True, grpc_Address = ''127.0.0.1:9090'', grpc_ReflectionEnabled = False,
        grpc_MaxReceiveBytes = 4194304,
        grpc_TLS = \<lparr>gtls_Enabled = True, gtls_CertFile = ''tls.crt'', gtls_KeyFile = ''tls.key'', gtls_ClientCAFile = []\<rparr>\<rparr>,
      cfg_Log = \<lparr>log_Level = ''info'', log_Format = ''json'', log_File = ''logs/app.log'', log_MaxSizeMB = 100,
        log_MaxBackups = 10, log_MaxAgeDays = 30, log_Compress = True\<rparr>,
      cfg_Database = \<lparr>db_Enabled = True, db_Name = ''platform'', db_Schema = ''config'', db_Type = ''postgres'',
        db_DSN = ''postgres://db/platform'', db_MaxOpenConns = 25, db_MaxIdleConns = 10, db_ConnMaxLifetime = 300,
        db_ConnMaxIdleTime = 60, db_PingTimeout = 5\<rparr>,
      cfg_Redis = \<lparr>redis_Enabled = False, redis_Address = [], redis_Username = [], redis_Password = [], redis_DB = 0,
        redis_DialTimeout = 5, redis_ReadTimeout = 3, redis_WriteTimeout = 3\<rparr>,
      cfg_Health = \<lparr>health_DatabaseTimeout = 2, health_RedisTimeout = 2\<rparr>,
      cfg_RateLimit = \<lparr>rl_Enabled = False, rl_FailOpen = False, rl_IP = fix_rule, rl_API = fix_rule, rl_User = fix_rule,
        rl_Login = fix_rule\<rparr>,
      cfg_Observability = \<lparr>obs_MetricsEnabled = True, obs_TracingEnabled = False, obs_TracingEndpoint = [],
        obs_TracingSampleRatio = 0, obs_PprofEnabled = False, obs_PprofToken = []\<rparr>,
      cfg_Swagger = \<lparr>swagger_Enabled = False, swagger_RequireAuth = False\<rparr>,
      cfg_JWT = \<lparr>jwt_Issuer = ''config-service'', jwt_Secret = [], jwt_TTL = 7200\<rparr>,
      cfg_Auth = fix_auth, cfg_Authorization = \<lparr>authz_Enabled = True\<rparr>,
      cfg_Cron = \<lparr>cron_Enabled = True, cron_Timezone = ''UTC'', cron_SampleSpec = []\<rparr>,
      cfg_Migration = \<lparr>mig_AutoUp = False, mig_CreateSchema = False, mig_Path = ''migrations/postgres'', mig_DatabaseURL = [],
        mig_Table = ''config_schema_migrations'', mig_Schema = ''config'', mig_DatabaseName = ''platform''\<rparr>,
      cfg_User = \<lparr>user_CacheTTL = 300, user_LockTTL = 10, user_LockRetryDelay = 1\<rparr>,
      cfg_Idempotency = \<lparr>idem_Enabled = False, idem_HTTPPaths = [''/api/v1/config/entries/publish''], idem_GRPCMethods = [],
        idem_ProcessingTTL = 30, idem_ResultTTL = 3600, idem_FailureTTL = 300\<rparr>,
      cfg_Outbound = \<lparr>out_HTTP = [], out_GRPC = [(''application'', fix_upstream), (''authorization'', fix_upstream)]\<rparr>,
      cfg_EventBus = \<lparr>bus_Enabled = False, bus_URLs = [], bus_StreamName = [], bus_Subjects = [], bus_Storage = ''file'',
        bus_MaxAge = 1, bus_DuplicateWindow = 1, bus_ConnectTimeout = 1, bus_ReconnectWait = 1, bus_PublishTimeout = 1,
        bus_ConsumerAckWait = 1, bus_ConsumerMaxDeliver = 1, bus_DispatchInterval = 1, bus_DispatchBatchSize = 1,
        bus_DispatchLease = 1, bus_DispatchRetryDelay = 1, bus_PublishedRetention = 1, bus_CleanupInterval = 1,
        bus_CleanupBatchSize = 1\<rparr>\<rparr>"

definition fix_order :: "string list" where
  "fix_order = [''ip'', ''api'', ''user'', ''login'']"

lemma fix_config_valid: "Validate (\<lambda>s. s) fix_order fix_config = None"
  by code_simp

section \<open>HTTP\<close>

definition fix_put :: PutConfigRequest where
  "fix_put = \<lparr>pc_ID = [], pc_Environment = ''prod'', pc_TenantID = ''t1'', pc_ApplicationID = [], pc_Service = ''web'',
     pc_Key = ''flag'', pc_Value = ''true'', pc_SecretRef = [], pc_RolloutPercentage = 100, pc_ExpectedVersion = 0\<rparr>"

definition refuse :: "int option \<Rightarrow> bytes \<Rightarrow> 'a result" where
  "refuse limit body = Inl (Plain ''invalid'')"

definition fix_decoders :: decoders where
  "fix_decoders = \<lparr>bind_Put = (\<lambda>limit body. if body = ''put'' then Inr fix_put else Inl (Plain ''EOF'')), bind_ID = refuse,
     bind_Get = refuse, bind_Review = refuse, bind_Rollback = refuse, bind_Resolve = refuse, bind_List = refuse\<rparr>"

definition fix_metrics :: Metrics where
  "fix_metrics = (new_vectors fix_config)\<lparr>m_registry := all_collectors fix_config True True\<rparr>"

definition no_vec :: vec where
  "no_vec = \<lparr>vec_Name = [], vec_Help = [], vec_Labels = []\<rparr>"

text \<open>Metrics that are switched off, in the deployments that are evaluated.\<close>

definition no_metrics :: Metrics where
  "no_metrics = \<lparr>m_enabled = False, m_registry = [], m_HTTPRequests = no_vec, m_HTTPDuration = no_vec, m_CronRuns = no_vec,
     m_CronDuration = no_vec, m_GRPCRequests = no_vec, m_GRPCDuration = no_vec, m_OutboundRequests = no_vec,
     m_OutboundDuration = no_vec\<rparr>"

definition fix_env :: http_env where
  "fix_env =
     \<lparr>he_cfg = fix_config, he_service = fix_service ''c1'', he_health = \<lparr>hs_db = Ping ''1ms'' None, hs_redis = Absent\<rparr>,
      he_redis_first = False,
      he_info = \<lparr>info_Version = ''dev'', info_Commit = ''unknown'', info_BuildTime = ''unknown'', info_StartedAt = 0, info_Uptime = ''1s''\<rparr>,
      he_num = (\<lambda>code. if code = CodeOK then 0 else 1), he_bind = fix_decoders, he_unmarshal = (\<lambda>v. Some (JString v)),
      he_generated = ''r-1'', he_key_valid = (\<lambda>key. True), he_verify = (\<lambda>raw. Inl (Plain ''bad token'')),
      he_enforce = (\<lambda>c r. None), he_limiter = \<lparr>lim_enabled = False, lim_failOpen = False, lim_backend = None\<rparr>,
      he_manager = None, he_expired = False, he_metrics = no_metrics, he_elapsed = 1\<rparr>"

definition fix_request :: http_request where
  "fix_request =
     \<lparr>q_Method = ''POST'', q_FullPath = ''/api/v1/config/entries/put-draft'',
      q_Header = (\<lambda>k. if k = ''Authorization'' then ''PSK '' @ fix_key else []),
      q_MediaType = Some ''application/json'', q_ContentLength = 3, q_ClientIP = ''10.0.0.1'', q_TLS = False\<rparr>"

lemma fix_route: "\<exists>h. route fix_env fix_request = Some h"
  by (simp add: route_def fix_request_def api_routes_def)

lemma fix_generated_valid: "Valid (he_generated fix_env)"
  by code_simp

lemma fix_serve_changes: "length (entries (c_db (fst (serve fix_env fix_request ''put'' empty_db)))) = 1"
  by code_simp

text \<open>A life of one entry over HTTP: the token names the user, the body is the version that the request names.\<close>

definition web_decoders :: decoders where
  "web_decoders = \<lparr>bind_Put = (\<lambda>limit body. Inr fix_put),
     bind_ID = (\<lambda>limit body. Inr \<lparr>ci_ID = ''c1'', ci_ExpectedVersion = (if body = ''1'' then 1 else 3)\<rparr>),
     bind_Get = refuse, bind_Review = (\<lambda>limit body. Inr \<lparr>rv_ID = ''c1'', rv_ExpectedVersion = 2, rv_Comment = ''ok''\<rparr>),
     bind_Rollback = refuse, bind_Resolve = refuse, bind_List = refuse\<rparr>"

definition web_env :: "string \<Rightarrow> http_env" where
  "web_env uuid = fix_env\<lparr>he_cfg := fix_config\<lparr>cfg_Auth := fix_auth\<lparr>auth_PSK := (auth_PSK fix_auth)\<lparr>psk_Enabled := False\<rparr>\<rparr>\<rparr>,
     he_service := fix_service uuid, he_bind := web_decoders,
     he_verify := (\<lambda>raw. Inr \<lparr>pr_ID = raw, pr_Type = TypeUser, pr_TenantID = ''t1''\<rparr>)\<rparr>"

definition web_request :: "string \<Rightarrow> string \<Rightarrow> http_request" where
  "web_request user action = fix_request\<lparr>q_FullPath := ''/api/v1/config/entries/'' @ action,
     q_Header := (\<lambda>k. if k = ''Authorization'' then ''Bearer '' @ user else [])\<rparr>"

definition web_step :: "string \<Rightarrow> string \<Rightarrow> string \<Rightarrow> bytes \<Rightarrow> db \<Rightarrow> db" where
  "web_step uuid user action body d = c_db (fst (serve (web_env uuid) (web_request user action) body d))"

lemma web_step_reachable: "http_reachable fix_pg d \<Longrightarrow> http_reachable fix_pg (web_step uuid user action body d)"
  unfolding web_step_def by (erule http_step [where f = "pg_fault fix_pg"]) (simp add: web_env_def)

text \<open>The HTTP requests have the effects of the calls of the service in the deployment above.\<close>

lemma web_drafted: "web_step ''c1'' ''ann'' ''put-draft'' ''0'' empty_db = db_drafted"
  by code_simp

lemma web_submitted: "web_step ''v1'' ''ann'' ''submit'' ''1'' db_drafted = db_submitted"
  by code_simp

lemma web_approved: "web_step ''v2'' ''bob'' ''approve'' ''2'' db_submitted = db_approved"
  by code_simp

lemma web_published: "web_step ''v3'' ''ann'' ''publish'' ''3'' db_approved = db_published"
  by code_simp

lemmas web_steps = web_drafted web_submitted web_approved web_published

lemma web_published_reachable: "http_reachable fix_pg db_published"
  unfolding web_steps [symmetric] by (intro web_step_reachable http_start)

section \<open>gRPC\<close>

definition fix_pb :: pb_time where
  "fix_pb = \<lparr>ts_New = (\<lambda>t. (t, 0)), ts_IsValid = (\<lambda>t. True), ts_AsTime = fst\<rparr>"

definition fix_grpc :: "(rpc_request, rpc_response) grpc_env" where
  "fix_grpc =
     \<lparr>ge_profile = ''production'', ge_generated = ''r-1'', ge_key_valid = (\<lambda>key. True),
      ge_verify = (\<lambda>raw. Inl (Plain ''bad token'')), ge_auth = fix_auth, ge_authz = (\<lambda>fullMethod h. h), ge_idem = (\<lambda>fullMethod h. h)\<rparr>"

definition fix_metadata :: metadata where
  "fix_metadata key = (if key = ''authorization'' then [''PSK '' @ fix_key] else [])"

lemma fix_pass_through: "pass_through (ge_authz fix_grpc fullMethod)" "pass_through (ge_idem fix_grpc fullMethod)"
  by (unfold_locales, auto simp: fix_grpc_def)+

definition fix_put_rpc :: rpc_request where
  "fix_put_rpc = PutDraftRequest (Some (toProtoConfig fix_pb fix_entry)) 0"

lemma fix_grpc_changes:
  "length (entries (final_db (unary_chain fix_grpc fix_metadata ''/platform.config.v1.ConfigService/PutDraft''
     (configServer fix_pb (fix_service ''c1'')) background fix_put_rpc empty_db))) = 1"
  by code_simp

text \<open>A draft created over gRPC with a published revision chosen by the client, then submitted.\<close>

definition preset_drafted :: db where
  "preset_drafted = final_db (configServer fix_pb (fix_service ''c1'') (as_user ''ann'' ''t1'')
     (PutDraftRequest (Some ((toProtoConfig fix_pb fix_entry)\<lparr>px_PublishedRevision := 1\<rparr>)) 0) empty_db)"

definition preset_submitted :: db where
  "preset_submitted = final_db (configServer fix_pb (fix_service ''v1'') (as_user ''ann'' ''t1'')
     (SubmitForApprovalRequest ''c1'' 1) preset_drafted)"

definition preset_row :: entry where
  "preset_row = resolve_view (hd (entries preset_submitted)) (hd (revisions preset_submitted))"

lemma preset_resolve:
  "Resolve (fix_service ''x'') (as_user ''eve'' ''t1'') ''prod'' ''t1'' [] ''web'' ''user-1'' [''flag''] preset_submitted =
     Inr ([preset_row], hex_encode (Sum256 (etag_text [preset_row])))"
proof -
  have "repo_Resolve fix_pg ''prod'' ''t1'' [] ''web'' [''flag''] preset_submitted = Inr [preset_row]" by code_simp
  moreover have "List.map_filter (select_rows ''user-1'' [preset_row] Map.empty) [''flag''] = [preset_row]" by code_simp
  ultimately show ?thesis by (simp only: Resolve_def fix_service_same fix_access sum.case Let_def)
qed

lemma preset_unapproved:
  "map r_Status (revisions preset_submitted) = [''pending_approval'']" "e_Value preset_row = ''true''"
  by code_simp+

section \<open>Tokens\<close>

text \<open>A token library that signs one set of claims with one key.\<close>

definition tok_claims :: claims where
  "tok_claims = \<lparr>cl_Issuer = ''config-service'', cl_Subject = ''client'', cl_ID = replicate 22 (CHR ''A''),
     cl_IssuedAt = Some 0, cl_NotBefore = Some 0, cl_ExpiresAt = Some 100\<rparr>"

definition tok_lib :: jwt_lib where
  "tok_lib =
     \<lparr>jwt_date = (\<lambda>t. t),
      jwt_sign = (\<lambda>c k. if c = tok_claims \<and> k = fix_key then Inr ''token'' else Inl (Plain ''cannot sign'')),
      jwt_alg = (\<lambda>raw. ''HS256''), jwt_verifies = (\<lambda>raw k. raw = ''token'' \<and> k = fix_key),
      jwt_parse = (\<lambda>raw kf iss now.
        if raw = ''token'' \<and> kf ''HS256'' = Inr fix_key \<and> iss = cl_Issuer tok_claims \<and> valid_at tok_claims now
        then Inr (tok_claims, True) else Inl (Plain ''invalid''))\<rparr>"

definition tok_service :: auth_service where
  "tok_service = \<lparr>as_issuer = ''config-service'', as_secret = fix_key, as_ttl = 100, as_clientID = ''id'',
     as_clientSecret = ''secret'', as_verifier = None\<rparr>"

lemma tok_documented: "jwt_documented tok_lib"
  by (auto simp: jwt_documented_def tok_lib_def split: if_splits)

lemma tok_issued: "Issue tok_lib tok_service 0 (Inr (replicate 16 (CHR 0x00))) ''client'' = Inr ''token''"
  by code_simp

lemma tok_parsed: "Parse tok_lib tok_service 50 ''token'' = Inr tok_claims"
  by code_simp

lemma tok_verified: "Verify tok_lib tok_service 50 ''token'' = Inr \<lparr>pr_ID = ''client'', pr_Type = TypeUser, pr_TenantID = []\<rparr>"
  by code_simp

section \<open>Loading\<close>

definition fix_loader :: loader where
  "fix_loader = \<lparr>l_bindEnv = None, l_read = (\<lambda>path. None), l_env = ''production'', l_stat = (\<lambda>path. NotExist),
     l_merge = (\<lambda>path. None), l_unmarshal = (\<lambda>files profile. Inr fix_config), l_lower = (\<lambda>r. r), l_quote = (\<lambda>s. s),
     l_order = fix_order\<rparr>"

lemma fix_loaded: "LoadWithProfile fix_loader ''config.yaml'' [] = Inr fix_config"
  by code_simp

section \<open>Idempotency\<close>

definition idm_num :: "errcode \<Rightarrow> int" where
  "idm_num code = 0"

definition idm_handler :: handler where
  "idm_handler g = (OK idm_num NilBody g, False)"

definition idm_response :: Response where
  "idm_response = \<lparr>r_Code = 0, r_Message = ''success'', r_Body = NilBody, r_RequestID = []\<rparr>"

definition idm_first :: Decision where
  "idm_first = \<lparr>dc_State = StateAcquired, dc_Owner = ''o'', dc_Response = None,
     dc_Failure = \<lparr>fl_Code = 0, fl_Message = [], fl_HTTPStatus = 0\<rparr>\<rparr>"

definition idm_second :: Decision where
  "idm_second = idm_first\<lparr>dc_State := StateCompleted, dc_Response := Some idm_response\<rparr>"

definition idm_manager :: "Decision \<Rightarrow> manager" where
  "idm_manager decision = \<lparr>im_Enabled = True, im_Begin = (\<lambda>key fp. Inr decision)\<rparr>"

definition idm_paths :: "string list" where
  "idm_paths = [''/api/v1/config/entries/put-draft'']"

definition idm_start :: gin where
  "idm_start = (enter ''put'' empty_db)\<lparr>c_ctx := background\<lparr>ctx_idempotency_key := Some ''k''\<rparr>\<rparr>"

abbreviation idm_request :: http_request where
  "idm_request \<equiv> fix_request"

lemma idm_replier: "replier idm_handler"
  by (simp add: replier_def idm_handler_def replies_OK)

lemma idm_no_calls: "c_calls (fst (idm_handler g)) = c_calls g"
  by (simp add: idm_handler_def)

lemma idm_matches: "MatchesAny (q_FullPath idm_request) idm_paths"
  by code_simp

lemma idm_begins: "begins (idm_manager decision) idm_paths idm_request idm_start decision"
  using idm_matches
  by (simp add: begins_def idm_manager_def idm_start_def idempotencyFingerprint_def read_body_def enter_def background_def)
    (simp add: fix_request_def)

definition idm_end :: gin where
  "idm_end = (OK idm_num NilBody idm_start)\<lparr>c_calls := [Complete ''k'' ''o'' idm_response]\<rparr>"

lemma idm_run: "IdempotencyExecution idm_num (Some (idm_manager idm_first)) idm_paths idm_request idm_handler idm_start = (idm_end, False)"
proof -
  have "q_Method idm_request = ''POST''" by (simp add: fix_request_def)
  with idm_matches show ?thesis
    by (simp add: IdempotencyExecution_def idm_manager_def idm_start_def idempotencyFingerprint_def read_body_def
        enter_def background_def decide_def idm_first_def run_acquired_def idm_handler_def persist_def captured_def OK_def
        write_out_def envelope_def requestID_def idm_num_def idm_end_def idm_response_def)
qed

end
