(* ===== verification/Upstream_Http.thy ===== *)
theory Upstream_Http
  imports Observability Request_Context
begin

text \<open>
  The client of an HTTP upstream (\<^verbatim>\<open>outbound/http.go\<close>): retries, backoff, credentials and the circuit
  breaker around them. What the upstream answers to an attempt, whether the context ends during a
  wait, URL parsing, the files of the TLS settings and the breaker library are parameters. A call
  returns its result and a trace of what it did: the requests it sent, the bodies it drained and
  closed, the delays it waited.
\<close>

section \<open>Requests and answers\<close>

text \<open>A header is a list of values per name; \<^verbatim>\<open>Get\<close> reads the first, \<^verbatim>\<open>Set\<close> replaces all.\<close>

type_synonym header = "string \<rightharpoonup> string list"

definition header_Get :: "header \<Rightarrow> string \<Rightarrow> string" where
  "header_Get h k = (case h k of Some (v # vs) \<Rightarrow> v | _ \<Rightarrow> [])"

definition header_Set :: "string \<Rightarrow> string \<Rightarrow> header \<Rightarrow> header" where
  "header_Set k v h = h(k \<mapsto> [v])"

record upstream_request =
  ur_Method :: string
  ur_URL :: string
  ur_Body :: bytes
  ur_Header :: header

text \<open>A response: the attempt that got it and its status code.\<close>

record upstream_response =
  up_Attempt :: int
  up_StatusCode :: int

datatype step = Sent upstream_request | Closed int | Waited duration

section \<open>Policy\<close>

definition retryableMethod :: "(ctx \<Rightarrow> string \<times> bool) \<Rightarrow> ctx \<Rightarrow> string \<Rightarrow> bool" where
  "retryableMethod idempotency_FromContext c method =
     (if method = ''GET'' \<or> method = ''HEAD'' \<or> method = ''OPTIONS'' \<or> method = ''PUT'' \<or> method = ''DELETE'' then True
      else snd (idempotency_FromContext c))"

definition retryableHTTPStatus :: "int \<Rightarrow> bool" where
  "retryableHTTPStatus status \<longleftrightarrow> status = 429 \<or> status = 502 \<or> status = 503 \<or> status = 504"

definition applyHTTPAuth :: "ClientAuth \<Rightarrow> upstream_request \<Rightarrow> upstream_request" where
  "applyHTTPAuth auth request =
     (if ca_Type auth = ''bearer'' then
        request\<lparr>ur_Header := header_Set ''Authorization'' (''Bearer '' @ ca_Token auth) (ur_Header request)\<rparr>
      else if ca_Type auth = ''psk'' then
        request\<lparr>ur_Header := header_Set ''Authorization'' (''PSK '' @ ca_Token auth) (ur_Header request)\<rparr>
      else request)"

text \<open>
  The conversion of an int64 to a float64: the nearest number with 53 significant bits, ties to even.
\<close>

fun bit_length :: "nat \<Rightarrow> nat" where
  "bit_length n = (if n = 0 then 0 else Suc (bit_length (n div 2)))"

declare bit_length.simps [simp del]

definition float64 :: "int \<Rightarrow> int" where
  "float64 x =
     (if \<bar>x\<bar> \<le> 2 ^ 53 then x
      else (let u = 2 ^ (bit_length (nat \<bar>x\<bar>) - 53); q = \<bar>x\<bar> div u; r = \<bar>x\<bar> mod u
            in sgn x * u * (if 2 * r < u \<or> 2 * r = u \<and> even q then q else q + 1)))"

text \<open>
  The delay of \<^verbatim>\<open>waitBackoff\<close>: the product of a float64 with a power of two is exact; \<open>oor\<close> is what the
  conversion back gives for a number outside the range of an int64, which Go leaves open.
\<close>

definition backoff_delay :: "(int \<Rightarrow> int) \<Rightarrow> Retry \<Rightarrow> int \<Rightarrow> duration" where
  "backoff_delay oor retry attempt =
     (let product = float64 (retry_InitialBackoff retry) * 2 ^ nat (attempt - 1);
          delay = (if - (2 ^ 63) \<le> product \<and> product < 2 ^ 63 then product else oor product)
      in if retry_MaxBackoff retry < delay then retry_MaxBackoff retry else delay)"

section \<open>The client\<close>

text \<open>
  \<open>uc_relative\<close>: whether \<^verbatim>\<open>url.Parse\<close> accepts the path and finds it relative, without host;
  \<open>uc_resolve\<close>: the URL it gives with the base; \<open>uc_newRequest\<close>: the error of building a request;
  \<open>uc_canceled\<close>: \<^verbatim>\<open>errors.Is(err, context.Canceled)\<close>; \<open>uc_oor\<close>: see \<open>backoff_delay\<close>.
\<close>

record http_client =
  uc_cfg :: HTTPUpstream
  uc_name :: string
  uc_metrics :: "Metrics option"
  uc_relative :: "string \<Rightarrow> bool"
  uc_resolve :: "string \<Rightarrow> string"
  uc_newRequest :: "string \<Rightarrow> string \<Rightarrow> gerror option"
  uc_oor :: "int \<Rightarrow> int"
  uc_canceled :: "gerror \<Rightarrow> bool"
  uc_idempotency_FromContext :: "ctx \<Rightarrow> string \<times> bool"

definition build_request :: "http_client \<Rightarrow> string \<Rightarrow> string \<Rightarrow> bytes \<Rightarrow> header \<Rightarrow> upstream_request" where
  "build_request cl method target body headers =
     applyHTTPAuth (hup_Auth (uc_cfg cl))
       \<lparr>ur_Method = method, ur_URL = target, ur_Body = body,
        ur_Header = (if body \<noteq> [] \<and> header_Get headers ''Content-Type'' = []
                     then header_Set ''Content-Type'' ''application/json'' headers else headers)\<rparr>"

text \<open>
  The loop of \<^verbatim>\<open>doWithRetry\<close> from one attempt on. \<open>answer\<close> gives the status or the error of an attempt,
  \<open>ended\<close> the error of the context when it ends during the wait after an attempt.
\<close>

function attempts :: "http_client \<Rightarrow> (int \<Rightarrow> int result) \<Rightarrow> (int \<Rightarrow> gerror option) \<Rightarrow> gerror option \<Rightarrow> upstream_request \<Rightarrow>
    int \<Rightarrow> int \<Rightarrow> upstream_response result \<times> step list" where
  "attempts cl answer ended refused request maxAttempts attempt =
     (if maxAttempts < attempt then (Inl (Plain ''outbound HTTP attempts exhausted''), [])
      else (case refused of
              Some err \<Rightarrow> (Inl (Wrap ''create outbound HTTP request'' err), [])
            | None \<Rightarrow>
              (let again = (\<lambda>closed.
                     if attempt < maxAttempts then
                       (case ended attempt of
                          Some err \<Rightarrow> (Inl err, Sent request # closed @ [Waited (backoff_delay (uc_oor cl) (hup_Retry (uc_cfg cl)) attempt)])
                        | None \<Rightarrow>
                          (case attempts cl answer ended refused request maxAttempts (attempt + 1) of (r, steps) \<Rightarrow>
                             (r, Sent request # closed @ Waited (backoff_delay (uc_oor cl) (hup_Retry (uc_cfg cl)) attempt) # steps)))
                     else (Inl (Plain ''outbound HTTP attempts exhausted''), Sent request # closed))
               in case answer attempt of
                    Inr status \<Rightarrow>
                      if \<not> retryableHTTPStatus status \<or> attempt = maxAttempts
                      then (Inr \<lparr>up_Attempt = attempt, up_StatusCode = status\<rparr>, [Sent request])
                      else again [Closed attempt]
                  | Inl err \<Rightarrow>
                      if attempt = maxAttempts then (Inl (Wrap ''call outbound HTTP service'' err), [Sent request])
                      else again [])))"
  by pat_completeness auto
termination
  by (relation "measure (\<lambda>(cl, answer, ended, refused, request, maxAttempts, attempt). nat (maxAttempts + 1 - attempt))") auto

declare attempts.simps [simp del]

definition doWithRetry ::
    "http_client \<Rightarrow> (int \<Rightarrow> int result) \<Rightarrow> (int \<Rightarrow> gerror option) \<Rightarrow> ctx \<Rightarrow> string \<Rightarrow> string \<Rightarrow> bytes \<Rightarrow> header \<Rightarrow>
      upstream_response result \<times> step list" where
  "doWithRetry cl answer ended c method requestPath body headers =
     (if \<not> uc_relative cl requestPath then (Inl (Plain ''outbound HTTP path must be relative''), [])
      else (let target = uc_resolve cl requestPath;
                maxAttempts = (if retryableMethod (uc_idempotency_FromContext cl) c method then retry_MaxAttempts (hup_Retry (uc_cfg cl)) else 1)
            in attempts cl answer ended (uc_newRequest cl method target) (build_request cl method target body headers)
                 maxAttempts 1))"

text \<open>
  \<^verbatim>\<open>execute\<close>: through the breaker, for which a retryable status counts as a failure, a \<^verbatim>\<open>statusError\<close>.
  \<open>refusal\<close> is the decision of the breaker library, given its settings \<^verbatim>\<open>ReadyToTrip\<close> and \<^verbatim>\<open>IsExcluded\<close>:
  \<open>None\<close> lets the call pass, and \<^verbatim>\<open>Execute\<close> then returns what the call returns.
\<close>

datatype call_failure = StatusError upstream_response | CallError gerror

definition breaker_call :: "upstream_response result \<Rightarrow> call_failure + upstream_response" where
  "breaker_call r =
     (case r of
        Inl err \<Rightarrow> Inl (CallError err)
      | Inr response \<Rightarrow> if retryableHTTPStatus (up_StatusCode response) then Inl (StatusError response) else Inr response)"

definition ready_to_trip :: "Breaker \<Rightarrow> int \<Rightarrow> bool" where
  "ready_to_trip cfg consecutiveFailures \<longleftrightarrow> brk_FailureThreshold cfg \<le> consecutiveFailures"

fun http_excluded :: "http_client \<Rightarrow> call_failure \<Rightarrow> bool" where
  "http_excluded cl (StatusError response) = False"
| "http_excluded cl (CallError err) = uc_canceled cl err"

type_synonym http_breaker = "(int \<Rightarrow> bool) \<Rightarrow> (call_failure \<Rightarrow> bool) \<Rightarrow> gerror option"

definition execute ::
    "http_client \<Rightarrow> http_breaker \<Rightarrow> (int \<Rightarrow> int result) \<Rightarrow> (int \<Rightarrow> gerror option) \<Rightarrow> ctx \<Rightarrow> string \<Rightarrow> string \<Rightarrow> bytes \<Rightarrow> header \<Rightarrow>
      upstream_response result \<times> step list" where
  "execute cl refusal answer ended c method requestPath body headers =
     (if \<not> brk_Enabled (hup_Breaker (uc_cfg cl)) then doWithRetry cl answer ended c method requestPath body headers
      else (case refusal (ready_to_trip (hup_Breaker (uc_cfg cl))) (http_excluded cl) of
              Some err \<Rightarrow> (Inl err, [])
            | None \<Rightarrow>
              (case doWithRetry cl answer ended c method requestPath body headers of (r, steps) \<Rightarrow>
                 (case breaker_call r of
                    Inl (StatusError response) \<Rightarrow> Inr response
                  | Inl (CallError err) \<Rightarrow> Inl err
                  | Inr response \<Rightarrow> Inr response, steps))))"

text \<open>\<^verbatim>\<open>Do\<close>: the call, then the samples; \<open>elapsed\<close> is the time that the call took.\<close>

definition http_Do ::
    "http_client \<Rightarrow> http_breaker \<Rightarrow> (int \<Rightarrow> int result) \<Rightarrow> (int \<Rightarrow> gerror option) \<Rightarrow> duration \<Rightarrow> ctx \<Rightarrow> string \<Rightarrow> string \<Rightarrow> bytes \<Rightarrow>
      header \<Rightarrow> upstream_response result \<times> step list \<times> sample list" where
  "http_Do cl refusal answer ended elapsed c method requestPath body headers =
     (case execute cl refusal answer ended c method requestPath body headers of (r, steps) \<Rightarrow>
        (let status = (case r of Inl err \<Rightarrow> ''error'' | Inr response \<Rightarrow> itoa (up_StatusCode response))
         in (r, steps,
             case uc_metrics cl of
               None \<Rightarrow> []
             | Some m \<Rightarrow> outbound_samples m ''http'' (uc_name cl) status elapsed)))"

section \<open>Construction\<close>

text \<open>\<open>parsed\<close>: whether the base URL has a scheme and a host; \<open>files\<close>: the errors of reading the TLS files.\<close>

record tls_files =
  tf_readCA :: "string \<Rightarrow> gerror option"
  tf_parseCA :: "string \<Rightarrow> bool"
  tf_loadPair :: "string \<Rightarrow> string \<Rightarrow> gerror option"

definition httpTransport :: "tls_files \<Rightarrow> ClientTLS \<Rightarrow> gerror option" where
  "httpTransport files cfg =
     (let pair = (if ctls_CertFile cfg \<noteq> [] then
                    map_option (Wrap ''load outbound HTTP client certificate'') (tf_loadPair files (ctls_CertFile cfg) (ctls_KeyFile cfg))
                  else None)
      in if ctls_CAFile cfg \<noteq> [] then
           (case tf_readCA files (ctls_CAFile cfg) of
              Some err \<Rightarrow> Some (Wrap ''read outbound HTTP CA'' err)
            | None \<Rightarrow> if \<not> tf_parseCA files (ctls_CAFile cfg) then Some (Plain ''parse outbound HTTP CA'') else pair)
         else pair)"

definition NewHTTPClient ::
    "(string \<Rightarrow> bool) \<Rightarrow> (string \<Rightarrow> string) \<Rightarrow> tls_files \<Rightarrow> http_client \<Rightarrow> string \<Rightarrow> HTTPUpstream \<Rightarrow> Metrics option \<Rightarrow>
      http_client result" where
  "NewHTTPClient parsed quote files lib name cfg metrics =
     (if ca_Type (hup_Auth cfg) \<noteq> [] \<and> \<not> ctls_Enabled (hup_TLS cfg)
      then Inl (Plain ''refusing to send outbound HTTP credentials without TLS'')
      else if \<not> parsed (hup_BaseURL cfg) then Inl (Plain (''parse outbound HTTP base URL '' @ quote (hup_BaseURL cfg)))
      else (case httpTransport files (hup_TLS cfg) of Some err \<Rightarrow> Inl err | None \<Rightarrow> Inr (lib\<lparr>uc_cfg := cfg, uc_name := name, uc_metrics := metrics\<rparr>)))"

section \<open>Bounds of a call\<close>

fun is_sent :: "step \<Rightarrow> bool" where
  "is_sent (Sent _) = True" | "is_sent _ = False"

definition sent :: "step list \<Rightarrow> nat" where
  "sent steps = length (filter is_sent steps)"

definition drained :: "step list \<Rightarrow> int set" where
  "drained steps = {a. Closed a \<in> set steps}"

definition opened :: "(int \<Rightarrow> int result) \<Rightarrow> int \<Rightarrow> int \<Rightarrow> int set" where
  "opened answer a n = {j. a \<le> j \<and> j < a + n \<and> (\<exists>status. answer j = Inr status)}"

definition returned :: "upstream_response result \<Rightarrow> int set" where
  "returned r = (case r of Inl err \<Rightarrow> {} | Inr response \<Rightarrow> {up_Attempt response})"

text \<open>The shapes that one round of the loop can have.\<close>

lemma attempts_cases:
  obtains (none) "m < a \<or> refused \<noteq> None" "\<exists>e. attempts cl answer ended refused request m a = (Inl e, [])"
  | (final) r where "a \<le> m" "refused = None" "attempts cl answer ended refused request m a = (r, [Sent request])"
      "returned r = (if \<exists>status. answer a = Inr status then {a} else {})"
  | (more) cs r steps where "a < m" "refused = None" "cs = (if \<exists>status. answer a = Inr status then [Closed a] else [])"
      "attempts cl answer ended refused request m a =
        (r, Sent request # cs @ Waited (backoff_delay (uc_oor cl) (hup_Retry (uc_cfg cl)) a) # steps)"
      "(r, steps) = attempts cl answer ended refused request m (a + 1) \<or> (\<exists>e. r = Inl e) \<and> steps = []"
proof (cases "m < a \<or> refused \<noteq> None")
  case True
  then show thesis by (intro none) (auto simp: attempts.simps [of cl answer ended refused request m a])
next
  case False
  then have ref: "refused = None" and am: "a \<le> m" by auto
  note eq = attempts.simps [of cl answer ended None request m a, folded ref]
  show thesis
  proof (cases "a = m \<or> (\<exists>status. answer a = Inr status \<and> \<not> retryableHTTPStatus status)")
    case True
    then have "\<exists>r. attempts cl answer ended refused request m a = (r, [Sent request]) \<and>
        returned r = (if \<exists>status. answer a = Inr status then {a} else {})"
      using am by (subst eq) (auto simp: ref returned_def split: sum.splits)
    then show thesis using final [OF am ref] by blast
  next
    case False
    obtain r steps where rest: "attempts cl answer ended refused request m (a + 1) = (r, steps)" by fastforce
    show thesis
    proof (cases "ended a")
      case None
      with False am rest
      have "attempts cl answer ended refused request m a =
        (r, Sent request # (if \<exists>status. answer a = Inr status then [Closed a] else []) @
          Waited (backoff_delay (uc_oor cl) (hup_Retry (uc_cfg cl)) a) # steps)"
        by (subst eq) (auto simp: ref split: sum.splits)
      with False am rest show thesis by (intro more [OF _ ref refl]) auto
    next
      case (Some e)
      with False am
      have "attempts cl answer ended refused request m a =
        (Inl e, Sent request # (if \<exists>status. answer a = Inr status then [Closed a] else []) @
          Waited (backoff_delay (uc_oor cl) (hup_Retry (uc_cfg cl)) a) # [])"
        by (subst eq) (auto simp: ref split: sum.splits)
      with False am show thesis by (intro more [OF _ ref refl]) auto
    qed
  qed
qed

lemma sent_simps [simp]:
  "sent [] = 0" "sent (Sent q # steps) = Suc (sent steps)" "sent (Closed a # steps) = sent steps"
  "sent (Waited t # steps) = sent steps"
  by (simp_all add: sent_def)

lemma drained_simps [simp]:
  "drained [] = {}" "drained (Sent q # steps) = drained steps" "drained (Closed a # steps) = insert a (drained steps)"
  "drained (Waited t # steps) = drained steps"
  by (auto simp: drained_def)

lemma opened_step: "0 \<le> n \<Longrightarrow> opened answer a (n + 1) =
    (if \<exists>status. answer a = Inr status then {a} else {}) \<union> opened answer (a + 1) n"
  by (auto simp: opened_def) (metis add.commute add_le_cancel_left le_less zless_imp_add1_zle)+

text \<open>What holds of the rest of a call from an attempt on.\<close>

definition bounded_call ::
    "http_client \<Rightarrow> (int \<Rightarrow> int result) \<Rightarrow> upstream_request \<Rightarrow> int \<Rightarrow> int \<Rightarrow> upstream_response result \<times> step list \<Rightarrow> bool" where
  "bounded_call cl answer request m a res \<longleftrightarrow>
     int (sent (snd res)) \<le> max 0 (m + 1 - a) \<and>
     opened answer a (int (sent (snd res))) = drained (snd res) \<union> returned (fst res) \<and>
     drained (snd res) \<inter> returned (fst res) = {} \<and>
     (\<forall>q. Sent q \<in> set (snd res) \<longrightarrow> q = request) \<and>
     (\<forall>t. Waited t \<in> set (snd res) \<longrightarrow>
       (\<exists>j. a \<le> j \<and> j < m \<and> t = backoff_delay (uc_oor cl) (hup_Retry (uc_cfg cl)) j))"

lemma opened_empty [simp]: "opened answer a 0 = {}"
  by (auto simp: opened_def)

lemma opened_lower: "j \<in> opened answer a n \<Longrightarrow> a \<le> j"
  by (simp add: opened_def)

lemma bounded_call_none: "bounded_call cl answer request m a (Inl e, [])"
  by (simp add: bounded_call_def returned_def)

lemma bounded_call_more:
  assumes rest: "bounded_call cl answer request m (a + 1) (r, steps)" and "a < m"
    and cs: "cs = (if \<exists>status. answer a = Inr status then [Closed a] else [])"
  shows "bounded_call cl answer request m a
    (r, Sent request # cs @ Waited (backoff_delay (uc_oor cl) (hup_Retry (uc_cfg cl)) a) # steps)"
proof -
  have a: "a \<notin> drained steps \<union> returned r"
    using rest opened_lower [of a answer "a + 1"] by (auto simp: bounded_call_def)
  have waits: "\<exists>j. a \<le> j \<and> j < m \<and> t = backoff_delay (uc_oor cl) (hup_Retry (uc_cfg cl)) j"
    if "t = backoff_delay (uc_oor cl) (hup_Retry (uc_cfg cl)) a \<or> Waited t \<in> set steps" for t
    using rest that assms(2) by (fastforce simp: bounded_call_def)
  show ?thesis
    using rest assms(2) a waits opened_step [of "int (sent steps)" answer a]
    by (auto simp: bounded_call_def cs add.commute)
qed

lemma attempts_bounds: "bounded_call cl answer request m a (attempts cl answer ended refused request m a)"
proof (induction "nat (m + 1 - a)" arbitrary: a rule: less_induct)
  case (less a)
  show ?case
  proof (cases rule: attempts_cases [of m a refused cl answer ended request])
    case none
    then show ?thesis by (auto simp: bounded_call_def returned_def)
  next
    case (final r)
    with opened_step [of 0 answer a] show ?thesis by (auto simp: bounded_call_def)
  next
    case (more cs r steps)
    have "bounded_call cl answer request m (a + 1) (r, steps)"
    proof (cases "(r, steps) = attempts cl answer ended refused request m (a + 1)")
      case True
      with more(1) less [of "a + 1"] show ?thesis by auto
    next
      case False
      with more(5) show ?thesis by (auto simp: bounded_call_def returned_def)
    qed
    from bounded_call_more [OF this more(1,3)] more(4) show ?thesis by simp
  qed
qed

text \<open>The breaker only decides whether the call is made.\<close>

lemma breaker_call_result:
  "(case breaker_call r of Inl (StatusError response) \<Rightarrow> Inr response | Inl (CallError err) \<Rightarrow> Inl err | Inr response \<Rightarrow> Inr response) = r"
  by (auto simp: breaker_call_def split: sum.splits)

lemma execute_cases:
  obtains "execute cl refusal answer ended c fullMethod requestPath body headers =
      doWithRetry cl answer ended c fullMethod requestPath body headers"
  | e where "execute cl refusal answer ended c fullMethod requestPath body headers = (Inl e, [])"
proof (cases "brk_Enabled (hup_Breaker (uc_cfg cl))")
  case True
  show thesis
  proof (cases "refusal (ready_to_trip (hup_Breaker (uc_cfg cl))) (http_excluded cl)")
    case None
    with True that(1) show thesis by (simp add: execute_def breaker_call_result)
  next
    case (Some e)
    with True that(2) show thesis by (simp add: execute_def)
  qed
next
  case False
  with that(1) show thesis by (simp add: execute_def)
qed

definition max_attempts :: "http_client \<Rightarrow> ctx \<Rightarrow> string \<Rightarrow> int" where
  "max_attempts cl c fullMethod =
     (if retryableMethod (uc_idempotency_FromContext cl) c fullMethod then retry_MaxAttempts (hup_Retry (uc_cfg cl)) else 1)"

lemma execute_bounds:
  "bounded_call cl answer (build_request cl fullMethod (uc_resolve cl requestPath) body headers) (max_attempts cl c fullMethod) 1
     (execute cl refusal answer ended c fullMethod requestPath body headers)"
proof (cases rule: execute_cases [of cl refusal answer ended c fullMethod requestPath body headers])
  case 1
  show ?thesis
    by (simp add: 1 doWithRetry_def Let_def attempts_bounds bounded_call_none max_attempts_def)
next
  case (2 e)
  then show ?thesis by (simp add: bounded_call_none)
qed

section \<open>Credentials\<close>

lemma NewHTTPClient_Inr:
  "NewHTTPClient parsed quote files lib name cfg metrics = Inr cl \<longleftrightarrow>
   (ca_Type (hup_Auth cfg) = [] \<or> ctls_Enabled (hup_TLS cfg)) \<and> parsed (hup_BaseURL cfg) \<and>
   httpTransport files (hup_TLS cfg) = None \<and> cl = lib\<lparr>uc_cfg := cfg, uc_name := name, uc_metrics := metrics\<rparr>"
  by (auto simp: NewHTTPClient_def split: option.splits)

lemma header_Get_Set [simp]: "header_Get (header_Set k v h) k = v"
  by (simp add: header_Get_def header_Set_def)

lemma build_request_bearer:
  "ca_Type (hup_Auth (uc_cfg cl)) = ''bearer'' \<Longrightarrow>
   header_Get (ur_Header (build_request cl fullMethod target body headers)) ''Authorization'' =
     ''Bearer '' @ ca_Token (hup_Auth (uc_cfg cl))"
  by (simp add: build_request_def applyHTTPAuth_def)

section \<open>Backoff\<close>

lemma float64_exact [simp]: "0 \<le> x \<Longrightarrow> x \<le> 2 ^ 53 \<Longrightarrow> float64 x = x"
  by (simp add: float64_def)

lemma backoff_delay_exact:
  assumes "0 < retry_InitialBackoff retry" and "retry_InitialBackoff retry \<le> 2 ^ 53" and "1 \<le> k" and "k \<le> 5"
  shows "backoff_delay oor retry k = min (retry_MaxBackoff retry) (retry_InitialBackoff retry * 2 ^ nat (k - 1))"
proof -
  have "k = 1 \<or> k = 2 \<or> k = 3 \<or> k = 4 \<or> k = 5" using assms by presburger
  then show ?thesis using assms by (auto simp: backoff_delay_def Let_def min_def)
qed

end
