(* ===== verification/Server_Lifecycle.thy ===== *)
theory Server_Lifecycle
  imports Http_Server Grpc_Transport Upstream_Http
begin

text \<open>
  What the two servers are made of beside the handlers of unary requests: the interceptors of gRPC
  streams, the transport credentials, the table of HTTP routes with their guards, and start and stop
  of the listeners (\<^verbatim>\<open>transport/grpc/server.go\<close>, \<^verbatim>\<open>transport/http/server.go\<close>). Sockets, TLS files and the
  serving loops of the libraries are parameters; the handlers of profiling, metrics and Swagger pages
  are not the program's and appear by name only.
\<close>

section \<open>Stream interceptors\<close>

text \<open>
  A stream is its context (\<^verbatim>\<open>contextServerStream\<close> replaces just that) and a world in which messages
  move. A handler ends with a status (\<open>None\<close> is OK) or a panic. \<open>setHeader\<close> is \<^verbatim>\<open>SetHeader\<close>, which may fail.
\<close>

type_synonym 'w stream_handler = "ctx \<Rightarrow> 'w \<Rightarrow> grpc_status option outcome \<times> 'w"

definition environmentStreamInterceptor :: "string \<Rightarrow> 'w stream_handler \<Rightarrow> 'w stream_handler" where
  "environmentStreamInterceptor profile handler = (\<lambda>c. handler (environment_WithContext profile c))"

definition requestIDStreamInterceptor ::
    "metadata \<Rightarrow> string \<Rightarrow> (string \<times> string \<Rightarrow> 'w \<Rightarrow> bool \<times> 'w) \<Rightarrow> 'w stream_handler \<Rightarrow> 'w stream_handler" where
  "requestIDStreamInterceptor md generated setHeader handler = (\<lambda>c w.
     let values = md ''x-request-id'';
         given = (if values \<noteq> [] \<and> Valid (hd values) then hd values else []);
         rid = (if given = [] then generated else given)
     in case setHeader (''x-request-id'', rid) w of (ok, w1) \<Rightarrow>
       if \<not> ok then (Done (Some (GStatus GInternal ''set request metadata'')), w1)
       else handler (requestid_WithContext rid c) w1)"

definition idempotencyStreamInterceptor :: "(string \<Rightarrow> bool) \<Rightarrow> metadata \<Rightarrow> 'w stream_handler \<Rightarrow> 'w stream_handler" where
  "idempotencyStreamInterceptor key_valid md handler = (\<lambda>c w.
     case md ''idempotency-key'' of
       [] \<Rightarrow> handler c w
     | key # _ \<Rightarrow>
         if \<not> key_valid key then (Done (Some (GStatus GInvalidArgument ''invalid idempotency-key'')), w)
         else handler (c\<lparr>ctx_idempotency_key := Some key\<rparr>) w)"

definition authStreamInterceptor ::
    "(string \<Rightarrow> principal result) \<Rightarrow> Auth \<Rightarrow> metadata \<Rightarrow> string \<Rightarrow> 'w stream_handler \<Rightarrow> 'w stream_handler" where
  "authStreamInterceptor verify cfg md fullMethod handler = (\<lambda>c w.
     case authenticateGRPC verify cfg md fullMethod c of
       Inl st \<Rightarrow> (Done (Some st), w)
     | Inr c' \<Rightarrow> handler c' w)"

definition recoveryStreamInterceptor :: "'w stream_handler \<Rightarrow> 'w stream_handler" where
  "recoveryStreamInterceptor handler = (\<lambda>c w.
     case handler c w of
       (Panic m, w') \<Rightarrow> (Done (Some (GStatus GInternal ''internal server error'')), w')
     | (Done r, w') \<Rightarrow> (Done r, w'))"

text \<open>
  Metrics of streams and of unary calls, as the innermost interceptors: a panic passes through before
  anything is counted. \<open>observe\<close> takes a sample, \<open>code_String\<close> is \<^verbatim>\<open>codes.Code.String\<close> (\<open>None\<close> is OK). The
  interceptor of unary calls returns its samples beside the reply.
\<close>

definition metricsStreamInterceptor ::
    "Metrics \<Rightarrow> (sample \<Rightarrow> 'w \<Rightarrow> 'w) \<Rightarrow> (grpc_code option \<Rightarrow> string) \<Rightarrow> duration \<Rightarrow> string \<Rightarrow> 'w stream_handler \<Rightarrow> 'w stream_handler" where
  "metricsStreamInterceptor m observe code_String elapsed fullMethod handler = (\<lambda>c w.
     case handler c w of
       (Panic p, w') \<Rightarrow> (Panic p, w')
     | (Done err, w') \<Rightarrow>
         (Done err, fold observe (grpc_samples m fullMethod (code_String (map_option gs_code err)) elapsed) w'))"

definition metricsInterceptor ::
    "Metrics \<Rightarrow> (grpc_code option \<Rightarrow> string) \<Rightarrow> duration \<Rightarrow> string \<Rightarrow> ('q, 'r) unary \<Rightarrow> ctx \<Rightarrow> 'q \<Rightarrow> db \<Rightarrow>
      'r reply \<times> sample list" where
  "metricsInterceptor m code_String elapsed fullMethod handler c q d =
     (case handler c q d of
        (Panic p, rest) \<Rightarrow> ((Panic p, rest), [])
      | (Done r, rest) \<Rightarrow>
          ((Done r, rest),
           grpc_samples m fullMethod (code_String (case r of Inl st \<Rightarrow> Some (gs_code st) | Inr v \<Rightarrow> None)) elapsed))"

record 'w stream_env =
  se_profile :: string
  se_generated :: string
  se_setHeader :: "string \<times> string \<Rightarrow> 'w \<Rightarrow> bool \<times> 'w"
  se_key_valid :: "string \<Rightarrow> bool"
  se_verify :: "string \<Rightarrow> principal result"
  se_auth :: Auth
  se_metrics :: Metrics
  se_observe :: "sample \<Rightarrow> 'w \<Rightarrow> 'w"
  se_code_String :: "grpc_code option \<Rightarrow> string"
  se_elapsed :: duration

definition stream_chain :: "'w stream_env \<Rightarrow> metadata \<Rightarrow> string \<Rightarrow> 'w stream_handler \<Rightarrow> 'w stream_handler" where
  "stream_chain g md fullMethod handler =
     environmentStreamInterceptor (se_profile g)
       (requestIDStreamInterceptor md (se_generated g) (se_setHeader g)
         (idempotencyStreamInterceptor (se_key_valid g) md
           (recoveryStreamInterceptor
             (authStreamInterceptor (se_verify g) (se_auth g) md fullMethod
               (metricsStreamInterceptor (se_metrics g) (se_observe g) (se_code_String g) (se_elapsed g) fullMethod handler)))))"

section \<open>The gRPC server\<close>

datatype server_credentials =
  Server_TLS (sc_cert: string) (sc_key: string) (sc_client_ca: "string option")

definition serverCredentials :: "tls_files \<Rightarrow> GRPCTLS \<Rightarrow> server_credentials result" where
  "serverCredentials files cfg =
     (case tf_loadPair files (gtls_CertFile cfg) (gtls_KeyFile cfg) of
        Some err \<Rightarrow> Inl (Wrap ''load grpc certificate'' err)
      | None \<Rightarrow>
        if gtls_ClientCAFile cfg \<noteq> [] then
          (case tf_readCA files (gtls_ClientCAFile cfg) of
             Some err \<Rightarrow> Inl (Wrap ''read grpc client CA'' err)
           | None \<Rightarrow>
             if \<not> tf_parseCA files (gtls_ClientCAFile cfg) then Inl (Plain ''parse grpc client CA'')
             else Inr (Server_TLS (gtls_CertFile cfg) (gtls_KeyFile cfg) (Some (gtls_ClientCAFile cfg))))
        else Inr (Server_TLS (gtls_CertFile cfg) (gtls_KeyFile cfg) None))"

record grpc_server =
  gsv_address :: string
  gsv_max_receive :: int
  gsv_creds :: "server_credentials option"
  gsv_services :: "string list"
  gsv_enabled :: bool

definition grpc_NewServer :: "tls_files \<Rightarrow> Config \<Rightarrow> grpc_server result" where
  "grpc_NewServer files cfg =
     (let server = (\<lambda>creds. \<lparr>gsv_address = grpc_Address (cfg_GRPC cfg), gsv_max_receive = grpc_MaxReceiveBytes (cfg_GRPC cfg),
            gsv_creds = creds,
            gsv_services = [''ConfigService'', ''Health''] @ (if grpc_ReflectionEnabled (cfg_GRPC cfg) then [''ServerReflection''] else []),
            gsv_enabled = grpc_Enabled (cfg_GRPC cfg)\<rparr>)
      in if gtls_Enabled (grpc_TLS (cfg_GRPC cfg)) then
           (case serverCredentials files (grpc_TLS (cfg_GRPC cfg)) of
              Inl err \<Rightarrow> Inl err
            | Inr creds \<Rightarrow> Inr (server (Some creds)))
         else Inr (server None))"

text \<open>
  Start and stop. \<open>listen\<close> is \<^verbatim>\<open>net.Listen\<close>. A stop waits until the running calls have ended (\<open>None\<close>)
  or until its own context does, and then cuts them off.
\<close>

datatype server_step = Listen string | Serve string | GracefulStop | HardStop

definition grpc_start :: "(string \<Rightarrow> gerror option) \<Rightarrow> grpc_server \<Rightarrow> gerror option \<times> server_step list" where
  "grpc_start listen s =
     (if \<not> gsv_enabled s then (None, [])
      else (case listen (gsv_address s) of
              Some err \<Rightarrow> (Some (Wrap ''listen grpc'' err), [])
            | None \<Rightarrow> (None, [Listen (gsv_address s), Serve (gsv_address s)])))"

definition grpc_stop :: "gerror option \<Rightarrow> gerror option \<times> server_step list" where
  "grpc_stop ended =
     (case ended of None \<Rightarrow> (None, [GracefulStop]) | Some err \<Rightarrow> (Some err, [GracefulStop, HardStop]))"

section \<open>The HTTP server\<close>

text \<open>What a request has to pass before the handler of its route.\<close>

datatype guard = Unguarded | Token_guard | Pprof_guard string | Api_guard

definition pprof_routes :: "(string \<times> string) list" where
  "pprof_routes =
     [(''GET'', ''/''), (''GET'', ''/cmdline''), (''GET'', ''/profile''), (''POST'', ''/symbol''), (''GET'', ''/symbol''), (''GET'', ''/trace'')] @
     map (\<lambda>profile. (''GET'', ''/'' @ profile)) [''allocs'', ''block'', ''goroutine'', ''heap'', ''mutex'', ''threadcreate'']"

definition api_paths :: "string list" where
  "api_paths =
     [''/version'', ''/me'', ''/config/entries/put-draft'', ''/config/entries/get'', ''/config/entries/submit'',
      ''/config/entries/approve'', ''/config/entries/reject'', ''/config/entries/publish'', ''/config/entries/rollback'',
      ''/config/resolve'', ''/config/entries/list'']"

definition http_routes :: "Config \<Rightarrow> (string \<times> string \<times> guard) list" where
  "http_routes cfg =
     concat (map (\<lambda>verb. [(verb, ''/live'', Unguarded), (verb, ''/ready'', Unguarded)]) [''GET'', ''POST'']) @
     (if obs_MetricsEnabled (cfg_Observability cfg) then [(''GET'', ''/metrics'', Unguarded)] else []) @
     (if obs_PprofEnabled (cfg_Observability cfg)
      then map (\<lambda>(verb, path). (verb, ''/debug/pprof'' @ path, Pprof_guard (obs_PprofToken (cfg_Observability cfg)))) pprof_routes else []) @
     (if swagger_Enabled (cfg_Swagger cfg)
      then [(''GET'', ''/swagger/*any'', if swagger_RequireAuth (cfg_Swagger cfg) then Token_guard else Unguarded)] else []) @
     map (\<lambda>path. (''POST'', ''/api/v1'' @ path, Api_guard)) api_paths"

record http_server =
  hsv_Addr :: string
  hsv_release :: bool
  hsv_routes :: "(string \<times> string \<times> guard) list"
  hsv_ReadTimeout :: duration
  hsv_WriteTimeout :: duration
  hsv_IdleTimeout :: duration

definition http_NewServer :: "(string list \<Rightarrow> gerror option) \<Rightarrow> Config \<Rightarrow> http_server result" where
  "http_NewServer setTrustedProxies cfg =
     (case setTrustedProxies (http_TrustedProxies (cfg_HTTP cfg)) of
        Some err \<Rightarrow> Inl (Wrap ''configure trusted proxies'' err)
      | None \<Rightarrow> Inr \<lparr>hsv_Addr = http_Address (cfg_HTTP cfg), hsv_release = production cfg, hsv_routes = http_routes cfg,
          hsv_ReadTimeout = http_ReadTimeout (cfg_HTTP cfg), hsv_WriteTimeout = http_WriteTimeout (cfg_HTTP cfg),
          hsv_IdleTimeout = http_IdleTimeout (cfg_HTTP cfg)\<rparr>)"

definition http_start :: "(string \<Rightarrow> gerror option) \<Rightarrow> http_server \<Rightarrow> gerror option \<times> server_step list" where
  "http_start listen s =
     (case listen (hsv_Addr s) of
        Some err \<Rightarrow> (Some (Wrap ''listen http'' err), [])
      | None \<Rightarrow> (None, [Listen (hsv_Addr s), Serve (hsv_Addr s)]))"

section \<open>Laws\<close>

text \<open>The stream chain ends with a status, whatever the handler does.\<close>

lemma recoveryStream_Done: "\<exists>r w'. recoveryStreamInterceptor h c w = (Done r, w')"
  by (auto simp: recoveryStreamInterceptor_def split: prod.splits outcome.splits)

lemma stream_chain_Done: "\<exists>r w'. stream_chain g md fullMethod handler c w = (Done r, w')"
  using recoveryStream_Done
  by (fastforce simp: stream_chain_def environmentStreamInterceptor_def requestIDStreamInterceptor_def
      idempotencyStreamInterceptor_def Let_def split: prod.splits list.splits)

text \<open>
  The handler of a stream is run only on contexts that the interceptor of unary calls would let pass:
  two handlers that agree on those give the same result.
\<close>

definition admitted :: "(string \<Rightarrow> principal result) \<Rightarrow> Auth \<Rightarrow> metadata \<Rightarrow> string \<Rightarrow> ctx \<Rightarrow> bool" where
  "admitted verify cfg md fullMethod c \<longleftrightarrow>
     (\<exists>p. ctx_principal c = Some p \<and> grpc_credential verify cfg md p) \<or> MatchesAny fullMethod (auth_SkipGRPCMethods cfg)"

lemma authStream_admitted:
  assumes "\<And>c w. admitted verify cfg md fullMethod c \<Longrightarrow> h1 c w = h2 c w"
  shows "authStreamInterceptor verify cfg md fullMethod h1 = authStreamInterceptor verify cfg md fullMethod h2"
proof (intro ext)
  fix c w
  show "authStreamInterceptor verify cfg md fullMethod h1 c w = authStreamInterceptor verify cfg md fullMethod h2 c w"
  proof (cases "authenticateGRPC verify cfg md fullMethod c")
    case (Inr c')
    then have "admitted verify cfg md fullMethod c'"
      using authenticateGRPC_Inr [OF Inr] by (auto simp: admitted_def)
    with Inr assms show ?thesis by (simp add: authStreamInterceptor_def)
  qed (simp add: authStreamInterceptor_def)
qed

lemma stream_chain_admitted:
  assumes "\<And>c w. admitted (se_verify g) (se_auth g) md fullMethod c \<Longrightarrow> h1 c w = h2 c w"
  shows "stream_chain g md fullMethod h1 = stream_chain g md fullMethod h2"
proof -
  let ?m = "metricsStreamInterceptor (se_metrics g) (se_observe g) (se_code_String g) (se_elapsed g) fullMethod"
  have "authStreamInterceptor (se_verify g) (se_auth g) md fullMethod (?m h1) =
      authStreamInterceptor (se_verify g) (se_auth g) md fullMethod (?m h2)"
    by (rule authStream_admitted) (simp add: metricsStreamInterceptor_def assms)
  then show ?thesis unfolding stream_chain_def by (simp only:)
qed

text \<open>The metrics of a unary call leave its reply as it is, so that the chain of unary calls can do without them.\<close>

lemma metricsInterceptor_reply: "fst (metricsInterceptor m code_String elapsed fullMethod handler c q d) = handler c q d"
  by (simp add: metricsInterceptor_def split: prod.split outcome.split)

text \<open>The table of routes is the one that requests are routed by.\<close>

lemma api_paths_routes: "map fst (api_routes env) = map ((@) ''/api/v1'') api_paths"
  by (simp add: api_routes_def api_paths_def)

lemma unguarded_routes:
  assumes "swagger_Enabled (cfg_Swagger cfg) \<Longrightarrow> swagger_RequireAuth (cfg_Swagger cfg)"
    and "(verb, path, Unguarded) \<in> set (http_routes cfg)"
  shows "path = ''/live'' \<or> path = ''/ready'' \<or> path = ''/metrics''"
proof -
  have api: "(verb, path, Unguarded) \<notin> set (map (\<lambda>p. (''POST'', ''/api/v1'' @ p, Api_guard)) api_paths)"
    by (auto simp del: append_Cons)
  have pprof: "(verb, path, Unguarded) \<notin> set (map (\<lambda>(verb, p). (verb, ''/debug/pprof'' @ p, Pprof_guard token)) pprof_routes)" for token
    by (auto simp del: append_Cons)
  have "(verb, path, Unguarded) \<in> set (concat (map (\<lambda>verb. [(verb, ''/live'', Unguarded), (verb, ''/ready'', Unguarded)]) [''GET'', ''POST''])) \<or>
      (verb, path, Unguarded) = (''GET'', ''/metrics'', Unguarded)"
    using assms(2) unfolding http_routes_def set_append Un_iff
  proof (elim disjE)
    assume "(verb, path, Unguarded) \<in> set (if swagger_Enabled (cfg_Swagger cfg)
      then [(''GET'', ''/swagger/*any'', if swagger_RequireAuth (cfg_Swagger cfg) then Token_guard else Unguarded)] else [])"
    then show ?thesis using assms(1) by (simp split: if_splits)
  qed (use api pprof in \<open>simp_all split: if_splits\<close>)
  then show ?thesis by simp blast
qed

lemma grpc_NewServer_tls:
  "grpc_NewServer files cfg = Inr s \<Longrightarrow> (gsv_creds s \<noteq> None \<longleftrightarrow> gtls_Enabled (grpc_TLS (cfg_GRPC cfg))) \<and>
    (''ServerReflection'' \<in> set (gsv_services s) \<longleftrightarrow> grpc_ReflectionEnabled (cfg_GRPC cfg))"
  by (auto simp: grpc_NewServer_def Let_def split: if_splits sum.splits)

end
