(* ===== verification/Upstream_Grpc.thy ===== *)
theory Upstream_Grpc
  imports Upstream_Http
begin

text \<open>
  The client of a gRPC upstream (\<^verbatim>\<open>grpcclient/client.go\<close>): deadlines, credentials and identifiers on
  outgoing calls, the circuit breaker and retries, as the chain of interceptors that \<^verbatim>\<open>Dial\<close> builds. An
  invoker maps the context of a call, the method and the state of the outside world to the error of
  the call (\<open>None\<close> for success) and the world; messages are not inspected by any interceptor and part
  of the world. The clock, waiting for a timer or the end of the context, the breaker library, TLS
  files, metrics and \<^verbatim>\<open>grpc.NewClient\<close> are parameters.
\<close>

section \<open>Calls\<close>

datatype rpc_code =
    OK_code | Canceled | Unknown | InvalidArgument | DeadlineExceeded | NotFound_code | AlreadyExists | PermissionDenied
  | ResourceExhausted | FailedPrecondition | Aborted | OutOfRange | Unimplemented | Internal_code | Unavailable_code
  | DataLoss | Unauthenticated

text \<open>An error with a status, or any other error, whose code is \<open>Unknown\<close>.\<close>

datatype call_error = Status_error rpc_code string | Other_error gerror

fun status_Code :: "call_error option \<Rightarrow> rpc_code" where
  "status_Code None = OK_code"
| "status_Code (Some (Status_error code message)) = code"
| "status_Code (Some (Other_error err)) = Unknown"

record call_ctx =
  cc_values :: ctx
  cc_Deadline :: "time option"
  cc_metadata :: "(string \<times> string) list"

type_synonym 'w invoker = "call_ctx \<Rightarrow> string \<Rightarrow> 'w \<Rightarrow> call_error option \<times> 'w"

text \<open>
  \<open>lib_Execute trip excluded f\<close> is \<^verbatim>\<open>Execute\<close> of a breaker with the settings \<^verbatim>\<open>ReadyToTrip\<close> (of the
  consecutive failures) and \<^verbatim>\<open>IsExcluded\<close>; its state is part of the world. \<open>lib_observe\<close> takes a sample.
\<close>

record 'w client_lib =
  lib_now :: "'w \<Rightarrow> time"
  lib_wait :: "call_ctx \<Rightarrow> duration \<Rightarrow> 'w \<Rightarrow> gerror option \<times> 'w"
  lib_Execute :: "(int \<Rightarrow> bool) \<Rightarrow> (call_error option \<Rightarrow> bool) \<Rightarrow> ('w \<Rightarrow> call_error option \<times> 'w) \<Rightarrow> 'w \<Rightarrow> call_error option \<times> 'w"
  lib_idempotency_FromContext :: "ctx \<Rightarrow> string \<times> bool"
  lib_observe :: "sample \<Rightarrow> 'w \<Rightarrow> 'w"
  lib_code_String :: "rpc_code \<Rightarrow> string"

section \<open>Interceptors\<close>

definition retryGRPCMethod :: "'w client_lib \<Rightarrow> ctx \<Rightarrow> string \<Rightarrow> string list \<Rightarrow> bool" where
  "retryGRPCMethod lib c fullMethod patterns =
     (if snd (lib_idempotency_FromContext lib c) then True
      else list_ex (\<lambda>pattern. Match pattern fullMethod = Some True) patterns)"

text \<open>The delay of \<^verbatim>\<open>waitRetry\<close>: a shift of an int64.\<close>

definition retry_delay :: "Retry \<Rightarrow> int \<Rightarrow> duration" where
  "retry_delay cfg attempt =
     (let delay = wrap64 (retry_InitialBackoff cfg * 2 ^ nat (attempt - 1))
      in if retry_MaxBackoff cfg < delay then retry_MaxBackoff cfg else delay)"

definition retryable_code :: "rpc_code \<Rightarrow> bool" where
  "retryable_code code \<longleftrightarrow> \<not> (code \<noteq> Unavailable_code \<and> code \<noteq> ResourceExhausted)"

text \<open>The loop of the retry interceptor from one attempt on; \<open>err\<close> is the error of the attempt before.\<close>

function retry_calls ::
    "'w client_lib \<Rightarrow> Retry \<Rightarrow> 'w invoker \<Rightarrow> call_ctx \<Rightarrow> string \<Rightarrow> int \<Rightarrow> call_error option \<Rightarrow> 'w \<Rightarrow> call_error option \<times> 'w" where
  "retry_calls lib cfg invoker c fullMethod attempt err w =
     (if retry_MaxAttempts cfg < attempt then (err, w)
      else (case invoker c fullMethod w of (err', w1) \<Rightarrow>
        if \<not> retryable_code (status_Code err') then (err', w1)
        else if attempt < retry_MaxAttempts cfg then
          (case lib_wait lib c (retry_delay cfg attempt) w1 of
             (Some waitErr, w2) \<Rightarrow> (Some (Other_error waitErr), w2)
           | (None, w2) \<Rightarrow> retry_calls lib cfg invoker c fullMethod (attempt + 1) err' w2)
        else retry_calls lib cfg invoker c fullMethod (attempt + 1) err' w1))"
  by pat_completeness auto
termination
  by (relation "measure (\<lambda>(lib, cfg, invoker, c, fullMethod, attempt, err, w). nat (retry_MaxAttempts cfg + 1 - attempt))") auto

declare retry_calls.simps [simp del]

definition retryInterceptor :: "'w client_lib \<Rightarrow> Retry \<Rightarrow> 'w invoker \<Rightarrow> 'w invoker" where
  "retryInterceptor lib cfg invoker = (\<lambda>c fullMethod w.
     if \<not> retryGRPCMethod lib (cc_values c) fullMethod (retry_Methods cfg) then invoker c fullMethod w
     else retry_calls lib cfg invoker c fullMethod 1 None w)"

definition breaker_excluded :: "call_error option \<Rightarrow> bool" where
  "breaker_excluded err =
     (let code = status_Code err in code \<noteq> Unavailable_code \<and> code \<noteq> ResourceExhausted \<and> code \<noteq> DeadlineExceeded)"

definition breakerInterceptor :: "'w client_lib \<Rightarrow> Breaker \<Rightarrow> 'w invoker \<Rightarrow> 'w invoker" where
  "breakerInterceptor lib cfg invoker = (\<lambda>c fullMethod.
     lib_Execute lib (ready_to_trip cfg) breaker_excluded (invoker c fullMethod))"

definition client_metricsInterceptor :: "'w client_lib \<Rightarrow> string \<Rightarrow> Metrics \<Rightarrow> 'w invoker \<Rightarrow> 'w invoker" where
  "client_metricsInterceptor lib name m invoker = (\<lambda>c fullMethod w.
     case invoker c fullMethod w of (err, w1) \<Rightarrow>
       (err, fold (lib_observe lib)
          (outbound_samples m ''grpc'' name (lib_code_String lib (status_Code err)) (lib_now lib w1 - lib_now lib w)) w1))"

definition timeoutInterceptor :: "'w client_lib \<Rightarrow> duration \<Rightarrow> 'w invoker \<Rightarrow> 'w invoker" where
  "timeoutInterceptor lib timeout invoker = (\<lambda>c fullMethod w.
     case cc_Deadline c of
       Some d \<Rightarrow> invoker c fullMethod w
     | None \<Rightarrow> invoker (c\<lparr>cc_Deadline := Some (lib_now lib w + timeout)\<rparr>) fullMethod w)"

text \<open>The pairs that the metadata interceptor appends.\<close>

definition outgoing_pairs :: "'w client_lib \<Rightarrow> string \<Rightarrow> string \<Rightarrow> ctx \<Rightarrow> (string \<times> string) list" where
  "outgoing_pairs lib token psk c =
     (if token \<noteq> [] then [(''authorization'', ''Bearer '' @ token)]
      else if psk \<noteq> [] then [(''authorization'', ''PSK '' @ psk)] else []) @
     (case requestid_FromContext c of (rid, ok) \<Rightarrow> if ok then [(''x-request-id'', rid)] else []) @
     (case lib_idempotency_FromContext lib c of (key, ok) \<Rightarrow> if ok then [(''idempotency-key'', key)] else [])"

definition metadataInterceptor :: "'w client_lib \<Rightarrow> string \<Rightarrow> string \<Rightarrow> 'w invoker \<Rightarrow> 'w invoker" where
  "metadataInterceptor lib token psk invoker = (\<lambda>c fullMethod w.
     let pairs = outgoing_pairs lib token psk (cc_values c) in
     invoker (if pairs \<noteq> [] then c\<lparr>cc_metadata := cc_metadata c @ pairs\<rparr> else c) fullMethod w)"

section \<open>Connections\<close>

record TLSConfig =
  tlsc_Enabled :: bool
  tlsc_ServerName :: string
  tlsc_CAFile :: string
  tlsc_CertFile :: string
  tlsc_KeyFile :: string
  tlsc_AllowInsecureToken :: bool

record client_config =
  gc_Target :: string
  gc_Timeout :: duration
  gc_Token :: string
  gc_PSK :: string
  gc_TLS :: TLSConfig
  gc_Name :: string
  gc_Retry :: Retry
  gc_Breaker :: Breaker
  gc_Metrics :: "Metrics option"

datatype transport_credentials = Insecure | TLS_credentials (tc_ServerName: string) (tc_CA: string) (tc_Certificate: string)

definition transportCredentials :: "tls_files \<Rightarrow> TLSConfig \<Rightarrow> transport_credentials result" where
  "transportCredentials files cfg =
     (if \<not> tlsc_Enabled cfg then Inr Insecure
      else (let creds = TLS_credentials (tlsc_ServerName cfg) (tlsc_CAFile cfg) (tlsc_CertFile cfg);
                pair = (if tlsc_CertFile cfg \<noteq> [] \<or> tlsc_KeyFile cfg \<noteq> [] then
                          (if tlsc_CertFile cfg = [] \<or> tlsc_KeyFile cfg = []
                           then Inl (Plain ''grpc client certificate and key must be configured together'')
                           else (case tf_loadPair files (tlsc_CertFile cfg) (tlsc_KeyFile cfg) of
                                   Some err \<Rightarrow> Inl (Wrap ''load grpc client certificate'' err)
                                 | None \<Rightarrow> Inr creds))
                        else Inr creds)
            in if tlsc_CAFile cfg \<noteq> [] then
                 (case tf_readCA files (tlsc_CAFile cfg) of
                    Some err \<Rightarrow> Inl (Wrap ''read grpc CA'' err)
                  | None \<Rightarrow> if \<not> tf_parseCA files (tlsc_CAFile cfg) then Inl (Plain ''parse grpc CA'') else pair)
               else pair))"

text \<open>A connection keeps the settings of its interceptors and its transport.\<close>

record connection =
  conn_cfg :: client_config
  conn_transport :: transport_credentials

definition Dial :: "tls_files \<Rightarrow> (string \<Rightarrow> gerror option) \<Rightarrow> client_config \<Rightarrow> connection result" where
  "Dial files newClient cfg =
     (if gc_Target cfg = [] then Inl (Plain ''grpc client target is required'')
      else if gc_Timeout cfg \<le> 0 then Inl (Plain ''grpc client timeout must be positive'')
      else (case transportCredentials files (gc_TLS cfg) of
        Inl err \<Rightarrow> Inl err
      | Inr transport \<Rightarrow>
        if gc_Token cfg \<noteq> [] \<and> \<not> tlsc_Enabled (gc_TLS cfg) \<and> \<not> tlsc_AllowInsecureToken (gc_TLS cfg)
        then Inl (Plain ''refusing to send grpc bearer token without TLS'')
        else if gc_PSK cfg \<noteq> [] \<and> gc_Token cfg \<noteq> []
        then Inl (Plain ''grpc client bearer token and PSK are mutually exclusive'')
        else if gc_PSK cfg \<noteq> [] \<and> \<not> tlsc_Enabled (gc_TLS cfg) \<and> \<not> tlsc_AllowInsecureToken (gc_TLS cfg)
        then Inl (Plain ''refusing to send grpc PSK without TLS'')
        else (case newClient (gc_Target cfg) of
                Some err \<Rightarrow> Inl err
              | None \<Rightarrow> Inr \<lparr>conn_cfg = cfg, conn_transport = transport\<rparr>)))"

text \<open>A unary call through the chain that \<^verbatim>\<open>Dial\<close> registers, outermost interceptor first.\<close>

definition client_chain :: "'w client_lib \<Rightarrow> client_config \<Rightarrow> 'w invoker \<Rightarrow> 'w invoker" where
  "client_chain lib cfg invoker =
     timeoutInterceptor lib (gc_Timeout cfg) (metadataInterceptor lib (gc_Token cfg) (gc_PSK cfg)
       ((case gc_Metrics cfg of None \<Rightarrow> (\<lambda>i. i) | Some m \<Rightarrow> client_metricsInterceptor lib (gc_Name cfg) m)
         ((if brk_Enabled (gc_Breaker cfg) then breakerInterceptor lib (gc_Breaker cfg) else (\<lambda>i. i))
           ((if 1 < retry_MaxAttempts (gc_Retry cfg) then retryInterceptor lib (gc_Retry cfg) else (\<lambda>i. i)) invoker))))"

section \<open>The registry of upstreams\<close>

text \<open>
  \<^verbatim>\<open>registry.go\<close>. The settings are Go maps: \<open>NewRegistry\<close> takes their entries in the order in which the
  loops see them. \<open>lib\<close> is the client that \<^verbatim>\<open>NewHTTPClient\<close> fills, \<open>reg_closed\<close> the connections closed.
\<close>

record Registry =
  reg_http :: "(string \<times> http_client) list"
  reg_grpc :: "(string \<times> connection) list"

record registry_env =
  re_parsed :: "string \<Rightarrow> bool"
  re_quote :: "string \<Rightarrow> string"
  re_files :: tls_files
  re_client :: http_client
  re_newClient :: "string \<Rightarrow> gerror option"
  re_Close :: "string \<Rightarrow> gerror option"
  re_metrics :: Metrics

definition registry_HTTP :: "Registry \<Rightarrow> string \<Rightarrow> http_client option" where
  "registry_HTTP r name = map_of (reg_http r) name"

definition registry_GRPC :: "Registry \<Rightarrow> string \<Rightarrow> connection option" where
  "registry_GRPC r name = map_of (reg_grpc r) name"

text \<open>\<^verbatim>\<open>close\<close>: the first error and the names of the connections it closed.\<close>

definition registry_close :: "registry_env \<Rightarrow> Registry \<Rightarrow> gerror option \<times> string list" where
  "registry_close env r =
     (foldl (\<lambda>closeErr (name, conn).
        case re_Close env name of
          Some err \<Rightarrow> if closeErr = None then Some (Wrap (''close outbound gRPC client '' @ re_quote env name) err) else closeErr
        | None \<Rightarrow> closeErr) None (reg_grpc r),
      map fst (reg_grpc r))"

definition upstream_config :: "Metrics \<Rightarrow> string \<Rightarrow> GRPCUpstream \<Rightarrow> client_config" where
  "upstream_config metrics name u =
     \<lparr>gc_Target = gup_Target u, gc_Timeout = gup_Timeout u,
      gc_Token = (if ca_Type (gup_Auth u) = ''bearer'' then ca_Token (gup_Auth u) else []),
      gc_PSK = (if ca_Type (gup_Auth u) = ''psk'' then ca_Token (gup_Auth u) else []),
      gc_TLS = \<lparr>tlsc_Enabled = ctls_Enabled (gup_TLS u), tlsc_ServerName = ctls_ServerName (gup_TLS u),
        tlsc_CAFile = ctls_CAFile (gup_TLS u), tlsc_CertFile = ctls_CertFile (gup_TLS u),
        tlsc_KeyFile = ctls_KeyFile (gup_TLS u), tlsc_AllowInsecureToken = False\<rparr>,
      gc_Name = name, gc_Retry = gup_Retry u, gc_Breaker = gup_Breaker u, gc_Metrics = Some metrics\<rparr>"

fun add_http :: "registry_env \<Rightarrow> (string \<times> HTTPUpstream) list \<Rightarrow> Registry \<Rightarrow> (Registry + Registry \<times> gerror)" where
  "add_http env [] r = Inl r"
| "add_http env ((name, upstream) # rest) r =
     (case NewHTTPClient (re_parsed env) (re_quote env) (re_files env) (re_client env) name upstream (Some (re_metrics env)) of
        Inl err \<Rightarrow> Inr (r, Wrap (''create outbound HTTP client '' @ re_quote env name) err)
      | Inr client \<Rightarrow> add_http env rest (r\<lparr>reg_http := reg_http r @ [(name, client)]\<rparr>))"

fun add_grpc :: "registry_env \<Rightarrow> (string \<times> GRPCUpstream) list \<Rightarrow> Registry \<Rightarrow> (Registry + Registry \<times> gerror)" where
  "add_grpc env [] r = Inl r"
| "add_grpc env ((name, upstream) # rest) r =
     (case Dial (re_files env) (re_newClient env) (upstream_config (re_metrics env) name upstream) of
        Inl err \<Rightarrow> Inr (r, Wrap (''create outbound gRPC client '' @ re_quote env name) err)
      | Inr conn \<Rightarrow> add_grpc env rest (r\<lparr>reg_grpc := reg_grpc r @ [(name, conn)]\<rparr>))"

text \<open>The registry, or the error, and the connections closed on the way.\<close>

definition NewRegistry :: "registry_env \<Rightarrow> Outbound \<Rightarrow> Registry result \<times> string list" where
  "NewRegistry env outbound =
     (case add_http env (out_HTTP outbound) \<lparr>reg_http = [], reg_grpc = []\<rparr> of
        Inr (r, err) \<Rightarrow> (Inl err, snd (registry_close env r))
      | Inl r \<Rightarrow>
        (case add_grpc env (out_GRPC outbound) r of
           Inr (r', err) \<Rightarrow> (Inl err, snd (registry_close env r'))
         | Inl r' \<Rightarrow> (Inr r', [])))"

section \<open>Bounds of a call\<close>

text \<open>
  An invoker makes at most \<open>n\<close> calls: \<open>calls\<close> counts, in the world, what reaches the upstream. An
  interceptor is bounded by a factor.
\<close>

definition at_most :: "('w \<Rightarrow> nat) \<Rightarrow> nat \<Rightarrow> 'w invoker \<Rightarrow> bool" where
  "at_most calls n invoker \<longleftrightarrow> (\<forall>c fullMethod w. calls (snd (invoker c fullMethod w)) \<le> calls w + n)"

text \<open>
  What is relied on of the libraries: waiting and taking samples call nothing; \<^verbatim>\<open>Execute\<close> refuses, or runs
  the function once and returns its error, and calls nothing itself.
\<close>

definition quiet_wait :: "('w \<Rightarrow> 'a) \<Rightarrow> 'w client_lib \<Rightarrow> bool" where
  "quiet_wait calls lib \<longleftrightarrow> (\<forall>c t w. calls (snd (lib_wait lib c t w)) = calls w)"

definition quiet_Execute :: "('w \<Rightarrow> 'a) \<Rightarrow> 'w client_lib \<Rightarrow> bool" where
  "quiet_Execute calls lib \<longleftrightarrow> (\<forall>trip excluded f w.
     (\<exists>err w1. lib_Execute lib trip excluded f w = (Some err, w1) \<and> calls w1 = calls w) \<or>
     (\<exists>w1 w2. calls w1 = calls w \<and> lib_Execute lib trip excluded f w = (fst (f w1), w2) \<and> calls w2 = calls (snd (f w1))))"

definition quiet_observe :: "('w \<Rightarrow> 'a) \<Rightarrow> 'w client_lib \<Rightarrow> bool" where
  "quiet_observe calls lib \<longleftrightarrow> (\<forall>s w. calls (lib_observe lib s w) = calls w)"

lemma at_mostI: "(\<And>c fullMethod w. calls (snd (invoker c fullMethod w)) \<le> calls w + n) \<Longrightarrow> at_most calls n invoker"
  by (simp add: at_most_def)

lemma at_mostD: "at_most calls n invoker \<Longrightarrow> calls (snd (invoker c fullMethod w)) \<le> calls w + n"
  by (simp add: at_most_def)

lemma at_most_mono: "at_most calls n invoker \<Longrightarrow> n \<le> k \<Longrightarrow> at_most calls k invoker"
  unfolding at_most_def by (meson add_le_cancel_left order_trans)

text \<open>One round of the retry loop.\<close>

lemma retry_calls_step:
  assumes "a \<le> retry_MaxAttempts cfg" and "invoker c fullMethod w = (e, w1)"
  obtains "retry_calls lib cfg invoker c fullMethod a err w = (e, w1)"
  | t e2 w2 where "lib_wait lib c t w1 = (Some e2, w2)"
      "retry_calls lib cfg invoker c fullMethod a err w = (Some (Other_error e2), w2)"
  | t w2 where "lib_wait lib c t w1 = (None, w2)"
      "retry_calls lib cfg invoker c fullMethod a err w = retry_calls lib cfg invoker c fullMethod (a + 1) e w2"
  | "retry_calls lib cfg invoker c fullMethod a err w = retry_calls lib cfg invoker c fullMethod (a + 1) e w1"
proof (cases "lib_wait lib c (retry_delay cfg a) w1")
  case (Pair we w2)
  have eq: "retry_calls lib cfg invoker c fullMethod a err w =
     (if \<not> retryable_code (status_Code e) then (e, w1)
      else if a < retry_MaxAttempts cfg then
        (case we of Some waitErr \<Rightarrow> (Some (Other_error waitErr), w2)
         | None \<Rightarrow> retry_calls lib cfg invoker c fullMethod (a + 1) e w2)
      else retry_calls lib cfg invoker c fullMethod (a + 1) e w1)"
    using assms Pair by (subst retry_calls.simps) (auto split: option.splits)
  consider "\<not> retryable_code (status_Code e)" | "retryable_code (status_Code e)" "a < retry_MaxAttempts cfg"
    | "retryable_code (status_Code e)" "\<not> a < retry_MaxAttempts cfg" by blast
  then show thesis
  proof cases
    case 2
    show thesis
    proof (cases we)
      case None
      with that(3) Pair eq 2 show thesis by simp
    next
      case (Some e2)
      with that(2) Pair eq 2 show thesis by simp
    qed
  qed (use that(1,4) eq in simp_all)
qed

lemma retry_calls_bound:
  assumes wait: "quiet_wait calls lib" and inv: "at_most calls n invoker"
  shows "calls (snd (retry_calls lib cfg invoker c fullMethod a err w)) \<le> calls w + nat (retry_MaxAttempts cfg + 1 - a) * n"
proof (induction "nat (retry_MaxAttempts cfg + 1 - a)" arbitrary: a err w)
  case 0
  then show ?case by (simp add: retry_calls.simps [of lib cfg invoker c fullMethod a err w])
next
  case (Suc k)
  then have a: "a \<le> retry_MaxAttempts cfg" and k: "k = nat (retry_MaxAttempts cfg + 1 - (a + 1))" by auto
  obtain e w1 where call: "invoker c fullMethod w = (e, w1)" by fastforce
  then have w1: "calls w1 \<le> calls w + n" using at_mostD [OF inv, of c fullMethod w] by simp
  have w2: "calls w2 = calls w1" if "lib_wait lib c t w1 = (we, w2)" for t we w2
    using wait that unfolding quiet_wait_def by (metis snd_conv)
  have split: "nat (retry_MaxAttempts cfg + 1 - a) * n = n + k * n" using Suc(2) by (metis mult_Suc)
  have rest: "calls (snd (retry_calls lib cfg invoker c fullMethod (a + 1) e v)) \<le> calls v + k * n" for v
    using Suc(1) [OF k] k by simp
  from a call show ?case
  proof (rule retry_calls_step [where lib = lib and err = err])
    assume "retry_calls lib cfg invoker c fullMethod a err w = (e, w1)"
    then show ?thesis using w1 split by simp
  next
    fix t e2 w2
    assume "lib_wait lib c t w1 = (Some e2, w2)"
      and "retry_calls lib cfg invoker c fullMethod a err w = (Some (Other_error e2), w2)"
    then show ?thesis using w1 w2 split by simp
  next
    fix t w2
    assume "lib_wait lib c t w1 = (None, w2)"
      and "retry_calls lib cfg invoker c fullMethod a err w = retry_calls lib cfg invoker c fullMethod (a + 1) e w2"
    then show ?thesis using w1 w2 [of t None w2] split rest [of w2] by simp
  next
    assume "retry_calls lib cfg invoker c fullMethod a err w = retry_calls lib cfg invoker c fullMethod (a + 1) e w1"
    then show ?thesis using w1 split rest [of w1] by simp
  qed
qed

lemma timeout_at_most: "at_most calls n invoker \<Longrightarrow> at_most calls n (timeoutInterceptor lib timeout invoker)"
  by (auto simp: timeoutInterceptor_def at_most_def split: option.splits)

lemma metadata_at_most: "at_most calls n invoker \<Longrightarrow> at_most calls n (metadataInterceptor lib token psk invoker)"
  by (auto simp: metadataInterceptor_def at_most_def Let_def)

lemma breaker_at_most:
  assumes "quiet_Execute calls lib" and inv: "at_most calls n invoker"
  shows "at_most calls n (breakerInterceptor lib cfg invoker)"
proof (rule at_mostI)
  fix c fullMethod w
  note exec = assms(1) [unfolded quiet_Execute_def, rule_format, of "ready_to_trip cfg" breaker_excluded "invoker c fullMethod" w]
  consider err w1 where "breakerInterceptor lib cfg invoker c fullMethod w = (Some err, w1)" "calls w1 = calls w"
    | w1 w2 where "calls w1 = calls w" "breakerInterceptor lib cfg invoker c fullMethod w = (fst (invoker c fullMethod w1), w2)"
        "calls w2 = calls (snd (invoker c fullMethod w1))"
    using exec by (auto simp: breakerInterceptor_def)
  then show "calls (snd (breakerInterceptor lib cfg invoker c fullMethod w)) \<le> calls w + n"
  proof cases
    case (2 w1 w2)
    then show ?thesis using at_mostD [OF inv, of c fullMethod w1] by simp
  qed simp
qed

lemma retry_at_most:
  assumes "quiet_wait calls lib" and inv: "at_most calls n invoker" and "1 \<le> retry_MaxAttempts cfg"
  shows "at_most calls (nat (retry_MaxAttempts cfg) * n) (retryInterceptor lib cfg invoker)"
proof (rule at_mostI)
  fix c fullMethod w
  have "1 \<le> nat (retry_MaxAttempts cfg)" using assms(3) by linarith
  from mult_le_mono1 [OF this, of n] have more: "n \<le> nat (retry_MaxAttempts cfg) * n" by simp
  show "calls (snd (retryInterceptor lib cfg invoker c fullMethod w)) \<le> calls w + nat (retry_MaxAttempts cfg) * n"
  proof (cases "retryGRPCMethod lib (cc_values c) fullMethod (retry_Methods cfg)")
    case True
    then show ?thesis
      using retry_calls_bound [OF assms(1) inv, of cfg c fullMethod 1 None w] by (simp add: retryInterceptor_def)
  next
    case False
    have "calls (snd (invoker c fullMethod w)) \<le> calls w + nat (retry_MaxAttempts cfg) * n"
      by (rule order_trans [OF at_mostD [OF inv] add_left_mono [OF more]])
    with False show ?thesis by (simp add: retryInterceptor_def)
  qed
qed

text \<open>What an invoker reached through the chain sees of a context: a deadline and the outgoing pairs.\<close>

definition prepared :: "'w client_lib \<Rightarrow> client_config \<Rightarrow> call_ctx \<Rightarrow> call_ctx \<Rightarrow> bool" where
  "prepared lib cfg c c' \<longleftrightarrow>
     cc_values c' = cc_values c \<and> (cc_Deadline c' = cc_Deadline c \<or> cc_Deadline c = None) \<and> cc_Deadline c' \<noteq> None \<and>
     cc_metadata c' = cc_metadata c @ outgoing_pairs lib (gc_Token cfg) (gc_PSK cfg) (cc_values c)"

definition guarded_chain :: "'w client_lib \<Rightarrow> client_config \<Rightarrow> 'w invoker \<Rightarrow> 'w invoker" where
  "guarded_chain lib cfg invoker =
     (if brk_Enabled (gc_Breaker cfg) then breakerInterceptor lib (gc_Breaker cfg) else (\<lambda>i. i))
       ((if 1 < retry_MaxAttempts (gc_Retry cfg) then retryInterceptor lib (gc_Retry cfg) else (\<lambda>i. i)) invoker)"

definition core_chain :: "'w client_lib \<Rightarrow> client_config \<Rightarrow> 'w invoker \<Rightarrow> 'w invoker" where
  "core_chain lib cfg invoker =
     (case gc_Metrics cfg of None \<Rightarrow> (\<lambda>i. i) | Some m \<Rightarrow> client_metricsInterceptor lib (gc_Name cfg) m)
       (guarded_chain lib cfg invoker)"

lemma client_chain_core:
  obtains c' where "prepared lib cfg c c'"
    "\<And>invoker fullMethod. client_chain lib cfg invoker c fullMethod w = core_chain lib cfg invoker c' fullMethod w"
proof -
  define c1 where "c1 = (case cc_Deadline c of Some d \<Rightarrow> c | None \<Rightarrow> c\<lparr>cc_Deadline := Some (lib_now lib w + gc_Timeout cfg)\<rparr>)"
  define pairs where "pairs = outgoing_pairs lib (gc_Token cfg) (gc_PSK cfg) (cc_values c)"
  define c2 where "c2 = (if pairs \<noteq> [] then c1\<lparr>cc_metadata := cc_metadata c1 @ pairs\<rparr> else c1)"
  have "prepared lib cfg c c2"
    by (auto simp: prepared_def c2_def c1_def pairs_def [symmetric] split: option.splits)
  moreover have "client_chain lib cfg invoker c fullMethod w = core_chain lib cfg invoker c2 fullMethod w" for invoker fullMethod
    by (auto simp: client_chain_def core_chain_def guarded_chain_def timeoutInterceptor_def metadataInterceptor_def c2_def c1_def pairs_def Let_def
        split: option.splits)
  ultimately show thesis by (rule that)
qed

lemma retry_calls_cong:
  assumes "\<And>w. i1 c fullMethod w = i2 c fullMethod w"
  shows "retry_calls lib cfg i1 c fullMethod a err w = retry_calls lib cfg i2 c fullMethod a err w"
proof (induction "nat (retry_MaxAttempts cfg + 1 - a)" arbitrary: a err w)
  case 0
  then show ?case
    by (simp add: retry_calls.simps [of lib cfg i1 c fullMethod a err w] retry_calls.simps [of lib cfg i2 c fullMethod a err w])
next
  case (Suc k)
  then have "retry_calls lib cfg i1 c fullMethod (a + 1) e v = retry_calls lib cfg i2 c fullMethod (a + 1) e v" for e v
    by simp
  then show ?case
    by (simp add: retry_calls.simps [of lib cfg i1 c fullMethod a err w] retry_calls.simps [of lib cfg i2 c fullMethod a err w] assms
        split: prod.split option.split)
qed

lemma core_chain_cong:
  assumes "\<And>w. i1 c fullMethod w = i2 c fullMethod w"
  shows "core_chain lib cfg i1 c fullMethod w = core_chain lib cfg i2 c fullMethod w"
proof -
  have "i1 c fullMethod = i2 c fullMethod" using assms by (rule ext)
  moreover have "retryInterceptor lib (gc_Retry cfg) i1 c fullMethod = retryInterceptor lib (gc_Retry cfg) i2 c fullMethod"
    using assms retry_calls_cong [of i1 c fullMethod i2] by (auto simp: retryInterceptor_def)
  ultimately have "guarded_chain lib cfg i1 c fullMethod = guarded_chain lib cfg i2 c fullMethod"
    by (auto simp: guarded_chain_def breakerInterceptor_def)
  then show ?thesis by (simp add: core_chain_def client_metricsInterceptor_def split: option.split)
qed

text \<open>Taking samples calls nothing.\<close>

lemma core_chain_calls:
  assumes "quiet_observe calls lib"
  shows "calls (snd (core_chain lib cfg invoker c fullMethod w)) = calls (snd (guarded_chain lib cfg invoker c fullMethod w))"
proof -
  have "calls (fold (lib_observe lib) ss v) = calls v" for ss v
    using assms by (induction ss arbitrary: v) (simp_all add: quiet_observe_def)
  then show ?thesis by (simp add: core_chain_def client_metricsInterceptor_def split: option.split prod.split)
qed

lemma core_chain_at_most:
  assumes "quiet_wait calls lib" and "quiet_Execute calls lib" and "quiet_observe calls lib" and "at_most calls 1 invoker"
    and "1 \<le> retry_MaxAttempts (gc_Retry cfg)"
  shows "at_most calls (nat (retry_MaxAttempts (gc_Retry cfg))) (core_chain lib cfg invoker)"
proof -
  have "at_most calls (nat (retry_MaxAttempts (gc_Retry cfg))) (guarded_chain lib cfg invoker)"
    using assms retry_at_most [OF assms(1,4), of "gc_Retry cfg"]
      at_most_mono [OF assms(4), of "nat (retry_MaxAttempts (gc_Retry cfg))"]
    by (auto simp: guarded_chain_def intro!: breaker_at_most)
  then show ?thesis by (simp add: at_most_def core_chain_calls [OF assms(3)])
qed

lemma core_chain_no_retry:
  assumes "quiet_Execute calls lib" and "quiet_observe calls lib" and "at_most calls 1 invoker"
    and "\<not> retryGRPCMethod lib (cc_values c) fullMethod (retry_Methods (gc_Retry cfg))"
  shows "calls (snd (core_chain lib cfg invoker c fullMethod w)) \<le> calls w + 1"
proof -
  have "retryInterceptor lib (gc_Retry cfg) invoker c fullMethod = invoker c fullMethod"
    using assms(4) by (simp add: retryInterceptor_def)
  then have "guarded_chain lib cfg invoker c fullMethod =
      (if brk_Enabled (gc_Breaker cfg) then breakerInterceptor lib (gc_Breaker cfg) invoker else invoker) c fullMethod"
    by (simp add: guarded_chain_def breakerInterceptor_def)
  then show ?thesis
    using at_mostD [OF breaker_at_most [OF assms(1,3)], of "gc_Breaker cfg" c fullMethod w] at_mostD [OF assms(3), of c fullMethod w]
    by (auto simp: core_chain_calls [OF assms(2)])
qed

section \<open>Every call is counted once\<close>

text \<open>
  A measure of the world that neither the upstream nor the libraries change is not changed by retries
  and breaker either, so that the samples of a call are those of the metrics around them.
\<close>

definition still :: "('w \<Rightarrow> 'a) \<Rightarrow> 'w invoker \<Rightarrow> bool" where
  "still taken invoker \<longleftrightarrow> (\<forall>c fullMethod w. taken (snd (invoker c fullMethod w)) = taken w)"

locale still_interceptor =
  fixes taken :: "'w \<Rightarrow> 'a" and wrap :: "'w invoker \<Rightarrow> 'w invoker"
  assumes still: "still taken invoker \<Longrightarrow> still taken (wrap invoker)"

interpretation timeout_still: still_interceptor taken "timeoutInterceptor lib timeout" for taken lib timeout
  by unfold_locales (simp add: still_def timeoutInterceptor_def split: option.split)

interpretation metadata_still: still_interceptor taken "metadataInterceptor lib token psk" for taken lib token psk
  by unfold_locales (simp add: still_def metadataInterceptor_def Let_def)

lemma retry_still:
  fixes lib :: "'w client_lib"
  assumes "quiet_wait taken lib"
  shows "still_interceptor taken (retryInterceptor lib cfg)"
proof (unfold_locales, unfold still_def, intro allI)
  fix invoker :: "'w invoker" and c fullMethod w
  assume inv: "\<forall>c fullMethod w. taken (snd (invoker c fullMethod w)) = taken w"
  have loop: "taken (snd (retry_calls lib cfg invoker c fullMethod a err w)) = taken w" for a err w
  proof (induction "nat (retry_MaxAttempts cfg + 1 - a)" arbitrary: a err w)
    case 0
    then show ?case by (simp add: retry_calls.simps [of lib cfg invoker c fullMethod a err w])
  next
    case (Suc k)
    then have a: "a \<le> retry_MaxAttempts cfg"
      and rest: "taken (snd (retry_calls lib cfg invoker c fullMethod (a + 1) e v)) = taken v" for e v by auto
    obtain e w1 where call: "invoker c fullMethod w = (e, w1)" by fastforce
    with inv have w1: "taken w1 = taken w" by (metis snd_conv)
    have w2: "taken w2 = taken w1" if "lib_wait lib c t w1 = (we, w2)" for t we w2
      using assms that unfolding quiet_wait_def by (metis snd_conv)
    from a call show ?case
      by (rule retry_calls_step [where lib = lib and err = err]) (simp_all add: rest w1 w2)
  qed
  show "taken (snd (retryInterceptor lib cfg invoker c fullMethod w)) = taken w"
    using inv loop by (simp add: retryInterceptor_def)
qed

lemma breaker_still:
  fixes lib :: "'w client_lib"
  assumes "quiet_Execute taken lib"
  shows "still_interceptor taken (breakerInterceptor lib cfg)"
proof (unfold_locales, unfold still_def, intro allI)
  fix invoker :: "'w invoker" and c fullMethod w
  assume inv: "\<forall>c fullMethod w. taken (snd (invoker c fullMethod w)) = taken w"
  from assms [unfolded quiet_Execute_def, rule_format, of "ready_to_trip cfg" breaker_excluded "invoker c fullMethod" w] inv
  show "taken (snd (breakerInterceptor lib cfg invoker c fullMethod w)) = taken w"
    by (auto simp: breakerInterceptor_def)
qed

lemma guarded_chain_still:
  assumes "quiet_wait taken lib" and "quiet_Execute taken lib" and "still taken invoker"
  shows "still taken (guarded_chain lib cfg invoker)"
  using assms(3) still_interceptor.still [OF retry_still [OF assms(1)]] still_interceptor.still [OF breaker_still [OF assms(2)]]
  by (simp add: guarded_chain_def)

lemma client_chain_samples:
  assumes quiet: "quiet_wait taken lib" "quiet_Execute taken lib" "still taken invoker"
    and observe: "\<And>s w. taken (lib_observe lib s w) = taken w @ [s]" and m: "gc_Metrics cfg = Some m"
  shows "\<exists>elapsed. taken (snd (client_chain lib cfg invoker c fullMethod w)) = taken w @
    outbound_samples m ''grpc'' (gc_Name cfg)
      (lib_code_String lib (status_Code (fst (client_chain lib cfg invoker c fullMethod w)))) elapsed"
proof -
  obtain c' where chain: "client_chain lib cfg invoker c fullMethod w = core_chain lib cfg invoker c' fullMethod w"
    using client_chain_core [of lib cfg c w] by blast
  obtain err w1 where g: "guarded_chain lib cfg invoker c' fullMethod w = (err, w1)" by fastforce
  have "taken w1 = taken w"
    using guarded_chain_still [OF quiet, of cfg] g unfolding still_def by (metis snd_conv)
  moreover have "taken (fold (lib_observe lib) ss v) = taken v @ ss" for ss v
    by (induction ss arbitrary: v) (simp_all add: observe)
  ultimately show ?thesis using g by (auto simp: chain core_chain_def m client_metricsInterceptor_def)
qed

section \<open>Backoff\<close>

lemma retry_delay_exact:
  assumes "0 < retry_InitialBackoff cfg" and "retry_InitialBackoff cfg \<le> 2 ^ 53" and "1 \<le> k" and "k \<le> 5"
  shows "retry_delay cfg k = min (retry_MaxBackoff cfg) (retry_InitialBackoff cfg * 2 ^ nat (k - 1))"
proof -
  have "k = 1 \<or> k = 2 \<or> k = 3 \<or> k = 4 \<or> k = 5" using assms by presburger
  then have "wrap64 (retry_InitialBackoff cfg * 2 ^ nat (k - 1)) = retry_InitialBackoff cfg * 2 ^ nat (k - 1)"
    using assms by (intro wrap64_id) (auto simp: max_int64_def)
  then show ?thesis by (simp add: retry_delay_def Let_def min_def)
qed

section \<open>Credentials and connections\<close>

lemma Dial_Inr:
  "Dial files newClient cfg = Inr conn \<Longrightarrow> conn_cfg conn = cfg \<and> gc_Target cfg \<noteq> [] \<and> 0 < gc_Timeout cfg \<and>
   (gc_Token cfg = [] \<or> gc_PSK cfg = []) \<and>
   (gc_Token cfg \<noteq> [] \<or> gc_PSK cfg \<noteq> [] \<longrightarrow> conn_transport conn \<noteq> Insecure \<or> tlsc_AllowInsecureToken (gc_TLS cfg))"
  by (auto simp: Dial_def transportCredentials_def Let_def split: if_splits sum.splits option.splits)

lemma add_http_grpc: "add_http env us r = res \<Longrightarrow> reg_grpc (case res of Inl r' \<Rightarrow> r' | Inr (r', e) \<Rightarrow> r') = reg_grpc r"
  by (induction env us r rule: add_http.induct) (auto split: sum.splits)

lemma add_http_Inl:
  "add_http env us r = Inl r' \<Longrightarrow> map fst (reg_http r') = map fst (reg_http r) @ map fst us"
  by (induction env us r rule: add_http.induct) (auto split: sum.splits)

lemma add_grpc_Inl:
  "add_grpc env us r = Inl r' \<Longrightarrow> reg_http r' = reg_http r \<and>
   (\<exists>new. reg_grpc r' = reg_grpc r @ new \<and> map fst new = map fst us \<and>
     list_all2 (\<lambda>(name, u) (name', conn). Dial (re_files env) (re_newClient env) (upstream_config (re_metrics env) name u) = Inr conn) us new)"
  by (induction env us r rule: add_grpc.induct) (fastforce split: sum.splits)+

text \<open>A registry has a connection for exactly the configured upstreams, each dialled with its settings.\<close>

lemma NewRegistry_Inr:
  assumes "NewRegistry env outbound = (Inr r, shut)"
  shows "map fst (reg_http r) = map fst (out_HTTP outbound) \<and> shut = [] \<and>
    list_all2 (\<lambda>(name, u) (name', conn). name = name' \<and> Dial (re_files env) (re_newClient env) (upstream_config (re_metrics env) name u) = Inr conn)
      (out_GRPC outbound) (reg_grpc r)"
proof -
  obtain r1 where http: "add_http env (out_HTTP outbound) \<lparr>reg_http = [], reg_grpc = []\<rparr> = Inl r1"
    and grpc: "add_grpc env (out_GRPC outbound) r1 = Inl r" and shut: "shut = []"
    using assms by (auto simp: NewRegistry_def split: sum.splits prod.splits)
  have "reg_grpc r1 = []" using add_http_grpc [OF http] by simp
  with add_grpc_Inl [OF grpc] have "map fst (reg_grpc r) = map fst (out_GRPC outbound)"
    and "list_all2 (\<lambda>(name, u) (name', conn). Dial (re_files env) (re_newClient env) (upstream_config (re_metrics env) name u) = Inr conn)
      (out_GRPC outbound) (reg_grpc r)" by auto
  then have "list_all2 (\<lambda>(name, u) (name', conn). name = name' \<and> Dial (re_files env) (re_newClient env) (upstream_config (re_metrics env) name u) = Inr conn)
      (out_GRPC outbound) (reg_grpc r)"
    by (auto simp: list_all2_conv_all_nth case_prod_beta dest: map_eq_imp_length_eq) (metis nth_map)
  then show ?thesis using add_http_Inl [OF http] add_grpc_Inl [OF grpc] shut by simp
qed

lemma registry_GRPC_configured:
  assumes "NewRegistry env outbound = (Inr r, shut)"
  shows "registry_GRPC r name \<noteq> None \<longleftrightarrow> name \<in> fst ` set (out_GRPC outbound)"
proof -
  have "map fst (reg_grpc r) = map fst (out_GRPC outbound)"
    using NewRegistry_Inr [OF assms] by (auto simp: list_all2_conv_all_nth case_prod_beta intro: nth_equalityI)
  then have "fst ` set (reg_grpc r) = fst ` set (out_GRPC outbound)" by (metis set_map)
  then show ?thesis by (simp add: registry_GRPC_def map_of_eq_None_iff)
qed

end
