(* ===== verification/Redis_Lock.thy ===== *)
theory Redis_Lock
  imports Observability
begin

text \<open>
  Distributed locks over Redis (\<^verbatim>\<open>cache/redis.go\<close>) and the scheduled job that runs under one
  (\<^verbatim>\<open>scheduler/scheduler.go\<close>). The lock library and the Redis client are parameters that act on a
  state of the outside world; logging is left out.
\<close>

section \<open>Locks\<close>

record mutex =
  mx_Name :: string
  mx_Expiry :: duration
  mx_Tries :: "int option"
  mx_RetryDelay :: "duration option"

text \<open>
  The library: \<open>rs_isFailed\<close> and \<open>rs_isTaken\<close> recognise its errors \<^verbatim>\<open>ErrFailed\<close> and \<^verbatim>\<open>*ErrTaken\<close>;
  \<open>rs_ctxErr\<close> is the error of the caller's context.
\<close>

record 'w redsync =
  rs_TryLock :: "mutex \<Rightarrow> 'w \<Rightarrow> gerror option \<times> 'w"
  rs_Lock :: "mutex \<Rightarrow> 'w \<Rightarrow> gerror option \<times> 'w"
  rs_Extend :: "mutex \<Rightarrow> 'w \<Rightarrow> bool \<times> gerror option \<times> 'w"
  rs_Unlock :: "mutex \<Rightarrow> 'w \<Rightarrow> bool \<times> gerror option \<times> 'w"
  rs_isFailed :: "gerror \<Rightarrow> bool"
  rs_isTaken :: "gerror \<Rightarrow> bool"
  rs_ctxErr :: "'w \<Rightarrow> gerror option"
  rs_quote :: "string \<Rightarrow> string"

definition lockKeyPrefix :: string where
  "lockKeyPrefix = ''lock:''"

definition newMutex :: "string \<Rightarrow> duration \<Rightarrow> int option \<Rightarrow> duration option \<Rightarrow> mutex result" where
  "newMutex key ttl tries retryDelay =
     (if key = [] then Inl (Plain ''lock key must not be empty'')
      else if ttl \<le> 0 then Inl (Plain ''lock ttl must be positive'')
      else Inr \<lparr>mx_Name = lockKeyPrefix @ key, mx_Expiry = ttl, mx_Tries = tries, mx_RetryDelay = retryDelay\<rparr>)"

definition isContention :: "'w redsync \<Rightarrow> gerror \<Rightarrow> bool" where
  "isContention rs err = (if rs_isFailed rs err then True else rs_isTaken rs err)"

text \<open>The lock, if it was acquired (\<open>None\<close> when somebody else holds it), or the error.\<close>

definition TryLock :: "'w redsync \<Rightarrow> string \<Rightarrow> duration \<Rightarrow> 'w \<Rightarrow> mutex option result \<times> 'w" where
  "TryLock rs key ttl w =
     (case newMutex key ttl (Some 1) None of
        Inl err \<Rightarrow> (Inl err, w)
      | Inr mutex \<Rightarrow>
        (case rs_TryLock rs mutex w of
           (Some err, w') \<Rightarrow>
             if isContention rs err then (Inr None, w')
             else (Inl (Wrap (''try redis lock '' @ rs_quote rs key) err), w')
         | (None, w') \<Rightarrow> (Inr (Some mutex), w')))"

definition Lock :: "'w redsync \<Rightarrow> string \<Rightarrow> duration \<Rightarrow> duration \<Rightarrow> 'w \<Rightarrow> mutex result \<times> 'w" where
  "Lock rs key ttl retryDelay w =
     (if retryDelay \<le> 0 then (Inl (Plain ''lock retry delay must be positive''), w)
      else (case newMutex key ttl None (Some retryDelay) of
        Inl err \<Rightarrow> (Inl err, w)
      | Inr mutex \<Rightarrow>
        (case rs_Lock rs mutex w of
           (Some err, w') \<Rightarrow>
             (case rs_ctxErr rs w' of
                Some ctxErr \<Rightarrow> (Inl (Wrap (''wait for redis lock '' @ rs_quote rs key) ctxErr), w')
              | None \<Rightarrow> (Inl (Wrap (''acquire redis lock '' @ rs_quote rs key) err), w'))
         | (None, w') \<Rightarrow> (Inr mutex, w'))))"

definition Extend :: "'w redsync \<Rightarrow> mutex \<Rightarrow> 'w \<Rightarrow> gerror option \<times> 'w" where
  "Extend rs mutex w =
     (case rs_Extend rs mutex w of
        (ok, Some err, w') \<Rightarrow> (Some (Wrap (''extend redis lock '' @ rs_quote rs (mx_Name mutex)) err), w')
      | (ok, None, w') \<Rightarrow>
        if \<not> ok then (Some (Plain (''extend redis lock '' @ rs_quote rs (mx_Name mutex) @ '': lock is no longer owned'')), w')
        else (None, w'))"

definition Unlock :: "'w redsync \<Rightarrow> mutex \<Rightarrow> 'w \<Rightarrow> gerror option \<times> 'w" where
  "Unlock rs mutex w =
     (case rs_Unlock rs mutex w of
        (ok, Some err, w') \<Rightarrow> (Some (Wrap (''release redis lock '' @ rs_quote rs (mx_Name mutex)) err), w')
      | (ok, None, w') \<Rightarrow>
        if \<not> ok then (Some (Plain (''release redis lock '' @ rs_quote rs (mx_Name mutex) @ '': lock is no longer owned'')), w')
        else (None, w'))"

text \<open>\<^verbatim>\<open>Open\<close> of the Redis client: its options when the ping succeeds; a client that fails is closed.\<close>

record redis_options =
  ro_Addr :: string
  ro_Username :: string
  ro_Password :: string
  ro_DB :: int
  ro_DialTimeout :: duration
  ro_ReadTimeout :: duration
  ro_WriteTimeout :: duration

definition redis_Open :: "(redis_options \<Rightarrow> gerror option) \<Rightarrow> Redis \<Rightarrow> redis_options result \<times> redis_options list" where
  "redis_Open ping cfg =
     (let client = \<lparr>ro_Addr = redis_Address cfg, ro_Username = redis_Username cfg, ro_Password = redis_Password cfg,
                    ro_DB = redis_DB cfg, ro_DialTimeout = redis_DialTimeout cfg, ro_ReadTimeout = redis_ReadTimeout cfg,
                    ro_WriteTimeout = redis_WriteTimeout cfg\<rparr>
      in case ping client of
           Some err \<Rightarrow> (Inl (Wrap ''ping redis'' err), [client])
         | None \<Rightarrow> (Inr client, []))"

section \<open>The scheduled job\<close>

text \<open>
  \<^verbatim>\<open>runSample\<close>: \<open>None\<close> for the locker when Redis is off. \<open>job\<close> is the work of the job (a log record in
  the source). The deferred unlock runs after the job; its error is only logged.
\<close>

definition minute :: duration where
  "minute = 60 * 10 ^ 9"

definition runSample :: "'w redsync option \<Rightarrow> ('w \<Rightarrow> 'w) \<Rightarrow> 'w \<Rightarrow> gerror option \<times> 'w" where
  "runSample locker job w =
     (case locker of
        None \<Rightarrow> (None, job w)
      | Some rs \<Rightarrow>
        (case TryLock rs ''cron:sample'' minute w of
           (Inl err, w1) \<Rightarrow> (Some err, w1)
         | (Inr None, w1) \<Rightarrow> (None, w1)
         | (Inr (Some lock), w1) \<Rightarrow> (None, snd (Unlock rs lock (job w1)))))"

text \<open>The function that \<^verbatim>\<open>New\<close> schedules: the job, then its samples; \<open>elapsed\<close> is the time it took.\<close>

definition sample_job :: "Metrics \<Rightarrow> duration \<Rightarrow> 'w redsync option \<Rightarrow> ('w \<Rightarrow> 'w) \<Rightarrow> 'w \<Rightarrow> sample list \<times> 'w" where
  "sample_job m elapsed locker job w =
     (case runSample locker job w of (err, w') \<Rightarrow>
        (let status = (if err \<noteq> None then ''error'' else ''success'')
         in (ObserveCron m ''sample'' status elapsed, w')))"

text \<open>
  \<^verbatim>\<open>New\<close>: the job is registered when it has a schedule, and the runner started when the scheduler is
  on; time zone and schedule are checked by the libraries.
\<close>

record runner =
  run_location :: string
  run_jobs :: "string list"
  run_started :: bool

definition scheduler_New :: "(string \<Rightarrow> gerror option) \<Rightarrow> (string \<Rightarrow> gerror option) \<Rightarrow> Cron \<Rightarrow> runner result" where
  "scheduler_New loadLocation parseSpec cfg =
     (case loadLocation (cron_Timezone cfg) of
        Some err \<Rightarrow> Inl err
      | None \<Rightarrow>
        if cron_SampleSpec cfg \<noteq> [] then
          (case parseSpec (cron_SampleSpec cfg) of
             Some err \<Rightarrow> Inl err
           | None \<Rightarrow> Inr \<lparr>run_location = cron_Timezone cfg, run_jobs = [cron_SampleSpec cfg], run_started = False\<rparr>)
        else Inr \<lparr>run_location = cron_Timezone cfg, run_jobs = [], run_started = False\<rparr>)"

definition scheduler_OnStart :: "Cron \<Rightarrow> runner \<Rightarrow> runner" where
  "scheduler_OnStart cfg r = (if cron_Enabled cfg then r\<lparr>run_started := True\<rparr> else r)"

text \<open>The stop hook waits for running jobs (\<open>None\<close>) or until its context ends with an error.\<close>

definition scheduler_OnStop :: "gerror option \<Rightarrow> runner \<Rightarrow> gerror option \<times> runner" where
  "scheduler_OnStop ctxErr r = (ctxErr, r\<lparr>run_started := False\<rparr>)"

section \<open>Laws\<close>

text \<open>
  What the library documents of its locks, with \<open>holders\<close> the holder of each name in the world and
  \<open>me\<close> the identity of this process: a lock that succeeds was free and is then held; one that fails
  leaves the holders; releasing succeeds for one's own lock only, and removes nobody else's.
\<close>

definition lock_documented :: "('w \<Rightarrow> string \<rightharpoonup> string) \<Rightarrow> string \<Rightarrow> 'w redsync \<Rightarrow> bool" where
  "lock_documented holders me rs \<longleftrightarrow>
     (\<forall>m w w'. rs_TryLock rs m w = (None, w') \<longrightarrow> holders w (mx_Name m) = None \<and> holders w' = (holders w)(mx_Name m \<mapsto> me)) \<and>
     (\<forall>m w e w'. rs_TryLock rs m w = (Some e, w') \<longrightarrow> holders w' = holders w) \<and>
     (\<forall>m w ok e w'. rs_Unlock rs m w = (ok, e, w') \<longrightarrow>
        (if ok then holders w (mx_Name m) = Some me \<and> holders w' = (holders w)(mx_Name m := None)
         else holders w' = holders w))"

definition sample_lock :: string where
  "sample_lock = lockKeyPrefix @ ''cron:sample''"

lemma lock_documentedD:
  assumes "lock_documented holders me rs"
  shows "rs_TryLock rs m w = (None, w') \<Longrightarrow> holders w (mx_Name m) = None \<and> holders w' = (holders w)(mx_Name m \<mapsto> me)"
    and "rs_TryLock rs m w = (Some e, w') \<Longrightarrow> holders w' = holders w"
  using assms unfolding lock_documented_def by blast+

lemma TryLock_documented:
  assumes "lock_documented holders me rs" and "TryLock rs key ttl w = (r, w')"
  shows "r = Inr (Some m) \<Longrightarrow> mx_Name m = lockKeyPrefix @ key \<and> mx_Expiry m = ttl \<and> holders w (lockKeyPrefix @ key) = None \<and>
      holders w' = (holders w)(lockKeyPrefix @ key \<mapsto> me)"
    and "(\<forall>m. r \<noteq> Inr (Some m)) \<Longrightarrow> holders w' = holders w"
  using assms(2)
  by (auto simp: TryLock_def newMutex_def split: sum.splits option.splits if_splits prod.splits
      dest: lock_documentedD [OF assms(1)])

lemma Unlock_documented:
  assumes "lock_documented holders me rs"
  shows "holders (snd (Unlock rs m w)) = (holders w)(mx_Name m := None) \<and> holders w (mx_Name m) = Some me \<or>
      holders (snd (Unlock rs m w)) = holders w"
proof -
  obtain ok e w' where u: "rs_Unlock rs m w = (ok, e, w')" by (cases "rs_Unlock rs m w")
  then have "snd (Unlock rs m w) = w'" by (cases e) (auto simp: Unlock_def)
  moreover have "if ok then holders w (mx_Name m) = Some me \<and> holders w' = (holders w)(mx_Name m := None) else holders w' = holders w"
    using assms u unfolding lock_documented_def by blast
  ultimately show ?thesis by (auto split: if_splits)
qed

end
