(* ===== verification/Database_Setup.thy ===== *)
theory Database_Setup
  imports Settings
begin

text \<open>
  Opening the database (\<^verbatim>\<open>database/database.go\<close>) and migrating it (\<^verbatim>\<open>migration/migration.go\<close> and the
  command \<^verbatim>\<open>cmd/migrate\<close>). The drivers, the migration library, URL parsing and the file system are
  parameters; what the code does with a database is returned as a trace.
\<close>

section \<open>Strings\<close>

text \<open>\<^verbatim>\<open>strings.IndexByte\<close>, \<^verbatim>\<open>strings.LastIndex\<close> of one byte and \<^verbatim>\<open>url.QueryEscape\<close>.\<close>

definition IndexByte :: "string \<Rightarrow> char \<Rightarrow> int" where
  "IndexByte s c = (if c \<in> set s then int (length (takeWhile (\<lambda>x. x \<noteq> c) s)) else - 1)"

definition LastIndex :: "string \<Rightarrow> char \<Rightarrow> int" where
  "LastIndex s c = (if c \<in> set s then int (length s) - 1 - int (length (takeWhile (\<lambda>x. x \<noteq> c) (rev s))) else - 1)"

definition upper_hex :: "int \<Rightarrow> char" where
  "upper_hex n = char_of (if n < 10 then 48 + n else 55 + n)"

definition unreserved :: "char \<Rightarrow> bool" where
  "unreserved c \<longleftrightarrow> is_lower c \<or> is_digit c \<or> 65 \<le> byte c \<and> byte c \<le> 90 \<or> c \<in> set ''-_.~''"

definition QueryEscape :: "string \<Rightarrow> string" where
  "QueryEscape s = concat (map (\<lambda>c. if unreserved c then [c] else if c = CHR '' '' then ''+''
     else [CHR ''%'', upper_hex (byte c div 16), upper_hex (byte c mod 16)]) s)"

section \<open>Migration options\<close>

text \<open>
  A parsed URL: its path and query; the other parts are kept. \<open>ul_Parse\<close> is \<^verbatim>\<open>url.Parse\<close>, \<open>ul_String\<close>
  prints a URL with its query encoded.
\<close>

record url =
  url_Rest :: string
  url_Path :: string
  url_Query :: "string \<rightharpoonup> string list"

record url_lib =
  ul_Parse :: "string \<Rightarrow> url result"
  ul_String :: "url \<Rightarrow> string"

definition replace_database :: "string \<Rightarrow> string \<Rightarrow> string result" where
  "replace_database databaseURL databaseName =
     (let queryIndex = IndexByte databaseURL (CHR ''?'');
          pathEnd = (if 0 \<le> queryIndex then nat queryIndex else length databaseURL);
          slash = LastIndex (take pathEnd databaseURL) (CHR ''/'')
      in if slash < 0 then Inl (Plain ''mysql migration URL is missing database path'')
         else Inr (take (nat (slash + 1)) databaseURL @ databaseName @ drop pathEnd databaseURL))"

definition add_table :: "string \<Rightarrow> string \<Rightarrow> string" where
  "add_table databaseURL table =
     (if table = [] then databaseURL
      else databaseURL @ (if Contains databaseURL ''?'' then ''&'' else ''?'') @ ''x-migrations-table='' @ QueryEscape table)"

definition withMigrationOptions :: "url_lib \<Rightarrow> string \<Rightarrow> string \<Rightarrow> string \<Rightarrow> string \<Rightarrow> string result" where
  "withMigrationOptions lib databaseURL databaseName table schema =
     (if databaseName = [] \<and> table = [] \<and> schema = [] then Inr databaseURL
      else if HasPrefix databaseURL ''mysql://'' then
        (case (if databaseName \<noteq> [] then replace_database databaseURL databaseName else Inr databaseURL) of
           Inl err \<Rightarrow> Inl err
         | Inr databaseURL \<Rightarrow> Inr (add_table databaseURL table))
      else (case ul_Parse lib databaseURL of
              Inl err \<Rightarrow> Inl (Wrap ''parse migration database URL'' err)
            | Inr parsed \<Rightarrow>
              (let parsed = (if databaseName \<noteq> [] then parsed\<lparr>url_Path := ''/'' @ databaseName\<rparr> else parsed);
                   query = url_Query parsed;
                   query = (if table \<noteq> [] then query(''x-migrations-table'' \<mapsto> [table]) else query);
                   query = (if schema \<noteq> [] then query(''search_path'' \<mapsto> [schema]) else query)
               in Inr (ul_String lib (parsed\<lparr>url_Query := query\<rparr>)))))"

section \<open>Schema creation\<close>

datatype sql_step = BeginTx | ExecTx string "string list" | RollbackTx | CommitTx | CloseDB

record sql_db =
  sd_Begin :: "gerror option"
  sd_Exec :: "string \<Rightarrow> string list \<Rightarrow> gerror option"
  sd_Commit :: "gerror option"

definition lock_statement :: string where
  "lock_statement = ''SELECT pg_advisory_xact_lock(hashtext($1))''"

definition create_statement :: "string \<Rightarrow> string" where
  "create_statement schema = ''CREATE SCHEMA IF NOT EXISTS \"'' @ schema @ ''\"''"

definition createSchema :: "sql_db \<Rightarrow> string \<Rightarrow> gerror option \<times> sql_step list" where
  "createSchema db schema =
     (let lock = ExecTx lock_statement [''config-service:schema:'' @ schema];
          create = ExecTx (create_statement schema) []
      in case sd_Begin db of
           Some err \<Rightarrow> (Some (Wrap ''begin schema creation'' err), [])
         | None \<Rightarrow>
           (case sd_Exec db lock_statement [''config-service:schema:'' @ schema] of
              Some err \<Rightarrow> (Some (Wrap ''lock schema creation'' err), [BeginTx, lock, RollbackTx])
            | None \<Rightarrow>
              (case sd_Exec db (create_statement schema) [] of
                 Some err \<Rightarrow> (Some (Wrap ''execute schema creation'' err), [BeginTx, lock, create, RollbackTx])
               | None \<Rightarrow>
                 (case sd_Commit db of
                    Some err \<Rightarrow> (Some (Wrap ''commit schema creation'' err), [BeginTx, lock, create, CommitTx, RollbackTx])
                  | None \<Rightarrow> (None, [BeginTx, lock, create, CommitTx])))))"

definition ensureSchema ::
    "url_lib \<Rightarrow> (string \<Rightarrow> string) \<Rightarrow> (string \<Rightarrow> sql_db result) \<Rightarrow> Migration \<Rightarrow> string \<Rightarrow> gerror option \<times> sql_step list" where
  "ensureSchema lib quote sql_Open cfg databaseURL =
     (if \<not> mig_CreateSchema cfg \<or> mig_Schema cfg = [] \<or> HasPrefix (mig_DatabaseURL cfg) ''mysql://'' then (None, [])
      else if \<not> validMigrationTable (mig_Schema cfg) then (Some (Plain ''invalid migration schema''), [])
      else (case ul_Parse lib databaseURL of
        Inl err \<Rightarrow> (Some (Wrap ''parse database URL for schema creation'' err), [])
      | Inr parsed \<Rightarrow>
        (case sql_Open (ul_String lib (parsed\<lparr>url_Query := (url_Query parsed)(''x-migrations-table'' := None)\<rparr>)) of
           Inl err \<Rightarrow> (Some (Wrap ''open database to create schema'' err), [])
         | Inr db \<Rightarrow>
           (case createSchema db (mig_Schema cfg) of
              (Some err, steps) \<Rightarrow> (Some (Wrap (''create migration schema '' @ quote (mig_Schema cfg)) err), steps @ [CloseDB])
            | (None, steps) \<Rightarrow> (None, steps @ [CloseDB])))))"

section \<open>Running migrations\<close>

datatype migrate_step = Steps int | Down | Up | CloseMigrator

record migrate_lib =
  mg_Abs :: "string \<Rightarrow> string result"
  mg_fileURL :: "string \<Rightarrow> string"
  mg_url :: url_lib
  mg_quote :: "string \<Rightarrow> string"
  mg_sqlOpen :: "string \<Rightarrow> sql_db result"
  mg_New :: "string \<Rightarrow> string \<Rightarrow> gerror option"
  mg_migrate :: "string \<Rightarrow> string \<Rightarrow> migrate_step \<Rightarrow> gerror option"
  mg_isNoChange :: "gerror \<Rightarrow> bool"
  mg_CloseSource :: "gerror option"
  mg_CloseDatabase :: "gerror option"

text \<open>
  \<^verbatim>\<open>Run\<close> returns the errors that it joins (none for \<^verbatim>\<open>nil\<close>), what it did to create the schema and what
  it asked of the migrator. The deferred \<^verbatim>\<open>Close\<close> runs on every path once the migrator exists.
\<close>

definition migrator_command :: "string \<Rightarrow> int \<Rightarrow> migrate_step" where
  "migrator_command direction steps = (if steps \<noteq> 0 then Steps steps else if direction = ''down'' then Down else Up)"

definition close_errors :: "migrate_lib \<Rightarrow> gerror list" where
  "close_errors lib =
     (case mg_CloseSource lib of Some err \<Rightarrow> [Wrap ''close migration source'' err] | None \<Rightarrow> []) @
     (case mg_CloseDatabase lib of Some err \<Rightarrow> [Wrap ''close migration database'' err] | None \<Rightarrow> [])"

definition Run :: "migrate_lib \<Rightarrow> Migration \<Rightarrow> string \<Rightarrow> int \<Rightarrow> gerror list \<times> sql_step list \<times> migrate_step list" where
  "Run lib cfg direction steps =
     (if mig_DatabaseURL cfg = [] then ([Plain ''migration.database_url is required''], [], [])
      else (case mg_Abs lib (mig_Path cfg) of
        Inl err \<Rightarrow> ([Wrap ''resolve migration path'' err], [], [])
      | Inr absPath \<Rightarrow>
        (case withMigrationOptions (mg_url lib) (mig_DatabaseURL cfg) (mig_DatabaseName cfg) (mig_Table cfg) (mig_Schema cfg) of
           Inl err \<Rightarrow> ([err], [], [])
         | Inr databaseURL \<Rightarrow>
           (case ensureSchema (mg_url lib) (mg_quote lib) (mg_sqlOpen lib) cfg databaseURL of
              (Some err, sql) \<Rightarrow> ([err], sql, [])
            | (None, sql) \<Rightarrow>
              (case mg_New lib (mg_fileURL lib absPath) databaseURL of
                 Some err \<Rightarrow> ([Wrap ''create migrator'' err], sql, [])
               | None \<Rightarrow>
                 (let command = migrator_command direction steps;
                      failed = (case mg_migrate lib (mg_fileURL lib absPath) databaseURL command of
                                  Some err \<Rightarrow> if \<not> mg_isNoChange lib err then [Wrap ''run migration'' err] else []
                                | None \<Rightarrow> [])
                  in (failed @ close_errors lib, sql, [command, CloseMigrator])))))))"

text \<open>At startup; the joined errors are wrapped once, \<open>None\<close> is success.\<close>

definition runStartupMigration :: "migrate_lib \<Rightarrow> Config \<Rightarrow> (string \<times> gerror list) option \<times> sql_step list \<times> migrate_step list" where
  "runStartupMigration lib cfg =
     (if \<not> mig_AutoUp (cfg_Migration cfg) then (None, [], [])
      else (case Run lib (cfg_Migration cfg) ''up'' 0 of (errs, sql, steps) \<Rightarrow>
        (if errs \<noteq> [] then Some (''startup database migration'', errs) else None, sql, steps)))"

text \<open>The exit code of the command \<^verbatim>\<open>migrate\<close>, with what it did.\<close>

definition migrate_main ::
    "migrate_lib \<Rightarrow> loader \<Rightarrow> string \<Rightarrow> string \<Rightarrow> string \<Rightarrow> int \<Rightarrow> int \<times> sql_step list \<times> migrate_step list" where
  "migrate_main lib loader configPath profile direction steps =
     (if direction \<noteq> ''up'' \<and> direction \<noteq> ''down'' then (2, [], [])
      else (case LoadWithProfile loader configPath profile of
              Inl err \<Rightarrow> (1, [], [])
            | Inr cfg \<Rightarrow>
              (case Run lib (cfg_Migration cfg) direction steps of (errs, sql, done) \<Rightarrow>
                 (if errs \<noteq> [] then 1 else 0, sql, done))))"

section \<open>Opening the database\<close>

definition driverName :: "(string \<Rightarrow> string) \<Rightarrow> string \<Rightarrow> string result" where
  "driverName quote dbType =
     (if dbType = ''mysql'' then Inr ''mysql''
      else if dbType = ''postgres'' \<or> dbType = ''kingbase'' then Inr ''pgx''
      else Inl (Plain (''unsupported database type '' @ quote dbType)))"

record pgx_config =
  pgx_Database :: string
  pgx_RuntimeParams :: "string \<rightharpoonup> string"

record mysql_config =
  my_DBName :: string
  my_ParseTime :: bool
  my_Loc :: string

datatype db_source = PgxSource pgx_config | MySQLSource mysql_config | DSNSource string

record db_handle =
  dh_driver :: string
  dh_source :: db_source
  dh_MaxOpenConns :: int
  dh_MaxIdleConns :: int
  dh_ConnMaxLifetime :: duration
  dh_ConnMaxIdleTime :: duration

record driver_lib =
  dr_quote :: "string \<Rightarrow> string"
  dr_ParseConfig :: "string \<Rightarrow> pgx_config result"
  dr_ParseDSN :: "string \<Rightarrow> mysql_config result"
  dr_LoadLocation :: "string \<Rightarrow> gerror option"
  dr_Open :: "string \<Rightarrow> db_source \<Rightarrow> gerror option"
  dr_Ping :: "db_handle \<Rightarrow> duration \<Rightarrow> gerror option"

text \<open>The connection settings of a driver, with the overrides of the configuration.\<close>

definition open_source :: "driver_lib \<Rightarrow> string \<Rightarrow> Database \<Rightarrow> db_source result" where
  "open_source lib driver cfg =
     (if driver = ''pgx'' then
        (case dr_ParseConfig lib (db_DSN cfg) of
           Inl parseErr \<Rightarrow> Inl (Wrap ''parse database dsn'' parseErr)
         | Inr connectionConfig \<Rightarrow>
           (let named = (if db_Name cfg \<noteq> [] then connectionConfig\<lparr>pgx_Database := db_Name cfg\<rparr> else connectionConfig);
                params = (if db_Schema cfg \<noteq> [] then (pgx_RuntimeParams named)(''search_path'' \<mapsto> db_Schema cfg)
                          else pgx_RuntimeParams named)
            in Inr (PgxSource (named\<lparr>pgx_RuntimeParams := params(''timezone'' \<mapsto> ''Asia/Shanghai'')\<rparr>))))
      else if driver = ''mysql'' then
        (case dr_ParseDSN lib (db_DSN cfg) of
           Inl parseErr \<Rightarrow> Inl (Wrap ''parse database dsn'' parseErr)
         | Inr connectionConfig \<Rightarrow>
           (let named = (if db_Name cfg \<noteq> [] then connectionConfig\<lparr>my_DBName := db_Name cfg\<rparr> else connectionConfig) in
            case dr_LoadLocation lib ''Asia/Shanghai'' of
              Some locationErr \<Rightarrow> Inl (Wrap ''load database timezone'' locationErr)
            | None \<Rightarrow>
              (let source = MySQLSource (named\<lparr>my_ParseTime := True, my_Loc := ''Asia/Shanghai''\<rparr>) in
               case dr_Open lib driver source of
                 Some err \<Rightarrow> Inl (Wrap ''open database'' err)
               | None \<Rightarrow> Inr source)))
      else (case dr_Open lib driver (DSNSource (db_DSN cfg)) of
              Some err \<Rightarrow> Inl (Wrap ''open database'' err)
            | None \<Rightarrow> Inr (DSNSource (db_DSN cfg))))"

text \<open>\<^verbatim>\<open>Open\<close>: the handle or the error, and the handles it closed.\<close>

definition database_Open :: "driver_lib \<Rightarrow> Database \<Rightarrow> db_handle result \<times> db_handle list" where
  "database_Open lib cfg =
     (case driverName (dr_quote lib) (db_Type cfg) of
        Inl err \<Rightarrow> (Inl err, [])
      | Inr driver \<Rightarrow>
        (case open_source lib driver cfg of
           Inl err \<Rightarrow> (Inl err, [])
         | Inr source \<Rightarrow>
           (let db = \<lparr>dh_driver = driver, dh_source = source, dh_MaxOpenConns = db_MaxOpenConns cfg,
                      dh_MaxIdleConns = db_MaxIdleConns cfg, dh_ConnMaxLifetime = db_ConnMaxLifetime cfg,
                      dh_ConnMaxIdleTime = db_ConnMaxIdleTime cfg\<rparr>
            in case dr_Ping lib db (db_PingTimeout cfg) of
                 Some err \<Rightarrow> (Inl (Wrap ''ping database'' err), [db])
               | None \<Rightarrow> (Inr db, []))))"

section \<open>Laws\<close>

lemma IndexByte_found: "c \<notin> set u \<Longrightarrow> IndexByte (u @ c # v) c = int (length u)"
  by (subst IndexByte_def, subst takeWhile_append2) auto

lemma IndexByte_absent: "c \<notin> set u \<Longrightarrow> IndexByte u c = - 1"
  by (simp add: IndexByte_def)

lemma LastIndex_found:
  assumes "c \<notin> set v"
  shows "LastIndex (u @ c # v) c = int (length u)"
proof -
  have "takeWhile (\<lambda>x. x \<noteq> c) (rev v @ c # rev u) = rev v" using assms by (subst takeWhile_append2) auto
  then show ?thesis by (simp add: LastIndex_def)
qed

lemma LastIndex_nonneg: "c \<in> set u \<Longrightarrow> 0 \<le> LastIndex u c"
proof -
  assume "c \<in> set u"
  then obtain v w where "u = v @ c # w" "c \<notin> set w" by (metis split_list_last)
  then show ?thesis by (simp add: LastIndex_found)
qed

lemma replace_database_path:
  assumes "CHR ''?'' \<notin> set (a @ old)" and "CHR ''/'' \<notin> set old" and "q = [] \<or> hd q = CHR ''?''"
  shows "replace_database (a @ ''/'' @ old @ q) name = Inr (a @ ''/'' @ name @ q)"
proof -
  let ?head = "a @ ''/'' @ old"
  have last: "LastIndex ?head (CHR ''/'') = int (length a)" using LastIndex_found [OF assms(2), of a] by simp
  have mark: "CHR ''?'' \<notin> set ?head" using assms(1) by simp
  show ?thesis
  proof (cases q)
    case Nil
    with IndexByte_absent [OF mark] last show ?thesis by (simp add: replace_database_def Let_def nat_add_distrib)
  next
    case (Cons x q')
    with assms(3) have "q = CHR ''?'' # q'" by simp
    with IndexByte_found [OF mark, of q'] last show ?thesis
      by (simp add: replace_database_def Let_def nat_add_distrib)
  qed
qed

text \<open>The scheme of a URL contains slashes, so that its path is never found missing.\<close>

lemma replace_database_total:
  assumes "HasPrefix databaseURL ''mysql://''"
  shows "\<exists>u. replace_database databaseURL name = Inr u"
proof -
  obtain t where t: "databaseURL = ''mysql://'' @ t" using assms by (auto simp: HasPrefix_iff)
  define pathEnd where "pathEnd = (let i = IndexByte databaseURL (CHR ''?'') in if 0 \<le> i then nat i else length databaseURL)"
  have "8 \<le> pathEnd" by (simp add: pathEnd_def t IndexByte_def Let_def nat_add_distrib)
  from set_take_subset_set_take [OF this, of databaseURL] have "CHR ''/'' \<in> set (take pathEnd databaseURL)"
    by (simp add: t)
  then have "\<not> LastIndex (take pathEnd databaseURL) (CHR ''/'') < 0" using LastIndex_nonneg by fastforce
  then show ?thesis by (simp add: replace_database_def pathEnd_def Let_def)
qed

lemma validMigrationTable_chars:
  "validMigrationTable s \<Longrightarrow> c \<in> set s \<Longrightarrow> is_lower c \<or> is_digit c \<or> c = CHR ''_''"
  by (auto simp: validMigrationTable_def list_all_iff split: list.splits)

lemma QueryEscape_valid: "validMigrationTable s \<Longrightarrow> QueryEscape s = s"
proof -
  assume "validMigrationTable s"
  then have "\<forall>c \<in> set s. unreserved c" using validMigrationTable_chars by (auto simp: unreserved_def)
  then show ?thesis unfolding QueryEscape_def by (induction s) auto
qed

text \<open>The parameter that names the table, after a URL whose query is \<open>q\<close>.\<close>

definition table_option :: "string \<Rightarrow> string \<Rightarrow> string" where
  "table_option q table = (if q = [] then ''?'' else ''&'') @ ''x-migrations-table='' @ table"

lemma Contains_char: "Contains s [c] \<longleftrightarrow> c \<in> set s"
  by (auto simp: Contains_iff in_set_conv_decomp)

lemma validMigrationTable_no_mark: "validMigrationTable s \<Longrightarrow> CHR ''?'' \<notin> set s"
  using validMigrationTable_chars [of s "CHR ''?''"] by (auto simp: is_lower_def is_digit_def)

lemma validMigrationTable_Nil [simp]: "\<not> validMigrationTable []"
  by (simp add: validMigrationTable_def)

lemma mysql_options:
  assumes name: "validMigrationTable name" and table: "validMigrationTable table" and mark: "CHR ''?'' \<notin> set (a @ old)"
    and old: "CHR ''/'' \<notin> set old" and q: "q = [] \<or> hd q = CHR ''?''" and pre: "HasPrefix (a @ ''/'' @ old @ q) ''mysql://''"
  shows "withMigrationOptions lib (a @ ''/'' @ old @ q) name table schema = Inr (a @ ''/'' @ name @ q @ table_option q table)"
proof -
  have "Contains (a @ ''/'' @ name @ q) ''?'' \<longleftrightarrow> q \<noteq> []"
    using mark q validMigrationTable_no_mark [OF name] by (cases q) (auto simp: Contains_char)
  moreover have "name \<noteq> []" "table \<noteq> []" using name table by auto
  ultimately show ?thesis
    using pre replace_database_path [OF mark old q, of name] QueryEscape_valid [OF table]
    by (simp add: withMigrationOptions_def add_table_def table_option_def del: append_Cons)
qed

lemma mysql_total:
  assumes "HasPrefix databaseURL ''mysql://''"
  shows "\<exists>u. withMigrationOptions lib databaseURL name table schema = Inr u"
  using replace_database_total [OF assms, of name] assms by (auto simp: withMigrationOptions_def)

lemma create_statement_quotes: "validMigrationTable schema \<Longrightarrow> Count (create_statement schema) (CHR 0x22) = 2"
proof -
  assume "validMigrationTable schema"
  then have "CHR 0x22 \<notin> set schema"
    using validMigrationTable_chars [of schema "CHR 0x22"] by (auto simp: is_lower_def is_digit_def)
  then have "filter (\<lambda>x. x = CHR 0x22) schema = []" by (auto simp: filter_empty_conv)
  then show ?thesis by (simp add: Count_def create_statement_def)
qed

text \<open>The ways in which schema creation can go.\<close>

lemma createSchema_cases:
  assumes "createSchema db schema = (e, steps)"
  obtains (unbegun) "e \<noteq> None" "steps = []"
  | (unlocked) "e \<noteq> None" "steps = [BeginTx, ExecTx lock_statement [''config-service:schema:'' @ schema], RollbackTx]"
  | (uncreated) "e \<noteq> None"
      "steps = [BeginTx, ExecTx lock_statement [''config-service:schema:'' @ schema], ExecTx (create_statement schema) [], RollbackTx]"
  | (uncommitted) "e \<noteq> None"
      "steps = [BeginTx, ExecTx lock_statement [''config-service:schema:'' @ schema], ExecTx (create_statement schema) [], CommitTx, RollbackTx]"
  | (created) "e = None"
      "steps = [BeginTx, ExecTx lock_statement [''config-service:schema:'' @ schema], ExecTx (create_statement schema) [], CommitTx]"
  using assms by (auto simp: createSchema_def Let_def split: option.splits)

lemma ensureSchema_steps:
  assumes "ensureSchema lib quote sql_Open cfg databaseURL = (e, steps)" and "steps \<noteq> []"
  shows "\<exists>db err done. validMigrationTable (mig_Schema cfg) \<and> createSchema db (mig_Schema cfg) = (err, done) \<and>
    steps = done @ [CloseDB] \<and> (e = None \<longleftrightarrow> err = None)"
  using assms by (auto simp: ensureSchema_def split: if_splits sum.splits option.splits prod.splits)

end
