(* ===== verification/App_Wiring.thy ===== *)
theory App_Wiring
  imports Upstream_Grpc Redis_Lock Database_Setup
begin

text \<open>
  The constructors and hooks of the application (\<^verbatim>\<open>app/app.go\<close>, \<^verbatim>\<open>app/config.go\<close>, \<^verbatim>\<open>app/eventbus.go\<close>,
  \<^verbatim>\<open>authorization/provider.go\<close>, \<^verbatim>\<open>logging/logging.go\<close>, \<^verbatim>\<open>idempotency/manager.go\<close>, \<^verbatim>\<open>cmd/api/main.go\<close>): which parts exist under which settings, and
  what is opened and closed. The event bus, the outbox dispatcher and cleaner, the loggers and the
  clients of the platform module are parameters; the dependency container only calls what is here.
\<close>

section \<open>Optional parts\<close>

text \<open>Each result comes with the stop hooks that were registered (\<open>hooks\<close>) or what was closed at once.\<close>

definition newDatabase :: "driver_lib \<Rightarrow> Config \<Rightarrow> db_handle option result \<times> db_handle list" where
  "newDatabase lib cfg =
     (if \<not> db_Enabled (cfg_Database cfg) then (Inr None, [])
      else (case database_Open lib (cfg_Database cfg) of
              (Inl err, shut) \<Rightarrow> (Inl err, shut)
            | (Inr db, shut) \<Rightarrow> (Inr (Some db), shut)))"

definition newRedis ::
    "(redis_options \<Rightarrow> gerror option) \<Rightarrow> bool \<Rightarrow> (redis_options \<Rightarrow> gerror option) \<Rightarrow> Config \<Rightarrow>
      redis_options option result \<times> redis_options list" where
  "newRedis ping tracing instrument cfg =
     (if \<not> redis_Enabled (cfg_Redis cfg) then (Inr None, [])
      else (case redis_Open ping (cfg_Redis cfg) of
              (Inl err, shut) \<Rightarrow> (Inl err, shut)
            | (Inr client, shut) \<Rightarrow>
              if tracing then
                (case instrument client of
                   Some err \<Rightarrow> (Inl (Wrap ''instrument redis tracing'' err), shut @ [client])
                 | None \<Rightarrow> (Inr (Some client), shut))
              else (Inr (Some client), shut)))"

definition newLocker :: "(redis_options \<Rightarrow> 'w redsync) \<Rightarrow> redis_options option \<Rightarrow> 'w redsync option" where
  "newLocker redsync_New client = (case client of None \<Rightarrow> None | Some c \<Rightarrow> Some (redsync_New c))"

text \<open>The idempotency manager of the platform module, made by \<open>new\<close> for a client (if there is one) and its settings.\<close>

record idempotency_config =
  ic_Enabled :: bool
  ic_Service :: string
  ic_ProcessingTTL :: duration
  ic_ResultTTL :: duration
  ic_FailureTTL :: duration

definition idempotency_New :: "('c \<Rightarrow> idempotency_config \<Rightarrow> 'm) \<Rightarrow> 'c \<Rightarrow> Config \<Rightarrow> 'm" where
  "idempotency_New new client cfg =
     (let i = cfg_Idempotency cfg in
      new client \<lparr>ic_Enabled = idem_Enabled i, ic_Service = app_Name (cfg_App cfg), ic_ProcessingTTL = idem_ProcessingTTL i,
                  ic_ResultTTL = idem_ResultTTL i, ic_FailureTTL = idem_FailureTTL i\<rparr>)"

text \<open>\<open>None\<close>: the verifier that accepts every application; \<open>Some\<close>: one that asks the given upstream.\<close>

definition newApplicationVerifier :: "Config \<Rightarrow> Registry option \<Rightarrow> connection option result" where
  "newApplicationVerifier cfg registry =
     (if \<not> db_Enabled (cfg_Database cfg) then Inr None
      else (case registry of
              None \<Rightarrow> Inl (Plain ''config service requires outbound registry'')
            | Some r \<Rightarrow>
              (case registry_GRPC r ''application'' of
                 None \<Rightarrow> Inl (Plain ''config service requires outbound.grpc.application'')
               | Some conn \<Rightarrow> Inr (Some conn))))"

text \<open>The authorizer over the upstream, \<open>None\<close> when there is none.\<close>

definition authorization_New :: "Registry \<Rightarrow> connection option" where
  "authorization_New registry = registry_GRPC registry ''authorization''"

text \<open>A logger: level, format and attributes, and the settings of the file it rotates.\<close>

record logger =
  log_level :: string
  log_text :: bool
  log_rotator :: "string \<times> int \<times> int \<times> int \<times> bool"
  log_attributes :: "(string \<times> string) list"

definition logging_New :: "(string \<Rightarrow> gerror option) \<Rightarrow> (string \<Rightarrow> gerror option) \<Rightarrow> (int \<Rightarrow> int) \<Rightarrow> Log \<Rightarrow> logger result" where
  "logging_New mkdirDir parseLevel lower cfg =
     (case mkdirDir (log_File cfg) of
        Some err \<Rightarrow> Inl (Wrap ''create log directory'' err)
      | None \<Rightarrow>
        (case parseLevel (ToLower lower (log_Level cfg)) of
           Some err \<Rightarrow> Inl (Wrap ''parse log level'' err)
         | None \<Rightarrow> Inr \<lparr>log_level = ToLower lower (log_Level cfg), log_text = (log_Format cfg = ''text''),
             log_rotator = (log_File cfg, log_MaxSizeMB cfg, log_MaxBackups cfg, log_MaxAgeDays cfg, log_Compress cfg),
             log_attributes = []\<rparr>))"

definition newLogger :: "(string \<Rightarrow> gerror option) \<Rightarrow> (string \<Rightarrow> gerror option) \<Rightarrow> (int \<Rightarrow> int) \<Rightarrow> Config \<Rightarrow> logger result" where
  "newLogger mkdirDir parseLevel lower cfg =
     (case logging_New mkdirDir parseLevel lower (cfg_Log cfg) of
        Inl err \<Rightarrow> Inl err
      | Inr logger \<Rightarrow> Inr (logger\<lparr>log_attributes := log_attributes logger @
          [(''service'', app_Name (cfg_App cfg)), (''environment'', runtime_ActiveProfile (cfg_Runtime cfg))]\<rparr>))"

section \<open>The command\<close>

text \<open>What the command \<^verbatim>\<open>api\<close> does for its flags: print the version, fail with an exit code, or run the application.\<close>

datatype api_outcome = ShowVersion | Exit_code int | Run_app Config

definition api_main :: "loader \<Rightarrow> string \<Rightarrow> string \<Rightarrow> bool \<Rightarrow> api_outcome" where
  "api_main loader configPath profile showVersion =
     (if showVersion then ShowVersion
      else (case LoadWithProfile loader configPath profile of
              Inl err \<Rightarrow> Exit_code 1
            | Inr cfg \<Rightarrow> Run_app cfg))"

section \<open>The event runtime\<close>

record bus_config =
  bc_URLs :: "string list"
  bc_ClientName :: string
  bc_StreamName :: string
  bc_Subjects :: "string list"
  bc_Storage :: string
  bc_MaxAge :: duration
  bc_DuplicateWindow :: duration
  bc_ConnectTimeout :: duration
  bc_PublishTimeout :: duration

record dispatcher_config =
  dc_BatchSize :: int
  dc_Lease :: duration
  dc_RetryDelay :: duration

record retention_config =
  rc_Retention :: duration
  rc_BatchSize :: int

record bus_lib =
  bl_New :: "bus_config \<Rightarrow> gerror option"
  bl_dispatcher :: "dispatcher_config \<Rightarrow> gerror option"
  bl_cleaner :: "retention_config \<Rightarrow> gerror option"
  bl_Close :: "gerror option"

datatype worker = Dispatcher dispatcher_config duration | Cleaner retention_config duration

datatype runtime_step = OpenBus bus_config | CloseBus | Go worker | CancelWorkers | WaitWorkers

text \<open>\<open>rt_bus\<close> and \<open>rt_cancel\<close>: whether the fields \<^verbatim>\<open>bus\<close> and \<^verbatim>\<open>cancel\<close> are set.\<close>

record configEventRuntime =
  rt_config :: Config
  rt_store :: bool
  rt_cancel :: bool
  rt_bus :: bool

definition newConfigOutboxStore :: "(string \<Rightarrow> gerror option) \<Rightarrow> db_handle option \<Rightarrow> bool result" where
  "newConfigOutboxStore newSQLStore db =
     (case db of
        None \<Rightarrow> Inr False
      | Some d \<Rightarrow> (case newSQLStore ''config_outbox_events'' of Some err \<Rightarrow> Inl err | None \<Rightarrow> Inr True))"

definition newConfigEventRuntime :: "Config \<Rightarrow> bool \<Rightarrow> configEventRuntime" where
  "newConfigEventRuntime cfg store = \<lparr>rt_config = cfg, rt_store = store, rt_cancel = False, rt_bus = False\<rparr>"

definition bus_settings :: "Config \<Rightarrow> bus_config" where
  "bus_settings cfg =
     (let b = cfg_EventBus cfg in
      \<lparr>bc_URLs = bus_URLs b, bc_ClientName = app_Name (cfg_App cfg), bc_StreamName = bus_StreamName b,
       bc_Subjects = [''platform.>''], bc_Storage = bus_Storage b, bc_MaxAge = bus_MaxAge b,
       bc_DuplicateWindow = bus_DuplicateWindow b, bc_ConnectTimeout = bus_ConnectTimeout b,
       bc_PublishTimeout = bus_PublishTimeout b\<rparr>)"

definition runtime_start :: "bus_lib \<Rightarrow> configEventRuntime \<Rightarrow> gerror option \<times> configEventRuntime \<times> runtime_step list" where
  "runtime_start lib r =
     (let b = cfg_EventBus (rt_config r);
          dispatch = \<lparr>dc_BatchSize = bus_DispatchBatchSize b, dc_Lease = bus_DispatchLease b, dc_RetryDelay = bus_DispatchRetryDelay b\<rparr>;
          retention = \<lparr>rc_Retention = bus_PublishedRetention b, rc_BatchSize = bus_CleanupBatchSize b\<rparr>;
          settings = bus_settings (rt_config r)
      in if \<not> bus_Enabled b then (None, r, [])
         else if \<not> rt_store r then (Some (Plain ''enabled event bus requires database outbox''), r, [])
         else (case bl_New lib settings of
           Some err \<Rightarrow> (Some err, r, [])
         | None \<Rightarrow>
           (case bl_dispatcher lib dispatch of
              Some err \<Rightarrow> (Some err, r, [OpenBus settings, CloseBus])
            | None \<Rightarrow>
              (let r = r\<lparr>rt_bus := True, rt_cancel := True\<rparr> in
               case bl_cleaner lib retention of
                 Some err \<Rightarrow> (Some err, r, [OpenBus settings, CancelWorkers, CloseBus])
               | None \<Rightarrow>
                 (None, r, [OpenBus settings, Go (Dispatcher dispatch (bus_DispatchInterval b)),
                            Go (Cleaner retention (bus_CleanupInterval b))])))))"

definition runtime_stop :: "bus_lib \<Rightarrow> configEventRuntime \<Rightarrow> gerror option \<times> runtime_step list" where
  "runtime_stop lib r =
     (let workers = (if rt_cancel r then [CancelWorkers, WaitWorkers] else [])
      in if rt_bus r then (bl_Close lib, workers @ [CloseBus]) else (None, workers))"

text \<open>
  The loop of a worker: it runs once, then waits for the ticker or the end of its context; \<open>wakes\<close> is
  the sequence of what it waits for, \<open>run\<close> one run on the state of the outside world.
\<close>

datatype wake = Tick | Done_ctx

fun worker_loop :: "('w \<Rightarrow> 'w) \<Rightarrow> wake list \<Rightarrow> 'w \<Rightarrow> 'w" where
  "worker_loop run [] w = run w"
| "worker_loop run (Done_ctx # wakes) w = run w"
| "worker_loop run (Tick # wakes) w = worker_loop run wakes (run w)"

section \<open>Laws\<close>

definition buses_open :: "runtime_step list \<Rightarrow> int" where
  "buses_open steps = int (length (filter (\<lambda>s. \<exists>c. s = OpenBus c) steps)) - int (length (filter (\<lambda>s. s = CloseBus) steps))"

definition workers :: "runtime_step list \<Rightarrow> worker list" where
  "workers steps = concat (map (\<lambda>s. case s of Go x \<Rightarrow> [x] | _ \<Rightarrow> []) steps)"

lemma runtime_start_cases:
  assumes "runtime_start lib r = (e, r', steps)"
  obtains (off) "\<not> bus_Enabled (cfg_EventBus (rt_config r))" "e = None" "r' = r" "steps = []"
  | (failed) "e \<noteq> None" "buses_open steps = 0" "workers steps = []"
  | (running) "bus_Enabled (cfg_EventBus (rt_config r))" "rt_store r" "e = None" "rt_bus r'" "rt_cancel r'" "buses_open steps = 1"
      "steps = [OpenBus (bus_settings (rt_config r))] @ map Go (workers steps)" "length (workers steps) = 2"
  using assms
  by (cases e) (auto simp: runtime_start_def Let_def buses_open_def workers_def split: if_splits option.splits)

text \<open>
  A runtime that was started and is stopped has closed its bus and cancelled its workers; one that
  failed to start has done so by itself.
\<close>

lemma runtime_balanced:
  assumes "runtime_start lib (newConfigEventRuntime cfg store) = (e, r, steps)"
  shows "buses_open (steps @ (if e = None then snd (runtime_stop lib r) else [])) = 0 \<and>
    (e = None \<longrightarrow> workers steps \<noteq> [] \<longrightarrow> CancelWorkers \<in> set (snd (runtime_stop lib r)))"
  using assms
proof (cases rule: runtime_start_cases)
  case off
  then show ?thesis by (simp add: runtime_stop_def newConfigEventRuntime_def buses_open_def workers_def)
next
  case failed
  then show ?thesis by auto
next
  case running
  then show ?thesis by (simp add: runtime_stop_def buses_open_def)
qed

text \<open>The settings of the bus are the same for any configured subjects.\<close>

lemma subjects_ignored:
  "bus_settings (cfg\<lparr>cfg_EventBus := (cfg_EventBus cfg)\<lparr>bus_Subjects := subjects\<rparr>\<rparr>) = bus_settings cfg"
  by (simp add: bus_settings_def Let_def)

text \<open>With the authorization upstream configured, as production requires, there is an authorizer.\<close>

lemma authorizer_present:
  "NewRegistry env outbound = (Inr r, shut) \<Longrightarrow> map_of (out_GRPC outbound) ''authorization'' \<noteq> None \<Longrightarrow> authorization_New r \<noteq> None"
  using registry_GRPC_configured [of env outbound r shut "''authorization''"]
  by (simp add: authorization_New_def map_of_eq_None_iff)

end
