(* ===== verification/Transport_Properties.thy ===== *)
theory Transport_Properties
  imports Transport_Fixtures Server_Lifecycle App_Wiring
begin

text \<open>
  What holds of requests as they arrive at the two servers: who can change the configuration, what is
  answered, and what the transports add to or take from the guarantees of the service.
\<close>

section \<open>Approval\<close>

text \<open>
  C2: Four eyes over HTTP. In every database that HTTP requests can produce from the empty one, whatever
  their headers and bodies and whatever the database, the platform module and the decoders answer,
  each value that \<^verbatim>\<open>Resolve\<close> serves has the content of a revision that was approved by somebody other
  than the one who submitted it.
\<close>

theorem http_values_were_approved:
  assumes "http_reachable pg d" and "pg_canonical pg"
    and "Resolve s c environment tenantID applicationID service subject keys d = Inr (vs, etag)"
    and "v \<in> set vs"
  shows "\<exists>r \<in> set (revisions d). r_EntryID r = e_ID v \<and> r_Status r = ''approved'' \<and>
    r_ReviewedBy r \<noteq> r_CreatedBy r \<and> content_of v r"
  by (rule Resolve_approved [OF http_reachable_reachable [OF assms(1)] assms(2-4)])

theorem http_values_were_approved_witness:
  "\<exists>r \<in> set (revisions db_published). r_EntryID r = e_ID fix_row \<and> r_Status r = ''approved'' \<and>
    r_ReviewedBy r \<noteq> r_CreatedBy r \<and> content_of fix_row r"
  using http_values_were_approved [OF web_published_reachable fix_canonical fix_resolve, of fix_row] by simp

text \<open>
  C36: No four eyes over gRPC. The gRPC \<^verbatim>\<open>PutDraft\<close> copies the published revision of the client's message
  into a new entry. One user who presets it to 1 and then submits the draft has the value served,
  while its only revision is still waiting for approval.
\<close>

theorem grpc_preset_revision_bypasses_approval:
  "\<exists>message d1 d2 v etag.
     d1 = final_db (configServer fix_pb (fix_service ''c1'') (as_user ''ann'' ''t1'') (PutDraftRequest (Some message) 0) empty_db) \<and>
     d2 = final_db (configServer fix_pb (fix_service ''v1'') (as_user ''ann'' ''t1'') (SubmitForApprovalRequest ''c1'' 1) d1) \<and>
     Resolve (fix_service ''x'') (as_user ''eve'' ''t1'') ''prod'' ''t1'' [] ''web'' ''user-1'' [''flag''] d2 = Inr ([v], etag) \<and>
     e_Value v = ''true'' \<and> map r_Status (revisions d2) = [''pending_approval'']"
proof (intro exI conjI)
  show "preset_drafted = final_db (configServer fix_pb (fix_service ''c1'') (as_user ''ann'' ''t1'')
      (PutDraftRequest (Some ((toProtoConfig fix_pb fix_entry)\<lparr>px_PublishedRevision := 1\<rparr>)) 0) empty_db)"
    by (rule preset_drafted_def)
  show "preset_submitted = final_db (configServer fix_pb (fix_service ''v1'') (as_user ''ann'' ''t1'')
      (SubmitForApprovalRequest ''c1'' 1) preset_drafted)"
    by (rule preset_submitted_def)
qed (rule preset_resolve preset_unapproved)+

section \<open>Who changes the configuration\<close>

text \<open>
  C7: A change needs a credential (HTTP). A request that changes the database carries an authorization
  header with the enabled pre-shared key or with a bearer token that the service verifies; the change
  is that of the operation which its route and body name, carried out for that principal. Where
  authorization is enabled, the authorization service granted the permission of the route to it.
\<close>

theorem http_change_needs_credential:
  assumes "c_db (fst (serve env q body d)) \<noteq> d"
  shows "\<exists>p c limit qo. credential (he_verify env) (cfg_Auth (he_cfg env)) (q_Header q ''Authorization'') p \<and>
    ctx_principal c = Some p \<and> http_op env (q_FullPath q) limit body = Some qo \<and>
    c_db (fst (serve env q body d)) = snd (exec (he_service env) c qo d) \<and>
    (authz_Enabled (cfg_Authorization (he_cfg env)) \<longrightarrow>
      (\<exists>r c1. configHTTPRequirement (q_FullPath q) = Some r \<and> ctx_principal c1 = Some p \<and> he_enforce env c1 r = None))"
  by (rule serve_change [OF assms])

theorem http_change_needs_credential_witness:
  "\<exists>p. credential (he_verify fix_env) (cfg_Auth (he_cfg fix_env)) (q_Header fix_request ''Authorization'') p"
proof -
  have "c_db (fst (serve fix_env fix_request ''put'' empty_db)) \<noteq> empty_db"
    using fix_serve_changes by (auto simp: empty_db_def)
  from http_change_needs_credential [OF this] show ?thesis by blast
qed

text \<open>
  C8: A change needs a credential (gRPC). A call that changes the database carries the pre-shared key or
  a verified bearer token in its metadata, and the change is that of the operation it names, carried
  out for that principal. The interceptors of the platform module for authorization and idempotency
  are assumed to answer by themselves or to call on with the principal unchanged.
\<close>

theorem grpc_change_needs_credential:
  assumes "pass_through (ge_authz g fullMethod)" and "pass_through (ge_idem g fullMethod)"
    and "final_db (unary_chain g md fullMethod (configServer pb s) c q d) \<noteq> d" and "ctx_principal c = None"
  shows "\<exists>p c' qo. grpc_credential (ge_verify g) (ge_auth g) md p \<and> ctx_principal c' = Some p \<and> rpc_op pb q = Some qo \<and>
    final_db (unary_chain g md fullMethod (configServer pb s) c q d) = snd (exec s c' qo d)"
  by (rule unary_chain_change [OF assms])

theorem grpc_change_needs_credential_witness:
  "\<exists>p. grpc_credential (ge_verify fix_grpc) (ge_auth fix_grpc) fix_metadata p"
proof -
  have "final_db (unary_chain fix_grpc fix_metadata ''/platform.config.v1.ConfigService/PutDraft''
     (configServer fix_pb (fix_service ''c1'')) background fix_put_rpc empty_db) \<noteq> empty_db"
    using fix_grpc_changes by (auto simp: empty_db_def)
  from grpc_change_needs_credential [OF fix_pass_through this] show ?thesis by (auto simp: background_def)
qed



text \<open>
  Pre-shared keys. An authorization header is accepted as the pre-shared key exactly when it is the
  scheme \<^verbatim>\<open>PSK\<close> in any case, one space and the configured, non-empty key.
\<close>

theorem psk_accepted_iff_key:
  "VerifyPSK authorization expected \<longleftrightarrow>
   expected \<noteq> [] \<and> (\<exists>scheme. authorization = scheme @ CHR '' '' # expected \<and> CHR '' '' \<notin> set scheme \<and>
     EqualFold scheme ''PSK'')"
  by (rule VerifyPSK_iff)

text \<open>
  C23: Tokens round trip. Given a token library that behaves as documented, a token that \<^verbatim>\<open>Issue\<close> made is
  parsed back to its subject at any time before its expiry.
\<close>

theorem issued_token_parses:
  assumes "jwt_documented lib" and "Issue lib s now random subject = Inr raw" and "now \<le> later"
    and "later < jwt_date lib (now + as_ttl s)"
  shows "\<exists>c. Parse lib s later raw = Inr c \<and> cl_Subject c = subject \<and>
    cl_ExpiresAt c = Some (jwt_date lib (now + as_ttl s))"
  by (rule Issue_Parse [OF assms])

theorem issued_token_parses_witness:
  "\<exists>c. Parse tok_lib tok_service 50 ''token'' = Inr c \<and> cl_Subject c = ''client''"
  using issued_token_parses [OF tok_documented tok_issued, of 50] by (auto simp: tok_lib_def tok_service_def)



section \<open>What is answered\<close>

text \<open>
  C17: One answer. Every HTTP request on a route of the service is answered exactly once, by an envelope
  or by the empty 204 of a preflight request, and header and envelope carry the same valid request
  identifier.
\<close>

theorem http_request_answered_once:
  assumes "route env q = Some h" and "Valid (he_generated env)"
  shows "\<exists>g rid. serve env q body d = (g, False) \<and> Valid rid \<and> c_written g \<and> c_header g ''X-Request-ID'' = Some rid \<and>
    (c_out g = [] \<and> c_status g = 204 \<or> (\<exists>r. c_out g = [Envelope_out r] \<and> r_RequestID r = rid))"
  by (rule serve_answered [OF assms])

theorem http_request_answered_once_witness:
  "\<exists>g. serve fix_env fix_request ''put'' empty_db = (g, False) \<and> c_written g"
proof -
  obtain h where "route fix_env fix_request = Some h" using fix_route by blast
  from http_request_answered_once [OF this fix_generated_valid, of "''put''" empty_db] show ?thesis by auto
qed

text \<open>
  C26: No panic escapes. Whatever a handler does, neither server ends a request with a panic: the HTTP
  chain around any handler returns, and so do the gRPC chains of calls and of streams, with a status
  or a response.
\<close>

theorem panics_are_contained:
  "\<not> snd (global_chain env q h g) \<and> (\<exists>r header d'. unary_chain ge md fullMethod handler c rq d = (Done r, header, d')) \<and>
    (\<exists>r w'. stream_chain se md fullMethod streaming c w = (Done r, w'))"
  by (intro conjI global_chain_no_panic unary_chain_Done stream_chain_Done)



text \<open>
  Causes stay inside. What a client is told of an error is the code, message and status of the first
  application error in its chain, never the wrapped cause; any other error becomes the same internal
  error; and the service translates the errors of its repository to three fixed messages.
\<close>

lemma error_causes_stay_inside:
  "(errors_As_app e = None \<longrightarrow>
      Fail num e g = write_out 500 (Envelope_out (envelope (num CodeInternal) ''internal server error'' NilBody g)) g \<and>
      grpcError e = GStatus GInternal ''internal server error'') \<and>
   Fail num (AppError code m status (Some cause)) g = Fail num (AppError code m status None) g \<and>
   grpcError (AppError code m status (Some cause)) = grpcError (AppError code m status None) \<and>
   Message (translate e) \<in> {''config entry not found'', ''resource version is stale'', ''internal server error''}"
  by (auto simp: Fail_def grpcError_def translate_def err_defs)

lemma error_causes_stay_inside_witness:
  "grpcError (Wrap ''query'' (SQLError (DriverFault ''password=x''))) = GStatus GInternal ''internal server error''"
  using error_causes_stay_inside [of "Wrap ''query'' (SQLError (DriverFault ''password=x''))"] by simp



section \<open>Permissions and settings\<close>

text \<open>The operations of the service and their HTTP routes.\<close>

fun http_route :: "rpc \<Rightarrow> string" where
  "http_route MGet = ''/api/v1/config/entries/get''"
| "http_route MPutDraft = ''/api/v1/config/entries/put-draft''"
| "http_route MSubmitForApproval = ''/api/v1/config/entries/submit''"
| "http_route MApprove = ''/api/v1/config/entries/approve''"
| "http_route MReject = ''/api/v1/config/entries/reject''"
| "http_route MPublish = ''/api/v1/config/entries/publish''"
| "http_route MRollback = ''/api/v1/config/entries/rollback''"
| "http_route MResolve = ''/api/v1/config/resolve''"
| "http_route MList = ''/api/v1/config/entries/list''"

text \<open>
  The same permission on both transports. Every operation needs a permission, and the one that the
  HTTP route asks for is the one that the gRPC method asks for.
\<close>

theorem transports_require_same_permission:
  assumes "inj names"
  shows "configHTTPRequirement (http_route op) = configGRPCRequirement names True (names op) \<and>
    configHTTPRequirement (http_route op) \<noteq> None"
  using inj_eq [OF assms] by (cases op) (simp_all add: configHTTPRequirement_def configGRPCRequirement_def)

theorem transports_require_same_permission_witness:
  "configGRPCRequirement http_route True ''/api/v1/config/entries/publish'' = Some \<lparr>rq_Resource = ''config.entry'', rq_Action = ''publish''\<rparr>"
proof -
  have "inj http_route" by (rule injI, elim http_route.elims) simp_all
  from transports_require_same_permission [OF this, of MPublish] show ?thesis by (simp add: configHTTPRequirement_def)
qed





text \<open>
  Lists in environment variables. The decode hook reads a comma-separated list, plain or as a JSON
  array of strings, back as the list of its items.
\<close>

theorem string_list_round_trip:
  assumes "vs \<noteq> []" and "\<forall>v \<in> set vs. list_item v"
  shows "stringToStringSliceHook (Join vs '','') = vs \<and>
    stringToStringSliceHook (''['' @ Join (map quoted vs) '','' @ '']'') = vs"
  by (rule hook_roundtrip [OF assms])

theorem string_list_round_trip_witness: "stringToStringSliceHook ''/api/v1/a,/api/v1/b'' = [''/api/v1/a'', ''/api/v1/b'']"
proof -
  have "\<forall>v \<in> set [''/api/v1/a'', ''/api/v1/b'']. list_item v" by code_simp
  from string_list_round_trip [OF _ this] show ?thesis by simp
qed

text \<open>
  Readiness. The answer does not depend on which dependency answers first: the service is ready
  exactly when every configured dependency answers its ping, and both are reported.
\<close>

theorem readiness_is_order_independent:
  "Ready hs b =
     (\<lparr>st_Status = (if dependency_up (hs_db hs) \<and> dependency_up (hs_redis hs) then ''ready'' else ''not_ready''),
       st_Dependencies = [''database'' \<mapsto> hr_dependency (checkDatabase hs), ''redis'' \<mapsto> hr_dependency (checkRedis hs)]\<rparr>,
      dependency_up (hs_db hs) \<and> dependency_up (hs_redis hs))"
  by (rule Ready_spec)

end
