(* ===== verification/Runtime_Properties.thy ===== *)
theory Runtime_Properties
  imports App_Wiring Transport_Fixtures
begin

text \<open>
  Properties of what the service does outside its requests: calls of upstream services, migrations,
  the scheduled job and the event runtime, with the concrete inputs of their witnesses.
\<close>

section \<open>Fixtures\<close>

definition out_http :: HTTPUpstream where
  "out_http = \<lparr>hup_BaseURL = ''http://billing'', hup_Timeout = 5, hup_Auth = \<lparr>ca_Type = ''bearer'', ca_Token = ''t''\<rparr>,
     hup_Retry = \<lparr>retry_MaxAttempts = 3, retry_InitialBackoff = 100, retry_MaxBackoff = 150, retry_Methods = []\<rparr>,
     hup_Breaker = \<lparr>brk_Enabled = True, brk_FailureThreshold = 5, brk_OpenTimeout = 30\<rparr>,
     hup_TLS = \<lparr>ctls_Enabled = True, ctls_ServerName = [], ctls_CAFile = [], ctls_CertFile = [], ctls_KeyFile = []\<rparr>\<rparr>"

definition out_config :: Config where
  "out_config = fix_config\<lparr>cfg_Outbound := (cfg_Outbound fix_config)\<lparr>out_HTTP := [(''billing'', out_http)]\<rparr>\<rparr>"

definition out_loader :: loader where
  "out_loader = fix_loader\<lparr>l_unmarshal := (\<lambda>files profile. Inr out_config)\<rparr>"

lemma out_loaded: "LoadWithProfile out_loader ''config.yaml'' [] = Inr out_config"
  by code_simp

definition out_client :: http_client where
  "out_client = \<lparr>uc_cfg = out_http, uc_name = ''billing'', uc_metrics = Some fix_metrics, uc_relative = (\<lambda>p. True), uc_resolve = (\<lambda>p. ''http://billing'' @ p),
     uc_newRequest = (\<lambda>m u. None), uc_oor = (\<lambda>x. 0), uc_canceled = (\<lambda>e. False),
     uc_idempotency_FromContext = (\<lambda>c. ([], False))\<rparr>"

text \<open>An upstream that is busy twice and then answers.\<close>

definition out_answer :: "int \<Rightarrow> int result" where
  "out_answer a = Inr (if a < 3 then 503 else 200)"

definition out_call :: "upstream_response result \<times> step list" where
  "out_call = execute out_client (\<lambda>trip excl. None) out_answer (\<lambda>a. None) background ''GET'' ''/v1/x'' [] Map.empty"

lemma out_call_sent: "sent (snd out_call) = 3"
  by code_simp

definition no_urls :: url_lib where
  "no_urls = \<lparr>ul_Parse = (\<lambda>s. Inr \<lparr>url_Rest = s, url_Path = [], url_Query = Map.empty\<rparr>), ul_String = url_Rest\<rparr>"

definition no_files :: tls_files where
  "no_files = \<lparr>tf_readCA = (\<lambda>f. None), tf_parseCA = (\<lambda>f. True), tf_loadPair = (\<lambda>c k. None)\<rparr>"

text \<open>A gRPC upstream that is never available; the world counts the calls.\<close>

definition grpc_lib :: "nat client_lib" where
  "grpc_lib = \<lparr>lib_now = (\<lambda>n. 0), lib_wait = (\<lambda>c t n. (None, n)), lib_Execute = (\<lambda>trip excl f. f),
     lib_idempotency_FromContext = (\<lambda>c. (''k'', True)), lib_observe = (\<lambda>s n. n), lib_code_String = (\<lambda>code. [])\<rparr>"

definition busy_upstream :: "nat invoker" where
  "busy_upstream c m n = (Some (Status_error Unavailable_code ''busy''), n + 1)"

definition grpc_ctx :: call_ctx where
  "grpc_ctx = \<lparr>cc_values = background, cc_Deadline = None, cc_metadata = []\<rparr>"

lemma grpc_dialled: "\<exists>conn. Dial no_files (\<lambda>t. None) (upstream_config fix_metrics ''application'' fix_upstream) = Inr conn"
  by (simp add: Dial_def transportCredentials_def upstream_config_def fix_upstream_def no_files_def)

text \<open>A lock service whose world is the table of the holders.\<close>

definition lock_table :: "(string \<rightharpoonup> string) redsync" where
  "lock_table = \<lparr>rs_TryLock = (\<lambda>m w. if w (mx_Name m) = None then (None, w(mx_Name m \<mapsto> ''me'')) else (Some (Plain ''taken''), w)),
     rs_Lock = (\<lambda>m w. if w (mx_Name m) = None then (None, w(mx_Name m \<mapsto> ''me'')) else (Some (Plain ''taken''), w)),
     rs_Extend = (\<lambda>m w. (w (mx_Name m) = Some ''me'', None, w)),
     rs_Unlock = (\<lambda>m w. if w (mx_Name m) = Some ''me'' then (True, None, w(mx_Name m := None)) else (False, None, w)),
     rs_isFailed = (\<lambda>e. False), rs_isTaken = (\<lambda>e. True), rs_ctxErr = (\<lambda>w. None), rs_quote = (\<lambda>s. s)\<rparr>"

lemma lock_table_documented: "lock_documented (\<lambda>w. w) ''me'' lock_table"
  by (auto simp: lock_documented_def lock_table_def split: if_splits)

section \<open>Calls of upstream services\<close>

text \<open>
  C18: Calls of an HTTP upstream. For an upstream of a loaded configuration a call sends the same request
  at most five times, at most once when its method is not idempotent and it carries no key, and never
  keeps a response: of the responses it got, all but the returned one have been drained and closed. It
  waits the delay that the gRPC client waits, which doubles from the initial backoff up to the limit.
\<close>

theorem http_upstream_call_is_bounded:
  assumes "LoadWithProfile l path explicitProfile = Inr cfg" and "(name, u) \<in> set (out_HTTP (cfg_Outbound cfg))"
    and "uc_cfg cl = u" and "execute cl refusal answer ended c fullMethod requestPath body headers = (r, steps)"
  shows "sent steps \<le> 5 \<and> (\<not> retryableMethod (uc_idempotency_FromContext cl) c fullMethod \<longrightarrow> sent steps \<le> 1) \<and>
    drained steps \<union> returned r = opened answer 1 (int (sent steps)) \<and> drained steps \<inter> returned r = {} \<and>
    (\<forall>q. Sent q \<in> set steps \<longrightarrow> q = build_request cl fullMethod (uc_resolve cl requestPath) body headers) \<and>
    (retry_InitialBackoff (hup_Retry u) \<le> 2 ^ 53 \<longrightarrow>
      (\<forall>t. Waited t \<in> set steps \<longrightarrow> (\<exists>j. 1 \<le> j \<and> j < 5 \<and> t = retry_delay (hup_Retry u) j \<and>
        t = min (retry_MaxBackoff (hup_Retry u)) (retry_InitialBackoff (hup_Retry u) * 2 ^ nat (j - 1)))))"
proof -
  let ?retry = "hup_Retry u"
  have policy: "1 \<le> retry_MaxAttempts ?retry \<and> retry_MaxAttempts ?retry \<le> 5 \<and> 0 < retry_InitialBackoff ?retry"
    using validateClientPolicy_None Validate_upstreams(1) [OF loaded_valid [OF assms(1)] assms(2)] by blast
  then have attempts: "max_attempts cl c fullMethod \<le> 5"
    "\<not> retryableMethod (uc_idempotency_FromContext cl) c fullMethod \<Longrightarrow> max_attempts cl c fullMethod = 1"
    using assms(3) by (auto simp: max_attempts_def)
  note bounds = execute_bounds [of cl answer fullMethod requestPath body headers c refusal ended, unfolded assms(4) bounded_call_def assms(3)]
  have "int (sent steps) \<le> max 0 (max_attempts cl c fullMethod)" using bounds by simp
  then have "sent steps \<le> 5" "\<not> retryableMethod (uc_idempotency_FromContext cl) c fullMethod \<Longrightarrow> sent steps \<le> 1"
    using attempts by auto
  moreover have "\<exists>j. 1 \<le> j \<and> j < 5 \<and> t = retry_delay ?retry j \<and>
      t = min (retry_MaxBackoff ?retry) (retry_InitialBackoff ?retry * 2 ^ nat (j - 1))"
    if waited: "Waited t \<in> set steps" and small: "retry_InitialBackoff ?retry \<le> 2 ^ 53" for t
  proof -
    obtain j where "1 \<le> j" "j < max_attempts cl c fullMethod" "t = backoff_delay (uc_oor cl) ?retry j"
      using bounds waited by auto
    then show ?thesis
      using attempts(1) policy small backoff_delay_exact [of ?retry j] retry_delay_exact [of ?retry j] by (intro exI [of _ j]) auto
  qed
  ultimately show ?thesis using bounds by auto
qed

theorem http_upstream_call_is_bounded_witness: "drained (snd out_call) \<union> returned (fst out_call) = opened out_answer 1 3"
proof -
  have "(''billing'', out_http) \<in> set (out_HTTP (cfg_Outbound out_config))" by (simp add: out_config_def)
  moreover have "uc_cfg out_client = out_http" by (simp add: out_client_def)
  moreover have "execute out_client (\<lambda>trip excl. None) out_answer (\<lambda>a. None) background ''GET'' ''/v1/x'' [] Map.empty =
      (fst out_call, snd out_call)" by (simp add: out_call_def)
  ultimately show ?thesis
    using http_upstream_call_is_bounded [OF out_loaded, of "''billing''" out_http out_client] out_call_sent by fastforce
qed

text \<open>
  C19: Calls of a gRPC upstream. For an upstream of a loaded configuration every attempt of a call sees one
  prepared context: the values of the caller's, a deadline, and the metadata of the caller with the
  credential, the request identifier and the idempotency key appended; nothing else is called. The
  upstream is called at most five times, at most once when the method is not configured for retries and
  the caller has no key, and a credential is only sent over a connection with TLS.
\<close>

theorem grpc_upstream_call_is_prepared:
  assumes "LoadWithProfile l path explicitProfile = Inr cfg" and "(name, u) \<in> set (out_GRPC (cfg_Outbound cfg))"
    and "Dial files newClient (upstream_config metrics name u) = Inr conn"
    and "quiet_wait calls lib" and "quiet_Execute calls lib" and "quiet_observe calls lib" and "at_most calls 1 invoker"
  shows "(\<exists>c'. prepared lib (conn_cfg conn) c c' \<and>
      (\<forall>other. (\<forall>w. other c' fullMethod w = invoker c' fullMethod w) \<longrightarrow>
        client_chain lib (conn_cfg conn) other c fullMethod w = client_chain lib (conn_cfg conn) invoker c fullMethod w)) \<and>
    calls (snd (client_chain lib (conn_cfg conn) invoker c fullMethod w)) \<le> calls w + 5 \<and>
    (\<not> retryGRPCMethod lib (cc_values c) fullMethod (retry_Methods (gup_Retry u)) \<longrightarrow>
      calls (snd (client_chain lib (conn_cfg conn) invoker c fullMethod w)) \<le> calls w + 1) \<and>
    (gc_Token (conn_cfg conn) \<noteq> [] \<or> gc_PSK (conn_cfg conn) \<noteq> [] \<longrightarrow> conn_transport conn \<noteq> Insecure)"
proof -
  have conn: "conn_cfg conn = upstream_config metrics name u" and tls: "gc_Token (conn_cfg conn) \<noteq> [] \<or> gc_PSK (conn_cfg conn) \<noteq> [] \<Longrightarrow> conn_transport conn \<noteq> Insecure"
    using Dial_Inr [OF assms(3)] by (auto simp: upstream_config_def)
  have retry: "1 \<le> retry_MaxAttempts (gup_Retry u)" "retry_MaxAttempts (gup_Retry u) \<le> 5"
    using validateClientPolicy_None Validate_upstreams(2) [OF loaded_valid [OF assms(1)] assms(2)] by blast+
  have policy: "gc_Retry (conn_cfg conn) = gup_Retry u" by (simp add: conn upstream_config_def)
  obtain c' where c': "prepared lib (conn_cfg conn) c c'"
    and chain: "\<And>i m. client_chain lib (conn_cfg conn) i c m w = core_chain lib (conn_cfg conn) i c' m w"
    using client_chain_core [of lib "conn_cfg conn" c w] by blast
  have "at_most calls (nat (retry_MaxAttempts (gup_Retry u))) (core_chain lib (conn_cfg conn) invoker)"
    using core_chain_at_most [OF assms(4-7), of "conn_cfg conn"] retry(1) by (simp add: policy)
  from at_mostD [OF at_most_mono [OF this, of 5], of c' fullMethod w]
  have "calls (snd (core_chain lib (conn_cfg conn) invoker c' fullMethod w)) \<le> calls w + 5" using retry(2) by simp
  moreover have "calls (snd (core_chain lib (conn_cfg conn) invoker c' fullMethod w)) \<le> calls w + 1"
    if "\<not> retryGRPCMethod lib (cc_values c) fullMethod (retry_Methods (gup_Retry u))"
    using core_chain_no_retry [OF assms(5-7), of c' fullMethod "conn_cfg conn" w] that c' by (simp add: policy prepared_def)
  moreover have "core_chain lib (conn_cfg conn) other c' fullMethod w = core_chain lib (conn_cfg conn) invoker c' fullMethod w"
    if "\<forall>w. other c' fullMethod w = invoker c' fullMethod w" for other
    by (rule core_chain_cong) (use that in simp)
  ultimately show ?thesis using c' tls unfolding chain by blast
qed

theorem grpc_upstream_call_is_prepared_witness:
  "snd (client_chain grpc_lib (upstream_config fix_metrics ''application'' fix_upstream) busy_upstream grpc_ctx ''/m'' 0) \<le> 0 + 5"
proof -
  obtain conn where dial: "Dial no_files (\<lambda>t. None) (upstream_config fix_metrics ''application'' fix_upstream) = Inr conn"
    using grpc_dialled by blast
  then have conn: "conn_cfg conn = upstream_config fix_metrics ''application'' fix_upstream" by (simp add: Dial_Inr)
  have "(''application'', fix_upstream) \<in> set (out_GRPC (cfg_Outbound fix_config))" by (simp add: fix_config_def)
  moreover have "quiet_wait (\<lambda>n. n) grpc_lib" by (simp add: quiet_wait_def grpc_lib_def)
  moreover have "quiet_Execute (\<lambda>n. n) grpc_lib" by (auto simp: quiet_Execute_def grpc_lib_def)
  moreover have "quiet_observe (\<lambda>n. n) grpc_lib" by (simp add: quiet_observe_def grpc_lib_def)
  moreover have "at_most (\<lambda>n. n) 1 busy_upstream" by (simp add: at_most_def busy_upstream_def)
  ultimately show ?thesis
    using grpc_upstream_call_is_prepared [OF fix_loaded _ dial, of "\<lambda>n. n" grpc_lib busy_upstream grpc_ctx "''/m''" 0]
    by (simp add: conn)
qed

text \<open>
  Credentials in the clear. The HTTP client refuses credentials only when the TLS settings are off; it
  does not look at the scheme of the base URL. With TLS settings on, a client is made for any base URL
  that parses, also one with the scheme http, and every request it sends carries the credential.
\<close>

theorem http_credentials_ignore_scheme:
  assumes "NewHTTPClient parsed quote files lib name u metrics = Inr cl" and "parsed base" and "ca_Type (hup_Auth u) = ''bearer''"
    and "u' = u\<lparr>hup_BaseURL := base\<rparr>"
  shows "\<exists>cl'. NewHTTPClient parsed quote files lib name u' metrics = Inr cl' \<and> uc_cfg cl' = u' \<and>
    header_Get (ur_Header (build_request cl' fullMethod target body headers)) ''Authorization'' = ''Bearer '' @ ca_Token (hup_Auth u)"
  using assms build_request_bearer [of "lib\<lparr>uc_cfg := u', uc_name := name, uc_metrics := metrics\<rparr>" fullMethod target body headers]
  by (simp add: NewHTTPClient_Inr)

theorem http_credentials_ignore_scheme_witness:
  "\<exists>cl'. NewHTTPClient (\<lambda>b. True) (\<lambda>s. s) no_files out_client ''billing'' out_http None = Inr cl' \<and> uc_cfg cl' = out_http \<and>
    header_Get (ur_Header (build_request cl' ''GET'' ''http://billing/v1/x'' [] Map.empty)) ''Authorization'' = ''Bearer t''"
proof -
  have "NewHTTPClient (\<lambda>b. True) (\<lambda>s. s) no_files out_client ''billing'' (out_http\<lparr>hup_BaseURL := ''https://billing''\<rparr>) None =
      Inr (out_client\<lparr>uc_cfg := out_http\<lparr>hup_BaseURL := ''https://billing''\<rparr>, uc_name := ''billing'', uc_metrics := None\<rparr>)"
    by (simp add: NewHTTPClient_def httpTransport_def out_http_def)
  from http_credentials_ignore_scheme [OF this, where base = "''http://billing''" and u' = out_http and fullMethod = "''GET''"
      and target = "''http://billing/v1/x''" and body = "[]" and headers = Map.empty]
  show ?thesis by (simp add: out_http_def)
qed

section \<open>Migrations\<close>

text \<open>
  The URL of a MySQL migration. The database of the path is replaced by the configured one, the rest
  of the URL is kept, and the table of the migrations is added as a parameter. When the URL has no
  path, the slash of its scheme is taken for the path, and the host is replaced instead: the check
  for a missing path never reports an error.
\<close>

theorem mysql_migration_url:
  assumes "validMigrationTable name" and "validMigrationTable table" and "CHR ''?'' \<notin> set (host @ old)"
    and "CHR ''/'' \<notin> set old" and "q = [] \<or> hd q = CHR ''?''"
  shows "withMigrationOptions lib (''mysql://'' @ host @ ''/'' @ old @ q) name table schema =
      Inr (''mysql://'' @ host @ ''/'' @ name @ q @ table_option q table) \<and>
    withMigrationOptions lib (''mysql://'' @ old @ q) name table schema =
      Inr (''mysql://'' @ name @ q @ table_option q table) \<and>
    (\<exists>u. withMigrationOptions lib (''mysql://'' @ anything) name table schema = Inr u)"
proof (intro conjI)
  show "withMigrationOptions lib (''mysql://'' @ host @ ''/'' @ old @ q) name table schema =
      Inr (''mysql://'' @ host @ ''/'' @ name @ q @ table_option q table)"
    using mysql_options [of name table "''mysql://'' @ host" old q lib schema] assms by (simp add: HasPrefix_def)
  show "withMigrationOptions lib (''mysql://'' @ old @ q) name table schema =
      Inr (''mysql://'' @ name @ q @ table_option q table)"
    using mysql_options [of name table "''mysql:/''" old q lib schema] assms by (simp add: HasPrefix_def)
  show "\<exists>u. withMigrationOptions lib (''mysql://'' @ anything) name table schema = Inr u"
    by (rule mysql_total) (simp add: HasPrefix_iff)
qed

theorem mysql_migration_url_witness:
  "withMigrationOptions no_urls ''mysql://app:pw@db:3306'' ''platform'' ''migrations'' [] =
    Inr ''mysql://platform?x-migrations-table=migrations''"
proof -
  have "validMigrationTable ''platform''" "validMigrationTable ''migrations''" by code_simp+
  from mysql_migration_url [OF this, of "[]" "''app:pw@db:3306''" "[]" no_urls "[]"] show ?thesis
    by (simp add: table_option_def)
qed

text \<open>
  C28: Creating the schema. The only statements that schema creation executes are the advisory lock and,
  after it, the creation of the configured schema, whose name holds lower case letters, digits and
  underscores only, so that the quotes around it are the only ones. It reports success exactly when
  it has nothing to do or has committed; once begun, a transaction that fails is rolled back, and the
  connection is closed on every path.
\<close>

theorem schema_creation_is_safe:
  assumes "ensureSchema lib quote sql_Open cfg databaseURL = (e, steps)"
  shows "(\<forall>statement args. ExecTx statement args \<in> set steps \<longrightarrow> statement = lock_statement \<or>
      statement = create_statement (mig_Schema cfg) \<and> Count statement (CHR 0x22) = 2 \<and>
      ExecTx lock_statement [''config-service:schema:'' @ mig_Schema cfg] \<in> set (takeWhile (\<lambda>s. s \<noteq> ExecTx statement args) steps)) \<and>
    (e = None \<longrightarrow> steps = [] \<or> CommitTx \<in> set steps \<and> RollbackTx \<notin> set steps) \<and>
    (e \<noteq> None \<longrightarrow> BeginTx \<in> set steps \<longrightarrow> RollbackTx \<in> set steps) \<and>
    (steps \<noteq> [] \<longrightarrow> last steps = CloseDB)"
proof (cases "steps = []")
  case False
  then obtain db err ran where valid: "validMigrationTable (mig_Schema cfg)" and create: "createSchema db (mig_Schema cfg) = (err, ran)"
    and steps: "steps = ran @ [CloseDB]" and e: "e = None \<longleftrightarrow> err = None"
    using ensureSchema_steps [OF assms] by blast
  have quotes: "Count (create_statement (mig_Schema cfg)) (CHR 0x22) = 2"
    using valid by (rule create_statement_quotes)
  have other: "lock_statement \<noteq> create_statement (mig_Schema cfg)"
    by (simp add: lock_statement_def create_statement_def)
  from create show ?thesis
    by (cases rule: createSchema_cases) (auto simp: steps e quotes other)
qed simp

theorem schema_creation_is_safe_witness:
  "last (snd (ensureSchema no_urls (\<lambda>s. s) (\<lambda>u. Inr \<lparr>sd_Begin = None, sd_Exec = (\<lambda>st a. None), sd_Commit = None\<rparr>)
     ((cfg_Migration fix_config)\<lparr>mig_CreateSchema := True\<rparr>) [])) = CloseDB"
proof -
  let ?run = "ensureSchema no_urls (\<lambda>s. s) (\<lambda>u. Inr \<lparr>sd_Begin = None, sd_Exec = (\<lambda>st a. None), sd_Commit = None\<rparr>)
     ((cfg_Migration fix_config)\<lparr>mig_CreateSchema := True\<rparr>) []"
  have "snd ?run \<noteq> []" by code_simp
  then show ?thesis using schema_creation_is_safe [of no_urls "\<lambda>s. s" _ _ "[]" "fst ?run" "snd ?run"] by simp
qed

section \<open>The scheduled job\<close>

text \<open>
  C29: The scheduled job runs under its lock. While anybody holds the lock of the job, the job does not run:
  the outcome is the same for any job. A run leaves every lock as it found it, except that its own
  lock stays held (until it expires) when the release fails; the locks of others are never released.
\<close>

theorem sample_job_runs_under_lock:
  assumes "lock_documented holders me rs" and "\<And>v. holders (job v) = holders v"
  shows "(holders w sample_lock \<noteq> None \<longrightarrow> (\<forall>other. runSample (Some rs) other w = runSample (Some rs) job w)) \<and>
    (holders (snd (runSample (Some rs) job w)) = holders w \<or>
     holders w sample_lock = None \<and> holders (snd (runSample (Some rs) job w)) = (holders w)(sample_lock \<mapsto> me))"
proof -
  obtain r w1 where tried: "TryLock rs ''cron:sample'' minute w = (r, w1)" by fastforce
  note lock = TryLock_documented [OF assms(1) tried, folded sample_lock_def]
  show ?thesis
  proof (cases "\<exists>m. r = Inr (Some m)")
    case True
    then obtain m where m: "r = Inr (Some m)" by blast
    have held: "mx_Name m = sample_lock" "holders w sample_lock = None" "holders w1 = (holders w)(sample_lock \<mapsto> me)"
      using lock(1) [OF m] by auto
    have run: "snd (runSample (Some rs) job w) = snd (Unlock rs m (job w1))" by (simp add: runSample_def tried m)
    have "holders w = (holders w)(sample_lock := None)" using held(2) by (simp add: fun_upd_idem)
    then show ?thesis
      using Unlock_documented [OF assms(1), of m "job w1"] held by (auto simp: run assms(2))
  next
    case False
    then have "runSample (Some rs) other w = (case r of Inl err \<Rightarrow> Some err | _ \<Rightarrow> None, w1)" for other
      by (auto simp: runSample_def tried split: sum.splits option.splits)
    then show ?thesis using lock(2) False by simp
  qed
qed

theorem sample_job_runs_under_lock_witness:
  "\<forall>other. runSample (Some lock_table) other [sample_lock \<mapsto> ''peer''] = runSample (Some lock_table) (\<lambda>w. w) [sample_lock \<mapsto> ''peer'']"
  using sample_job_runs_under_lock [OF lock_table_documented, of "\<lambda>w. w" "[sample_lock \<mapsto> ''peer'']"] by simp

end
