(* ===== verification/Metrics_Properties.thy ===== *)
theory Metrics_Properties
  imports Transport_Properties Runtime_Properties
begin

text \<open>
  What the metrics of the service show: the vectors that are registered, and how often and under which
  labels requests, calls of upstreams and runs of the scheduled job are counted.
\<close>

section \<open>Deployments\<close>




text \<open>A gRPC upstream that is never available, in a world that is the list of the samples.\<close>

definition metered_lib :: "sample list client_lib" where
  "metered_lib = \<lparr>lib_now = (\<lambda>w. 0), lib_wait = (\<lambda>c t w. (None, w)), lib_Execute = (\<lambda>trip excl f. f),
     lib_idempotency_FromContext = (\<lambda>c. (''k'', True)), lib_observe = (\<lambda>s w. w @ [s]),
     lib_code_String = (\<lambda>code. if code = Unavailable_code then ''Unavailable'' else ''OK'')\<rparr>"

definition down_upstream :: "sample list invoker" where
  "down_upstream c fullMethod w = (Some (Status_error Unavailable_code ''down''), w)"

section \<open>Properties\<close>




text \<open>
  C34: Counting calls of upstreams. A call through the chain of a gRPC connection is counted exactly once, under
  the name of the upstream and the code that the caller gets, however often it is retried and also when the
  circuit breaker refuses it.
\<close>

theorem upstream_call_is_counted_once:
  assumes "quiet_wait taken lib" and "quiet_Execute taken lib" and "still taken invoker"
    and "\<And>s w. taken (lib_observe lib s w) = taken w @ [s]"
    and "Dial files newClient (upstream_config m name u) = Inr conn" and "m_enabled m"
  shows "\<exists>elapsed. taken (snd (client_chain lib (conn_cfg conn) invoker c fullMethod w)) = taken w @
    [Inc (m_OutboundRequests m)
       [''grpc'', name, lib_code_String lib (status_Code (fst (client_chain lib (conn_cfg conn) invoker c fullMethod w)))],
     Observe (m_OutboundDuration m) [''grpc'', name] elapsed]"
proof -
  have "conn_cfg conn = upstream_config m name u" using Dial_Inr [OF assms(5)] by simp
  then show ?thesis
    using client_chain_samples [OF assms(1-4), of "conn_cfg conn" m c fullMethod w] assms(6)
    by (simp add: upstream_config_def outbound_samples_def)
qed

theorem upstream_call_is_counted_once_witness:
  "\<exists>elapsed. snd (client_chain metered_lib (upstream_config fix_metrics ''application'' fix_upstream) down_upstream grpc_ctx ''/m'' []) =
    [Inc (m_OutboundRequests fix_metrics) [''grpc'', ''application'',
       lib_code_String metered_lib (status_Code (fst (client_chain metered_lib
         (upstream_config fix_metrics ''application'' fix_upstream) down_upstream grpc_ctx ''/m'' [])))],
     Observe (m_OutboundDuration fix_metrics) [''grpc'', ''application''] elapsed]"
proof -
  obtain conn where dial: "Dial no_files (\<lambda>t. None) (upstream_config fix_metrics ''application'' fix_upstream) = Inr conn"
    using grpc_dialled by blast
  then have conn: "conn_cfg conn = upstream_config fix_metrics ''application'' fix_upstream" by (simp add: Dial_Inr)
  have "quiet_wait (\<lambda>w. w) metered_lib" by (simp add: quiet_wait_def metered_lib_def)
  moreover have "quiet_Execute (\<lambda>w. w) metered_lib" by (auto simp: quiet_Execute_def metered_lib_def)
  moreover have "still (\<lambda>w. w) down_upstream" by (simp add: still_def down_upstream_def)
  moreover have "lib_observe metered_lib s w = w @ [s]" for s w by (simp add: metered_lib_def)
  moreover have "m_enabled fix_metrics" by code_simp
  ultimately show ?thesis
    using upstream_call_is_counted_once [OF _ _ _ _ dial, of "\<lambda>w. w" metered_lib down_upstream grpc_ctx "''/m''" "[]"]
    by (simp add: conn)
qed

end
