(* ===== verification/Spec2Isabelle.thy ===== *)
theory Spec2Isabelle
  imports Concurrency Metrics_Properties
begin

text \<open>
  A verification development of \<^verbatim>\<open>config-service\<close>, a Go service that keeps configuration entries per
  environment, tenant, application and service, has every change reviewed by a second person, and
  serves the published values to other services. Paths below are under \<^verbatim>\<open>src/internal\<close>.

  \<^bold>\<open>The program.\<close> Requests arrive over HTTP (\<^verbatim>\<open>transport/http\<close>) or gRPC (\<^verbatim>\<open>transport/grpc\<close>). A chain of
  middleware or interceptors gives them an identifier, authenticates and authorizes them, limits
  their rate, replays stored answers of idempotent requests and contains panics. The handlers call the
  service (\<^verbatim>\<open>dynamicconfig/service.go\<close>), which checks tenant and application, and changes entries,
  revisions and an outbox of events in one transaction (\<^verbatim>\<open>database/transaction.go\<close>) through a repository
  (\<^verbatim>\<open>dynamicconfig/repository.go\<close>). Around that, settings are loaded and validated (\<^verbatim>\<open>config\<close>), the
  database is migrated and opened (\<^verbatim>\<open>migration\<close>, \<^verbatim>\<open>database\<close>), upstream services are called
  (\<^verbatim>\<open>outbound\<close>, \<^verbatim>\<open>grpcclient\<close>), and jobs run under locks (\<^verbatim>\<open>cache\<close>, \<^verbatim>\<open>scheduler\<close>).

  \<^bold>\<open>Theories, bottom up.\<close>
  \<^item> Prelude, Go_Strings, Sha256, Path_Match: time, 64-bit wrap-around, decimal printing, Go's string
    functions on bytes (UTF-8 decoding included), SHA-256 on 32-bit words, \<^verbatim>\<open>path.Match\<close>.
  \<^item> App_Error (\<^verbatim>\<open>apperror\<close>), Transactor (\<^verbatim>\<open>database/transaction.go\<close>), Request_Context (\<^verbatim>\<open>requestid\<close>,
    \<^verbatim>\<open>environment\<close>): errors as values, transactions with every outcome of begin, rollback and commit (the
    locale \<open>transaction_runner\<close>), the values of a context.
  \<^item> Entry_Store (\<^verbatim>\<open>model.go\<close>, \<^verbatim>\<open>repository.go\<close>): the three tables as lists, every SQL statement with the
    constraints of the PostgreSQL migrations (the locale \<open>versioned_store\<close> is what the service relies
    on); which statement faults is a parameter.
  \<^item> Dynamic_Config (\<^verbatim>\<open>service.go\<close>): every operation, statement by statement; an operation maps the
    database to a result and a database. Clock, identifiers, the event library and the verifier of
    applications are fields of the record \<open>service\<close>.
  \<^item> Config_Lifecycle, Approval_Invariant, Audit_Trail, Resolution, Access_Control, Progress, Concurrency:
    the abstract state machine and its refinement, the invariant of reachable databases, the
    immutability of revisions and the events, the meaning of a resolution, tenants, that healthy
    requests succeed, and requests that interleave with others.
  \<^item> Settings (\<^verbatim>\<open>config/config.go\<close>), Auth (\<^verbatim>\<open>auth\<close>), Health_Limits (\<^verbatim>\<open>health\<close>, \<^verbatim>\<open>ratelimit\<close>), Observability
    (\<^verbatim>\<open>observability\<close>: metric vectors, their registration, the samples that are taken).
  \<^item> Grpc_Transport; Http_Context, Http_Middleware, Http_Server; Server_Lifecycle: the handlers, the
    contracts of interceptors and middleware as locales (\<open>pass_through\<close>, \<open>replying\<close>, \<open>relaying\<close>, \<open>unsampling\<close>) with an
    interpretation for each, their composition as in \<^verbatim>\<open>NewServer\<close>, streams, routes and listeners.
  \<^item> Upstream_Http, Upstream_Grpc, Redis_Lock, Database_Setup, App_Wiring: the clients of upstream
    services with retries, locks and the scheduled job, migrations, and the constructors and hooks of
    \<^verbatim>\<open>app\<close>. What they do to the outside is a trace, or a change of an abstract world.
  \<^item> Fixtures and Transport_Fixtures hold the concrete inputs of the witnesses; the properties stand in
    this theory (the service), Transport_Properties (requests), Runtime_Properties (upstreams, locks,
    migrations) and Metrics_Properties (metrics).

  \<^bold>\<open>What is shown.\<close>
  \<^item> Approval: what is served was approved by a second person, in every database that requests (and
    HTTP requests from the wire) can produce; the invariant behind it; that each request refines one
    step of the state machine; that review by the submitter is refused. Over gRPC a client can preset
    the published revision and bypass approval, which is shown too.
  \<^item> Consistency: requests are atomic, a version names one row, two requests on one version cannot
    both succeed, a request that interleaves with others is linearizable, revisions never change,
    every status change writes one event.
  \<^item> Reading: resolution returns exactly the most specific published rows that are rolled out, pages
    partition a scope, rollout is one threshold per subject.
  \<^item> Isolation: tenants, credentials and permissions at both transports, tokens, pre-shared keys, what
    clients learn of errors.
  \<^item> Answers: every request is answered once, no panic escapes, idempotent requests run once.
  \<^item> Operation: validated settings are hardened, calls of upstream services end after at most five
    attempts and leak no response, schema creation is safe, jobs run under their lock. Requests and
    calls of upstreams are counted once, under the status that is returned, and no sample panics.
  \<^item> Defects that modelling showed: resubmission of a rejected entry, the page offset, the unused
    deadline, local tokens without tenant, credentials sent to \<^verbatim>\<open>http\<close> URLs, MySQL URLs without path,
    requests that are refused before they are counted.

  \<^bold>\<open>Bounds and loops.\<close> No definition uses fuel. Loops are structural recursion or have a measure: the
  retries by the attempts left, the scanners of strings by the rest of the input. Versions, revisions
  and durations are integers with the wrap-around of int64 written out (\<open>wrap64\<close>) where it can occur;
  SHA-256 works on \<open>32 word\<close>.

  \<^bold>\<open>Parameters.\<close> Code outside the repository is an argument: the platform module (authorization,
  idempotency store, verifiers), the token library, gin's routing and JSON binding, Redis and its lock
  library, the database drivers and their faults, the circuit breaker, Prometheus, viper, URL parsing, the file
  system, clocks and random numbers. Where a property relies on documented behaviour of such code, a
  named predicate states it (\<open>jwt_documented\<close>, \<open>pass_through\<close>, \<open>quiet_Execute\<close>, \<open>lock_documented\<close>,
  \<open>registry_documented\<close>) and
  its witness instantiates it.

  \<^bold>\<open>Not modelled.\<close> Log records and spans (nothing depends on them); the generated API description
  (\<^verbatim>\<open>docs\<close>); the one-line calls with which \<^verbatim>\<open>idempotency\<close> renames the platform module; the list of modules
  given to the dependency container, which decides when a constructor runs; the constraints of
  databases other than PostgreSQL; the expiry of locks.
\<close>

section \<open>Approval\<close>

text \<open>
  C1: Four eyes. In every database that requests can reach whose drafts do not preset a published
  revision (as over HTTP), each value that \<^verbatim>\<open>Resolve\<close> serves has the
  content (value, secret reference, rollout) of a revision of that entry which was approved by
  somebody other than the one who submitted it.
\<close>

theorem resolved_value_was_approved:
  assumes "reachable pg d" and "pg_canonical pg"
    and "Resolve s c environment tenantID applicationID service subject keys d = Inr (vs, etag)"
    and "v \<in> set vs"
  shows "\<exists>r \<in> set (revisions d). r_EntryID r = e_ID v \<and> r_Status r = ''approved'' \<and>
    r_ReviewedBy r \<noteq> r_CreatedBy r \<and> content_of v r"
  by (rule Resolve_approved [OF assms])

theorem resolved_value_was_approved_witness:
  "\<exists>r \<in> set (revisions db_published). r_EntryID r = e_ID fix_row \<and> r_Status r = ''approved'' \<and>
    r_ReviewedBy r \<noteq> r_CreatedBy r \<and> content_of fix_row r"
  using resolved_value_was_approved [OF db_published_reachable fix_canonical fix_resolve, of fix_row] by simp



text \<open>
  C4: Refinement. Whatever the driver, the event library and the application verifier answer, a
  request either leaves the database as it was or carries out exactly one step of the abstract
  state machine; a request that reports success has carried out its step.
\<close>

theorem request_refines_step:
  assumes "exec s c q d = (r, d')" and "lifecycle_inv (s_repository s) d"
  shows "(d' = d \<or> committed s c q d d') \<and> ((\<exists>v. r = Inr v) \<longrightarrow> committed s c q d d')"
  using exec_committed [OF assms(1) lifecycle_invD(1,2) [OF assms(2)]] exec_Inr_committed [OF _ assms(2)] assms(1)
  by blast

theorem request_refines_step_witness:
  "committed (fix_service ''v1'') (as_user ''ann'' ''t1'') (OpSubmit ''c1'' 1) db_drafted db_submitted"
proof -
  have "exec (fix_service ''v1'') (as_user ''ann'' ''t1'') (OpSubmit ''c1'' 1) db_drafted =
    (Inr ((hd (entries db_submitted))), db_submitted)" by (rule fix_submit)
  from request_refines_step [OF this] fix_inv(1) show ?thesis by simp
qed

text \<open>
  C10: Failure leaves no trace. A request that returns an error has changed nothing, unless the
  database reported an error for a commit that it had carried out.
\<close>

theorem failed_request_changes_nothing:
  assumes "exec s c q d = (Inl e, d')"
  shows "d' = d \<or> (\<exists>m. tx_commit (s_transactor s) = CommitErr m True)"
  using exec_Inl [OF assms] by (auto simp: commit_lost_def split: commit_outcome.splits)

theorem failed_request_changes_nothing_witness:
  "snd (exec (fix_service ''v1'') (as_user ''ann'' ''t1'') (OpPublish ''c1'' 1) db_drafted) = db_drafted"
proof -
  have "exec (fix_service ''v1'') (as_user ''ann'' ''t1'') (OpPublish ''c1'' 1) db_drafted =
    (Inl (Conflict ''only an approved configuration can be published'' None), db_drafted)" by code_simp
  from failed_request_changes_nothing [OF this] this show ?thesis by (simp add: fix_tx_def)
qed

text \<open>
  C14: The outbox. A successful status change appends, in the same transaction, exactly one
  unpublished event about the entry it returns, in the name of the caller; saving a draft appends
  none.
\<close>

theorem status_change_writes_one_event:
  assumes "exec s c q d = (Inr v, d')"
  shows "case op_change q of
      None \<Rightarrow> outbox d' = outbox d
    | Some st \<Rightarrow> \<exists>row caller. ctx_principal c = Some caller \<and> outbox d' = outbox d @ [row] \<and>
        event_row s caller v st row"
  using assms by (rule exec_event)

theorem status_change_writes_one_event_witness:
  "\<exists>row caller. ctx_principal (as_user ''ann'' ''t1'') = Some caller \<and>
     outbox db_submitted = outbox db_drafted @ [row] \<and>
     event_row (fix_service ''v1'') caller (hd (entries db_submitted)) ''pending_approval'' row"
proof -
  have "exec (fix_service ''v1'') (as_user ''ann'' ''t1'') (OpSubmit ''c1'' 1) db_drafted =
    (Inr ((hd (entries db_submitted))), db_submitted)" by (rule fix_submit)
  from status_change_writes_one_event [OF this] show ?thesis by simp
qed

section \<open>Optimistic locking\<close>

text \<open>
  C6: One writer per version. When a request has changed an entry at some version, no later request
  that names the same version changes that entry, whatever happened in between.
\<close>

theorem one_commit_per_version:
  assumes "reachable pg d" and "pg_canonical pg"
    and "s_repository s1 = pg\<lparr>pg_fault := f1\<rparr>" and "exec s1 c1 q1 d = (r1, d1)" and "op_ok q1"
    and "e \<in> set (entries d)" and "e \<notin> set (entries d1)" and "reaches pg d1 d2"
    and "s_repository s2 = pg\<lparr>pg_fault := f2\<rparr>" and "exec s2 c2 q2 d2 = (r2, d3)"
    and "op_version q2 = op_version q1" and "e2 \<in> set (entries d2)" and "e_ID e2 = e_ID e"
  shows "e2 \<in> set (entries d3)"
proof -
  have inv: "lifecycle_inv (s_repository s1) d" using reachable_inv [OF assms(1,2)] assms(3) by simp
  from exec_later(1) [OF assms(4) inv assms(6)] assms(7) obtain e1
    where e1: "e1 \<in> set (entries d1)" "later_entry e e1" "e1 \<noteq> e" "e_Version e = op_version q1" by metis
  have inv1: "lifecycle_inv pg d1" using exec_inv [OF assms(4) inv] assms(2,3,5) by simp
  from reaches_entry [OF assms(8) inv1 assms(2) e1(1)] obtain e2'
    where e2': "e2' \<in> set (entries d2)" "later_entry e1 e2'" by blast
  have inv2: "lifecycle_inv pg d2" by (rule reaches_inv [OF assms(8) inv1 assms(2)])
  have "e2' = e2"
    using entry_unique [OF lifecycle_invD(1) [OF inv2] e2'(1) assms(12)] e2'(2) e1(2) assms(13)
    by (simp add: later_entry_def)
  then have "op_version q2 < e_Version e2"
    using e1 e2'(2) assms(11) by (force simp: later_entry_def)
  then show ?thesis
    using spent_version [OF assms(10) _ assms(12)] inv2 assms(9) by simp
qed

theorem one_commit_per_version_witness:
  "hd (entries db_submitted) \<in>
     set (entries (snd (exec (fix_service ''v9'') (as_user ''eve'' ''t1'') (OpPublish ''c1'' 1) db_submitted)))"
proof -
  have a: "exec (fix_service ''v1'') (as_user ''ann'' ''t1'') (OpSubmit ''c1'' 1) db_drafted =
    (Inr ((hd (entries db_submitted))), db_submitted)" by (rule fix_submit)
  have b: "hd (entries db_drafted) \<in> set (entries db_drafted)" by (simp add: db_drafted_rows)
  have c: "hd (entries db_drafted) \<notin> set (entries db_submitted)" by (simp add: db_drafted_rows db_submitted_rows)
  have d: "hd (entries db_submitted) \<in> set (entries db_submitted)" by (simp add: db_submitted_rows)
  have e: "e_ID (hd (entries db_submitted)) = e_ID (hd (entries db_drafted))" by (simp add: db_drafted_rows db_submitted_rows)
  have f: "s_repository (fix_service u) = fix_pg\<lparr>pg_fault := pg_fault fix_pg\<rparr>" for u by simp
  show ?thesis
    by (rule one_commit_per_version [OF db_drafted_reachable fix_canonical f a _ b c reaches.here f
          prod.collapse [symmetric] _ d e]) simp_all
qed

text \<open>
  C15: The version names the row. In a later database an entry has a version at least as large, and
  one with the same version is the same row, its scope and author are those it was created with.
\<close>

theorem version_names_row:
  assumes "reachable pg d" and "pg_canonical pg" and "reaches pg d d'"
    and "e \<in> set (entries d)" and "e' \<in> set (entries d')" and "e_ID e' = e_ID e"
  shows "e_Version e \<le> e_Version e' \<and> (e_Version e' = e_Version e \<longrightarrow> e' = e) \<and>
    scope_of e' = scope_of e \<and> e_CreatedBy e' = e_CreatedBy e"
proof -
  have inv: "lifecycle_inv pg d" by (rule reachable_inv [OF assms(1,2)])
  obtain z where z: "z \<in> set (entries d')" "later_entry e z"
    using reaches_entry [OF assms(3) inv assms(2,4)] by blast
  then have "z = e'"
    using entry_unique [OF lifecycle_invD(1) [OF reaches_inv [OF assms(3) inv assms(2)]] z(1) assms(5)] assms(6)
    by (simp add: later_entry_def)
  with z(2) show ?thesis by (simp add: later_entry_def)
qed

theorem version_names_row_witness:
  "e_Version (hd (entries db_drafted)) \<le> e_Version (hd (entries db_submitted)) \<and>
    scope_of (hd (entries db_submitted)) = scope_of (hd (entries db_drafted))"
proof -
  have a: "exec (fix_service ''v1'') (as_user ''ann'' ''t1'') (OpSubmit ''c1'' 1) db_drafted =
    (Inr ((hd (entries db_submitted))), db_submitted)" by (rule fix_submit)
  have b: "hd (entries db_drafted) \<in> set (entries db_drafted)" by (simp add: db_drafted_rows)
  have d: "hd (entries db_submitted) \<in> set (entries db_submitted)" by (simp add: db_submitted_rows)
  have e: "e_ID (hd (entries db_submitted)) = e_ID (hd (entries db_drafted))" by (simp add: db_drafted_rows db_submitted_rows)
  have r: "reaches fix_pg db_drafted db_submitted"
    by (rule fix_reaches [OF a]) simp
  from version_names_row [OF db_drafted_reachable fix_canonical r b d e] show ?thesis by simp
qed

text \<open>
  C16: The history is append-only. A revision row of a reachable database is still there in every
  later one, with the same value, secret reference, rollout and author; only a pending one gets
  another status, approved or rejected.
\<close>

theorem revision_immutable:
  assumes "reachable pg d" and "pg_canonical pg" and "reaches pg d d'" and "r \<in> set (revisions d)"
  shows "\<exists>r' \<in> set (revisions d'). r_ID r' = r_ID r \<and> rev_key r' = rev_key r \<and> same_content r' r \<and>
    r_CreatedBy r' = r_CreatedBy r \<and>
    (r_Status r' = r_Status r \<or> r_Status r = ''pending_approval'' \<and> r_Status r' \<in> {''approved'', ''rejected''})"
  using reaches_revision [OF assms(3) reachable_inv [OF assms(1,2)] assms(2,4)]
  by (auto simp: later_revision_def)

theorem revision_immutable_witness:
  "\<exists>r' \<in> set (revisions db_approved). r_ID r' = r_ID (hd (revisions db_submitted)) \<and>
     same_content r' (hd (revisions db_submitted))"
proof -
  have a: "exec (fix_service ''v2'') (as_user ''bob'' ''t1'') (OpApprove ''c1'' 2 ''ok'') db_submitted =
    (Inr ((hd (entries db_approved))), db_approved)" by (rule fix_approve)
  have r: "reaches fix_pg db_submitted db_approved"
    by (rule fix_reaches [OF a]) simp
  have b: "hd (revisions db_submitted) \<in> set (revisions db_submitted)" by (simp add: db_submitted_rows)
  from revision_immutable [OF db_submitted_reachable fix_canonical r b] show ?thesis by blast
qed

text \<open>
  C5: Linearizability. A request reads the entry before the transaction that writes it. If it names
  the version it read, then, whatever was committed in between, it changes nothing or does exactly
  what it would have done had it run alone on the database it wrote to.
\<close>

theorem interleaved_request_linearizable:
  assumes "reachable pg d0" and "pg_canonical pg" and "reaches pg d0 d"
    and "s_repository s = pg\<lparr>pg_fault := f\<rparr>" and "fresh_read s q d0"
  shows "snd (finish s c q d0 d) = d \<or> finish s c q d0 d = exec s c q d"
  by (rule finish_linearizable [OF assms(3) reachable_inv [OF assms(1,2)] assms(2,4,5)])

theorem interleaved_request_linearizable_witness:
  "let run = finish (fix_service ''v9'') (as_user ''bob'' ''t1'') (OpApprove ''c1'' 2 ''fine'') db_submitted db_rejected
   in snd run = db_rejected \<or>
      run = exec (fix_service ''v9'') (as_user ''bob'' ''t1'') (OpApprove ''c1'' 2 ''fine'') db_rejected"
proof -
  have a: "exec (fix_service ''v2'') (as_user ''bob'' ''t1'') (OpReject ''c1'' 2 ''no'') db_submitted =
    (Inr ((hd (entries db_rejected))), db_rejected)" by (rule fix_reject)
  have r: "reaches fix_pg db_submitted db_rejected" by (rule fix_reaches [OF a]) simp
  have f: "s_repository (fix_service ''v9'') = fix_pg\<lparr>pg_fault := pg_fault fix_pg\<rparr>" by simp
  have "fresh_read (fix_service ''v9'') (OpApprove ''c1'' 2 ''fine'') db_submitted" by code_simp
  from interleaved_request_linearizable [OF db_submitted_reachable fix_canonical r f this]
  show ?thesis unfolding Let_def .
qed

section \<open>Progress\<close>

text \<open>
  C12: The workflow moves. On a healthy deployment an authorised caller who names the current version
  can submit a draft, approve or reject a pending entry submitted by somebody else, and publish an
  approved one: no constraint of the database and no missing row is in the way.
\<close>

theorem workflow_progress:
  assumes "healthy s d" and "lifecycle_inv (s_repository s) d" and "x \<in> set (entries d)"
    and "pg_uuid (s_repository s) eid = Some (e_ID x)" and "e_Version x < max_int64"
    and "access s c (e_TenantID x) (e_ApplicationID x) = Inr caller"
  shows "(e_Status x = ''draft'' \<longrightarrow> (\<exists>v d'. SubmitForApproval s c eid (e_Version x) d = (Inr v, d') \<and>
      e_Status v = ''pending_approval'' \<and> e_Version v = e_Version x + 1)) \<and>
    (e_Status x = ''pending_approval'' \<and> pr_ID caller \<noteq> e_UpdatedBy x \<longrightarrow>
      (\<exists>v d'. Approve s c eid (e_Version x) comment d = (Inr v, d') \<and> e_Status v = ''approved'' \<and>
         e_ReviewedBy v = pr_ID caller) \<and>
      (TrimSpace comment \<noteq> [] \<longrightarrow>
        (\<exists>v d'. Reject s c eid (e_Version x) comment d = (Inr v, d') \<and> e_Status v = ''rejected''))) \<and>
    (e_Status x = ''approved'' \<longrightarrow> (\<exists>v d'. Publish s c eid (e_Version x) d = (Inr v, d') \<and>
      e_Status v = ''published'' \<and> e_PublishedRevision v = e_Revision x))"
proof (intro conjI impI)
  have "wrap64 (e_Version x + 1) = e_Version x + 1"
    using history_okD(1) [OF lifecycle_invD(3) [OF assms(2,3)]] assms(5)
    by (intro wrap64_incr) (auto simp: counters_ok_def)
  then show "\<exists>v d'. SubmitForApproval s c eid (e_Version x) d = (Inr v, d') \<and>
      e_Status v = ''pending_approval'' \<and> e_Version v = e_Version x + 1" if "e_Status x = ''draft''"
    using submit_succeeds [OF assms that] by auto
next
  assume x: "e_Status x = ''pending_approval'' \<and> pr_ID caller \<noteq> e_UpdatedBy x"
  show "\<exists>v d'. Approve s c eid (e_Version x) comment d = (Inr v, d') \<and> e_Status v = ''approved'' \<and>
      e_ReviewedBy v = pr_ID caller"
    using review_succeeds [OF assms, of "''approved''" comment] x by (auto simp: Approve_def)
  show "\<exists>v d'. Reject s c eid (e_Version x) comment d = (Inr v, d') \<and> e_Status v = ''rejected''"
    if "TrimSpace comment \<noteq> []"
    using review_succeeds [OF assms, of "''rejected''" comment] x that by (auto simp: Reject_def)
next
  assume "e_Status x = ''approved''"
  then show "\<exists>v d'. Publish s c eid (e_Version x) d = (Inr v, d') \<and>
      e_Status v = ''published'' \<and> e_PublishedRevision v = e_Revision x"
    using publish_succeeds [OF assms] by auto
qed

theorem workflow_progress_witness:
  "\<exists>v d'. SubmitForApproval (fix_service ''v1'') (as_user ''ann'' ''t1'') ''c1'' (e_Version (hd (entries db_drafted)))
     db_drafted = (Inr v, d') \<and> e_Status v = ''pending_approval'' \<and> e_Version v = e_Version (hd (entries db_drafted)) + 1"
proof -
  have "healthy (fix_service ''v1'') db_drafted" by (rule fix_healthy) code_simp
  moreover have "hd (entries db_drafted) \<in> set (entries db_drafted)" by (simp add: db_drafted_rows)
  moreover have "e_ID (hd (entries db_drafted)) = ''c1''" by (simp add: db_drafted_rows)
  moreover have "e_Version (hd (entries db_drafted)) < max_int64" by (simp add: db_drafted_rows max_int64_def)
  moreover have "access (fix_service ''v1'') (as_user ''ann'' ''t1'') (e_TenantID (hd (entries db_drafted)))
      (e_ApplicationID (hd (entries db_drafted))) = Inr \<lparr>pr_ID = ''ann'', pr_Type = TypeUser, pr_TenantID = ''t1''\<rparr>"
    by code_simp
  moreover have "e_Status (hd (entries db_drafted)) = ''draft''" by (simp add: db_drafted_rows)
  ultimately show ?thesis
    using workflow_progress [of "fix_service ''v1''" db_drafted "hd (entries db_drafted)" "''c1''"] fix_inv(1)
    by simp
qed

text \<open>
  C37: A rejected entry is stuck until it is redrafted. The service accepts the submission of a
  rejected entry, but its revision number is already taken, so that even on a healthy deployment
  the request fails with an internal error and changes nothing.
\<close>

theorem rejected_entry_cannot_be_resubmitted:
  assumes "healthy s d" and "lifecycle_inv (s_repository s) d" and "x \<in> set (entries d)"
    and "pg_uuid (s_repository s) eid = Some (e_ID x)" and "e_Version x < max_int64"
    and "access s c (e_TenantID x) (e_ApplicationID x) = Inr caller" and "e_Status x = ''rejected''"
  shows "SubmitForApproval s c eid (e_Version x) d = (Inl (Internal (SQLError UniqueViolation)), d)"
  using assms by (rule resubmit_fails)

theorem rejected_entry_cannot_be_resubmitted_witness:
  "SubmitForApproval (fix_service ''v3'') (as_user ''ann'' ''t1'') ''c1'' (e_Version (hd (entries db_rejected)))
     db_rejected = (Inl (Internal (SQLError UniqueViolation)), db_rejected)"
proof -
  have "healthy (fix_service ''v3'') db_rejected" by (rule fix_healthy) code_simp
  moreover have "hd (entries db_rejected) \<in> set (entries db_rejected)" by (simp add: db_rejected_rows)
  moreover have "e_ID (hd (entries db_rejected)) = ''c1''" by (simp add: db_rejected_rows)
  moreover have "e_Version (hd (entries db_rejected)) < max_int64" by (simp add: db_rejected_rows max_int64_def)
  moreover have "access (fix_service ''v3'') (as_user ''ann'' ''t1'') (e_TenantID (hd (entries db_rejected)))
      (e_ApplicationID (hd (entries db_rejected))) = Inr \<lparr>pr_ID = ''ann'', pr_Type = TypeUser, pr_TenantID = ''t1''\<rparr>"
    by code_simp
  moreover have "e_Status (hd (entries db_rejected)) = ''rejected''" by (simp add: db_rejected_rows)
  ultimately show ?thesis
    using rejected_entry_cannot_be_resubmitted [of "fix_service ''v3''" db_rejected "hd (entries db_rejected)" "''c1''"]
      fix_inv(4) by simp
qed

text \<open>
  C27: Nobody reviews their own submission. When the caller is the one who submitted the pending
  entry, approval and rejection (with a reason) are refused with a conflict and change nothing.
\<close>

theorem submitter_cannot_review:
  assumes "repo_Get (s_repository s) eid d = Inr x" and "e_Status x = ''pending_approval''"
    and "access s c (e_TenantID x) (e_ApplicationID x) = Inr caller" and "pr_ID caller = e_UpdatedBy x"
  shows "Approve s c eid n comment d =
      (Inl (Conflict ''submitter cannot review their own configuration'' None), d) \<and>
    (TrimSpace comment \<noteq> [] \<longrightarrow> Reject s c eid n comment d =
      (Inl (Conflict ''submitter cannot review their own configuration'' None), d))"
  using assms by (simp add: Approve_def Reject_def review_def review_current_def)

theorem submitter_cannot_review_witness:
  "Approve (fix_service ''v2'') (as_user ''ann'' ''t1'') ''c1'' 2 ''ok'' db_submitted =
     (Inl (Conflict ''submitter cannot review their own configuration'' None), db_submitted)"
proof -
  have "repo_Get (s_repository (fix_service ''v2'')) ''c1'' db_submitted = Inr (hd (entries db_submitted))" by code_simp
  moreover have "e_Status (hd (entries db_submitted)) = ''pending_approval''" by (simp add: db_submitted_rows)
  moreover have "access (fix_service ''v2'') (as_user ''ann'' ''t1'') (e_TenantID (hd (entries db_submitted)))
      (e_ApplicationID (hd (entries db_submitted))) = Inr \<lparr>pr_ID = ''ann'', pr_Type = TypeUser, pr_TenantID = ''t1''\<rparr>"
    by code_simp
  moreover have "pr_ID \<lparr>pr_ID = ''ann'', pr_Type = TypeUser, pr_TenantID = ''t1''\<rparr> = e_UpdatedBy (hd (entries db_submitted))"
    by code_simp
  ultimately show ?thesis using submitter_cannot_review by blast
qed

section \<open>Access\<close>

text \<open>
  C9: Tenant boundary for writes. A request of a user changes or creates only entries of the user's own
  tenant, and adds or reviews only revisions of such entries; without a principal nothing changes.
\<close>

theorem writes_stay_in_tenant:
  assumes "exec s c q d = (r, d')" and "lifecycle_inv (s_repository s) d"
    and "ctx_principal c = None \<or> (\<exists>p. ctx_principal c = Some p \<and> pr_Type p = TypeUser \<and> pr_TenantID p = tenant)"
  shows "(\<forall>e \<in> set (entries d'). e \<notin> set (entries d) \<longrightarrow>
      ctx_principal c \<noteq> None \<and> TrimSpace (e_TenantID e) = tenant) \<and>
    (\<forall>z \<in> set (revisions d'). z \<notin> set (revisions d) \<longrightarrow>
      (\<exists>x \<in> set (entries d). r_EntryID z = e_ID x \<and> ctx_principal c \<noteq> None \<and> TrimSpace (e_TenantID x) = tenant))"
proof -
  have acc: "ctx_principal c \<noteq> None \<and> TrimSpace t = tenant" if "access s c t a = Inr caller" for t a caller
    using access_Inr(1,2) [OF that] assms(3) by auto
  have "d' = d \<or> committed s c q d d'"
    by (rule exec_committed [OF assms(1) lifecycle_invD(1,2) [OF assms(2)]])
  then show ?thesis
    using committed_touched [of s c q d d'] committed_new_revision [of s c q d d'] acc by (metis (no_types, lifting))
qed

theorem writes_stay_in_tenant_witness:
  "TrimSpace (e_TenantID (hd (entries db_drafted))) = ''t1''"
proof -
  have a: "exec (fix_service ''c1'') (as_user ''ann'' ''t1'') (OpPutDraft fix_entry 0) empty_db =
    (fst (PutDraft (fix_service ''c1'') (as_user ''ann'' ''t1'') fix_entry 0 empty_db), db_drafted)"
    by (simp add: db_drafted_def)
  have b: "ctx_principal (as_user ''ann'' ''t1'') = None \<or>
      (\<exists>p. ctx_principal (as_user ''ann'' ''t1'') = Some p \<and> pr_Type p = TypeUser \<and> pr_TenantID p = ''t1'')"
    by (simp add: as_user_def)
  have "hd (entries db_drafted) \<in> set (entries db_drafted)" by (simp add: db_drafted_rows)
  moreover have "hd (entries db_drafted) \<notin> set (entries empty_db)" by (simp add: db_drafted_rows empty_db_def)
  ultimately show ?thesis using writes_stay_in_tenant [OF a lifecycle_inv_empty b] by blast
qed

text \<open>
  C20: Tenant boundary for reads. What \<^verbatim>\<open>Get\<close> and \<^verbatim>\<open>List\<close> return to a user belongs to the user's
  tenant, what \<^verbatim>\<open>Resolve\<close> returns belongs to it or to no tenant; without a principal all three fail.
\<close>

theorem reads_stay_in_tenant:
  assumes "ctx_principal c = None \<or> (\<exists>p. ctx_principal c = Some p \<and> pr_Type p = TypeUser \<and> pr_TenantID p = tenant)"
  shows "(\<forall>v. Get s c eid d = Inr v \<longrightarrow> ctx_principal c \<noteq> None \<and> TrimSpace (e_TenantID v) = tenant) \<and>
    (\<forall>p. List s c env t a svc n m d = Inr p \<longrightarrow> ctx_principal c \<noteq> None \<and>
       (\<forall>v \<in> set (p_Entries p). TrimSpace (e_TenantID v) = tenant)) \<and>
    (\<forall>vs etag. Resolve s c env t a svc subject keys d = Inr (vs, etag) \<longrightarrow> ctx_principal c \<noteq> None \<and>
       (\<forall>v \<in> set vs. e_TenantID v = [] \<or> TrimSpace (e_TenantID v) = tenant))"
proof (intro conjI allI impI)
  have acc: "ctx_principal c \<noteq> None \<and> TrimSpace t = tenant" if "access s c t a = Inr caller" for t a caller
    using access_Inr(1,2) [OF that] assms by auto
  show "ctx_principal c \<noteq> None" "TrimSpace (e_TenantID v) = tenant" if "Get s c eid d = Inr v" for v
    using that acc by (auto simp: Get_def split: sum.splits)
  show "ctx_principal c \<noteq> None" "\<forall>v \<in> set (p_Entries p). TrimSpace (e_TenantID v) = tenant"
    if "List s c env t a svc n m d = Inr p" for p
    using that acc by (auto simp: List_def Let_def repo_List_def in_scope_def split: sum.splits if_splits
        dest!: in_set_takeD in_set_dropD)
  show "ctx_principal c \<noteq> None" "\<forall>v \<in> set vs. e_TenantID v = [] \<or> TrimSpace (e_TenantID v) = tenant"
    if "Resolve s c env t a svc subject keys d = Inr (vs, etag)" for vs etag
    using acc Resolve_access [OF that] published_row_tenant [OF Resolve_member [OF that]] by blast+
qed

theorem reads_stay_in_tenant_witness:
  "TrimSpace (e_TenantID (hd (entries db_drafted))) = ''t1''"
proof -
  have "Get (fix_service ''x'') (as_user ''eve'' ''t1'') ''c1'' db_drafted = Inr (hd (entries db_drafted))" by code_simp
  moreover have "ctx_principal (as_user ''eve'' ''t1'') = None \<or>
      (\<exists>p. ctx_principal (as_user ''eve'' ''t1'') = Some p \<and> pr_Type p = TypeUser \<and> pr_TenantID p = ''t1'')"
    by (simp add: as_user_def)
  ultimately show ?thesis using reads_stay_in_tenant by blast
qed

text \<open>
  C21: Sensitive keys. In every reachable database an entry whose key names a password, secret, token
  or key has a secret reference and no value, and none of its revisions has a value either.
\<close>

theorem sensitive_keys_have_no_value:
  assumes "reachable pg d" and "pg_canonical pg" and "e \<in> set (entries d)" and "sensitiveKey (e_Key e)"
  shows "e_Value e = [] \<and> e_SecretRef e \<noteq> [] \<and>
    (\<forall>r \<in> set (revisions d). r_EntryID r = e_ID e \<longrightarrow> r_Value r = [])"
  using secrets_okD [OF reachable_secrets [OF assms(1,2)] assms(3,4)]
    schema_okD(6) [OF lifecycle_invD(1) [OF reachable_inv [OF assms(1,2)]] assms(3)]
  by (auto simp: entry_check_def revs_of_def)

theorem sensitive_keys_have_no_value_witness:
  "e_Value (hd (entries db_secret)) = [] \<and> e_SecretRef (hd (entries db_secret)) \<noteq> []"
proof -
  have "reachable fix_pg db_secret"
    using fix_reachable [OF reachable.start, of "OpPutDraft (fix_entry\<lparr>e_Key := ''db_password'', e_Value := [],
        e_SecretRef := ''vault/db''\<rparr>) 0" "''c2''" "as_user ''ann'' ''t1''"]
    by (simp add: db_secret_def fix_entry_def)
  moreover have "hd (entries db_secret) \<in> set (entries db_secret)" by code_simp
  moreover have "sensitiveKey (e_Key (hd (entries db_secret)))" by code_simp
  ultimately show ?thesis using sensitive_keys_have_no_value [OF _ fix_canonical] by blast
qed

section \<open>Resolution and listing\<close>

text \<open>
  C11: Resolution meets its specification. The rows come in the order of the requested keys; a row is
  returned for a key exactly when it is the effective one: published, in the requested scope or a
  broader one, rolled out to the subject, and more specific than every other such row.
\<close>

theorem resolve_returns_effective_rows:
  assumes "Resolve s c environment tenantID applicationID service subject keys d = Inr (vs, etag)"
    and "schema_ok d"
  shows "map e_Key vs =
      filter (\<lambda>k. \<exists>v. effective d environment tenantID applicationID service subject k v) keys \<and>
    (\<forall>v. v \<in> set vs \<longleftrightarrow> e_Key v \<in> set keys \<and>
      effective d environment tenantID applicationID service subject (e_Key v) v)"
  using Resolve_effective [OF assms] by blast

theorem resolve_returns_effective_rows_witness:
  "effective db_published ''prod'' ''t1'' [] ''web'' ''user-1'' (e_Key fix_row) fix_row"
  using resolve_returns_effective_rows [OF fix_resolve lifecycle_invD(1) [OF fix_inv(5)]] by auto

text \<open>
  C31: What a client may cache. When a later resolution names the same entries at the same revisions,
  which is what its entity tag is computed from, then keys, values, secret references and rollouts
  are the same.
\<close>

theorem same_revisions_same_content:
  assumes "reachable pg d" and "pg_canonical pg" and "reaches pg d d'"
    and "Resolve s c environment tenantID applicationID service subject keys d = Inr (vs, etag)"
    and "Resolve s' c' environment' tenantID' applicationID' service' subject' keys' d' = Inr (vs', etag')"
    and "map (\<lambda>v. (e_ID v, e_Revision v)) vs = map (\<lambda>v. (e_ID v, e_Revision v)) vs'"
  shows "map (\<lambda>v. (e_Key v, e_Value v, e_SecretRef v, e_RolloutPercentage v)) vs =
    map (\<lambda>v. (e_Key v, e_Value v, e_SecretRef v, e_RolloutPercentage v)) vs' \<and> etag = etag'"
proof
  have inv: "lifecycle_inv pg d" by (rule reachable_inv [OF assms(1,2)])
  show "map (\<lambda>v. (e_Key v, e_Value v, e_SecretRef v, e_RolloutPercentage v)) vs =
      map (\<lambda>v. (e_Key v, e_Value v, e_SecretRef v, e_RolloutPercentage v)) vs'"
    by (rule map_eq_transfer [OF assms(6)])
      (use published_row_stable [OF assms(3) inv assms(2) Resolve_member [OF assms(4)] Resolve_member [OF assms(5)]]
        in auto)
  have "etag_text vs = etag_text vs'"
    using map_eq_transfer [OF assms(6), of "\<lambda>v. e_ID v @ '':'' @ itoa (e_Revision v) @ '';''"]
    by (simp add: etag_text_def)
  then show "etag = etag'"
    using Resolve_Inr [OF assms(4)] Resolve_Inr [OF assms(5)] by metis
qed

theorem same_revisions_same_content_witness:
  "map (\<lambda>v. (e_Key v, e_Value v, e_SecretRef v, e_RolloutPercentage v)) [fix_row] =
     map (\<lambda>v. (e_Key v, e_Value v, e_SecretRef v, e_RolloutPercentage v)) [fix_row_redrafted]"
proof -
  have "exec (fix_service ''v4'') (as_user ''bob'' ''t1'') (OpPutDraft (fix_entry\<lparr>e_Value := ''false''\<rparr>) 4) db_published =
    (Inr (hd (entries db_redrafted)), db_redrafted)" by (rule fix_redraft)
  then have r: "reaches fix_pg db_published db_redrafted" by (rule fix_reaches) (simp add: fix_entry_def)
  have "map (\<lambda>v. (e_ID v, e_Revision v)) [fix_row] = map (\<lambda>v. (e_ID v, e_Revision v)) [fix_row_redrafted]"
    by code_simp
  from same_revisions_same_content [OF db_published_reachable fix_canonical r fix_resolve fix_resolve_redrafted this]
  show ?thesis by blast
qed

text \<open>
  C32: Gradual rollout. A subject that a percentage reaches is reached by every larger one; for a given
  subject, key and revision the decision is one threshold in \<open>0 \<dots> 99\<close>; 100 reaches everyone, 0 no one.
\<close>

theorem rollout_is_a_threshold:
  "(\<exists>b. 0 \<le> b \<and> b < 100 \<and> (\<forall>p. subject \<noteq> [] \<longrightarrow> rolloutHit subject key revision p = (b < p))) \<and>
   (\<forall>p q. p \<le> q \<longrightarrow> rolloutHit subject key revision p \<longrightarrow> rolloutHit subject key revision q) \<and>
   rolloutHit subject key revision 100 \<and> \<not> rolloutHit subject key revision 0"
proof (intro conjI)
  show "\<exists>b. 0 \<le> b \<and> b < 100 \<and> (\<forall>p. subject \<noteq> [] \<longrightarrow> rolloutHit subject key revision p = (b < p))"
    using rolloutHit_iff rolloutBucket_range by blast
  show "\<forall>p q. p \<le> q \<longrightarrow> rolloutHit subject key revision p \<longrightarrow> rolloutHit subject key revision q"
    using rolloutHit_mono by blast
qed (simp_all add: rolloutHit_def)

theorem rollout_is_a_threshold_witness:
  "rolloutHit ''user-1'' ''flag'' 1 100 \<and> \<not> rolloutHit ''user-1'' ''flag'' 1 0"
  using rollout_is_a_threshold [of "''user-1''" "''flag''" 1] by blast

text \<open>
  C30: Pages. On a database that answers, the pages of a scope read one after the other are exactly its
  entries in key order, each once, as long as the offsets stay within 64 bits.
\<close>

theorem pages_partition_the_scope:
  assumes "access s c tenantID applicationID = Inr caller"
    and "pg_fault (s_repository s) StmtCount = None" and "pg_fault (s_repository s) StmtList = None"
    and "1 \<le> k" and "k \<le> 100" and "int n * k \<le> max_int64"
    and "length (scope_list (s_repository s) environment tenantID applicationID service d) \<le> n * nat k"
  shows "\<exists>ps. map (\<lambda>i. List s c environment tenantID applicationID service (int i + 1) k d) [0..<n] = map Inr ps \<and>
    concat (map p_Entries ps) = scope_list (s_repository s) environment tenantID applicationID service d"
proof -
  let ?all = "scope_list (s_repository s) environment tenantID applicationID service d"
  let ?page = "\<lambda>i. \<lparr>p_Entries = take (nat k) (drop (i * nat k) ?all), p_Total = int (length ?all),
                    p_Page = int i + 1, p_PageSize = k\<rparr>"
  have "List s c environment tenantID applicationID service (int i + 1) k d = Inr (?page i)" if "i < n" for i
  proof (rule List_page [OF assms(1-5)])
    have "int (Suc i) * k \<le> int n * k" using that assms(4) by (intro mult_right_mono) auto
    with assms(6) show "int (Suc i) * k \<le> max_int64" by linarith
  qed
  then have "map (\<lambda>i. List s c environment tenantID applicationID service (int i + 1) k d) [0..<n] =
      map Inr (map ?page [0..<n])" by simp
  moreover have "concat (map p_Entries (map ?page [0..<n])) = ?all"
    using concat_slices [of "nat k" ?all n] assms(7) by (simp add: comp_def)
  ultimately show ?thesis by blast
qed

theorem pages_partition_the_scope_witness:
  "\<exists>ps. map (\<lambda>i. List (fix_service ''x'') (as_user ''eve'' ''t1'') ''prod'' ''t1'' [] ''web'' (int i + 1) 20 db_drafted)
      [0..<2] = map Inr ps \<and>
    concat (map p_Entries ps) = scope_list (s_repository (fix_service ''x'')) ''prod'' ''t1'' [] ''web'' db_drafted"
proof (rule pages_partition_the_scope)
  show "access (fix_service ''x'') (as_user ''eve'' ''t1'') ''t1'' [] =
      Inr \<lparr>pr_ID = ''eve'', pr_Type = TypeUser, pr_TenantID = ''t1''\<rparr>" by code_simp
  show "length (scope_list (s_repository (fix_service ''x'')) ''prod'' ''t1'' [] ''web'' db_drafted) \<le> 2 * nat 20"
    by code_simp
qed (simp_all add: max_int64_def)

text \<open>
  C40: Beyond 64 bits the offset wraps around: with a page size of 64, page \<open>2 ^ 58 + 1\<close>
  is answered with the entries of page 1.
\<close>

theorem page_offset_wraps:
  "List s c environment tenantID applicationID service (2 ^ 58 + 1) 64 d =
     map_sum (\<lambda>e. e) (\<lambda>p. p\<lparr>p_Page := 2 ^ 58 + 1\<rparr>)
       (List s c environment tenantID applicationID service 1 64 d)"
proof -
  have "wrap64 (2 ^ 58 * 64) = 0" "wrap64 0 = 0" by (simp_all add: wrap64_def)
  then show ?thesis by (simp add: List_def Let_def split: sum.splits)
qed

end
